(* ===== verification/Go_Prelude.thy ===== *)
theory Go_Prelude
  imports Main "HOL-Library.Sublist" "HOL-Library.AList" "HOL-Library.Multiset"
begin

text \<open>
  What all components share: Go errors as values, Go maps as association lists, the string
  functions of the Go standard library that the sources use, and handlers as programs that
  issue requests to an API server.

  A handler is a function from the requests issued so far (with the server's answers) to its
  result and the requests it issues itself.  The server is the parameter \<open>env_api\<close>: any
  function from the history and the next request to an error or none.  Go does not specify the
  order in which a \<open>for range\<close> loop visits the keys of a map; that order is the parameter
  \<open>env_rng\<close>, any permutation.
\<close>

section \<open>Collections of rules\<close>

named_theorems go_simps \<open>evaluation rules of the handler combinators\<close>
named_theorems plan_intros \<open>introduction rules for: a handler issues a prefix of a plan\<close>

section \<open>Errors\<close>

text \<open>
  An answer of the API server that is an error, and an error value of the code: one of the
  server's, one made by \<open>errors.New\<close> or \<open>errors.Errorf\<close>, one wrapped by
  \<open>errors.Wrapf\<close> or by \<open>condition.Error\<close> with a reason (which hides the status of
  the wrapped error from \<open>apierrors.IsNotFound\<close> and its kin), or a run-time panic.
\<close>

datatype api_error = NotFound | AlreadyExists | Conflict | ApiStatus string

datatype go_error = Api api_error | Err string | Wrap string go_error | CondError string go_error | Panic string

primrec is_panic :: "go_error \<Rightarrow> bool" where
  "is_panic (Api a) = False"
| "is_panic (Err s) = False"
| "is_panic (Wrap s e) = False"
| "is_panic (CondError s e) = False"
| "is_panic (Panic s) = True"

definition is_not_found :: "go_error \<Rightarrow> bool" where
  "is_not_found e \<longleftrightarrow> e = Api NotFound"

definition is_already_exists :: "go_error \<Rightarrow> bool" where
  "is_already_exists e \<longleftrightarrow> e = Api AlreadyExists"

text \<open>\<open>errors.Wrapf\<close>: a panic is not an error value, it passes through.\<close>

definition wrap_error :: "string \<Rightarrow> go_error \<Rightarrow> go_error" where
  "wrap_error s e = (if is_panic e then e else Wrap s e)"

lemma is_panic_wrap_error [simp]: "is_panic (wrap_error s e) = is_panic e"
  by (simp add: wrap_error_def)

lemma is_not_found_wrap_error [simp]: "\<not> is_not_found (wrap_error s e)"
  by (cases e) (simp_all add: wrap_error_def is_not_found_def)

lemma is_already_exists_wrap_error [simp]: "\<not> is_already_exists (wrap_error s e)"
  by (cases e) (simp_all add: wrap_error_def is_already_exists_def)

lemma is_not_found_simps [simp]:
  "is_not_found (Api NotFound)" "\<not> is_not_found (Err s)" "\<not> is_not_found (Wrap s e)"
  "\<not> is_not_found (Panic s)" "\<not> is_not_found (Api AlreadyExists)"
  "\<not> is_not_found (Api Conflict)" "\<not> is_not_found (Api (ApiStatus s))"
  by (simp_all add: is_not_found_def)

lemma is_not_found_not_panic: "is_not_found e \<Longrightarrow> \<not> is_panic e"
  by (auto simp: is_not_found_def)

section \<open>Strings\<close>

text \<open>
  Go strings are byte strings; \<open>string\<close> is a list of bytes.  Case mapping is that of ASCII,
  which is what names of Kubernetes objects, resources and verbs are made of.
\<close>

definition char_lower :: "char \<Rightarrow> char" where
  "char_lower c = (let n = (of_char c :: nat) in if 65 \<le> n \<and> n \<le> 90 then char_of (n + 32) else c)"

definition to_lower :: "string \<Rightarrow> string" where
  "to_lower s = map char_lower s"

definition equal_fold :: "string \<Rightarrow> string \<Rightarrow> bool" where
  "equal_fold a b \<longleftrightarrow> to_lower a = to_lower b"

lemma char_lower_idem [simp]: "char_lower (char_lower c) = char_lower c"
  by (simp add: char_lower_def Let_def)

lemma to_lower_idem [simp]: "to_lower (to_lower s) = to_lower s"
  by (simp add: to_lower_def)

lemma equal_fold_refl [simp]: "equal_fold a a"
  by (simp add: equal_fold_def)

lemma equal_fold_sym: "equal_fold a b \<longleftrightarrow> equal_fold b a"
  by (auto simp: equal_fold_def)

lemma equal_fold_trans: "equal_fold a b \<Longrightarrow> equal_fold b c \<Longrightarrow> equal_fold a c"
  by (simp add: equal_fold_def)

text \<open>\<open>strings.SplitN(s, sep, 2)\<close> for a one-byte separator: one or two parts.\<close>

definition splitn2 :: "'a \<Rightarrow> 'a list \<Rightarrow> 'a list list" where
  "splitn2 c s = (if c \<in> set s then [takeWhile (\<lambda>x. x \<noteq> c) s, tl (dropWhile (\<lambda>x. x \<noteq> c) s)] else [s])"

text \<open>\<open>strings.Split(s, sep)\<close> for a one-byte separator.\<close>

fun split_all :: "char \<Rightarrow> string \<Rightarrow> string list" where
  "split_all c [] = [[]]"
| "split_all c (x # xs) =
     (if x = c then [] # split_all c xs
      else (case split_all c xs of [] \<Rightarrow> [[x]] | p # ps \<Rightarrow> (x # p) # ps))"

lemma split_all_not_Nil [simp]: "split_all c s \<noteq> []"
  by (induction s) (auto split: list.splits)

lemma split_all_no_sep: "c \<notin> set s \<Longrightarrow> split_all c s = [s]"
  by (induction s) auto

lemma split_all_append_sep: "c \<notin> set p \<Longrightarrow> split_all c (p @ c # s) = p # split_all c s"
  by (induction p) auto

lemma length_splitn2: "length (splitn2 c s) = 2 \<longleftrightarrow> c \<in> set s"
  by (simp add: splitn2_def)

lemma takeWhile_neq_append: "c \<notin> set p \<Longrightarrow> takeWhile (\<lambda>x. x \<noteq> c) (p @ c # r) = p"
  by (induction p) auto

lemma dropWhile_neq_append: "c \<notin> set p \<Longrightarrow> dropWhile (\<lambda>x. x \<noteq> c) (p @ c # r) = c # r"
  by (induction p) auto

lemma splitn2_append: "c \<notin> set p \<Longrightarrow> splitn2 c (p @ c # r) = [p, r]"
  by (simp add: splitn2_def takeWhile_neq_append dropWhile_neq_append)

definition trim_prefix :: "string \<Rightarrow> string \<Rightarrow> string" where
  "trim_prefix s p = (if prefix p s then drop (length p) s else s)"

lemma trim_prefix_append [simp]: "trim_prefix (p @ s) p = s"
  by (simp add: trim_prefix_def)

section \<open>Slices and maps\<close>

abbreviation contains_string :: "string list \<Rightarrow> string \<Rightarrow> bool" where
  "contains_string xs x \<equiv> x \<in> set xs"

text \<open>
  A Go map is an association list with distinct keys; \<open>AList.update\<close> and \<open>AList.delete\<close>
  are assignment to a key and \<open>delete\<close>.  A map used as a set of strings maps to \<open>True\<close>
  in the source; here it is the list of its keys.
\<close>

type_synonym ('k, 'v) gomap = "('k \<times> 'v) list"

definition wf_map :: "('k, 'v) gomap \<Rightarrow> bool" where
  "wf_map m \<longleftrightarrow> distinct (map fst m)"

definition set_add :: "'a \<Rightarrow> 'a list \<Rightarrow> 'a list" where
  "set_add x xs = (if x \<in> set xs then xs else xs @ [x])"

lemma set_set_add [simp]: "set (set_add x xs) = insert x (set xs)"
  by (auto simp: set_add_def)

lemma distinct_set_add [simp]: "distinct (set_add x xs) = distinct xs"
  by (auto simp: set_add_def)

lemma set_fold_set_add [simp]: "set (fold set_add xs acc) = set acc \<union> set xs"
  by (induction xs arbitrary: acc) auto

lemma distinct_fold_set_add [simp]: "distinct (fold set_add xs acc) = distinct acc"
  by (induction xs arbitrary: acc) auto

lemma wf_map_Nil [simp]: "wf_map []"
  by (simp add: wf_map_def)

lemma wf_map_update [simp]: "wf_map m \<Longrightarrow> wf_map (AList.update k v m)"
  by (simp add: wf_map_def distinct_update)

lemma wf_map_delete [simp]: "wf_map m \<Longrightarrow> wf_map (AList.delete k m)"
  by (simp add: wf_map_def distinct_delete)

lemma keys_update [simp]: "fst ` set (AList.update k v m) = insert k (fst ` set m)"
  by (simp add: dom_update)

lemma keys_delete [simp]: "fst ` set (AList.delete k m) = fst ` set m - {k}"
  by (auto simp: AList.delete_eq)

lemma in_update: "(k, v) \<in> set (AList.update a b m) \<Longrightarrow> (k, v) = (a, b) \<or> (k, v) \<in> set m"
  by (induction m) (auto split: if_splits)

text \<open>Filling a map in a loop.\<close>

lemma fold_update_inv:
  "(\<And>r. r \<in> set rs \<Longrightarrow> I (f r) (g r)) \<Longrightarrow> (\<And>k v. (k, v) \<in> set m \<Longrightarrow> I k v) \<Longrightarrow>
     (k, v) \<in> set (fold (\<lambda>r. AList.update (f r) (g r)) rs m) \<Longrightarrow> I k v"
proof (induction rs arbitrary: m)
  case (Cons r rs)
  have "I k v" if "(k, v) \<in> set (AList.update (f r) (g r) m)" for k v
    using that Cons.prems(1) [of r] Cons.prems(2) in_update [of k v "f r" "g r" m] by auto
  then show ?case using Cons.prems(3) by (intro Cons.IH [of "AList.update (f r) (g r) m"] Cons.prems(1)) simp_all
qed simp

lemma keys_fold_update: "fst ` set (fold (\<lambda>r. AList.update (f r) (g r)) rs m) = fst ` set m \<union> f ` set rs"
  by (induction rs arbitrary: m) auto

lemma wf_fold_update: "wf_map m \<Longrightarrow> wf_map (fold (\<lambda>r. AList.update (f r) (g r)) rs m)"
  by (induction rs arbitrary: m) auto

text \<open>The order of a \<open>for range\<close> loop over a map.\<close>

definition valid_rng :: "(string list \<Rightarrow> string list) \<Rightarrow> bool" where
  "valid_rng rng \<longleftrightarrow> (\<forall>ks. mset (rng ks) = mset ks)"

definition range_map :: "(string list \<Rightarrow> string list) \<Rightarrow> (string, 'v) gomap \<Rightarrow> (string, 'v) gomap" where
  "range_map rng m = map (\<lambda>k. (k, the (map_of m k))) (rng (map fst m))"

lemma valid_rng_set [simp]: "valid_rng rng \<Longrightarrow> set (rng ks) = set ks"
  unfolding valid_rng_def by (blast dest: mset_eq_setD)

lemma valid_rng_distinct [simp]: "valid_rng rng \<Longrightarrow> distinct (rng ks) = distinct ks"
  unfolding valid_rng_def by (rule mset_eq_imp_distinct_iff) simp

lemma valid_rng_length [simp]: "valid_rng rng \<Longrightarrow> length (rng ks) = length ks"
  unfolding valid_rng_def by (blast intro: mset_eq_length)

lemma map_fst_range_map [simp]: "map fst (range_map rng m) = rng (map fst m)"
  by (simp add: range_map_def comp_def)

lemma wf_range_map [simp]: "valid_rng rng \<Longrightarrow> wf_map (range_map rng m) = wf_map m"
  by (simp add: wf_map_def)

lemma set_range_map: "valid_rng rng \<Longrightarrow> wf_map m \<Longrightarrow> set (range_map rng m) = set m"
  by (auto simp: range_map_def wf_map_def image_iff) force

lemma valid_rng_id [simp]: "valid_rng (\<lambda>ks. ks)" and valid_rng_rev [simp]: "valid_rng rev"
  by (simp_all add: valid_rng_def)

end
