(* ===== verification/Handlers.thy ===== *)
theory Handlers
  imports Go_Prelude
begin

text \<open>
  Handlers: programs that issue requests to an API server and stop at the first error they do
  not handle.  The library shows once what the components use again and again: which requests
  a loop issues, that a failing run issues a prefix of what a successful run issues, and that a
  run with a server that accepts everything succeeds.
\<close>

section \<open>Programs\<close>

type_synonym 'r trace = "('r \<times> api_error option) list"

type_synonym 'a result = "go_error + 'a"

type_synonym ('r, 'a) go = "'r trace \<Rightarrow> 'a result \<times> 'r trace"

record 'r env =
  env_api :: "'r trace \<Rightarrow> 'r \<Rightarrow> api_error option"
  env_rng :: "string list \<Rightarrow> string list"

definition go_return :: "'a \<Rightarrow> ('r, 'a) go" where
  "go_return x = (\<lambda>h. (Inr x, []))"

definition go_fail :: "go_error \<Rightarrow> ('r, 'a) go" where
  "go_fail e = (\<lambda>h. (Inl e, []))"

text \<open>A value that was computed without the server: a lister's or an indexer's answer.\<close>

definition go_lift :: "'a result \<Rightarrow> ('r, 'a) go" where
  "go_lift r = (\<lambda>h. (r, []))"

definition go_bind :: "('r, 'a) go \<Rightarrow> ('a \<Rightarrow> ('r, 'b) go) \<Rightarrow> ('r, 'b) go" where
  "go_bind m f = (\<lambda>h. case m h of
       (Inl e, d) \<Rightarrow> (Inl e, d)
     | (Inr x, d) \<Rightarrow> (case f x (h @ d) of (r, d') \<Rightarrow> (r, d @ d')))"

text \<open>\<open>go_try\<close> hands an error to the code that inspects it; a panic is not handed over.\<close>

definition go_try :: "('r, 'a) go \<Rightarrow> ('r, 'a result) go" where
  "go_try m = (\<lambda>h. case m h of
       (Inl e, d) \<Rightarrow> (if is_panic e then Inl e else Inr (Inl e), d)
     | (Inr x, d) \<Rightarrow> (Inr (Inr x), d))"

definition go_wrap :: "string \<Rightarrow> ('r, 'a) go \<Rightarrow> ('r, 'a) go" where
  "go_wrap s m = (\<lambda>h. case m h of (Inl e, d) \<Rightarrow> (Inl (wrap_error s e), d) | (Inr x, d) \<Rightarrow> (Inr x, d))"

definition go_call :: "'r env \<Rightarrow> 'r \<Rightarrow> ('r, unit) go" where
  "go_call env r = (\<lambda>h. let a = env_api env h r in
     (case a of None \<Rightarrow> Inr () | Some e \<Rightarrow> Inl (Api e), [(r, a)]))"

text \<open>A call whose \<open>NotFound\<close> answer the code ignores: deletions.\<close>

definition go_call_nf :: "'r env \<Rightarrow> 'r \<Rightarrow> ('r, unit) go" where
  "go_call_nf env r = go_bind (go_try (go_call env r)) (\<lambda>x. case x of
       Inl e \<Rightarrow> if is_not_found e then go_return () else go_fail e
     | Inr u \<Rightarrow> go_return ())"

text \<open>An effect that cannot fail: putting a key on a work queue.\<close>

definition go_emit :: "'r \<Rightarrow> ('r, unit) go" where
  "go_emit r = (\<lambda>h. (Inr (), [(r, None)]))"

text \<open>A \<open>for\<close> loop that returns at the first error, and one that carries a value.\<close>

primrec go_for :: "'x list \<Rightarrow> ('x \<Rightarrow> ('r, unit) go) \<Rightarrow> ('r, unit) go" where
  "go_for [] f = go_return ()"
| "go_for (x # xs) f = go_bind (f x) (\<lambda>_. go_for xs f)"

primrec go_fold :: "('x \<Rightarrow> 's \<Rightarrow> ('r, 's) go) \<Rightarrow> 'x list \<Rightarrow> 's \<Rightarrow> ('r, 's) go" where
  "go_fold f [] s = go_return s"
| "go_fold f (x # xs) s = go_bind (f x s) (go_fold f xs)"

definition go_when :: "bool \<Rightarrow> ('r, unit) go \<Rightarrow> ('r, unit) go" where
  "go_when b m = (if b then m else go_return ())"

section \<open>Evaluation\<close>

lemmas go_defs = go_return_def go_fail_def go_lift_def go_bind_def go_try_def go_wrap_def
  go_call_def go_when_def

lemma go_return_run [go_simps]: "go_return x h = (Inr x, [])"
  and go_fail_run [go_simps]: "go_fail e h = (Inl e, [])"
  and go_lift_run [go_simps]: "go_lift r h = (r, [])"
  by (simp_all add: go_defs)

lemma go_bind_return [simp]: "go_bind (go_return x) f = f x"
  by (simp add: go_defs fun_eq_iff)

lemma go_bind_fail [simp]: "go_bind (go_fail e) f = go_fail e"
  by (simp add: go_defs fun_eq_iff)

lemma go_bind_lift_Inr [simp]: "go_bind (go_lift (Inr x)) f = f x"
  and go_bind_lift_Inl [simp]: "go_bind (go_lift (Inl e)) f = go_fail e"
  by (simp_all add: go_defs fun_eq_iff)

lemma go_bind_return_right [simp]: "go_bind m go_return = m"
  by (auto simp: go_defs fun_eq_iff split: prod.splits sum.splits)

lemma go_bind_assoc: "go_bind (go_bind m f) g = go_bind m (\<lambda>x. go_bind (f x) g)"
  by (auto simp: go_defs fun_eq_iff split: prod.splits sum.splits)

lemma go_when_simps [simp]: "go_when True m = m" "go_when False m = go_return ()"
  by (simp_all add: go_when_def)

lemma go_for_append: "go_for (xs @ ys) f = go_bind (go_for xs f) (\<lambda>_. go_for ys f)"
  by (induction xs) (simp_all add: go_bind_assoc)

lemma go_for_map: "go_for (map g xs) f = go_for xs (\<lambda>x. f (g x))"
  by (induction xs) simp_all

lemma go_for_filter: "go_for (filter P xs) f = go_for xs (\<lambda>x. go_when (P x) (f x))"
  by (induction xs) simp_all

lemma go_for_concat: "go_for (concat xss) f = go_for xss (\<lambda>xs. go_for xs f)"
  by (induction xss) (simp_all add: go_for_append)

lemma go_bind_run: "m h = (Inr x, d) \<Longrightarrow> go_bind m f h = (case f x (h @ d) of (r, d') \<Rightarrow> (r, d @ d'))"
  by (simp add: go_bind_def)

lemma go_try_call:
  "go_try (go_call env r) h = (Inr (case env_api env h r of None \<Rightarrow> Inr () | Some e \<Rightarrow> Inl (Api e)), [(r, env_api env h r)])"
  by (simp add: go_defs Let_def split: option.splits)

lemma go_for_return: "(\<And>x. x \<in> set xs \<Longrightarrow> f x = go_return ()) \<Longrightarrow> go_for xs f = go_return ()"
  by (induction xs) simp_all

section \<open>Plans\<close>

text \<open>
  A handler follows a plan when the requests it issues are always a prefix of the plan, and the
  whole plan when the handler succeeds.  \<open>T\<close> holds of the requests whose \<open>NotFound\<close>
  answer the handler tolerates: every other request of a successful run was accepted.
\<close>

definition accepted :: "('r \<Rightarrow> bool) \<Rightarrow> 'r trace \<Rightarrow> bool" where
  "accepted T d \<longleftrightarrow> list_all (\<lambda>(r, a). a = None \<or> a = Some NotFound \<and> T r) d"

definition follows_plan :: "('r \<Rightarrow> bool) \<Rightarrow> ('r, 'a) go \<Rightarrow> 'r list \<Rightarrow> bool" where
  "follows_plan T m p \<longleftrightarrow> (\<forall>h. prefix (map fst (snd (m h))) p \<and>
     ((\<exists>x. fst (m h) = Inr x) \<longrightarrow> map fst (snd (m h)) = p \<and> accepted T (snd (m h))))"

lemma accepted_Nil [simp]: "accepted T []"
  and accepted_append [simp]: "accepted T (d @ d') \<longleftrightarrow> accepted T d \<and> accepted T d'"
  and accepted_Cons [simp]:
    "accepted T ((r, a) # d) \<longleftrightarrow> (a = None \<or> a = Some NotFound \<and> T r) \<and> accepted T d"
  by (simp_all add: accepted_def)

lemma follows_planI:
  assumes "\<And>h r d. m h = (r, d) \<Longrightarrow> prefix (map fst d) p"
    and "\<And>h x d. m h = (Inr x, d) \<Longrightarrow> map fst d = p \<and> accepted T d"
  shows "follows_plan T m p"
  unfolding follows_plan_def by (metis assms prod.collapse)

lemma follows_plan_prefix: "follows_plan T m p \<Longrightarrow> m h = (r, d) \<Longrightarrow> prefix (map fst d) p"
  unfolding follows_plan_def by (metis snd_conv)

lemma follows_plan_success:
  "follows_plan T m p \<Longrightarrow> m h = (Inr x, d) \<Longrightarrow> map fst d = p \<and> accepted T d"
  unfolding follows_plan_def by (metis fst_conv snd_conv)

lemma follows_plan_fail [plan_intros]: "follows_plan T (go_fail e) p"
  and follows_plan_return [plan_intros]: "follows_plan T (go_return x) []"
  by (simp_all add: follows_plan_def go_defs)

lemma follows_plan_lift [plan_intros]: "follows_plan T (go_lift r) []"
  by (simp add: follows_plan_def go_defs)

lemma follows_plan_emit [plan_intros]: "follows_plan T (go_emit r) [r]"
  by (simp add: follows_plan_def go_emit_def)

lemma follows_plan_call [plan_intros]: "follows_plan T (go_call env r) [r]"
  by (simp add: follows_plan_def go_defs Let_def split: option.splits)

lemma follows_plan_call_nf [plan_intros]: "T r \<Longrightarrow> follows_plan T (go_call_nf env r) [r]"
  by (auto simp: follows_plan_def go_call_nf_def go_defs Let_def is_not_found_def
      split: option.splits sum.splits)

lemma follows_plan_bind:
  assumes m: "follows_plan T m p" and f: "\<And>x. follows_plan T (f x) q"
  shows "follows_plan T (go_bind m f) (p @ q)"
proof (rule follows_planI)
  fix h r d assume run: "go_bind m f h = (r, d)"
  obtain r1 d1 where m1: "m h = (r1, d1)" by fastforce
  show "prefix (map fst d) (p @ q)"
  proof (cases r1)
    case (Inl e)
    with run m1 have "d = d1" by (simp add: go_bind_def)
    with follows_plan_prefix [OF m m1] show ?thesis by (simp add: prefix_prefix)
  next
    case (Inr x)
    obtain r2 d2 where f2: "f x (h @ d1) = (r2, d2)" by fastforce
    with run m1 Inr have "d = d1 @ d2" by (simp add: go_bind_def)
    moreover have "map fst d1 = p" using follows_plan_success [OF m] m1 Inr by blast
    ultimately show ?thesis using follows_plan_prefix [OF f f2] by simp
  qed
next
  fix h x d assume run: "go_bind m f h = (Inr x, d)"
  then obtain y d1 d2 where m1: "m h = (Inr y, d1)" and f2: "f y (h @ d1) = (Inr x, d2)"
    and "d = d1 @ d2"
    by (auto simp: go_bind_def split: prod.splits sum.splits)
  with follows_plan_success [OF m m1] follows_plan_success [OF f f2]
  show "map fst d = p @ q \<and> accepted T d" by simp
qed

lemma follows_plan_bind_lift [plan_intros]:
  "(\<And>x. r = Inr x \<Longrightarrow> follows_plan T (f x) p) \<Longrightarrow> follows_plan T (go_bind (go_lift r) f) p"
  by (cases r) (simp_all add: follows_plan_fail)

lemma follows_plan_wrap [plan_intros]: "follows_plan T m p \<Longrightarrow> follows_plan T (go_wrap s m) p"
  by (rule follows_planI)
    (auto simp: go_wrap_def split: prod.splits sum.splits dest: follows_plan_prefix follows_plan_success)

lemma follows_plan_when [plan_intros]:
  "(b \<Longrightarrow> follows_plan T m p) \<Longrightarrow> follows_plan T (go_when b m) (if b then p else [])"
  by (simp add: follows_plan_return)

lemma follows_plan_for:
  assumes "\<And>x. x \<in> set xs \<Longrightarrow> follows_plan T (f x) (g x)"
  shows "follows_plan T (go_for xs f) (concat (map g xs))"
  using assms by (induction xs) (simp_all add: follows_plan_return follows_plan_bind)

lemma follows_plan_for_single:
  assumes "\<And>x. x \<in> set xs \<Longrightarrow> follows_plan T (f x) [g x]"
  shows "follows_plan T (go_for xs f) (map g xs)"
  using follows_plan_for [of xs T f "\<lambda>x. [g x]"] assms by simp

section \<open>A server that accepts every request\<close>

definition accepting :: "'r env \<Rightarrow> bool" where
  "accepting env \<longleftrightarrow> (\<forall>h r. env_api env h r = None)"

definition succeeds :: "('r, 'a) go \<Rightarrow> bool" where
  "succeeds m \<longleftrightarrow> (\<forall>h. \<exists>x d. m h = (Inr x, d))"

lemma succeeds_return [simp]: "succeeds (go_return x)"
  by (simp add: succeeds_def go_defs)

lemma succeeds_call [simp]: "accepting env \<Longrightarrow> succeeds (go_call env r)"
  by (simp add: succeeds_def accepting_def go_defs Let_def)

lemma succeeds_call_nf [simp]: "accepting env \<Longrightarrow> succeeds (go_call_nf env r)"
  by (simp add: succeeds_def accepting_def go_call_nf_def go_defs Let_def)

lemma succeeds_bind:
  assumes "succeeds m" and "\<And>h x d. m h = (Inr x, d) \<Longrightarrow> succeeds (f x)"
  shows "succeeds (go_bind m f)"
  unfolding succeeds_def
proof
  fix h
  obtain x d where m: "m h = (Inr x, d)" using assms(1) unfolding succeeds_def by blast
  with assms(2) obtain y d' where "f x (h @ d) = (Inr y, d')" by (meson succeeds_def)
  with m show "\<exists>y d. go_bind m f h = (Inr y, d)" by (simp add: go_bind_def)
qed

lemma succeeds_wrap [simp]: "succeeds m \<Longrightarrow> succeeds (go_wrap s m)"
  unfolding succeeds_def go_wrap_def by (metis (no_types, lifting) case_prod_conv sum.simps(6))

lemma succeeds_for: "(\<And>x. x \<in> set xs \<Longrightarrow> succeeds (f x)) \<Longrightarrow> succeeds (go_for xs f)"
  by (induction xs) (simp_all add: succeeds_bind)

text \<open>A handler that follows a plan and succeeds has issued exactly the plan.\<close>

lemma succeeds_plan:
  assumes "succeeds m" and "follows_plan T m p"
  shows "\<exists>x d. m h = (Inr x, d) \<and> map fst d = p"
  using assms follows_plan_success unfolding succeeds_def by metis

text \<open>A concrete environment for evaluating handlers: all requests accepted, maps visited in order.\<close>

definition accept_all :: "'r env" where
  "accept_all = \<lparr>env_api = (\<lambda>h r. None), env_rng = (\<lambda>ks. ks)\<rparr>"

lemma accept_all_simps [simp]:
  "env_api accept_all h r = None" "env_rng accept_all ks = ks" "valid_rng (env_rng accept_all)" "accepting accept_all"
  by (simp_all add: accept_all_def accepting_def)

text \<open>Evaluation of a run with that environment.\<close>

lemma go_call_accept_all [simp]: "go_call accept_all r h = (Inr (), [(r, None)])"
  by (simp add: go_call_def Let_def)

lemma go_call_nf_accept_all [simp]: "go_call_nf accept_all r h = (Inr (), [(r, None)])"
  by (simp add: go_call_nf_def go_bind_def go_try_def go_return_def)

section \<open>Inversion of successful runs\<close>

lemma go_bind_InrE:
  assumes "go_bind m f h = (Inr y, d)"
  obtains x d1 d2 where "m h = (Inr x, d1)" and "f x (h @ d1) = (Inr y, d2)" and "d = d1 @ d2"
  using assms by (auto simp: go_bind_def split: prod.splits sum.splits)

lemma go_wrap_InrE:
  assumes "go_wrap s m h = (Inr y, d)" obtains "m h = (Inr y, d)"
  using assms by (auto simp: go_wrap_def split: prod.splits sum.splits)

lemma go_lift_InrE:
  assumes "go_lift r h = (Inr y, d)" obtains "r = Inr y" and "d = []"
  using assms by (simp add: go_lift_def)

text \<open>A loop that succeeds has run its body for every element; its requests are those of the bodies.\<close>

lemma go_for_InrD:
  "go_for xs f h = (Inr (), d) \<Longrightarrow>
     \<exists>ds. list_all2 (\<lambda>x dx. \<exists>h'. f x h' = (Inr (), dx)) xs ds \<and> d = concat ds"
proof (induction xs arbitrary: h d)
  case Nil
  then show ?case by (intro exI [of _ "[]"]) (simp add: go_return_def)
next
  case (Cons x xs)
  from Cons.prems obtain u d1 d2 where "f x h = (Inr u, d1)" and rest: "go_for xs f (h @ d1) = (Inr (), d2)"
    and d: "d = d1 @ d2"
    by (auto elim: go_bind_InrE)
  moreover obtain ds where "list_all2 (\<lambda>x dx. \<exists>h'. f x h' = (Inr (), dx)) xs ds" "d2 = concat ds"
    using Cons.IH [OF rest] by blast
  ultimately show ?case by (intro exI [of _ "d1 # ds"]) auto
qed

lemma go_for_Inr_elem:
  assumes "go_for xs f h = (Inr (), d)" and "x \<in> set xs"
  obtains h' dx where "f x h' = (Inr (), dx)" and "set dx \<subseteq> set d"
proof -
  from go_for_InrD [OF assms(1)] obtain ds
    where ds: "list_all2 (\<lambda>x dx. \<exists>h'. f x h' = (Inr (), dx)) xs ds" and d: "d = concat ds" by blast
  from assms(2) obtain i where i: "i < length xs" "xs ! i = x" by (auto simp: in_set_conv_nth)
  with ds have len: "i < length ds" by (simp add: list_all2_lengthD)
  obtain h' where "f x h' = (Inr (), ds ! i)" using list_all2_nthD [OF ds i(1)] i(2) by auto
  moreover have "ds ! i \<in> set ds" using len by simp
  then have "set (ds ! i) \<subseteq> set d" unfolding d by auto
  ultimately show thesis by (rule that)
qed

section \<open>What a handler may issue\<close>

text \<open>Every request of every run, successful or not, satisfies a predicate.\<close>

named_theorems issues_intros \<open>introduction rules for: a handler issues only requests that satisfy a predicate\<close>

definition issues_only :: "('r \<Rightarrow> bool) \<Rightarrow> ('r, 'a) go \<Rightarrow> bool" where
  "issues_only P m \<longleftrightarrow> (\<forall>h. \<forall>x \<in> set (snd (m h)). P (fst x))"

lemma issues_onlyD: "issues_only P m \<Longrightarrow> m h = (r, d) \<Longrightarrow> (q, a) \<in> set d \<Longrightarrow> P q"
  unfolding issues_only_def by (metis fst_conv snd_conv)

lemma issues_only_mono: "issues_only P m \<Longrightarrow> (\<And>q. P q \<Longrightarrow> Q q) \<Longrightarrow> issues_only Q m"
  by (auto simp: issues_only_def)

lemma issues_only_simple [issues_intros]:
  "issues_only P (go_return x)" "issues_only P (go_fail e)" "issues_only P (go_lift r)"
  by (simp_all add: issues_only_def go_defs)

lemma issues_only_call [issues_intros]: "P r \<Longrightarrow> issues_only P (go_call env r)"
  by (simp add: issues_only_def go_call_def Let_def)

lemma issues_only_emit [issues_intros]: "P r \<Longrightarrow> issues_only P (go_emit r)"
  by (simp add: issues_only_def go_emit_def)

lemma issues_only_wrap [issues_intros]: "issues_only P m \<Longrightarrow> issues_only P (go_wrap s m)"
  and issues_only_try [issues_intros]: "issues_only P m \<Longrightarrow> issues_only P (go_try m)"
  by (auto simp: issues_only_def go_wrap_def go_try_def case_prod_beta split: sum.splits)

lemma issues_only_bind:
  assumes "issues_only P m" and "\<And>h x d. m h = (Inr x, d) \<Longrightarrow> issues_only P (f x)"
  shows "issues_only P (go_bind m f)"
  unfolding issues_only_def
proof (intro allI)
  fix h
  obtain r d where m: "m h = (r, d)" by fastforce
  show "\<forall>x \<in> set (snd (go_bind m f h)). P (fst x)"
  proof (cases r)
    case (Inl e)
    with m assms(1) show ?thesis by (auto simp: go_bind_def issues_only_def dest!: spec [of _ h])
  next
    case (Inr x)
    with m have "issues_only P (f x)" using assms(2) by blast
    then have "\<forall>y \<in> set (snd (f x (h @ d))). P (fst y)" unfolding issues_only_def ..
    moreover have "\<forall>y \<in> set (snd (m h)). P (fst y)" using assms(1) unfolding issues_only_def ..
    ultimately show ?thesis using m Inr by (auto simp: go_bind_def case_prod_beta)
  qed
qed

lemma issues_only_bind_lift [issues_intros]:
  "(\<And>x. r = Inr x \<Longrightarrow> issues_only P (f x)) \<Longrightarrow> issues_only P (go_bind (go_lift r) f)"
  by (cases r) (simp_all add: issues_only_simple)

lemma issues_only_call_nf [issues_intros]: "P r \<Longrightarrow> issues_only P (go_call_nf env r)"
  unfolding go_call_nf_def
  by (intro issues_only_bind) (auto intro!: issues_intros split: sum.splits)

lemma issues_only_for [issues_intros]:
  "(\<And>x. x \<in> set xs \<Longrightarrow> issues_only P (f x)) \<Longrightarrow> issues_only P (go_for xs f)"
  by (induction xs) (auto intro: issues_only_bind issues_intros)

lemma issues_only_fold [issues_intros]:
  "(\<And>x s. x \<in> set xs \<Longrightarrow> issues_only P (f x s)) \<Longrightarrow> issues_only P (go_fold f xs s)"
  by (induction xs arbitrary: s) (auto intro: issues_only_bind issues_intros)

lemma issues_only_when [issues_intros]: "(b \<Longrightarrow> issues_only P m) \<Longrightarrow> issues_only P (go_when b m)"
  by (cases b) (simp_all add: issues_only_simple)

lemma issues_only_plan: "follows_plan T m p \<Longrightarrow> (\<And>q. q \<in> set p \<Longrightarrow> P q) \<Longrightarrow> issues_only P m"
  unfolding issues_only_def
proof (intro allI ballI)
  fix h x
  assume plan: "follows_plan T m p" and P: "\<And>q. q \<in> set p \<Longrightarrow> P q" and x: "x \<in> set (snd (m h))"
  have "prefix (map fst (snd (m h))) p" using follows_plan_prefix [OF plan, of h] by (metis prod.collapse)
  then have "set (map fst (snd (m h))) \<subseteq> set p" by (rule set_mono_prefix)
  with x P show "P (fst x)" by auto
qed

text \<open>
  A loop over objects with distinct names, each body's requests about its own object: the
  requests about one object are those of its body.
\<close>

lemma filter_map_fst_Nil: "issues_only P m \<Longrightarrow> (\<And>q. P q \<Longrightarrow> \<not> Q q) \<Longrightarrow> m h = (r, d) \<Longrightarrow> filter Q (map fst d) = []"
  by (auto simp: filter_empty_conv dest: issues_onlyD)

lemma go_for_about:
  assumes run: "go_for xs f h = (Inr (), d)" and dist: "distinct (map key xs)" and x: "x \<in> set xs"
    and own: "\<And>y. y \<in> set xs \<Longrightarrow> issues_only (\<lambda>q. about (key x) q \<longrightarrow> key y = key x) (f y)"
  obtains h' dx where "f x h' = (Inr (), dx)" and "filter (about (key x)) (map fst d) = filter (about (key x)) (map fst dx)"
proof -
  have "\<exists>h' dx. f x h' = (Inr (), dx) \<and> filter (about (key x)) (map fst d) = filter (about (key x)) (map fst dx)"
    using run dist x own
  proof (induction xs arbitrary: h d)
    case (Cons y ys)
    from Cons.prems(1) obtain d1 d2 where f: "f y h = (Inr (), d1)" and rest: "go_for ys f (h @ d1) = (Inr (), d2)"
      and d: "d = d1 @ d2"
      by (auto elim: go_bind_InrE)
    show ?case
    proof (cases "y = x")
      case True
      have "issues_only (\<lambda>q. \<not> about (key x) q) (go_for ys f)"
      proof (rule issues_only_for)
        fix z assume z: "z \<in> set ys"
        then have "key z \<noteq> key x" using Cons.prems(2) True by (metis distinct.simps(2) imageI list.set_map list.simps(9))
        with Cons.prems(4) [of z] z show "issues_only (\<lambda>q. \<not> about (key x) q) (f z)" by simp
      qed
      from filter_map_fst_Nil [OF this _ rest, of "about (key x)"] f d True show ?thesis by auto
    next
      case False
      then have x: "x \<in> set ys" using Cons.prems(3) by simp
      then have "key y \<noteq> key x" using Cons.prems(2) by (metis distinct.simps(2) imageI list.set_map list.simps(9))
      with Cons.prems(4) [of y] have "issues_only (\<lambda>q. \<not> about (key x) q) (f y)" by simp
      from filter_map_fst_Nil [OF this _ f, of "about (key x)"] Cons.IH [OF rest _ x] Cons.prems(2,4) d
      show ?thesis by auto
    qed
  qed simp
  then show thesis using that by blast
qed

lemma go_for_emit [simp]: "go_for xs (\<lambda>x. go_emit (f x)) h = (Inr (), map (\<lambda>x. (f x, None)) xs)"
  by (induction xs arbitrary: h) (simp_all add: go_return_def go_bind_def go_emit_def)

end
