(* ===== verification/Rbac_Types.thy ===== *)
theory Rbac_Types
  imports Handlers
begin

text \<open>
  The objects of the Kubernetes and Rancher APIs that the access control components read and
  write: metadata, policy rules, roles, bindings, role templates and role template bindings.
  Roles and cluster roles have the same fields, and so have their bindings.  Slices and maps
  that are nil and those that are empty are identified.
\<close>

section \<open>Metadata\<close>

text \<open>
  The metadata of an object; \<open>om_deleting\<close> says whether the deletion time stamp is set.
  The two fields of \<open>TypeMeta\<close> are kept here as well.
\<close>

record owner_ref =
  own_apiVersion :: string
  own_kind :: string
  own_name :: string
  own_uid :: string

record object_meta =
  om_name :: string
  om_generateName :: string
  om_namespace :: string
  om_uid :: string
  om_labels :: "(string, string) gomap"
  om_annotations :: "(string, string) gomap"
  om_owners :: "owner_ref list"
  om_deleting :: bool
  om_apiVersion :: string
  om_kind :: string

text \<open>The zero value of Go, from which composite literals start.\<close>

definition meta0 :: object_meta where
  "meta0 = \<lparr>om_name = [], om_generateName = [], om_namespace = [], om_uid = [], om_labels = [],
     om_annotations = [], om_owners = [], om_deleting = False, om_apiVersion = [], om_kind = []\<rparr>"

text \<open>Reading a key of a map that may be absent gives the zero value.\<close>

definition map_str :: "(string, string) gomap \<Rightarrow> string \<Rightarrow> string" where
  "map_str m k = (case map_of m k of Some v \<Rightarrow> v | None \<Rightarrow> [])"

definition has_key :: "('k, 'v) gomap \<Rightarrow> 'k \<Rightarrow> bool" where
  "has_key m k \<longleftrightarrow> map_of m k \<noteq> None"

lemma has_key_iff: "has_key m k \<longleftrightarrow> k \<in> fst ` set m"
  by (simp add: has_key_def map_of_eq_None_iff)

section \<open>Roles and bindings\<close>

record policy_rule =
  pr_verbs :: "string list"
  pr_apiGroups :: "string list"
  pr_resources :: "string list"
  pr_resourceNames :: "string list"
  pr_nonResourceURLs :: "string list"

definition rule0 :: policy_rule where
  "rule0 = \<lparr>pr_verbs = [], pr_apiGroups = [], pr_resources = [], pr_resourceNames = [],
     pr_nonResourceURLs = []\<rparr>"

record subject =
  sub_kind :: string
  sub_name :: string

record role_ref =
  ref_apiGroup :: string
  ref_kind :: string
  ref_name :: string

record k8s_role =
  role_meta :: object_meta
  role_rules :: "policy_rule list"

record k8s_binding =
  rb_meta :: object_meta
  rb_subjects :: "subject list"
  rb_roleRef :: role_ref

abbreviation role_name :: "k8s_role \<Rightarrow> string" where
  "role_name r \<equiv> om_name (role_meta r)"

abbreviation rb_name :: "k8s_binding \<Rightarrow> string" where
  "rb_name b \<equiv> om_name (rb_meta b)"

section \<open>Role templates and their bindings\<close>

record role_template =
  rt_meta :: object_meta
  rt_displayName :: string
  rt_description :: string
  rt_rules :: "policy_rule list"
  rt_builtin :: bool
  rt_external :: bool
  rt_hidden :: bool
  rt_context :: string
  rt_roleTemplateNames :: "string list"

abbreviation rt_name :: "role_template \<Rightarrow> string" where
  "rt_name rt \<equiv> om_name (rt_meta rt)"

text \<open>
  A project or cluster role template binding.  The handlers tell the two types apart by a type
  switch; \<open>rtb_kind\<close> is that dynamic type.  \<open>rtb_target\<close> is \<open>ProjectName\<close> or
  \<open>ClusterName\<close>.
\<close>

datatype rtb_kind = PRTB | CRTB

record rtb =
  rtb_kind :: rtb_kind
  rtb_meta :: object_meta
  rtb_userName :: string
  rtb_userPrincipalName :: string
  rtb_groupName :: string
  rtb_groupPrincipalName :: string
  rtb_target :: string
  rtb_roleTemplateName :: string

abbreviation rtb_uid :: "rtb \<Rightarrow> string" where
  "rtb_uid b \<equiv> om_uid (rtb_meta b)"

section \<open>Caches\<close>

text \<open>
  The indexer of an informer, \<open>threadSafeMap.ByIndex\<close>: the cached objects for which the
  named index function returns the key, in the order of the cache; an unknown index is an error.
\<close>

definition by_index ::
  "(string \<times> ('o \<Rightarrow> string list)) list \<Rightarrow> 'o list \<Rightarrow> string \<Rightarrow> string \<Rightarrow> 'o list result" where
  "by_index indexers cache indexName key =
     (case map_of indexers indexName of
        None \<Rightarrow> Inl (Err (''Index with name '' @ indexName @ '' does not exist''))
      | Some f \<Rightarrow> Inr (filter (\<lambda>x. key \<in> set (f x)) cache))"

text \<open>
  A label selector made from a set of labels: every label of the set is present with its value.
  \<open>labels.Everything()\<close> is the empty set.
\<close>

type_synonym selector = "(string \<times> string) list"

definition selects :: "selector \<Rightarrow> (string, string) gomap \<Rightarrow> bool" where
  "selects sel ls \<longleftrightarrow> list_all (\<lambda>(k, v). map_of ls k = Some v) sel"

lemma selects_Nil [simp]: "selects [] ls"
  and selects_single [simp]: "selects [(k, v)] ls \<longleftrightarrow> map_of ls k = Some v"
  by (simp_all add: selects_def)

text \<open>
  A lister over a cache: \<open>Get\<close> answers with the object of that name or \<open>NotFound\<close>,
  \<open>List\<close> with the objects a selector selects.
\<close>

definition lister_get :: "('o \<Rightarrow> string) \<Rightarrow> 'o list \<Rightarrow> string \<Rightarrow> 'o result" where
  "lister_get name cache n =
     (case find (\<lambda>x. name x = n) cache of None \<Rightarrow> Inl (Api NotFound) | Some x \<Rightarrow> Inr x)"

definition lister_list :: "('o \<Rightarrow> (string, string) gomap) \<Rightarrow> 'o list \<Rightarrow> selector \<Rightarrow> 'o list result" where
  "lister_list labels cache sel = Inr (filter (\<lambda>x. selects sel (labels x)) cache)"

lemma lister_get_name: "lister_get name cache n = Inr x \<Longrightarrow> name x = n \<and> x \<in> set cache"
  by (auto simp: lister_get_def find_Some_iff split: option.splits)

lemma lister_get_error: "lister_get name cache n = Inl e \<Longrightarrow> e = Api NotFound \<and> n \<notin> name ` set cache"
  by (auto simp: lister_get_def find_None_iff split: option.splits)

end
