(* ===== verification/Rbac_Permissions.thy ===== *)
theory Rbac_Permissions
  imports Rbac_Types
begin

text \<open>
  Package \<open>pkg/rbac\<close>: the permission index over the cached role bindings
  (\<open>permission_index.go\<close>), the permission store (\<open>list_permission_store.go\<close>) and the
  access control of the API built on them (\<open>access_control.go\<close>).
\<close>

section \<open>The permission index\<close>

definition rbacGroup :: string where
  "rbacGroup = ''rbac.authorization.k8s.io''"

record list_permission =
  lp_namespace :: string
  lp_name :: string

text \<open>The caches the index is built over: the listers and informers of one client.\<close>

record rbac_cache =
  cache_clusterRoles :: "string \<Rightarrow> string \<Rightarrow> k8s_role result"
  cache_roles :: "string \<Rightarrow> string \<Rightarrow> k8s_role result"
  cache_crbs :: "k8s_binding list"
  cache_rbs :: "k8s_binding list"

record permission_index =
  clusterRoleLister :: "string \<Rightarrow> string \<Rightarrow> k8s_role result"
  roleLister :: "string \<Rightarrow> string \<Rightarrow> k8s_role result"
  crbIndexer :: "string \<Rightarrow> string \<Rightarrow> k8s_binding list result"
  rbIndexer :: "string \<Rightarrow> string \<Rightarrow> k8s_binding list result"
  roleIndexKey :: string
  clusterRoleIndexKey :: string

definition clusterRoleBindingBySubject :: "string \<Rightarrow> k8s_binding \<Rightarrow> string list" where
  "clusterRoleBindingBySubject kind crb =
     map sub_name (filter (\<lambda>s. sub_kind s = kind) (rb_subjects crb))"

definition roleBindingBySubject :: "string \<Rightarrow> k8s_binding \<Rightarrow> string list" where
  "roleBindingBySubject kind rb =
     map sub_name (filter (\<lambda>s. sub_kind s = kind) (rb_subjects rb))"

definition crb_indexers :: "(string \<times> (k8s_binding \<Rightarrow> string list)) list" where
  "crb_indexers = [(''crbUser'', clusterRoleBindingBySubject ''User''),
     (''crbGroup'', clusterRoleBindingBySubject ''Group'')]"

definition rb_indexers :: "(string \<times> (k8s_binding \<Rightarrow> string list)) list" where
  "rb_indexers = [(''rbUser'', roleBindingBySubject ''User''),
     (''rbGroup'', roleBindingBySubject ''Group'')]"

definition newIndexes :: "rbac_cache \<Rightarrow> permission_index \<times> permission_index" where
  "newIndexes c =
     (\<lparr>clusterRoleLister = cache_clusterRoles c, roleLister = cache_roles c,
       crbIndexer = by_index crb_indexers (cache_crbs c),
       rbIndexer = by_index rb_indexers (cache_rbs c),
       roleIndexKey = ''rbUser'', clusterRoleIndexKey = ''crbUser''\<rparr>,
      \<lparr>clusterRoleLister = cache_clusterRoles c, roleLister = cache_roles c,
       crbIndexer = by_index crb_indexers (cache_crbs c),
       rbIndexer = by_index rb_indexers (cache_rbs c),
       roleIndexKey = ''rbGroup'', clusterRoleIndexKey = ''crbGroup''\<rparr>)"

fun matches :: "string list \<Rightarrow> string \<Rightarrow> bool" where
  "matches [] val = False"
| "matches (value # parts) val =
     (if value = ''*'' then True
      else if equal_fold value val then True
      else matches parts val)"

definition getClusterRoleBindings :: "permission_index \<Rightarrow> string \<Rightarrow> k8s_binding list" where
  "getClusterRoleBindings p subjectName =
     (case crbIndexer p (clusterRoleIndexKey p) subjectName of Inl e \<Rightarrow> [] | Inr objs \<Rightarrow> objs)"

definition getRoleBindings :: "permission_index \<Rightarrow> string \<Rightarrow> k8s_binding list" where
  "getRoleBindings p subjectName =
     (case rbIndexer p (roleIndexKey p) subjectName of Inl e \<Rightarrow> [] | Inr objs \<Rightarrow> objs)"

definition getRules :: "permission_index \<Rightarrow> string \<Rightarrow> string \<Rightarrow> string \<Rightarrow> policy_rule list" where
  "getRules p namespace kind name =
     (if kind = ''ClusterRole'' then
        (case clusterRoleLister p [] name of Inl e \<Rightarrow> [] | Inr role \<Rightarrow> role_rules role)
      else if kind = ''Role'' then
        (case roleLister p namespace name of Inl e \<Rightarrow> [] | Inr role \<Rightarrow> role_rules role)
      else [])"

text \<open>The body of the loop of \<open>filterPermissions\<close>: what one rule adds to the result.\<close>

definition filterRule ::
  "string \<Rightarrow> string \<Rightarrow> string \<Rightarrow> string \<Rightarrow> policy_rule \<Rightarrow> list_permission list \<Rightarrow> list_permission list" where
  "filterRule namespace apiGroup resource verb rule result =
     (let nsForResourceNameGets = (if namespace = ''*'' then [] else namespace) in
      if \<not> matches (pr_apiGroups rule) apiGroup \<or> \<not> matches (pr_resources rule) resource then result
      else if pr_resourceNames rule \<noteq> [] then
        (let v = (if verb = ''list'' then ''get'' else verb) in
         if contains_string (pr_verbs rule) ''*'' \<or> contains_string (pr_verbs rule) v
         then result @ map (\<lambda>resourceName. \<lparr>lp_namespace = nsForResourceNameGets, lp_name = resourceName\<rparr>)
                (pr_resourceNames rule)
         else result)
      else if contains_string (pr_verbs rule) ''*'' \<or> contains_string (pr_verbs rule) verb
      then result @ [\<lparr>lp_namespace = namespace, lp_name = ''*''\<rparr>]
      else result)"

definition filterPermissions ::
  "permission_index \<Rightarrow> list_permission list \<Rightarrow> string \<Rightarrow> string \<Rightarrow> string \<Rightarrow> string \<Rightarrow> string \<Rightarrow> string
     \<Rightarrow> list_permission list" where
  "filterPermissions p result namespace kind name apiGroup resource verb =
     fold (filterRule namespace apiGroup resource verb) (getRules p namespace kind name) result"

definition index_get ::
  "permission_index \<Rightarrow> string \<Rightarrow> string \<Rightarrow> string \<Rightarrow> string \<Rightarrow> list_permission list" where
  "index_get p subjectName apiGroup resource verb =
     (let r1 = fold (\<lambda>b result.
                 if ref_apiGroup (rb_roleRef b) \<noteq> rbacGroup then result
                 else filterPermissions p result (om_namespace (rb_meta b)) (ref_kind (rb_roleRef b))
                        (ref_name (rb_roleRef b)) apiGroup resource verb)
               (getRoleBindings p subjectName) []
      in fold (\<lambda>b result.
                 if ref_apiGroup (rb_roleRef b) \<noteq> rbacGroup then result
                 else filterPermissions p result ''*'' (ref_kind (rb_roleRef b))
                        (ref_name (rb_roleRef b)) apiGroup resource verb)
               (getClusterRoleBindings p subjectName) r1)"

section \<open>The permission store\<close>

text \<open>A \<open>ListPermissionSet\<close> is a map from permissions to \<open>true\<close>: the list of its keys.\<close>

type_synonym list_permission_set = "list_permission list"

record list_permission_store =
  lps_users :: permission_index
  lps_groups :: permission_index

definition NewListPermissionStore :: "rbac_cache \<Rightarrow> list_permission_store" where
  "NewListPermissionStore c =
     (let (users, groups) = newIndexes c in \<lparr>lps_users = users, lps_groups = groups\<rparr>)"

definition HasAccess :: "list_permission_set \<Rightarrow> string \<Rightarrow> string \<Rightarrow> bool" where
  "HasAccess l namespace name \<longleftrightarrow> \<lparr>lp_namespace = namespace, lp_name = name\<rparr> \<in> set l"

definition getFromIndex ::
  "string \<Rightarrow> string \<Rightarrow> string \<Rightarrow> string \<Rightarrow> permission_index \<Rightarrow> list_permission_set" where
  "getFromIndex subjectName apiGroup resource verb index =
     fold set_add (index_get index subjectName apiGroup resource verb) []"

definition UserPermissions ::
  "list_permission_store \<Rightarrow> string \<Rightarrow> string \<Rightarrow> string \<Rightarrow> string \<Rightarrow> list_permission_set" where
  "UserPermissions l subjectName apiGroup resource verb =
     getFromIndex subjectName apiGroup resource verb (lps_users l)"

definition GroupPermissions ::
  "list_permission_store \<Rightarrow> string \<Rightarrow> string \<Rightarrow> string \<Rightarrow> string \<Rightarrow> list_permission_set" where
  "GroupPermissions l subjectName apiGroup resource verb =
     getFromIndex subjectName apiGroup resource verb (lps_groups l)"

section \<open>Access control\<close>

text \<open>
  The request: the headers the code reads.  An object of the API is a map from field names to
  JSON values, or nil; only whether a value is a string matters here.
\<close>

record api_context =
  impersonate_user :: string
  impersonate_group :: "string list"

datatype json = JStr string | JOther

type_synonym api_object = "(string, json) gomap"

definition json_str :: "api_object option \<Rightarrow> string \<Rightarrow> string" where
  "json_str obj k = (case obj of None \<Rightarrow> [] | Some m \<Rightarrow>
     (case map_of m k of Some (JStr s) \<Rightarrow> s | _ \<Rightarrow> []))"

definition getPermissions ::
  "list_permission_store \<Rightarrow> api_context \<Rightarrow> string \<Rightarrow> string \<Rightarrow> string \<Rightarrow> list_permission_set" where
  "getPermissions a ctx apiGroup resource verb =
     fold (\<lambda>group permset. fold set_add (GroupPermissions a group apiGroup resource verb) permset)
       (impersonate_group ctx) (UserPermissions a (impersonate_user ctx) apiGroup resource verb)"

definition canAccess :: "api_object option \<Rightarrow> list_permission_set \<Rightarrow> bool" where
  "canAccess obj permset =
     (let namespace = json_str obj ''namespaceId'';
          id = (if obj \<noteq> None then json_str obj ''id'' else ''*'')
      in if HasAccess permset namespace ''*'' \<or> HasAccess permset ''*'' ''*'' then True
         else HasAccess permset namespace (trim_prefix id (namespace @ '':'')))"

definition CanDo ::
  "list_permission_store \<Rightarrow> string \<Rightarrow> string \<Rightarrow> string \<Rightarrow> api_context \<Rightarrow> api_object option \<Rightarrow> string
     \<Rightarrow> unit result" where
  "CanDo a apiGroup resource verb ctx obj schemaID =
     (let permset = getPermissions a ctx apiGroup resource verb
      in if canAccess obj permset then Inr ()
         else Inl (Err (''PermissionDenied: can not '' @ verb @ '' '' @ schemaID @ '' '')))"

definition Filter ::
  "list_permission_store \<Rightarrow> api_context \<Rightarrow> api_object option \<Rightarrow> (string, string) gomap
     \<Rightarrow> api_object option" where
  "Filter a ctx obj context =
     (let apiGroup = map_str context ''apiGroup''; resource = map_str context ''resource''
      in if resource = [] then obj
         else if canAccess obj (getPermissions a ctx apiGroup resource ''list'') then obj
         else None)"

definition FilterList ::
  "list_permission_store \<Rightarrow> api_context \<Rightarrow> api_object list \<Rightarrow> (string, string) gomap
     \<Rightarrow> api_object list" where
  "FilterList a ctx objs context =
     (let apiGroup = map_str context ''apiGroup''; resource = map_str context ''resource''
      in if resource = [] then objs
         else let permset = getPermissions a ctx apiGroup resource ''list'';
                  all = HasAccess permset ''*'' ''*''
              in fold (\<lambda>obj result. if all then result @ [obj]
                                 else if canAccess (Some obj) permset then result @ [obj]
                                 else result) objs [])"

section \<open>What a rule, a binding and a principal grant\<close>

text \<open>
  The specification: the permission one rule gives when it is bound in a namespace
  (\<open>''*''\<close> for a cluster role binding), and what all bindings of a principal give.
\<close>

definition rule_grants ::
  "string \<Rightarrow> string \<Rightarrow> string \<Rightarrow> string \<Rightarrow> policy_rule \<Rightarrow> list_permission \<Rightarrow> bool" where
  "rule_grants ns apiGroup resource verb rule lp \<longleftrightarrow>
     matches (pr_apiGroups rule) apiGroup \<and> matches (pr_resources rule) resource \<and>
     (if pr_resourceNames rule = []
      then (''*'' \<in> set (pr_verbs rule) \<or> verb \<in> set (pr_verbs rule)) \<and>
           lp_namespace lp = ns \<and> lp_name lp = ''*''
      else (''*'' \<in> set (pr_verbs rule) \<or>
            (if verb = ''list'' then ''get'' else verb) \<in> set (pr_verbs rule)) \<and>
           lp_namespace lp = (if ns = ''*'' then [] else ns) \<and> lp_name lp \<in> set (pr_resourceNames rule))"

definition role_rules_of :: "rbac_cache \<Rightarrow> string \<Rightarrow> role_ref \<Rightarrow> policy_rule list" where
  "role_rules_of c ns ref =
     (if ref_apiGroup ref \<noteq> rbacGroup then []
      else if ref_kind ref = ''ClusterRole'' then
        (case cache_clusterRoles c [] (ref_name ref) of Inl e \<Rightarrow> [] | Inr r \<Rightarrow> role_rules r)
      else if ref_kind ref = ''Role'' then
        (case cache_roles c ns (ref_name ref) of Inl e \<Rightarrow> [] | Inr r \<Rightarrow> role_rules r)
      else [])"

definition bound_in :: "string \<Rightarrow> string \<Rightarrow> k8s_binding \<Rightarrow> bool" where
  "bound_in kind name b \<longleftrightarrow> (\<exists>s \<in> set (rb_subjects b). sub_kind s = kind \<and> sub_name s = name)"

definition grants ::
  "rbac_cache \<Rightarrow> string \<Rightarrow> string \<Rightarrow> string \<Rightarrow> string \<Rightarrow> string \<Rightarrow> list_permission \<Rightarrow> bool" where
  "grants c kind name apiGroup resource verb lp \<longleftrightarrow>
     (\<exists>b \<in> set (cache_rbs c). bound_in kind name b \<and>
        (\<exists>r \<in> set (role_rules_of c (om_namespace (rb_meta b)) (rb_roleRef b)).
           rule_grants (om_namespace (rb_meta b)) apiGroup resource verb r lp)) \<or>
     (\<exists>b \<in> set (cache_crbs c). bound_in kind name b \<and>
        (\<exists>r \<in> set (role_rules_of c ''*'' (rb_roleRef b)). rule_grants ''*'' apiGroup resource verb r lp))"

section \<open>The index computes the specification\<close>

lemma matches_iff: "matches parts val \<longleftrightarrow> (\<exists>v \<in> set parts. v = ''*'' \<or> equal_fold v val)"
  by (induction parts) auto

lemma mem_image_list_permission [simp]:
  "x \<in> (\<lambda>n. \<lparr>lp_namespace = a, lp_name = n\<rparr>) ` S \<longleftrightarrow> lp_namespace x = a \<and> lp_name x \<in> S"
  by (cases x) auto

lemma eq_list_permission:
  "x = \<lparr>lp_namespace = a, lp_name = b\<rparr> \<longleftrightarrow> lp_namespace x = a \<and> lp_name x = b"
  by (cases x) auto

lemma set_filterRule:
  "set (filterRule ns ag res verb rule result) = set result \<union> {lp. rule_grants ns ag res verb rule lp}"
  by (auto simp: filterRule_def rule_grants_def Let_def eq_list_permission)

lemma set_fold_filterRule:
  "set (fold (filterRule ns ag res verb) rules result) =
     set result \<union> {lp. \<exists>r \<in> set rules. rule_grants ns ag res verb r lp}"
  by (induction rules arbitrary: result) (auto simp: set_filterRule)

lemma set_filterPermissions:
  "set (filterPermissions p result ns kind name ag res verb) =
     set result \<union> {lp. \<exists>r \<in> set (getRules p ns kind name). rule_grants ns ag res verb r lp}"
  by (simp add: filterPermissions_def set_fold_filterRule)

lemma set_fold_bindings:
  "set (fold (\<lambda>b result. if ref_apiGroup (rb_roleRef b) \<noteq> rbacGroup then result
            else filterPermissions p result (nsf b) (ref_kind (rb_roleRef b)) (ref_name (rb_roleRef b))
                   ag res verb) bs result) =
     set result \<union> {lp. \<exists>b \<in> set bs. ref_apiGroup (rb_roleRef b) = rbacGroup \<and>
        (\<exists>r \<in> set (getRules p (nsf b) (ref_kind (rb_roleRef b)) (ref_name (rb_roleRef b))).
           rule_grants (nsf b) ag res verb r lp)}"
  by (induction bs arbitrary: result) (auto simp: set_filterPermissions)

lemma set_index_get:
  "lp \<in> set (index_get p s ag res verb) \<longleftrightarrow>
     (\<exists>b \<in> set (getRoleBindings p s). ref_apiGroup (rb_roleRef b) = rbacGroup \<and>
        (\<exists>r \<in> set (getRules p (om_namespace (rb_meta b)) (ref_kind (rb_roleRef b)) (ref_name (rb_roleRef b))).
           rule_grants (om_namespace (rb_meta b)) ag res verb r lp)) \<or>
     (\<exists>b \<in> set (getClusterRoleBindings p s). ref_apiGroup (rb_roleRef b) = rbacGroup \<and>
        (\<exists>r \<in> set (getRules p ''*'' (ref_kind (rb_roleRef b)) (ref_name (rb_roleRef b))).
           rule_grants ''*'' ag res verb r lp))"
  by (auto simp: index_get_def Let_def set_fold_bindings)

lemma getRules_newIndexes:
  assumes "p = fst (newIndexes c) \<or> p = snd (newIndexes c)" and "ref_apiGroup ref = rbacGroup"
  shows "getRules p ns (ref_kind ref) (ref_name ref) = role_rules_of c ns ref"
  using assms by (auto simp: newIndexes_def getRules_def role_rules_of_def)

lemma bound_in_iff:
  "name \<in> set (clusterRoleBindingBySubject kind b) \<longleftrightarrow> bound_in kind name b"
  "name \<in> set (roleBindingBySubject kind b) \<longleftrightarrow> bound_in kind name b"
  by (auto simp: clusterRoleBindingBySubject_def roleBindingBySubject_def bound_in_def)

lemma bindings_newIndexes:
  "getRoleBindings (fst (newIndexes c)) s = filter (bound_in ''User'' s) (cache_rbs c)"
  "getClusterRoleBindings (fst (newIndexes c)) s = filter (bound_in ''User'' s) (cache_crbs c)"
  "getRoleBindings (snd (newIndexes c)) s = filter (bound_in ''Group'' s) (cache_rbs c)"
  "getClusterRoleBindings (snd (newIndexes c)) s = filter (bound_in ''Group'' s) (cache_crbs c)"
  by (simp_all add: newIndexes_def getRoleBindings_def getClusterRoleBindings_def by_index_def
      rb_indexers_def crb_indexers_def bound_in_iff)

lemma role_rules_of_group: "r \<in> set (role_rules_of c ns ref) \<Longrightarrow> ref_apiGroup ref = rbacGroup"
  by (auto simp: role_rules_of_def split: if_splits)

lemma getRules_role_rules_of:
  assumes "p = fst (newIndexes c) \<or> p = snd (newIndexes c)"
  shows "ref_apiGroup ref = rbacGroup \<and> (\<exists>r \<in> set (getRules p ns (ref_kind ref) (ref_name ref)). Q r) \<longleftrightarrow>
    (\<exists>r \<in> set (role_rules_of c ns ref). Q r)"
  using getRules_newIndexes [OF assms] role_rules_of_group by fastforce

lemma set_index_get_rules:
  assumes "p = fst (newIndexes c) \<or> p = snd (newIndexes c)"
  shows "lp \<in> set (index_get p s ag res verb) \<longleftrightarrow>
     (\<exists>b \<in> set (getRoleBindings p s). \<exists>r \<in> set (role_rules_of c (om_namespace (rb_meta b)) (rb_roleRef b)).
           rule_grants (om_namespace (rb_meta b)) ag res verb r lp) \<or>
     (\<exists>b \<in> set (getClusterRoleBindings p s). \<exists>r \<in> set (role_rules_of c ''*'' (rb_roleRef b)).
           rule_grants ''*'' ag res verb r lp)"
  by (simp add: set_index_get getRules_role_rules_of [OF assms])

lemma index_get_newIndexes:
  "lp \<in> set (index_get (fst (newIndexes c)) s ag res verb) \<longleftrightarrow> grants c ''User'' s ag res verb lp"
  "lp \<in> set (index_get (snd (newIndexes c)) s ag res verb) \<longleftrightarrow> grants c ''Group'' s ag res verb lp"
  by (auto simp: set_index_get_rules [where c = c] bindings_newIndexes grants_def)

lemma set_permissions [simp]:
  "set (UserPermissions (NewListPermissionStore c) s ag res verb) = {lp. grants c ''User'' s ag res verb lp}"
  "set (GroupPermissions (NewListPermissionStore c) s ag res verb) = {lp. grants c ''Group'' s ag res verb lp}"
  by (auto simp: UserPermissions_def GroupPermissions_def NewListPermissionStore_def getFromIndex_def
      index_get_newIndexes Let_def case_prod_beta)

section \<open>The interface of access control\<close>

text \<open>
  Access control relies on its permission store for one thing: the permissions of a user and
  of a group are those of a specification.
\<close>

locale permission_store =
  fixes store :: list_permission_store
    and user_spec group_spec :: "string \<Rightarrow> string \<Rightarrow> string \<Rightarrow> string \<Rightarrow> list_permission \<Rightarrow> bool"
  assumes user_perms: "set (UserPermissions store s ag res verb) = {lp. user_spec s ag res verb lp}"
    and group_perms: "set (GroupPermissions store s ag res verb) = {lp. group_spec s ag res verb lp}"
begin

lemma set_getPermissions:
  "set (getPermissions store ctx ag res verb) =
     {lp. user_spec (impersonate_user ctx) ag res verb lp \<or>
          (\<exists>g \<in> set (impersonate_group ctx). group_spec g ag res verb lp)}"
proof -
  have "set (fold (\<lambda>g acc. fold set_add (GroupPermissions store g ag res verb) acc) gs acc) =
      set acc \<union> {lp. \<exists>g \<in> set gs. group_spec g ag res verb lp}" for gs acc
    by (induction gs arbitrary: acc) (auto simp: group_perms)
  then show ?thesis by (auto simp: getPermissions_def user_perms)
qed

lemma getPermissions_mono:
  assumes "impersonate_user ctx = impersonate_user ctx'"
    and "set (impersonate_group ctx) \<subseteq> set (impersonate_group ctx')"
  shows "set (getPermissions store ctx ag res verb) \<subseteq> set (getPermissions store ctx' ag res verb)"
  using assms by (auto simp: set_getPermissions)

end

interpretation rs: permission_store "NewListPermissionStore c" "grants c ''User''" "grants c ''Group''" for c
  by unfold_locales simp_all

section \<open>Properties\<close>

text \<open>A permission covers an object: all objects everywhere, all of the namespace, or the object.\<close>

definition covers :: "list_permission \<Rightarrow> api_object option \<Rightarrow> bool" where
  "covers lp obj \<longleftrightarrow>
     (let ns = json_str obj ''namespaceId'';
          id = (if obj = None then ''*'' else json_str obj ''id'')
      in lp = \<lparr>lp_namespace = ''*'', lp_name = ''*''\<rparr> \<or> lp = \<lparr>lp_namespace = ns, lp_name = ''*''\<rparr> \<or>
         lp = \<lparr>lp_namespace = ns, lp_name = trim_prefix id (ns @ '':'')\<rparr>)"

lemma canAccess_iff: "canAccess obj ps \<longleftrightarrow> (\<exists>lp \<in> set ps. covers lp obj)"
  by (auto simp: canAccess_def covers_def HasAccess_def Let_def)

text \<open>
  The permissions the store returns for a user are exactly those of the specification:
  some role binding or cluster role binding of the RBAC API group names the user, its role is
  cached, and one of its rules matches the API group, the resource and the verb (for \<open>list\<close>
  on a rule with resource names, the verb \<open>get\<close>).
\<close>

theorem UserPermissions_correct:
  "HasAccess (UserPermissions (NewListPermissionStore c) u apiGroup resource verb) ns nm \<longleftrightarrow>
     grants c ''User'' u apiGroup resource verb \<lparr>lp_namespace = ns, lp_name = nm\<rparr>"
  by (simp add: HasAccess_def)

text \<open>
  C1. Access control decides correctly: \<open>CanDo\<close> returns no error if and only if the
  impersonated user or one of the impersonated groups is granted a permission that covers the
  object.
\<close>

theorem CanDo_correct:
  "CanDo (NewListPermissionStore c) apiGroup resource verb ctx obj schemaID = Inr () \<longleftrightarrow>
     (\<exists>lp. covers lp obj \<and>
        (grants c ''User'' (impersonate_user ctx) apiGroup resource verb lp \<or>
         (\<exists>g \<in> set (impersonate_group ctx). grants c ''Group'' g apiGroup resource verb lp)))"
  unfolding CanDo_def Let_def canAccess_iff rs.set_getPermissions by auto

text \<open>
  Filtering a list, with its shortcut for subjects that may see everything, keeps exactly
  the objects that filtering one by one keeps, in their order.
\<close>

theorem FilterList_pointwise:
  "FilterList a ctx objs context = filter (\<lambda>obj. Filter a ctx (Some obj) context = Some obj) objs"
proof -
  have fold_filter: "fold (\<lambda>obj result. if A then result @ [obj] else if P obj then result @ [obj] else result)
      xs acc = acc @ filter (\<lambda>obj. A \<or> P obj) xs" for A P and xs :: "api_object list" and acc
    by (induction xs arbitrary: acc) auto
  have "HasAccess ps ''*'' ''*'' \<or> canAccess (Some obj) ps \<longleftrightarrow> canAccess (Some obj) ps" for obj ps
    by (auto simp: canAccess_def Let_def)
  then have "FilterList a ctx objs context =
      (if map_str context ''resource'' = [] then objs
       else filter (\<lambda>obj. canAccess (Some obj)
         (getPermissions a ctx (map_str context ''apiGroup'') (map_str context ''resource'') ''list'')) objs)"
    by (simp add: FilterList_def Let_def fold_filter)
  then show ?thesis by (auto simp: Filter_def Let_def)
qed

definition principal_bound :: "api_context \<Rightarrow> k8s_binding \<Rightarrow> bool" where
  "principal_bound ctx b \<longleftrightarrow> bound_in ''User'' (impersonate_user ctx) b \<or>
     list_ex (\<lambda>g. bound_in ''Group'' g b) (impersonate_group ctx)"

lemma granted_by_binding:
  assumes "grants c ''User'' (impersonate_user ctx) ag res verb lp \<or>
      (\<exists>g \<in> set (impersonate_group ctx). grants c ''Group'' g ag res verb lp)"
  obtains (ns) b r where "b \<in> set (cache_rbs c)" "principal_bound ctx b"
      "rule_grants (om_namespace (rb_meta b)) ag res verb r lp"
    | (cluster) b r where "b \<in> set (cache_crbs c)" "principal_bound ctx b"
      "r \<in> set (role_rules_of c ''*'' (rb_roleRef b))" "rule_grants ''*'' ag res verb r lp"
  using assms unfolding grants_def principal_bound_def list_ex_iff by meson

text \<open>
  C9. Namespaces are isolated.  When access to an object of a namespace is allowed, one of the
  principals of the request has a role binding in that very namespace, or a cluster role binding
  whose role has a rule without resource names: a rule with resource names in a cluster role
  binding never opens an object of a namespace.
\<close>

theorem CanDo_namespace_isolation:
  assumes allowed: "CanDo (NewListPermissionStore c) apiGroup resource verb ctx (Some obj) schemaID = Inr ()"
    and ns: "json_str (Some obj) ''namespaceId'' = ns" "ns \<noteq> []"
    and wf: "\<forall>b \<in> set (cache_rbs c). om_namespace (rb_meta b) \<noteq> ''*''"
  shows "(\<exists>b \<in> set (cache_rbs c). om_namespace (rb_meta b) = ns \<and> principal_bound ctx b) \<or>
    (\<exists>b \<in> set (cache_crbs c). principal_bound ctx b \<and>
       (\<exists>r \<in> set (role_rules_of c ''*'' (rb_roleRef b)). pr_resourceNames r = []))"
proof -
  obtain lp where cov: "covers lp (Some obj)"
    and granted: "grants c ''User'' (impersonate_user ctx) apiGroup resource verb lp \<or>
      (\<exists>g \<in> set (impersonate_group ctx). grants c ''Group'' g apiGroup resource verb lp)"
    using allowed unfolding CanDo_def Let_def canAccess_iff rs.set_getPermissions
    by (auto split: if_splits)
  from granted show ?thesis
  proof (cases rule: granted_by_binding)
    case (ns b r)
    then have "lp_namespace lp = om_namespace (rb_meta b)"
      using wf by (auto simp: rule_grants_def split: if_splits)
    with cov wf ns(1) assms(2) have "om_namespace (rb_meta b) = ns"
      by (auto simp: covers_def Let_def eq_list_permission)
    with ns(1,2) show ?thesis by blast
  next
    case (cluster b r)
    have "pr_resourceNames r = []"
      using cluster(4) cov ns by (auto simp: rule_grants_def covers_def Let_def eq_list_permission split: if_splits)
    with cluster show ?thesis by blast
  qed
qed

definition cache_ex :: rbac_cache where
  "cache_ex = \<lparr>cache_clusterRoles = (\<lambda>ns n. Inl (Api NotFound)),
     cache_roles = (\<lambda>ns n. if ns = ''ns1'' \<and> n = ''viewer''
       then Inr \<lparr>role_meta = meta0, role_rules = [rule0\<lparr>pr_verbs := [''get''], pr_apiGroups := [''*''],
              pr_resources := [''pods''], pr_resourceNames := [''web'']\<rparr>]\<rparr>
       else Inl (Api NotFound)),
     cache_crbs = [],
     cache_rbs = [\<lparr>rb_meta = meta0\<lparr>om_namespace := ''ns1''\<rparr>,
       rb_subjects = [\<lparr>sub_kind = ''Group'', sub_name = ''dev''\<rparr>],
       rb_roleRef = \<lparr>ref_apiGroup = rbacGroup, ref_kind = ''Role'', ref_name = ''viewer''\<rparr>\<rparr>]\<rparr>"

definition obj_ex :: api_object where
  "obj_ex = [(''id'', JStr ''ns1:web''), (''namespaceId'', JStr ''ns1'')]"

lemma CanDo_ex:
  "CanDo (NewListPermissionStore cache_ex) ''core'' ''Pods'' ''list''
     \<lparr>impersonate_user = ''u'', impersonate_group = [''dev'']\<rparr> (Some obj_ex) ''pod'' = Inr ()"
  by code_simp

theorem CanDo_namespace_isolation_witness:
  "\<exists>b \<in> set (cache_rbs cache_ex). om_namespace (rb_meta b) = ''ns1'' \<and>
     principal_bound \<lparr>impersonate_user = ''u'', impersonate_group = [''dev'']\<rparr> b"
  using CanDo_namespace_isolation [OF CanDo_ex, of "''ns1''"]
  by (simp add: cache_ex_def obj_ex_def json_str_def meta0_def)

end
