(* ===== verification/Role_Templates.thy ===== *)
theory Role_Templates
  imports Rbac_Types
begin

text \<open>
  What the user cluster's controllers (\<open>pkg/controllers/user/rbac\<close>) and the management
  plane's controllers (\<open>pkg/controllers/management/auth\<close>) share: role templates inherit from
  each other by name, and both collect a template with everything it inherits before they write
  roles and bindings.  The recursion has no guard against a cycle, so it is a partial function:
  \<open>None\<close> is a recursion that never returns (in Go, the stack overflows).
\<close>

section \<open>Collecting inherited templates\<close>

type_synonym template_map = "(string, role_template) gomap"

text \<open>
  The loop over \<open>RoleTemplateNames\<close> with the recursive call inside.  \<open>get\<close> is the
  lister, \<open>post\<close> what the recursive call does before it returns (the user cluster's version
  cleans all rules collected so far).  The map is shared by all calls, as a Go map is.
\<close>

partial_function (option) gather_names ::
  "(template_map \<Rightarrow> template_map) \<Rightarrow> (string \<Rightarrow> role_template result) \<Rightarrow> string list \<Rightarrow> template_map
     \<Rightarrow> template_map result option" where
  "gather_names post get names m =
     (case names of
        [] \<Rightarrow> Some (Inr m)
      | rtName # rest \<Rightarrow>
          (case get rtName of
             Inl err \<Rightarrow> Some (Inl (wrap_error (''couldn't get RoleTemplate '' @ rtName) err))
           | Inr subRT \<Rightarrow>
               Option.bind (gather_names post get (rt_roleTemplateNames subRT)
                              (AList.update (rt_name subRT) subRT m))
                 (\<lambda>r. case r of
                    Inl err \<Rightarrow> Some (Inl (wrap_error (''couldn't gather RoleTemplate '' @ rtName) err))
                  | Inr m' \<Rightarrow> gather_names post get rest (post m'))))"

declare gather_names.simps [code]

text \<open>\<open>gatherRolesRecurse\<close>: the template itself, then what it inherits.\<close>

definition gatherRolesRecurse ::
  "(template_map \<Rightarrow> template_map) \<Rightarrow> (string \<Rightarrow> role_template result) \<Rightarrow> role_template \<Rightarrow> template_map
     \<Rightarrow> template_map result option" where
  "gatherRolesRecurse post get rt roleTemplates =
     gather_names post get (rt_roleTemplateNames rt) (AList.update (rt_name rt) rt roleTemplates)"

text \<open>The cleaning of the user cluster's version: lower case resources and verbs.\<close>

definition lowerRule :: "policy_rule \<Rightarrow> policy_rule" where
  "lowerRule r = r\<lparr>pr_resources := map to_lower (pr_resources r), pr_verbs := map to_lower (pr_verbs r)\<rparr>"

definition cleanTemplate :: "role_template \<Rightarrow> role_template" where
  "cleanTemplate rt = (if rt_external rt then rt else rt\<lparr>rt_rules := map lowerRule (rt_rules rt)\<rparr>)"

definition cleanRoles :: "template_map \<Rightarrow> template_map" where
  "cleanRoles m = map (\<lambda>(key, rt). (key, cleanTemplate rt)) m"

definition gatherRoles ::
  "(string \<Rightarrow> role_template result) \<Rightarrow> role_template \<Rightarrow> template_map \<Rightarrow> template_map result option" where
  "gatherRoles get rt roleTemplates =
     map_option (map_sum id cleanRoles) (gatherRolesRecurse cleanRoles get rt roleTemplates)"

text \<open>The management plane's version does not clean.\<close>

definition gatherRoleTemplates ::
  "(string \<Rightarrow> role_template result) \<Rightarrow> role_template \<Rightarrow> template_map \<Rightarrow> template_map result option" where
  "gatherRoleTemplates get rt roleTemplates = gatherRolesRecurse id get rt roleTemplates"

text \<open>In a handler, a recursion that does not return ends the process.\<close>

definition go_recursion :: "'a result option \<Rightarrow> ('r, 'a) go" where
  "go_recursion r = (case r of None \<Rightarrow> go_fail (Panic ''stack overflow'') | Some x \<Rightarrow> go_lift x)"

lemma go_recursion_Inr: "go_recursion r h = (Inr x, d) \<Longrightarrow> r = Some (Inr x) \<and> d = []"
  by (auto simp: go_recursion_def go_fail_def go_lift_def split: option.splits)

lemma issues_only_recursion [issues_intros]: "issues_only P (go_recursion r)"
  by (auto simp: go_recursion_def intro!: issues_intros split: option.splits)

section \<open>When the recursion returns, and what it returns\<close>

inductive resolvable :: "(string \<Rightarrow> role_template result) \<Rightarrow> string \<Rightarrow> bool" for get where
  resolvableI: "get n = Inr rt \<Longrightarrow> (\<And>n'. n' \<in> set (rt_roleTemplateNames rt) \<Longrightarrow> resolvable get n')
    \<Longrightarrow> resolvable get n"

inductive_cases resolvableE: "resolvable get n"

inductive inherits :: "(string \<Rightarrow> role_template result) \<Rightarrow> string list \<Rightarrow> string \<Rightarrow> bool" for get where
  inherits_here: "n \<in> set ns \<Longrightarrow> inherits get ns n"
| inherits_below: "n \<in> set ns \<Longrightarrow> get n = Inr rt \<Longrightarrow> inherits get (rt_roleTemplateNames rt) n'
    \<Longrightarrow> inherits get ns n'"

lemma inherits_Nil [simp]: "\<not> inherits get [] n"
  by (auto elim: inherits.cases)

lemma inherits_Cons:
  assumes "get n = Inr rt"
  shows "inherits get (n # ns) x \<longleftrightarrow> x = n \<or> inherits get (rt_roleTemplateNames rt) x \<or> inherits get ns x"
  (is "_ \<longleftrightarrow> ?rhs")
proof
  assume "inherits get (n # ns) x"
  then show ?rhs
    using assms by (cases rule: inherits.cases) (auto intro: inherits.intros)
next
  assume ?rhs
  moreover have "inherits get ns x \<Longrightarrow> inherits get (n # ns) x"
    by (induction rule: inherits.induct) (auto intro: inherits.intros)
  ultimately show "inherits get (n # ns) x"
    using assms by (auto intro: inherits.intros)
qed

text \<open>A call that returns without an error has resolved every name it was given.\<close>

lemma gather_names_resolvable:
  assumes "gather_names post get names m = Some r"
  shows "\<forall>m'. r = Inr m' \<longrightarrow> (\<forall>n \<in> set names. resolvable get n)"
proof (rule gather_names.raw_induct [where P = "\<lambda>post get names m r.
    \<forall>m'. r = Inr m' \<longrightarrow> (\<forall>n \<in> set names. resolvable get n)", OF _ assms])
  fix f post get names m r
  assume IH: "\<And>post get names m r. f post get names m = Some r \<Longrightarrow>
      \<forall>m'. r = Inr m' \<longrightarrow> (\<forall>n \<in> set names. resolvable get n)"
    and eq: "(case names of [] \<Rightarrow> Some (Inr m) | rtName # rest \<Rightarrow>
       (case get rtName of
          Inl err \<Rightarrow> Some (Inl (wrap_error (''couldn't get RoleTemplate '' @ rtName) err))
        | Inr subRT \<Rightarrow> Option.bind (f post get (rt_roleTemplateNames subRT) (AList.update (rt_name subRT) subRT m))
            (\<lambda>r. case r of
               Inl err \<Rightarrow> Some (Inl (wrap_error (''couldn't gather RoleTemplate '' @ rtName) err))
             | Inr m' \<Rightarrow> f post get rest (post m')))) = Some r"
  show "\<forall>m'. r = Inr m' \<longrightarrow> (\<forall>n \<in> set names. resolvable get n)"
  proof (intro allI impI)
    fix m' assume r: "r = Inr m'"
    show "\<forall>n \<in> set names. resolvable get n"
    proof (cases names)
      case (Cons n ns)
      with eq r obtain rt m1 where "get n = Inr rt"
        and "f post get (rt_roleTemplateNames rt) (AList.update (rt_name rt) rt m) = Some (Inr m1)"
        and "f post get ns (post m1) = Some (Inr m')"
        by (auto split: sum.splits bind_splits)
      with IH Cons show ?thesis by (auto intro: resolvableI)
    qed simp
  qed
qed

text \<open>A call that returns an error met a template that the lister does not have.\<close>

lemma gather_names_error:
  assumes "gather_names post get names m = Some r"
  shows "\<forall>e. r = Inl e \<longrightarrow> (\<exists>k e'. inherits get names k \<and> get k = Inl e')"
proof (rule gather_names.raw_induct [where P = "\<lambda>post get names m r.
    \<forall>e. r = Inl e \<longrightarrow> (\<exists>k e'. inherits get names k \<and> get k = Inl e')", OF _ assms])
  fix f post get names m r
  assume IH: "\<And>post get names m r. f post get names m = Some r \<Longrightarrow>
      \<forall>e. r = Inl e \<longrightarrow> (\<exists>k e'. inherits get names k \<and> get k = Inl e')"
    and eq: "(case names of [] \<Rightarrow> Some (Inr m) | rtName # rest \<Rightarrow>
       (case get rtName of
          Inl err \<Rightarrow> Some (Inl (wrap_error (''couldn't get RoleTemplate '' @ rtName) err))
        | Inr subRT \<Rightarrow> Option.bind (f post get (rt_roleTemplateNames subRT) (AList.update (rt_name subRT) subRT m))
            (\<lambda>r. case r of
               Inl err \<Rightarrow> Some (Inl (wrap_error (''couldn't gather RoleTemplate '' @ rtName) err))
             | Inr m' \<Rightarrow> f post get rest (post m')))) = Some r"
  show "\<forall>e. r = Inl e \<longrightarrow> (\<exists>k e'. inherits get names k \<and> get k = Inl e')"
  proof (intro allI impI)
    fix e assume r: "r = Inl e"
    with eq obtain n ns where names: "names = n # ns" by (cases names) auto
    show "\<exists>k e'. inherits get names k \<and> get k = Inl e'"
    proof (cases "get n")
      case (Inl err)
      moreover have "inherits get names n" by (simp add: names inherits_here)
      ultimately show ?thesis by blast
    next
      case (Inr rt)
      with eq r names IH have "(\<exists>k e'. inherits get (rt_roleTemplateNames rt) k \<and> get k = Inl e') \<or>
          (\<exists>k e'. inherits get ns k \<and> get k = Inl e')"
        by (fastforce split: sum.splits bind_splits)
      with names Inr show ?thesis by (auto simp: inherits_Cons)
    qed
  qed
qed

text \<open>
  What \<open>post\<close> may do between two templates: nothing to the keys, and nothing to the
  normal form of the templates.
\<close>

lemma lowerRule_idem [simp]: "lowerRule (lowerRule r) = lowerRule r"
  by (simp add: lowerRule_def comp_def)

lemma cleanTemplate_idem [simp]: "cleanTemplate (cleanTemplate rt) = cleanTemplate rt"
  by (simp add: cleanTemplate_def comp_def)

lemma rt_external_cleanTemplate [simp]: "rt_external (cleanTemplate rt) = rt_external rt"
  and rt_meta_cleanTemplate [simp]: "rt_meta (cleanTemplate rt) = rt_meta rt"
  by (simp_all add: cleanTemplate_def)

lemma map_fst_cleanRoles [simp]: "map fst (cleanRoles m) = map fst m"
  by (auto simp: cleanRoles_def)

lemma map_of_cleanRoles: "map_of (cleanRoles m) k = map_option cleanTemplate (map_of m k)"
  by (simp add: cleanRoles_def map_of_map)

locale gathering =
  fixes post :: "template_map \<Rightarrow> template_map"
    and norm :: "role_template \<Rightarrow> role_template"
  assumes keys_post: "map fst (post m) = map fst m"
    and norm_post: "map_option norm (map_of (post m) k) = map_option norm (map_of m k)"
begin

lemma wf_post: "wf_map (post m) = wf_map m"
  by (simp add: wf_map_def keys_post)

text \<open>The loop body returns for one template when the loop over its children does.\<close>

lemma gather_names_loop:
  assumes name: "\<And>n rt. get n = Inr rt \<Longrightarrow> rt_name rt = n"
    and step: "\<And>n. n \<in> set names \<Longrightarrow> \<exists>rt. get n = Inr rt \<and>
      (\<forall>m. \<exists>m'. gather_names post get (rt_roleTemplateNames rt) m = Some (Inr m') \<and> (wf_map m \<longrightarrow> wf_map m') \<and>
        (\<forall>k. map_option norm (map_of m' k) = (if inherits get (rt_roleTemplateNames rt) k
           then Some (norm (projr (get k))) else map_option norm (map_of m k))))"
  shows "\<exists>m'. gather_names post get names m = Some (Inr m') \<and> (wf_map m \<longrightarrow> wf_map m') \<and>
    (\<forall>k. map_option norm (map_of m' k) = (if inherits get names k
       then Some (norm (projr (get k))) else map_option norm (map_of m k)))"
  using step
proof (induction names arbitrary: m)
  case Nil
  show ?case by (subst gather_names.simps) simp
next
  case (Cons n ns)
  obtain rt where rt: "get n = Inr rt" and below: "\<forall>m. \<exists>m'. gather_names post get (rt_roleTemplateNames rt) m = Some (Inr m')
        \<and> (wf_map m \<longrightarrow> wf_map m') \<and>
        (\<forall>k. map_option norm (map_of m' k) = (if inherits get (rt_roleTemplateNames rt) k
           then Some (norm (projr (get k))) else map_option norm (map_of m k)))"
    using Cons.prems [of n] by auto
  define m0 where "m0 = AList.update (rt_name rt) rt m"
  obtain m1 where m1: "gather_names post get (rt_roleTemplateNames rt) m0 = Some (Inr m1)" "wf_map m0 \<longrightarrow> wf_map m1"
    "\<forall>k. map_option norm (map_of m1 k) = (if inherits get (rt_roleTemplateNames rt) k
           then Some (norm (projr (get k))) else map_option norm (map_of m0 k))"
    using below by blast
  obtain m2 where m2: "gather_names post get ns (post m1) = Some (Inr m2)" "wf_map (post m1) \<longrightarrow> wf_map m2"
    "\<forall>k. map_option norm (map_of m2 k) = (if inherits get ns k
           then Some (norm (projr (get k))) else map_option norm (map_of (post m1) k))"
    using Cons.IH [of "post m1"] Cons.prems by auto
  have "gather_names post get (n # ns) m = Some (Inr m2)"
    by (subst gather_names.simps) (simp add: rt m1(1) [unfolded m0_def] m2(1))
  moreover have "wf_map m \<longrightarrow> wf_map m2"
    using m1(2) m2(2) by (simp add: m0_def wf_post)
  moreover have "map_option norm (map_of m0 k) =
      (if k = n then Some (norm rt) else map_option norm (map_of m k))" for k
    using name [OF rt] by (simp add: m0_def update_conv')
  ultimately show ?case
    using m1(3) m2(3) rt by (auto simp: inherits_Cons norm_post)
qed

lemma gather_names_total:
  assumes name: "\<And>n rt. get n = Inr rt \<Longrightarrow> rt_name rt = n"
    and res: "\<And>n. n \<in> set names \<Longrightarrow> resolvable get n"
  shows "\<exists>m'. gather_names post get names m = Some (Inr m') \<and> (wf_map m \<longrightarrow> wf_map m') \<and>
    (\<forall>k. map_option norm (map_of m' k) = (if inherits get names k
       then Some (norm (projr (get k))) else map_option norm (map_of m k)))"
proof (rule gather_names_loop [OF name])
  fix n assume "n \<in> set names"
  then have "resolvable get n" by (rule res)
  then show "\<exists>rt. get n = Inr rt \<and>
      (\<forall>m. \<exists>m'. gather_names post get (rt_roleTemplateNames rt) m = Some (Inr m') \<and> (wf_map m \<longrightarrow> wf_map m') \<and>
        (\<forall>k. map_option norm (map_of m' k) = (if inherits get (rt_roleTemplateNames rt) k
           then Some (norm (projr (get k))) else map_option norm (map_of m k))))"
  proof (induction rule: resolvable.induct)
    case (resolvableI n rt)
    have "\<exists>m'. gather_names post get (rt_roleTemplateNames rt) m = Some (Inr m') \<and> (wf_map m \<longrightarrow> wf_map m') \<and>
        (\<forall>k. map_option norm (map_of m' k) = (if inherits get (rt_roleTemplateNames rt) k
           then Some (norm (projr (get k))) else map_option norm (map_of m k)))" for m
      by (rule gather_names_loop [OF name]) (assumption, rule resolvableI.IH)
    with resolvableI.hyps(1) show ?case by blast
  qed
qed (assumption)

end

interpretation user_gather: gathering cleanRoles cleanTemplate
  by unfold_locales (simp_all add: map_of_cleanRoles option.map_comp comp_def)

interpretation mgmt_gather: gathering id id
  by unfold_locales simp_all

section \<open>Properties\<close>

lemma map_sum_id_Inr: "map_sum id f z = Inr y \<longleftrightarrow> (\<exists>x. z = Inr x \<and> y = f x)"
  by (cases z) auto

lemma gatherRoles_Inr:
  "gatherRoles get rt m = Some (Inr m') \<longleftrightarrow>
     (\<exists>m1. gather_names cleanRoles get (rt_roleTemplateNames rt) (AList.update (rt_name rt) rt m) = Some (Inr m1) \<and>
        m' = cleanRoles m1)"
  by (auto simp: gatherRoles_def gatherRolesRecurse_def map_sum_id_Inr)

lemma resolvable_acyclic:
  assumes "resolvable get n" shows "get n = Inr rt \<longrightarrow> \<not> inherits get (rt_roleTemplateNames rt) n"
proof -
  have trans: "inherits get ns b \<Longrightarrow> get b = Inr rb \<Longrightarrow> inherits get (rt_roleTemplateNames rb) c \<Longrightarrow> inherits get ns c"
    for ns b rb c
    by (induction rule: inherits.induct) (auto intro: inherits.intros)
  have step: "inherits get (rt_roleTemplateNames rn) n \<Longrightarrow> \<exists>n' \<in> set (rt_roleTemplateNames rn).
      n' = n \<or> (\<exists>r'. get n' = Inr r' \<and> inherits get (rt_roleTemplateNames r') n)" for rn n
    by (erule inherits.cases) auto
  show ?thesis using assms
  proof (induction arbitrary: rt rule: resolvable.induct)
    case (resolvableI n rt0)
    show ?case
    proof (intro impI notI)
      assume get: "get n = Inr rt" and cyc: "inherits get (rt_roleTemplateNames rt) n"
      then obtain n' where n': "n' \<in> set (rt_roleTemplateNames rt)"
        "n' = n \<or> (\<exists>r'. get n' = Inr r' \<and> inherits get (rt_roleTemplateNames r') n)"
        using step by blast
      with get resolvableI.hyps(1) resolvableI.IH [of n' rt] cyc show False
        by (metis (no_types, lifting) resolvableI.IH inherits_here sum.inject(2) trans)
    qed
  qed
qed

lemma gatherRoles_total:
  assumes "\<And>n rt. get n = Inr rt \<Longrightarrow> rt_name rt = n"
    and "\<And>n. n \<in> set (rt_roleTemplateNames rt) \<Longrightarrow> resolvable get n"
  shows "\<exists>m. gatherRoles get rt [] = Some (Inr m) \<and> wf_map m \<and>
    map_of m = (\<lambda>k. if inherits get (rt_roleTemplateNames rt) k then Some (cleanTemplate (projr (get k)))
                  else if k = rt_name rt then Some (cleanTemplate rt) else None)"
proof -
  define m0 where "m0 = AList.update (rt_name rt) rt []"
  obtain m1 where m1: "gather_names cleanRoles get (rt_roleTemplateNames rt) m0 = Some (Inr m1)"
    "wf_map m0 \<longrightarrow> wf_map m1" "\<forall>k. map_option cleanTemplate (map_of m1 k) =
      (if inherits get (rt_roleTemplateNames rt) k then Some (cleanTemplate (projr (get k)))
       else map_option cleanTemplate (map_of m0 k))"
    using user_gather.gather_names_total [of get "rt_roleTemplateNames rt" m0] assms by blast
  have "gatherRoles get rt [] = Some (Inr (cleanRoles m1))"
    using m1(1) by (simp add: gatherRoles_Inr m0_def)
  moreover have "wf_map (cleanRoles m1)"
    using m1(2) by (simp add: m0_def wf_map_def)
  ultimately show ?thesis
    using m1(3) by (auto simp: map_of_cleanRoles m0_def fun_eq_iff)
qed

corollary gatherRoles_returns:
  assumes "\<And>n rt. get n = Inr rt \<Longrightarrow> rt_name rt = n" and "\<And>n. n \<in> set (rt_roleTemplateNames rt) \<Longrightarrow> resolvable get n"
  shows "\<exists>m. gatherRoles get rt [] = Some (Inr m)"
  using gatherRoles_total [of get rt, OF assms] by blast

text \<open>The templates a template stands for: itself and everything it inherits.\<close>

definition template_of :: "(string \<Rightarrow> role_template result) \<Rightarrow> role_template \<Rightarrow> string \<Rightarrow> bool" where
  "template_of get rt n \<longleftrightarrow> n = rt_name rt \<or> inherits get (rt_roleTemplateNames rt) n"

lemma inherits_resolvable:
  "inherits get ns k \<Longrightarrow> (\<And>n. n \<in> set ns \<Longrightarrow> resolvable get n) \<Longrightarrow> \<exists>rt. get k = Inr rt"
proof (induction rule: inherits.induct)
  case (inherits_below n ns rt n')
  then have "resolvable get n" by blast
  with inherits_below show ?case by (metis resolvable.cases sum.inject(2))
qed (metis resolvable.cases)

lemma gatherRoles_result:
  assumes name: "\<And>n rt. get n = Inr rt \<Longrightarrow> rt_name rt = n" and run: "gatherRoles get rt [] = Some (Inr m)"
  shows "wf_map m" and "fst ` set m = Collect (template_of get rt)" and "(k, t) \<in> set m \<Longrightarrow> rt_name t = k"
proof -
  have res: "resolvable get n" if "n \<in> set (rt_roleTemplateNames rt)" for n
    using run gather_names_resolvable that unfolding gatherRoles_Inr by metis
  note total = gatherRoles_total [of get rt, OF name res]
  from total run show wf: "wf_map m" by simp
  from total run have m: "map_of m = (\<lambda>k. if inherits get (rt_roleTemplateNames rt) k
      then Some (cleanTemplate (projr (get k))) else if k = rt_name rt then Some (cleanTemplate rt) else None)" by simp
  have "dom (map_of m) = Collect (template_of get rt)"
    unfolding m by (auto simp: template_of_def split: if_splits)
  then show "fst ` set m = Collect (template_of get rt)" by (simp add: dom_map_of_conv_image_fst)
  assume "(k, t) \<in> set m"
  then have kt: "map_of m k = Some t" using wf by (simp add: wf_map_def)
  show "rt_name t = k"
  proof (cases "inherits get (rt_roleTemplateNames rt) k")
    case True
    with res obtain r where "get k = Inr r" using inherits_resolvable by metis
    with kt True name show ?thesis by (auto simp: m)
  next
    case False
    with kt show ?thesis by (auto simp: m split: if_splits)
  qed
qed

text \<open>The management cluster's controllers leave the templates as they are.\<close>

lemma gatherRoleTemplates_result:
  assumes name: "\<And>n rt. get n = Inr rt \<Longrightarrow> rt_name rt = n" and top: "get (rt_name rt) = Inr rt"
    and run: "gatherRoleTemplates get rt [] = Some (Inr m)"
  shows "wf_map m" and "(k, t) \<in> set m \<longleftrightarrow> template_of get rt k \<and> get k = Inr t"
proof -
  define m0 where "m0 = AList.update (rt_name rt) rt []"
  have run0: "gather_names id get (rt_roleTemplateNames rt) m0 = Some (Inr m)"
    using run by (simp add: gatherRoleTemplates_def gatherRolesRecurse_def m0_def)
  have res: "resolvable get n" if "n \<in> set (rt_roleTemplateNames rt)" for n
    using run0 gather_names_resolvable that by metis
  have wf: "wf_map m0" by (simp add: m0_def wf_map_def)
  have total: "wf_map m \<and> (\<forall>k. map_of m k = (if inherits get (rt_roleTemplateNames rt) k
      then Some (projr (get k)) else map_of m0 k))"
    using mgmt_gather.gather_names_total [of get "rt_roleTemplateNames rt" m0, OF name res] run0 wf
    by (simp add: option.map_id0 option.map_id)
  then show wfm: "wf_map m" by simp
  have "(k, t) \<in> set m \<longleftrightarrow> map_of m k = Some t" using wfm by (simp add: wf_map_def)
  also have "\<dots> \<longleftrightarrow> template_of get rt k \<and> get k = Inr t"
  proof (cases "inherits get (rt_roleTemplateNames rt) k")
    case True
    with res obtain r where "get k = Inr r" using inherits_resolvable by metis
    with True total show ?thesis by (simp add: template_of_def)
  next
    case False
    with total top show ?thesis by (auto simp: template_of_def m0_def)
  qed
  finally show "(k, t) \<in> set m \<longleftrightarrow> template_of get rt k \<and> get k = Inr t" .
qed

text \<open>
  C22. Collecting the roles of a template gives exactly the template and everything it inherits,
  directly or through other templates, each once under its own name, with resources and verbs in
  lower case unless the template is external.
\<close>

theorem gatherRoles_correct:
  assumes "\<And>n rt. get n = Inr rt \<Longrightarrow> rt_name rt = n"
    and "\<And>n. n \<in> set (rt_roleTemplateNames rt) \<Longrightarrow> resolvable get n"
  shows "\<exists>m. gatherRoles get rt [] = Some (Inr m) \<and> wf_map m \<and>
    map_of m = (\<lambda>k. if inherits get (rt_roleTemplateNames rt) k then Some (cleanTemplate (projr (get k)))
                  else if k = rt_name rt then Some (cleanTemplate rt) else None)"
  using assms by (rule gatherRoles_total)

definition template_ex :: "string \<Rightarrow> string list \<Rightarrow> role_template" where
  "template_ex n ns = \<lparr>rt_meta = meta0\<lparr>om_name := n\<rparr>, rt_displayName = n, rt_description = [],
     rt_rules = [rule0\<lparr>pr_verbs := [''GET''], pr_resources := [''Pods'']\<rparr>],
     rt_builtin = False, rt_external = False, rt_hidden = False, rt_context = ''project'',
     rt_roleTemplateNames = ns\<rparr>"

definition lister_ex :: "string \<Rightarrow> role_template result" where
  "lister_ex n = (if n = ''view'' then Inr (template_ex ''view'' [])
     else if n = ''edit'' then Inr (template_ex ''edit'' [''view''])
     else if n = ''loop'' then Inr (template_ex ''loop'' [''loop'']) else Inl (Api NotFound))"

lemma template_ex_simps [simp]:
  "rt_name (template_ex n ns) = n" "rt_roleTemplateNames (template_ex n ns) = ns"
  by (simp_all add: template_ex_def)

lemma lister_ex_simps [simp]:
  "lister_ex ''view'' = Inr (template_ex ''view'' [])"
  "lister_ex ''edit'' = Inr (template_ex ''edit'' [''view''])"
  "lister_ex ''loop'' = Inr (template_ex ''loop'' [''loop''])"
  by (simp_all add: lister_ex_def)

lemma lister_ex_name: "lister_ex n = Inr rt \<Longrightarrow> rt_name rt = n"
  by (auto simp: lister_ex_def split: if_splits)

lemma resolvable_ex: "resolvable lister_ex ''view''" "resolvable lister_ex ''edit''"
proof -
  show view: "resolvable lister_ex ''view''"
    by (rule resolvableI [where rt = "template_ex ''view'' []"]) simp_all
  show "resolvable lister_ex ''edit''"
    by (rule resolvableI [where rt = "template_ex ''edit'' [''view'']"]) (simp_all add: view)
qed

lemma inherits_ex: "inherits lister_ex [''edit''] ''view''"
  by (rule inherits_below [where n = "''edit''" and rt = "template_ex ''edit'' [''view'']"]) (simp_all add: inherits_here)

theorem gatherRoles_correct_witness:
  "\<exists>m. gatherRoles lister_ex (template_ex ''owner'' [''edit'']) [] = Some (Inr m) \<and>
     map_of m ''view'' = Some (cleanTemplate (template_ex ''view'' []))"
proof -
  have "\<exists>m. gatherRoles lister_ex (template_ex ''owner'' [''edit'']) [] = Some (Inr m) \<and> wf_map m \<and>
    map_of m = (\<lambda>k. if inherits lister_ex (rt_roleTemplateNames (template_ex ''owner'' [''edit''])) k
                  then Some (cleanTemplate (projr (lister_ex k)))
                  else if k = rt_name (template_ex ''owner'' [''edit'']) then Some (cleanTemplate (template_ex ''owner'' [''edit'']))
                  else None)"
    by (rule gatherRoles_correct [OF lister_ex_name]) (auto simp: resolvable_ex)
  then show ?thesis by (elim exE conjE) (simp add: inherits_ex)
qed

text \<open>
  C23. The recursion returns without an error if and only if every inherited name resolves, all
  the way down, to a template: a missing template is an error and a cycle never returns.
\<close>

theorem gatherRoles_returns_iff:
  assumes "\<And>n rt. get n = Inr rt \<Longrightarrow> rt_name rt = n"
  shows "(\<exists>m'. gatherRoles get rt m = Some (Inr m')) \<longleftrightarrow>
    (\<forall>n \<in> set (rt_roleTemplateNames rt). resolvable get n)"
  using user_gather.gather_names_total [of get "rt_roleTemplateNames rt"] assms gather_names_resolvable
  by (metis (no_types, lifting) gatherRoles_Inr)

theorem gatherRoles_returns_iff_witness:
  "\<exists>m'. gatherRoles lister_ex (template_ex ''owner'' [''edit'']) [] = Some (Inr m')"
  using gatherRoles_returns_iff [of lister_ex "template_ex ''owner'' [''edit'']" "[]", OF lister_ex_name]
  by (simp add: resolvable_ex)

text \<open>
  A cycle makes the recursion run forever.  If every template that is inherited exists and one
  of them inherits itself, collecting the roles does not return: there is no guard in the code.
\<close>

theorem gatherRoles_cycle_diverges:
  assumes exist: "\<And>k. inherits get (rt_roleTemplateNames rt) k \<Longrightarrow> \<exists>r. get k = Inr r"
    and cycle: "n \<in> set (rt_roleTemplateNames rt)" "get n = Inr rn" "inherits get (rt_roleTemplateNames rn) n"
  shows "gatherRoles get rt m = None"
proof (rule ccontr)
  assume "gatherRoles get rt m \<noteq> None"
  then obtain r where r: "gather_names cleanRoles get (rt_roleTemplateNames rt) (AList.update (rt_name rt) rt m) = Some r"
    by (auto simp: gatherRoles_def gatherRolesRecurse_def)
  show False
  proof (cases r)
    case (Inl e)
    with gather_names_error [OF r] exist show False by (metis sum.simps(4))
  next
    case (Inr m')
    with gather_names_resolvable [OF r] cycle(1) have "resolvable get n" by blast
    with resolvable_acyclic [OF this] cycle(2,3) show False by blast
  qed
qed

theorem gatherRoles_cycle_diverges_witness:
  "gatherRoles lister_ex (template_ex ''owner'' [''loop'']) [] = None"
proof (rule gatherRoles_cycle_diverges [where n = "''loop''" and rn = "template_ex ''loop'' [''loop'']"])
  fix k assume "inherits lister_ex (rt_roleTemplateNames (template_ex ''owner'' [''loop''])) k"
  then have "inherits lister_ex [''loop''] k" by simp
  then have "k = ''loop''"
    by (induction "[''loop'']" k rule: inherits.induct) auto
  then show "\<exists>r. lister_ex k = Inr r" by simp
qed (simp_all add: inherits_here)

end
