(* ===== verification/Conditions.thy ===== *)
theory Conditions
  imports Rbac_Types
begin

text \<open>
  Conditions of an object's status, as \<open>vendor/github.com/rancher/norman/condition\<close> keeps
  them, the two objects of the management API that carry them here, clusters and projects, and two
  more objects that the controllers share.
  \<open>now\<close> is the formatted time of the call, \<open>msg\<close> the text of an error
  (\<open>err.Error()\<close>).  None of the callbacks of the modelled handlers returns a
  \<open>ForgetError\<close>, so that branch of \<open>doInternal\<close> is left out.
\<close>

section \<open>Conditions\<close>

record condition =
  cond_type :: string
  cond_status :: string
  cond_lastUpdate :: string
  cond_reason :: string
  cond_message :: string

definition findCond :: "condition list \<Rightarrow> string \<Rightarrow> condition option" where
  "findCond cs name = find (\<lambda>c. cond_type c = name) cs"

text \<open>
  \<open>findOrCreateCond\<close> returns a reference into the slice, which the caller writes through:
  here the write is an argument.
\<close>

fun modCond :: "string \<Rightarrow> (condition \<Rightarrow> condition) \<Rightarrow> condition list \<Rightarrow> condition list" where
  "modCond name f [] =
     [f \<lparr>cond_type = name, cond_status = ''Unknown'', cond_lastUpdate = [], cond_reason = [], cond_message = []\<rparr>]"
| "modCond name f (c # cs) = (if cond_type c = name then f c # cs else c # modCond name f cs)"

definition getCondStatus :: "string \<Rightarrow> condition list \<Rightarrow> string" where
  "getCondStatus name cs = (case findCond cs name of None \<Rightarrow> [] | Some c \<Rightarrow> cond_status c)"

definition getCondTS :: "string \<Rightarrow> condition list \<Rightarrow> string" where
  "getCondTS name cs = (case findCond cs name of None \<Rightarrow> [] | Some c \<Rightarrow> cond_lastUpdate c)"

definition getCondReason :: "string \<Rightarrow> condition list \<Rightarrow> string" where
  "getCondReason name cs = (case findCond cs name of None \<Rightarrow> [] | Some c \<Rightarrow> cond_reason c)"

definition getCondMessage :: "string \<Rightarrow> condition list \<Rightarrow> string" where
  "getCondMessage name cs = (case findCond cs name of None \<Rightarrow> [] | Some c \<Rightarrow> cond_message c)"

definition setCondStatus :: "string \<Rightarrow> string \<Rightarrow> string \<Rightarrow> condition list \<Rightarrow> condition list" where
  "setCondStatus now name v = modCond name (\<lambda>c.
     if cond_status c = v then c else c\<lparr>cond_status := v, cond_lastUpdate := now\<rparr>)"

definition setCondMessage :: "string \<Rightarrow> string \<Rightarrow> string \<Rightarrow> condition list \<Rightarrow> condition list" where
  "setCondMessage now name v = modCond name (\<lambda>c.
     if cond_message c = v then c else c\<lparr>cond_message := v, cond_lastUpdate := now\<rparr>)"

definition setCondReasonTouch :: "string \<Rightarrow> string \<Rightarrow> string \<Rightarrow> condition list \<Rightarrow> condition list" where
  "setCondReasonTouch now name v = modCond name (\<lambda>c.
     if cond_reason c = v then c else c\<lparr>cond_reason := v, cond_lastUpdate := now\<rparr>)"

text \<open>\<open>Cond.Reason\<close> writes the field without touching the time stamp.\<close>

definition setCondReason :: "string \<Rightarrow> string \<Rightarrow> condition list \<Rightarrow> condition list" where
  "setCondReason name v = modCond name (\<lambda>c. c\<lparr>cond_reason := v\<rparr>)"

definition setCondTS :: "string \<Rightarrow> string \<Rightarrow> condition list \<Rightarrow> condition list" where
  "setCondTS name ts = modCond name (\<lambda>c. c\<lparr>cond_lastUpdate := ts\<rparr>)"

definition condIsTrue :: "string \<Rightarrow> condition list \<Rightarrow> bool" where
  "condIsTrue name cs \<longleftrightarrow> getCondStatus name cs = ''True''"

definition condIsFalse :: "string \<Rightarrow> condition list \<Rightarrow> bool" where
  "condIsFalse name cs \<longleftrightarrow> getCondStatus name cs = ''False''"

definition reasonAndMessageFromError ::
  "(go_error \<Rightarrow> string) \<Rightarrow> string \<Rightarrow> string \<Rightarrow> go_error \<Rightarrow> condition list \<Rightarrow> condition list" where
  "reasonAndMessageFromError msg now name err cs =
     (if err = Api Conflict then cs
      else setCondReasonTouch now name (case err of CondError reason e \<Rightarrow> reason | _ \<Rightarrow> ''Error'')
             (setCondMessage now name (msg err) cs))"

text \<open>
  What \<open>doInternal\<close> does to the conditions before the callback runs, and after it has
  answered with an error or none; then \<open>do\<close> restores the time stamp when nothing else changed.
\<close>

definition condBefore :: "string \<Rightarrow> string \<Rightarrow> condition list \<Rightarrow> condition list" where
  "condBefore now name cs = (if condIsFalse name cs then cs else setCondStatus now name ''Unknown'' cs)"

definition condAfter ::
  "(go_error \<Rightarrow> string) \<Rightarrow> string \<Rightarrow> string \<Rightarrow> go_error option \<Rightarrow> condition list \<Rightarrow> condition list" where
  "condAfter msg now name err cs = (case err of
       Some e \<Rightarrow> reasonAndMessageFromError msg now name e (setCondStatus now name ''False'' cs)
     | None \<Rightarrow> setCondMessage now name [] (setCondReason name [] (setCondStatus now name ''True'' cs)))"

definition condRestore :: "string \<Rightarrow> condition list \<Rightarrow> condition list \<Rightarrow> condition list" where
  "condRestore name old cs =
     (if getCondStatus name old = getCondStatus name cs \<and> getCondReason name old = getCondReason name cs \<and>
         getCondMessage name old = getCondMessage name cs
      then setCondTS name (getCondTS name old) cs else cs)"

text \<open>
  \<open>Cond.do\<close> and \<open>Cond.DoUntilTrue\<close> on an object whose conditions \<open>upd\<close> maps.
  The callback gets the object as \<open>doInternal\<close> has marked it and answers with an object
  (or nil) and an error (or nil).
\<close>

type_synonym ('r, 'o) cond_callback = "'o \<Rightarrow> ('r, 'o option \<times> go_error option) go"

definition condDo ::
  "(go_error \<Rightarrow> string) \<Rightarrow> string \<Rightarrow> ('o \<Rightarrow> condition list) \<Rightarrow> ((condition list \<Rightarrow> condition list) \<Rightarrow> 'o \<Rightarrow> 'o)
     \<Rightarrow> string \<Rightarrow> 'o \<Rightarrow> ('r, 'o) cond_callback \<Rightarrow> ('r, 'o \<times> go_error option) go" where
  "condDo msg now get upd name obj f =
     (let marked = upd (condBefore now name) obj in
      go_bind (f marked) (\<lambda>(newObj, err).
        let obj1 = (case newObj of Some o' \<Rightarrow> o' | None \<Rightarrow> marked);
            obj2 = upd (condAfter msg now name err) obj1
        in go_return (upd (condRestore name (get obj)) obj2, err)))"

definition condDoUntilTrue ::
  "(go_error \<Rightarrow> string) \<Rightarrow> string \<Rightarrow> ('o \<Rightarrow> condition list) \<Rightarrow> ((condition list \<Rightarrow> condition list) \<Rightarrow> 'o \<Rightarrow> 'o)
     \<Rightarrow> string \<Rightarrow> 'o \<Rightarrow> ('r, 'o) cond_callback \<Rightarrow> ('r, 'o \<times> go_error option) go" where
  "condDoUntilTrue msg now get upd name obj f =
     (if condIsTrue name (get obj) then go_return (obj, None) else condDo msg now get upd name obj f)"

section \<open>Objects\<close>

record namespace =
  ns_meta :: object_meta
  ns_phase :: string

abbreviation ns_name :: "namespace \<Rightarrow> string" where
  "ns_name n \<equiv> om_name (ns_meta n)"

abbreviation ns_annotations :: "namespace \<Rightarrow> (string, string) gomap" where
  "ns_annotations n \<equiv> om_annotations (ns_meta n)"

record global_role_binding =
  grb_meta :: object_meta
  grb_userName :: string
  grb_globalRoleName :: string

record cluster =
  cl_meta :: object_meta
  cl_conditions :: "condition list"

record project =
  pj_meta :: object_meta
  pj_displayName :: string
  pj_description :: string
  pj_clusterName :: string
  pj_conditions :: "condition list"

abbreviation cl_name :: "cluster \<Rightarrow> string" where
  "cl_name c \<equiv> om_name (cl_meta c)"

abbreviation pj_name :: "project \<Rightarrow> string" where
  "pj_name p \<equiv> om_name (pj_meta p)"

abbreviation clusterDoUntilTrue where
  "clusterDoUntilTrue msg now \<equiv> condDoUntilTrue msg now cl_conditions cl_conditions_update"

abbreviation projectDoUntilTrue where
  "projectDoUntilTrue msg now \<equiv> condDoUntilTrue msg now pj_conditions pj_conditions_update"

section \<open>What the operations do\<close>

lemma findCond_Nil [simp]: "findCond [] n = None"
  and findCond_Cons [simp]: "findCond (c # cs) n = (if cond_type c = n then Some c else findCond cs n)"
  by (simp_all add: findCond_def)

lemma findCond_type: "findCond cs n = Some c \<Longrightarrow> cond_type c = n"
  by (induction cs) (auto split: if_splits)

abbreviation newCond :: "string \<Rightarrow> condition" where
  "newCond n \<equiv> \<lparr>cond_type = n, cond_status = ''Unknown'', cond_lastUpdate = [], cond_reason = [], cond_message = []\<rparr>"

lemma findCond_modCond:
  assumes "\<And>c. cond_type (f c) = cond_type c"
  shows "findCond (modCond name f cs) n =
    (if n = name then Some (f (case findCond cs name of Some c \<Rightarrow> c | None \<Rightarrow> newCond name)) else findCond cs n)"
  by (induction cs) (auto simp: assms)

lemmas cond_setter_defs = setCondStatus_def setCondMessage_def setCondReasonTouch_def setCondReason_def setCondTS_def
lemmas cond_getter_defs = getCondStatus_def getCondTS_def getCondReason_def getCondMessage_def

lemma findCond_setters [simp]:
  "findCond (setCondStatus now name v cs) n = (if n = name then Some ((\<lambda>c. if cond_status c = v then c
     else c\<lparr>cond_status := v, cond_lastUpdate := now\<rparr>) (case findCond cs name of Some c \<Rightarrow> c | None \<Rightarrow> newCond name))
     else findCond cs n)"
  "findCond (setCondMessage now name v cs) n = (if n = name then Some ((\<lambda>c. if cond_message c = v then c
     else c\<lparr>cond_message := v, cond_lastUpdate := now\<rparr>) (case findCond cs name of Some c \<Rightarrow> c | None \<Rightarrow> newCond name))
     else findCond cs n)"
  "findCond (setCondReasonTouch now name v cs) n = (if n = name then Some ((\<lambda>c. if cond_reason c = v then c
     else c\<lparr>cond_reason := v, cond_lastUpdate := now\<rparr>) (case findCond cs name of Some c \<Rightarrow> c | None \<Rightarrow> newCond name))
     else findCond cs n)"
  "findCond (setCondReason name v cs) n = (if n = name then Some ((\<lambda>c. c\<lparr>cond_reason := v\<rparr>)
     (case findCond cs name of Some c \<Rightarrow> c | None \<Rightarrow> newCond name)) else findCond cs n)"
  "findCond (setCondTS name v cs) n = (if n = name then Some ((\<lambda>c. c\<lparr>cond_lastUpdate := v\<rparr>)
     (case findCond cs name of Some c \<Rightarrow> c | None \<Rightarrow> newCond name)) else findCond cs n)"
  unfolding cond_setter_defs by (subst findCond_modCond; simp)+

text \<open>Every operation leaves the conditions of other types alone.\<close>

lemma findCond_condBefore_other: "n \<noteq> name \<Longrightarrow> findCond (condBefore now name cs) n = findCond cs n"
  and findCond_condAfter_other: "n \<noteq> name \<Longrightarrow> findCond (condAfter msg now name err cs) n = findCond cs n"
  and findCond_condRestore_other: "n \<noteq> name \<Longrightarrow> findCond (condRestore name old cs) n = findCond cs n"
  by (simp_all add: condBefore_def condAfter_def condRestore_def reasonAndMessageFromError_def split: option.splits)

text \<open>The outcome of a callback decides the status.\<close>

lemma getCondStatus_condAfter:
  "getCondStatus name (condAfter msg now name err cs) = (if err = None then ''True'' else ''False'')"
  by (cases "findCond cs name")
    (simp_all add: condAfter_def reasonAndMessageFromError_def getCondStatus_def split: option.splits)

lemma getCondStatus_condRestore [simp]:
  "getCondStatus name (condRestore name old cs) = getCondStatus name cs \<or> findCond cs name = None"
  by (cases "findCond cs name") (simp_all add: condRestore_def getCondStatus_def)

lemma condIsTrue_after:
  "condIsTrue name (condRestore name old (condAfter msg now name err cs)) \<longleftrightarrow> err = None"
proof -
  have "findCond (condAfter msg now name err cs) name \<noteq> None"
    by (simp add: condAfter_def reasonAndMessageFromError_def split: option.splits)
  then show ?thesis
    using getCondStatus_condRestore [of name old "condAfter msg now name err cs"]
    by (auto simp: condIsTrue_def getCondStatus_condAfter split: if_splits)
qed

end
