(* ===== verification/Binding_Diff.thy ===== *)
theory Binding_Diff
  imports Rbac_Types
begin

text \<open>
  The comparison of the bindings that exist with those that should, which the user cluster's and
  the management cluster's controllers both make before they create and delete: an existing
  object without a usable key, or with a key that is not desired, is marked for deletion; one with
  a desired key is kept and its key is struck from the desired ones, so that a second object with
  the same key is a duplicate and is marked.  The contract of one step is the locale's assumption;
  what a whole run decides is proved from it once.
\<close>

text \<open>The loop's state: the desired objects left, the names to delete, the names seen.\<close>

type_synonym 'b diff_state = "(string, 'b) gomap \<times> string list \<times> string list"

lemma delete_as_filter: "AList.delete k D = filter (\<lambda>x. fst x \<noteq> k) D"
  by (auto simp: AList.delete_eq intro!: filter_cong)

lemma disjoint_absorb: "A \<union> B = A \<Longrightarrow> A \<inter> B = {} \<Longrightarrow> B = {}"
  by blast

locale binding_diff =
  fixes key :: "'c \<Rightarrow> string option"
    and nm :: "'c \<Rightarrow> string"
    and step :: "'c \<Rightarrow> 'b diff_state \<Rightarrow> 'b diff_state"
  assumes step_eq: "step c (D, X, P) =
    (if nm c \<in> set P then (D, X, P)
     else case key c of
         None \<Rightarrow> (D, set_add (nm c) X, set_add (nm c) P)
       | Some k \<Rightarrow> (if has_key D k then (AList.delete k D, X, set_add (nm c) P)
                   else (D, set_add (nm c) X, set_add (nm c) P)))"
begin

lemma step_keep:
  "nm c \<notin> set P \<Longrightarrow> key c = Some k \<Longrightarrow> has_key D k \<Longrightarrow>
     step c (D, X, P) = (AList.delete k D, X, set_add (nm c) P)"
  by (simp add: step_eq)

lemma step_mark:
  "nm c \<notin> set P \<Longrightarrow> key c \<notin> Some ` fst ` set D \<Longrightarrow>
     step c (D, X, P) = (D, set_add (nm c) X, set_add (nm c) P)"
  by (auto simp: step_eq has_key_iff split: option.splits)

text \<open>
  The invariant of a run: the names marked, that every kept object has a desired key and no two
  the same, and which desired objects are left.
\<close>

lemma diff_run:
  assumes "fold step cs (D, X, P) = (D', X', P')"
    and "distinct (map nm cs)" and "nm ` set cs \<inter> set P = {}" and "set X \<subseteq> set P"
  shows "(set X' \<subseteq> set X \<union> nm ` set cs \<and> set X \<subseteq> set X' \<and> (distinct X \<longrightarrow> distinct X')) \<and>
    (\<forall>c \<in> set cs. nm c \<notin> set X' \<longrightarrow> key c \<in> Some ` fst ` set D) \<and>
    distinct (map key (filter (\<lambda>c. nm c \<notin> set X') cs)) \<and>
    D' = filter (\<lambda>x. \<forall>c \<in> set cs. nm c \<notin> set X' \<longrightarrow> key c \<noteq> Some (fst x)) D"
  using assms
proof (induction cs arbitrary: D X P)
  case Nil
  then show ?case by simp
next
  case (Cons c cs)
  let ?P = "set_add (nm c) P"
  have nc: "nm c \<notin> set P" "nm c \<notin> nm ` set cs" using Cons.prems(2,3) by auto
  have side: "distinct (map nm cs)" "nm ` set cs \<inter> set ?P = {}" using Cons.prems(2,3) by auto
  show ?case
  proof (cases "key c \<in> Some ` fst ` set D")
    case True
    then obtain k where k: "key c = Some k" "has_key D k" by (auto simp: has_key_iff)
    with Cons.prems(1) nc(1) have run: "fold step cs (AList.delete k D, X, ?P) = (D', X', P')"
      by (simp add: step_keep)
    have "set X \<subseteq> set ?P" using Cons.prems(4) by auto
    note IH = Cons.IH [OF run side this]
    have c: "nm c \<notin> set X'" using IH nc Cons.prems(4) by blast
    have keys: "fst ` set (AList.delete k D) = fst ` set D - {k}" by simp
    have desired: "key c' \<in> Some ` (fst ` set D - {k})" if "c' \<in> set cs" "nm c' \<notin> set X'" for c'
      using IH that unfolding keys by simp
    then have fresh: "\<forall>c' \<in> set cs. nm c' \<notin> set X' \<longrightarrow> key c' \<noteq> Some k" by fastforce
    have D': "D' = filter (\<lambda>x. \<forall>c \<in> set cs. nm c \<notin> set X' \<longrightarrow> key c \<noteq> Some (fst x)) (filter (\<lambda>x. fst x \<noteq> k) D)"
      using IH unfolding delete_as_filter by simp
    have "D' = filter (\<lambda>x. \<forall>c' \<in> set (c # cs). nm c' \<notin> set X' \<longrightarrow> key c' \<noteq> Some (fst x)) D"
      unfolding D' filter_filter by (rule filter_cong [OF refl]) (use k c in auto)
    moreover have "distinct (map key (filter (\<lambda>c. nm c \<notin> set X') (c # cs)))"
      using conjunct1 [OF conjunct2 [OF conjunct2 [OF IH]]] k c fresh by auto
    moreover have "key c' \<in> Some ` fst ` set D" if c': "c' \<in> set (c # cs)" "nm c' \<notin> set X'" for c'
    proof (cases "c' = c")
      case False
      with c' have "key c' \<in> Some ` (fst ` set D - {k})" by (intro desired) simp_all
      then show ?thesis by blast
    qed (simp add: True)
    moreover have "set X' \<subseteq> set X \<union> nm ` set (c # cs) \<and> set X \<subseteq> set X' \<and> (distinct X \<longrightarrow> distinct X')"
      using IH by auto
    ultimately show ?thesis by simp
  next
    case False
    with Cons.prems(1) nc(1) have run: "fold step cs (D, set_add (nm c) X, ?P) = (D', X', P')"
      by (simp add: step_mark)
    have "set (set_add (nm c) X) \<subseteq> set ?P" using Cons.prems(4) by auto
    note IH = Cons.IH [OF run side this]
    then have c: "nm c \<in> set X'" by auto
    have "set X' \<subseteq> set X \<union> nm ` set (c # cs) \<and> set X \<subseteq> set X' \<and> (distinct X \<longrightarrow> distinct X')"
      using IH by auto
    with c IH show ?thesis by simp
  qed
qed

text \<open>What a run from the desired objects decides.\<close>

lemma diff_result:
  assumes run: "fold step cs (D, [], []) = (D', X, P)" and names: "distinct (map nm cs)" and wf: "wf_map D"
  defines "K \<equiv> filter (\<lambda>c. nm c \<notin> set X) cs"
  shows "set X \<subseteq> nm ` set cs" and "distinct X"
    and "distinct (map key K)" and "wf_map D'" and "set D' \<subseteq> set D"
    and "key ` set K \<union> Some ` fst ` set D' = Some ` fst ` set D"
    and "key ` set K \<inter> Some ` fst ` set D' = {}"
proof -
  have d: "set X \<subseteq> nm ` set cs" "distinct X" "\<forall>c \<in> set K. key c \<in> Some ` fst ` set D"
    "distinct (map key K)" "D' = filter (\<lambda>x. \<forall>c \<in> set cs. nm c \<notin> set X \<longrightarrow> key c \<noteq> Some (fst x)) D"
    using diff_run [OF run names] by (simp_all add: K_def)
  show "set X \<subseteq> nm ` set cs" "distinct X" "distinct (map key K)" using d by auto
  show "wf_map D'" using wf unfolding d(5) wf_map_def by (rule distinct_map_filter)
  show "set D' \<subseteq> set D" unfolding d(5) by auto
  have sub: "Some ` fst ` set D' \<subseteq> Some ` fst ` set D" using \<open>set D' \<subseteq> set D\<close> by (intro image_mono)
  have "z \<in> key ` set K \<union> Some ` fst ` set D'" if z: "z \<in> Some ` fst ` set D" for z
  proof (cases "z \<in> key ` set K")
    case False
    obtain x where x: "x \<in> set D" "z = Some (fst x)" using z by blast
    have "\<forall>c \<in> set K. key c \<noteq> Some (fst x)" using False x(2) by (metis imageI)
    with x(1) have "x \<in> set D'" unfolding d(5) by (simp add: K_def)
    with x(2) show ?thesis by blast
  qed simp
  then have "Some ` fst ` set D \<subseteq> key ` set K \<union> Some ` fst ` set D'" by (rule subsetI)
  moreover have "key ` set K \<subseteq> Some ` fst ` set D" by (rule image_subsetI) (use d(3) in blast)
  ultimately show "key ` set K \<union> Some ` fst ` set D' = Some ` fst ` set D"
    by (intro equalityI Un_least sub)
  have False if z: "z \<in> key ` set K" "z \<in> Some ` fst ` set D'" for z
  proof -
    obtain c where c: "c \<in> set K" "z = key c" using z(1) by blast
    obtain x where x: "x \<in> set D'" "z = Some (fst x)" using z(2) by blast
    with c show False unfolding d(5) K_def by auto
  qed
  then show "key ` set K \<inter> Some ` fst ` set D' = {}" by (intro equals0I) (elim IntE)
qed

text \<open>Without duplicates, exactly the objects with an undesired key are marked.\<close>

lemma diff_marks:
  assumes "fold step cs (D, X, P) = (D', X', P')" and "distinct (map nm cs)" and "distinct (map key cs)"
    and "nm ` set cs \<inter> set P = {}"
  shows "set X' = set X \<union> nm ` {c \<in> set cs. key c \<notin> Some ` fst ` set D} \<and>
    D' = filter (\<lambda>x. Some (fst x) \<notin> key ` set cs) D"
  using assms
proof (induction cs arbitrary: D X P)
  case (Cons c cs)
  let ?P = "set_add (nm c) P"
  have nc: "nm c \<notin> set P" using Cons.prems(4) by auto
  have side: "distinct (map nm cs)" "distinct (map key cs)" "nm ` set cs \<inter> set ?P = {}" using Cons.prems(2-4) by auto
  have kc: "key c \<notin> key ` set cs" using Cons.prems(3) by auto
  show ?case
  proof (cases "key c \<in> Some ` fst ` set D")
    case True
    then obtain k where k: "key c = Some k" "has_key D k" by (auto simp: has_key_iff)
    have run: "fold step cs (AList.delete k D, X, ?P) = (D', X', P')"
      using Cons.prems(1) nc k by (simp add: step_keep)
    have keys: "key c' \<notin> Some ` fst ` set (AList.delete k D) \<longleftrightarrow> key c' \<notin> Some ` fst ` set D" if "c' \<in> set cs" for c'
    proof -
      have "key c' \<noteq> Some k" using that kc k(1) by (metis imageI)
      then show ?thesis by auto
    qed
    have "{c' \<in> set (c # cs). key c' \<notin> Some ` fst ` set D} = {c' \<in> set cs. key c' \<notin> Some ` fst ` set (AList.delete k D)}"
    proof (rule Collect_cong)
      fix c'
      have "c \<notin> set cs" using kc by blast
      then show "(c' \<in> set (c # cs) \<and> key c' \<notin> Some ` fst ` set D) =
          (c' \<in> set cs \<and> key c' \<notin> Some ` fst ` set (AList.delete k D))"
        using keys [of c'] True by (cases "c' = c") (simp_all only: list.set insert_iff simp_thms, blast)
    qed
    moreover have "filter (\<lambda>x. Some (fst x) \<notin> key ` set (c # cs)) D = filter (\<lambda>x. Some (fst x) \<notin> key ` set cs) (AList.delete k D)"
      unfolding delete_as_filter filter_filter using k(1) by (intro filter_cong) auto
    ultimately show ?thesis using Cons.IH [OF run side] by (simp only:)
  next
    case False
    have run: "fold step cs (D, set_add (nm c) X, ?P) = (D', X', P')"
      using Cons.prems(1) nc False by (simp add: step_mark)
    have "{c' \<in> set (c # cs). key c' \<notin> Some ` fst ` set D} = insert c {c' \<in> set cs. key c' \<notin> Some ` fst ` set D}"
      using False by auto
    moreover have "filter (\<lambda>x. Some (fst x) \<notin> key ` set (c # cs)) D = filter (\<lambda>x. Some (fst x) \<notin> key ` set cs) D"
    proof (rule filter_cong [OF refl])
      fix x assume "x \<in> set D"
      then have "Some (fst x) \<noteq> key c" using False by (metis imageI)
      then show "(Some (fst x) \<notin> key ` set (c # cs)) = (Some (fst x) \<notin> key ` set cs)" by simp
    qed
    ultimately show ?thesis using Cons.IH [OF run side] by (simp only:) simp
  qed
qed simp

text \<open>Nothing is created and nothing deleted exactly when what exists is what is desired.\<close>

lemma run_all_desired:
  assumes "fold step cs (D, X, P) = (D', X', P')" and "distinct (map key cs)" and "distinct (map nm cs)"
    and "nm ` set cs \<inter> set P = {}" and "key ` set cs \<subseteq> Some ` fst ` set D"
  shows "X' = X"
  using assms
proof (induction cs arbitrary: D P)
  case (Cons c cs)
  from Cons.prems(5) obtain k where k: "key c = Some k" "has_key D k" by (auto simp: has_key_iff)
  have P: "nm c \<notin> set P" "nm ` set cs \<inter> set (set_add (nm c) P) = {}" using Cons.prems(3,4) by auto
  have keys: "fst ` set (AList.delete k D) = fst ` set D - {k}" by simp
  have "Some k \<notin> key ` set cs" using Cons.prems(2) k by auto
  then have "key x \<in> Some ` fst ` set (AList.delete k D)" if "x \<in> set cs" for x
  proof -
    have "key x \<in> Some ` fst ` set D" using that Cons.prems(5) by auto
    then obtain y where y: "key x = Some y" "y \<in> fst ` set D" by blast
    moreover have "y \<noteq> k" using that y(1) \<open>Some k \<notin> key ` set cs\<close> by (metis imageI)
    ultimately show ?thesis unfolding keys by blast
  qed
  then have sub: "key ` set cs \<subseteq> Some ` fst ` set (AList.delete k D)" by blast
  have run: "fold step cs (AList.delete k D, X, set_add (nm c) P) = (D', X', P')"
    using Cons.prems(1) k P(1) by (simp add: step_keep)
  have d: "distinct (map key cs)" "distinct (map nm cs)" using Cons.prems(2,3) by simp_all
  show ?case by (rule Cons.IH [OF run d P(2) sub])
qed simp

lemma diff_quiet_iff:
  assumes run: "fold step cs (D, [], []) = (D', X, P)" and names: "distinct (map nm cs)" and wf: "wf_map D"
  shows "D' = [] \<and> X = [] \<longleftrightarrow> distinct (map key cs) \<and> key ` set cs = Some ` fst ` set D"
proof
  assume "D' = [] \<and> X = []"
  with diff_result [OF run names wf] show "distinct (map key cs) \<and> key ` set cs = Some ` fst ` set D"
    by simp
next
  assume exact: "distinct (map key cs) \<and> key ` set cs = Some ` fst ` set D"
  have X: "X = []" using run_all_desired [OF run] exact names by simp
  have u: "key ` set cs \<union> Some ` fst ` set D' = Some ` fst ` set D" "key ` set cs \<inter> Some ` fst ` set D' = {}"
    using diff_result(6,7) [OF run names wf] X by simp_all
  have "Some ` fst ` set D' = {}" by (rule disjoint_absorb [OF _ u(2)]) (use u(1) exact in metis)
  with X show "D' = [] \<and> X = []" by simp
qed

end

end
