(* ===== verification/User_Bindings.thy ===== *)
theory User_Bindings
  imports Role_Templates Conditions Binding_Diff
begin

text \<open>
  The base of the controllers that run against a user cluster,
  \<open>pkg/controllers/user/rbac/handler_base.go\<close>: the manager with its caches and index
  functions, and the two reconciliations every handler is built from, of cluster roles
  (\<open>ensureRoles\<close>) and of bindings (\<open>ensureBindings\<close>).
\<close>

section \<open>Objects, requests and the manager\<close>

text \<open>
  The requests the handlers send: to the API server of the user cluster, and to the management
  API for the cluster's own object.
\<close>

datatype ureq =
    CreateClusterRole k8s_role
  | UpdateClusterRole k8s_role
  | DeleteClusterRole string
  | CreateCRB k8s_binding
  | UpdateCRB k8s_binding
  | DeleteCRB string
  | CreateRB string k8s_binding
  | DeleteRB string string
  | UpdateNamespace namespace
  | DeleteNamespace string
  | UpdateCluster cluster
  | EnqueueGRB string

definition rtbOwnerLabel :: string where
  "rtbOwnerLabel = ''authz.cluster.cattle.io/rtb-owner''"

definition projectIDAnnotation :: string where
  "projectIDAnnotation = ''field.cattle.io/projectId''"

definition prtbByProjectIndex :: string where
  "prtbByProjectIndex = ''authz.cluster.cattle.io/prtb-by-project''"

definition prtbByProjecSubjectIndex :: string where
  "prtbByProjecSubjectIndex = ''authz.cluster.cattle.io/prtb-by-project-subject''"

definition prtbByUIDIndex :: string where
  "prtbByUIDIndex = ''authz.cluster.cattle.io/rtb-owner''"

definition rtbByClusterAndRoleTemplateIndex :: string where
  "rtbByClusterAndRoleTemplateIndex = ''authz.cluster.cattle.io/rtb-by-cluster-rt''"

definition nsByProjectIndex :: string where
  "nsByProjectIndex = ''authz.cluster.cattle.io/ns-by-project''"

definition crByNSIndex :: string where
  "crByNSIndex = ''authz.cluster.cattle.io/cr-by-ns''"

definition crbByRoleAndSubjectIndex :: string where
  "crbByRoleAndSubjectIndex = ''authz.cluster.cattle.io/crb-by-role-and-subject''"

definition projectNSAnn :: string where
  "projectNSAnn = ''authz.cluster.auth.io/project-namespaces''"

text \<open>
  The manager: listers answer with an object or an error, indexers with the objects of an index
  key.
\<close>

record user_manager =
  rtLister :: "string \<Rightarrow> role_template result"
  prtbIndexer :: "string \<Rightarrow> string \<Rightarrow> rtb list result"
  crtbIndexer :: "string \<Rightarrow> string \<Rightarrow> rtb list result"
  nsIndexer :: "string \<Rightarrow> string \<Rightarrow> namespace list result"
  crIndexer :: "string \<Rightarrow> string \<Rightarrow> k8s_role list result"
  crbIndexer :: "string \<Rightarrow> string \<Rightarrow> k8s_binding list result"
  crLister :: "string \<Rightarrow> k8s_role result"
  crbLister :: "selector \<Rightarrow> k8s_binding list result"
  rbLister :: "string \<Rightarrow> selector \<Rightarrow> k8s_binding list result"
  nsLister :: "string \<Rightarrow> namespace result"
  clusterLister :: "string \<Rightarrow> cluster result"
  clusterName :: string

section \<open>Keys and index functions\<close>

definition rbRoleSubjectKey :: "string \<Rightarrow> subject \<Rightarrow> string" where
  "rbRoleSubjectKey roleName subj = roleName @ ''.'' @ sub_kind subj @ ''.'' @ sub_name subj"

definition crbRoleSubjectKeys :: "string \<Rightarrow> subject list \<Rightarrow> string list" where
  "crbRoleSubjectKeys roleName subjects = map (rbRoleSubjectKey roleName) subjects"

definition crbByRoleAndSubject :: "k8s_binding \<Rightarrow> string list" where
  "crbByRoleAndSubject crb = crbRoleSubjectKeys (ref_name (rb_roleRef crb)) (rb_subjects crb)"

definition prtbByProjectName :: "rtb \<Rightarrow> string list" where
  "prtbByProjectName prtb = [rtb_target prtb]"

definition getPRTBProjectAndSubjectKey :: "rtb \<Rightarrow> string" where
  "getPRTBProjectAndSubjectKey prtb =
     (let name = (if rtb_userName prtb \<noteq> [] then rtb_userName prtb
                  else if rtb_userPrincipalName prtb \<noteq> [] then rtb_userPrincipalName prtb
                  else if rtb_groupName prtb \<noteq> [] then rtb_groupName prtb
                  else rtb_groupPrincipalName prtb)
      in rtb_target prtb @ ''.'' @ name)"

definition prtbByProjectAndSubject :: "rtb \<Rightarrow> string list" where
  "prtbByProjectAndSubject prtb = [getPRTBProjectAndSubjectKey prtb]"

definition prtbByUID :: "rtb \<Rightarrow> string list" where
  "prtbByUID prtb = [rtb_uid prtb]"

definition nsByProjectID :: "namespace \<Rightarrow> string list" where
  "nsByProjectID ns =
     (case map_of (ns_annotations ns) projectIDAnnotation of Some pid \<Rightarrow> [pid] | None \<Rightarrow> [])"

definition rtbByClusterAndRoleTemplateName :: "rtb \<Rightarrow> string list" where
  "rtbByClusterAndRoleTemplateName b =
     (let idx = (case rtb_kind b of
          PRTB \<Rightarrow> (if rtb_roleTemplateName b \<noteq> [] \<and> rtb_target b \<noteq> [] then
                    (case splitn2 (CHR '':'') (rtb_target b) of
                       [part0, part1] \<Rightarrow> part0 @ ''-'' @ rtb_roleTemplateName b | _ \<Rightarrow> [])
                  else [])
        | CRTB \<Rightarrow> (if rtb_roleTemplateName b \<noteq> [] \<and> rtb_target b \<noteq> []
                  then rtb_target b @ ''-'' @ rtb_roleTemplateName b else []))
      in if idx = [] then [] else [idx])"

definition crByNS :: "k8s_role \<Rightarrow> string list" where
  "crByNS cr =
     (if \<not> has_key (om_annotations (role_meta cr)) projectNSAnn then []
      else concat (map pr_resourceNames (filter (\<lambda>r. contains_string (pr_resources r) ''namespaces'' \<and>
             (contains_string (pr_verbs r) ''get'' \<or> contains_string (pr_verbs r) ''*'')) (role_rules cr))))"

text \<open>
  \<open>Register\<close> adds the index functions to the informers and builds the manager over their
  caches.
\<close>

record user_caches =
  uc_rts :: "role_template list"
  uc_prtbs :: "rtb list"
  uc_crtbs :: "rtb list"
  uc_namespaces :: "namespace list"
  uc_clusterRoles :: "k8s_role list"
  uc_crbs :: "k8s_binding list"
  uc_rbs :: "k8s_binding list"
  uc_clusters :: "cluster list"

definition Register :: "string \<Rightarrow> user_caches \<Rightarrow> user_manager" where
  "Register cluster c =
     \<lparr>rtLister = lister_get rt_name (uc_rts c),
      prtbIndexer = by_index [(prtbByProjectIndex, prtbByProjectName),
          (prtbByProjecSubjectIndex, prtbByProjectAndSubject),
          (rtbByClusterAndRoleTemplateIndex, rtbByClusterAndRoleTemplateName),
          (prtbByUIDIndex, prtbByUID)] (uc_prtbs c),
      crtbIndexer = by_index [(rtbByClusterAndRoleTemplateIndex, rtbByClusterAndRoleTemplateName)] (uc_crtbs c),
      nsIndexer = by_index [(nsByProjectIndex, nsByProjectID)] (uc_namespaces c),
      crIndexer = by_index [(crByNSIndex, crByNS)] (uc_clusterRoles c),
      crbIndexer = by_index [(crbByRoleAndSubjectIndex, crbByRoleAndSubject)] (uc_crbs c),
      crLister = lister_get role_name (uc_clusterRoles c),
      crbLister = lister_list (\<lambda>b. om_labels (rb_meta b)) (uc_crbs c),
      rbLister = (\<lambda>ns. lister_list (\<lambda>b. om_labels (rb_meta b))
          (filter (\<lambda>b. om_namespace (rb_meta b) = ns) (uc_rbs c))),
      nsLister = lister_get ns_name (uc_namespaces c),
      clusterLister = lister_get cl_name (uc_clusters c),
      clusterName = cluster\<rparr>"

section \<open>Cluster roles\<close>

definition ensureRole :: "ureq env \<Rightarrow> user_manager \<Rightarrow> role_template \<Rightarrow> (ureq, unit) go" where
  "ensureRole env m rt =
     (if rt_external rt then go_return ()
      else case crLister m (rt_name rt) of
          Inr role \<Rightarrow>
            (if role_rules role = rt_rules rt then go_return ()
             else go_wrap (''couldn't update role '' @ rt_name rt)
                    (go_call env (UpdateClusterRole (role\<lparr>role_rules := rt_rules rt\<rparr>))))
        | Inl err \<Rightarrow>
            go_wrap (''couldn't create role '' @ rt_name rt)
              (go_call env (CreateClusterRole
                 \<lparr>role_meta = meta0\<lparr>om_name := rt_name rt\<rparr>, role_rules = rt_rules rt\<rparr>)))"

definition ensureRoles :: "ureq env \<Rightarrow> user_manager \<Rightarrow> template_map \<Rightarrow> (ureq, unit) go" where
  "ensureRoles env m rts = go_for (range_map (env_rng env) rts) (\<lambda>(key, rt). ensureRole env m rt)"

section \<open>Bindings\<close>

definition buildSubjectFromRTB :: "rtb \<Rightarrow> subject result" where
  "buildSubjectFromRTB b =
     (let userName = rtb_userName b; groupPrincipalName = rtb_groupPrincipalName b; groupName = rtb_groupName b;
          (name1, kind1) = (if userName \<noteq> [] then (userName, ''User'') else ([], []))
      in if groupPrincipalName \<noteq> [] \<and> name1 \<noteq> []
         then Inl (Err ''roletemplatebinding has more than one subject fields set'')
         else let (name2, kind2) = (if groupPrincipalName \<noteq> [] then (groupPrincipalName, ''Group'') else (name1, kind1))
         in if groupName \<noteq> [] \<and> name2 \<noteq> []
            then Inl (Err ''roletemplatebinding has more than one subject fields set'')
            else let (name3, kind3) = (if groupName \<noteq> [] then (groupName, ''Group'') else (name2, kind2))
            in if name3 = [] then Inl (Err ''roletemplatebinding doesn't have any subject fields set'')
               else Inr \<lparr>sub_kind = kind3, sub_name = name3\<rparr>)"

definition bindingParts :: "string \<Rightarrow> string \<Rightarrow> subject \<Rightarrow> string \<times> object_meta \<times> subject list \<times> role_ref" where
  "bindingParts roleName parentUID subj =
     (rbRoleSubjectKey roleName subj,
      meta0\<lparr>om_generateName := ''clusterrolebinding-'', om_labels := [(rtbOwnerLabel, parentUID)]\<rparr>,
      [subj],
      \<lparr>ref_apiGroup = [], ref_kind = ''ClusterRole'', ref_name = roleName\<rparr>)"

text \<open>
  The bindings that should exist, by key, and the comparison with those that do: the state of
  the loop is \<open>desiredRBs\<close>, \<open>rbsToDelete\<close> and \<open>processed\<close>.
\<close>

definition desiredBinding :: "string \<Rightarrow> string \<Rightarrow> subject \<Rightarrow> k8s_binding" where
  "desiredBinding roleName uid subj =
     (case bindingParts roleName uid subj of (rbKey, objectMeta, subjects, roleRef) \<Rightarrow>
        \<lparr>rb_meta = objectMeta, rb_subjects = subjects, rb_roleRef = roleRef\<rparr>)"

definition desiredBindings :: "string list \<Rightarrow> string \<Rightarrow> subject \<Rightarrow> (string, k8s_binding) gomap" where
  "desiredBindings roleNames uid subj =
     fold (\<lambda>roleName. AList.update (fst (bindingParts roleName uid subj)) (desiredBinding roleName uid subj)) roleNames []"

definition ensureBindings_step :: "k8s_binding \<Rightarrow> k8s_binding diff_state \<Rightarrow> k8s_binding diff_state" where
  "ensureBindings_step rb st =
     (case st of (desiredRBs, rbsToDelete, processed) \<Rightarrow>
        if rb_name rb \<in> set processed then (desiredRBs, rbsToDelete, processed)
        else let processed' = set_add (rb_name rb) processed in
          if length (rb_subjects rb) \<noteq> 1 then (desiredRBs, set_add (rb_name rb) rbsToDelete, processed')
          else let crbKey = rbRoleSubjectKey (ref_name (rb_roleRef rb)) (hd (rb_subjects rb)) in
            if has_key desiredRBs crbKey
            then (AList.delete crbKey desiredRBs, rbsToDelete, processed')
            else (desiredRBs, set_add (rb_name rb) rbsToDelete, processed'))"

text \<open>
  \<open>create\<close> and \<open>delete\<close> stand for the object client's methods, \<open>list\<close> for
  the lister, which is asked for the bindings that carry the owner's label.
\<close>

definition ensureBindings ::
  "ureq env \<Rightarrow> template_map \<Rightarrow> rtb \<Rightarrow> (k8s_binding \<Rightarrow> ureq) \<Rightarrow> (string \<Rightarrow> ureq)
     \<Rightarrow> (selector \<Rightarrow> k8s_binding list result) \<Rightarrow> (ureq, unit) go" where
  "ensureBindings env roles binding create delete list =
     go_bind (go_lift (buildSubjectFromRTB binding)) (\<lambda>subj.
     let desiredRBs = desiredBindings (env_rng env (map fst roles)) (rtb_uid binding) subj in
     go_bind (go_lift (list [(rtbOwnerLabel, rtb_uid binding)])) (\<lambda>currentRBs.
     case fold ensureBindings_step currentRBs (desiredRBs, [], []) of
       (desiredRBs', rbsToDelete, processed) \<Rightarrow>
         go_bind (go_for (range_map (env_rng env) desiredRBs') (\<lambda>(key, rb). go_call env (create rb))) (\<lambda>_.
         go_for (env_rng env rbsToDelete) (\<lambda>name. go_call_nf env (delete name)))))"

definition ensureClusterBindings :: "ureq env \<Rightarrow> user_manager \<Rightarrow> template_map \<Rightarrow> rtb \<Rightarrow> (ureq, unit) go" where
  "ensureClusterBindings env m roles binding =
     ensureBindings env roles binding CreateCRB DeleteCRB (crbLister m)"

definition ensureProjectRoleBindings ::
  "ureq env \<Rightarrow> user_manager \<Rightarrow> string \<Rightarrow> template_map \<Rightarrow> rtb \<Rightarrow> (ureq, unit) go" where
  "ensureProjectRoleBindings env m ns roles binding =
     ensureBindings env roles binding (CreateRB ns) (DeleteRB ns) (rbLister m ns)"

section \<open>What \<open>ensureBindings\<close> decides\<close>

text \<open>The key of an existing binding, and the interpretation for \<open>ensureBindings\<close>.\<close>

definition bindingKey :: "k8s_binding \<Rightarrow> string option" where
  "bindingKey rb = (if length (rb_subjects rb) = 1
     then Some (rbRoleSubjectKey (ref_name (rb_roleRef rb)) (hd (rb_subjects rb))) else None)"

interpretation rb_diff: binding_diff bindingKey rb_name ensureBindings_step
  by unfold_locales (simp add: ensureBindings_step_def bindingKey_def Let_def)


lemma bindingKey_desiredBinding [simp]:
  "bindingKey (desiredBinding r uid subj) = Some (rbRoleSubjectKey r subj)"
  by (simp add: bindingKey_def desiredBinding_def bindingParts_def)

text \<open>With one subject, the key determines the role.\<close>

lemma rbRoleSubjectKey_role [simp]: "rbRoleSubjectKey r subj = rbRoleSubjectKey r' subj \<longleftrightarrow> r = r'"
  by (simp add: rbRoleSubjectKey_def)

lemma desiredBindings_eq:
  "desiredBindings rs uid subj =
     fold (\<lambda>r. AList.update (rbRoleSubjectKey r subj) (desiredBinding r uid subj)) rs []"
  by (simp add: desiredBindings_def bindingParts_def)

lemma keys_desiredBindings: "fst ` set (desiredBindings rs uid subj) = (\<lambda>r. rbRoleSubjectKey r subj) ` set rs"
  and wf_desiredBindings [simp]: "wf_map (desiredBindings rs uid subj)"
  by (simp_all add: desiredBindings_eq keys_fold_update wf_fold_update)

lemma in_desiredBindings:
  "(k, b) \<in> set (desiredBindings rs uid subj) \<Longrightarrow>
     \<exists>r \<in> set rs. k = rbRoleSubjectKey r subj \<and> b = desiredBinding r uid subj"
  unfolding desiredBindings_eq by (erule fold_update_inv [rotated 2]) auto

text \<open>
  What \<open>ensureBindings\<close> sends: the creations and deletions that the comparison has
  decided, or nothing when the binding has no subject or the lister fails.
\<close>

definition bindings_plan ::
  "(string list \<Rightarrow> string list) \<Rightarrow> string list \<Rightarrow> string \<Rightarrow> subject \<Rightarrow> k8s_binding list \<Rightarrow> k8s_binding list \<times> string list" where
  "bindings_plan rng roles uid subj current =
     (case fold ensureBindings_step current (desiredBindings (rng roles) uid subj, [], []) of
        (D, X, P) \<Rightarrow> (map snd (range_map rng D), rng X))"

definition is_delete :: "ureq \<Rightarrow> bool" where
  "is_delete r \<longleftrightarrow> (\<exists>n. r = DeleteClusterRole n \<or> r = DeleteCRB n \<or> r = DeleteNamespace n) \<or> (\<exists>ns n. r = DeleteRB ns n)"

lemma is_delete_simps [simp]:
  "is_delete (DeleteCRB n)" "is_delete (DeleteRB ns n)" "is_delete (DeleteClusterRole n)" "is_delete (DeleteNamespace n)"
  by (simp_all add: is_delete_def)

lemma ensureBindings_follows:
  assumes "buildSubjectFromRTB b = Inr subj" and "list [(rtbOwnerLabel, rtb_uid b)] = Inr current"
    and "bindings_plan (env_rng env) (map fst roles) (rtb_uid b) subj current = (creates, deletes)"
    and "\<And>n. is_delete (delete n)"
  shows "follows_plan is_delete (ensureBindings env roles b create delete list) (map create creates @ map delete deletes)"
proof -
  obtain D X P where run:
    "fold ensureBindings_step current (desiredBindings (env_rng env (map fst roles)) (rtb_uid b) subj, [], []) = (D, X, P)"
    by (metis prod_cases3)
  have creates: "map create creates = map (\<lambda>(k, rb). create rb) (range_map (env_rng env) D)"
    and deletes: "deletes = env_rng env X"
    using assms(3) run by (auto simp: bindings_plan_def)
  show ?thesis
    unfolding ensureBindings_def assms(1,2) go_bind_lift_Inr Let_def run prod.case creates deletes
    by (intro follows_plan_bind follows_plan_for_single)
      (auto simp: case_prod_beta intro: plan_intros follows_plan_call follows_plan_call_nf assms(4))
qed

lemma succeeds_ensureBindings:
  assumes "buildSubjectFromRTB b = Inr subj" and "list [(rtbOwnerLabel, rtb_uid b)] = Inr current" and "accepting env"
  shows "succeeds (ensureBindings env roles b create delete list)"
  unfolding ensureBindings_def assms(1,2) go_bind_lift_Inr Let_def
  by (auto split: prod.splits intro!: succeeds_bind succeeds_for simp: assms(3))

text \<open>What the plan leads to.\<close>

lemma bindings_plan_result:
  assumes rng: "valid_rng rng" and names: "distinct (map rb_name current)"
    and plan: "bindings_plan rng roles uid subj current = (creates, deletes)"
  defines "kept \<equiv> filter (\<lambda>b. rb_name b \<notin> set deletes) current"
  shows "set deletes \<subseteq> rb_name ` set current"
    and "distinct deletes"
    and "set creates \<subseteq> (\<lambda>r. desiredBinding r uid subj) ` set roles"
    and "distinct (map bindingKey (kept @ creates))"
    and "bindingKey ` set (kept @ creates) = (\<lambda>r. Some (rbRoleSubjectKey r subj)) ` set roles"
proof -
  let ?D0 = "desiredBindings (rng roles) uid subj"
  obtain D X P where run: "fold ensureBindings_step current (?D0, [], []) = (D, X, P)"
    by (metis prod_cases3)
  note diff = rb_diff.diff_result [OF run names wf_desiredBindings]
  have eqs: "creates = map snd (range_map rng D)" "deletes = rng X" using plan run by (auto simp: bindings_plan_def)
  have kept: "kept = filter (\<lambda>b. rb_name b \<notin> set X) current" unfolding kept_def eqs using rng by simp
  have key_snd: "bindingKey (snd x) = Some (fst x)" if "x \<in> set D" for x
  proof -
    have "(fst x, snd x) \<in> set ?D0" using that diff(5) by auto
    from in_desiredBindings [OF this] show ?thesis by auto
  qed
  have "map bindingKey creates = map (\<lambda>x. Some (fst x)) (range_map rng D)"
    unfolding eqs map_map comp_def
    by (rule map_cong [OF refl]) (use key_snd set_range_map [OF rng diff(4)] in blast)
  then have keys: "map bindingKey creates = map Some (rng (map fst D))"
    by (simp add: range_map_def comp_def)
  then have keyset: "bindingKey ` set creates = Some ` fst ` set D"
    using rng by (metis list.set_map valid_rng_set)
  show "set deletes \<subseteq> rb_name ` set current" "distinct deletes" unfolding eqs using rng diff(1,2) by simp_all
  show "set creates \<subseteq> (\<lambda>r. desiredBinding r uid subj) ` set roles"
    unfolding eqs using diff(5) rng in_desiredBindings [of _ _ "rng roles" uid subj] set_range_map [OF rng diff(4)]
    by fastforce
  have "distinct (map bindingKey creates)"
    unfolding keys using diff(4) rng by (simp add: distinct_map wf_map_def)
  moreover have "bindingKey ` set kept \<inter> bindingKey ` set creates = {}"
    unfolding keyset kept by (rule diff(7))
  ultimately show "distinct (map bindingKey (kept @ creates))"
    using diff(3) unfolding kept by simp
  have "bindingKey ` set (kept @ creates) = Some ` fst ` set ?D0"
    unfolding set_append image_Un keyset kept by (rule diff(6))
  also have "\<dots> = (\<lambda>r. Some (rbRoleSubjectKey r subj)) ` set roles"
    unfolding keys_desiredBindings using rng by (simp add: image_image)
  finally show "bindingKey ` set (kept @ creates) = (\<lambda>r. Some (rbRoleSubjectKey r subj)) ` set roles" .
qed

lemma bindings_plan_quiet_iff:
  assumes "valid_rng rng" and names: "distinct (map rb_name current)"
  shows "bindings_plan rng roles uid subj current = ([], []) \<longleftrightarrow>
    distinct (map bindingKey current) \<and>
    bindingKey ` set current = (\<lambda>r. Some (rbRoleSubjectKey r subj)) ` set roles"
proof -
  let ?D0 = "desiredBindings (rng roles) uid subj"
  obtain D X P where run: "fold ensureBindings_step current (?D0, [], []) = (D, X, P)"
    by (metis prod_cases3)
  have "rng ks = [] \<longleftrightarrow> ks = []" for ks using valid_rng_length [OF assms(1)] by (metis length_0_conv)
  then have "bindings_plan rng roles uid subj current = ([], []) \<longleftrightarrow> D = [] \<and> X = []"
    by (simp add: bindings_plan_def run range_map_def)
  also have "\<dots> \<longleftrightarrow> distinct (map bindingKey current) \<and> bindingKey ` set current = Some ` fst ` set ?D0"
    by (rule rb_diff.diff_quiet_iff [OF run names wf_desiredBindings])
  finally show ?thesis unfolding keys_desiredBindings image_image using assms(1) by simp
qed

section \<open>The user a binding is for\<close>

lemma buildSubjectFromRTB_cases:
  "buildSubjectFromRTB b =
    (case (rtb_userName b, rtb_groupPrincipalName b, rtb_groupName b) of
       ([], [], []) \<Rightarrow> Inl (Err ''roletemplatebinding doesn't have any subject fields set'')
     | (u, [], []) \<Rightarrow> Inr \<lparr>sub_kind = ''User'', sub_name = u\<rparr>
     | ([], g, []) \<Rightarrow> Inr \<lparr>sub_kind = ''Group'', sub_name = g\<rparr>
     | ([], [], g) \<Rightarrow> Inr \<lparr>sub_kind = ''Group'', sub_name = g\<rparr>
     | _ \<Rightarrow> Inl (Err ''roletemplatebinding has more than one subject fields set''))"
  by (simp add: buildSubjectFromRTB_def Let_def split: list.splits)

text \<open>
  The index key is ambiguous in general; with kinds and names of subjects free of dots it is not.
\<close>

lemma rev_takeWhile_dot: "CHR ''.'' \<notin> set n \<Longrightarrow> takeWhile (\<lambda>c. c \<noteq> CHR ''.'') (rev n @ CHR ''.'' # xs) = rev n"
  and rev_dropWhile_dot: "CHR ''.'' \<notin> set n \<Longrightarrow> dropWhile (\<lambda>c. c \<noteq> CHR ''.'') (rev n @ CHR ''.'' # xs) = CHR ''.'' # xs"
  by (simp_all add: takeWhile_neq_append dropWhile_neq_append)

lemma append_dot_inj:
  assumes "CHR ''.'' \<notin> set n" "CHR ''.'' \<notin> set n'" and eq: "a @ ''.'' @ n = a' @ ''.'' @ n'"
  shows "a = a' \<and> n = n'"
proof -
  have "rev n @ CHR ''.'' # rev a = rev n' @ CHR ''.'' # rev a'"
    using arg_cong [OF eq, of rev] by simp
  from arg_cong [OF this, of "takeWhile (\<lambda>c. c \<noteq> CHR ''.'')"] arg_cong [OF this, of "dropWhile (\<lambda>c. c \<noteq> CHR ''.'')"]
  show ?thesis using assms(1,2) by (simp add: rev_takeWhile_dot rev_dropWhile_dot)
qed

section \<open>What \<open>ensureRoles\<close> leads to\<close>

text \<open>The cluster roles of the user cluster by name, and what a request makes of them.\<close>

type_synonym role_store = "string \<rightharpoonup> k8s_role"

fun apply_role :: "ureq \<Rightarrow> role_store \<Rightarrow> role_store" where
  "apply_role (CreateClusterRole r) S = S(role_name r \<mapsto> r)"
| "apply_role (UpdateClusterRole r) S = S(role_name r \<mapsto> r)"
| "apply_role (DeleteClusterRole n) S = S(n := None)"
| "apply_role _ S = S"

text \<open>The lister's cache is up to date with the store.\<close>

definition lists_roles :: "(string \<Rightarrow> k8s_role result) \<Rightarrow> role_store \<Rightarrow> bool" where
  "lists_roles get S \<longleftrightarrow> (\<forall>n. case S n of None \<Rightarrow> get n = Inl (Api NotFound) | Some r \<Rightarrow> get n = Inr r \<and> role_name r = n)"

definition role_plan :: "user_manager \<Rightarrow> role_template \<Rightarrow> ureq list" where
  "role_plan m rt = (if rt_external rt then [] else case crLister m (rt_name rt) of
      Inr role \<Rightarrow> (if role_rules role = rt_rules rt then [] else [UpdateClusterRole (role\<lparr>role_rules := rt_rules rt\<rparr>)])
    | Inl err \<Rightarrow> [CreateClusterRole \<lparr>role_meta = meta0\<lparr>om_name := rt_name rt\<rparr>, role_rules = rt_rules rt\<rparr>])"

lemma ensureRole_follows: "follows_plan T (ensureRole env m rt) (role_plan m rt)"
  unfolding ensureRole_def role_plan_def
  by (auto split: sum.splits intro: plan_intros)

lemma ensureRoles_follows:
  "follows_plan T (ensureRoles env m rts) (concat (map (role_plan m) (map snd (range_map (env_rng env) rts))))"
  unfolding ensureRoles_def map_map comp_def
  by (rule follows_plan_for) (auto intro: ensureRole_follows)

lemma role_plan_apply:
  assumes "lists_roles (crLister m) S" and "S1 (rt_name rt) = S (rt_name rt)"
  shows "fold apply_role (role_plan m rt) S1 n =
    (if n = rt_name rt \<and> \<not> rt_external rt
     then Some (case S n of Some r \<Rightarrow> r\<lparr>role_rules := rt_rules rt\<rparr>
                          | None \<Rightarrow> \<lparr>role_meta = meta0\<lparr>om_name := n\<rparr>, role_rules = rt_rules rt\<rparr>)
     else S1 n)"
proof -
  have "case S (rt_name rt) of None \<Rightarrow> crLister m (rt_name rt) = Inl (Api NotFound)
    | Some r \<Rightarrow> crLister m (rt_name rt) = Inr r \<and> role_name r = rt_name rt"
    using assms(1) unfolding lists_roles_def by blast
  then show ?thesis using assms(2)
    by (cases "S (rt_name rt)") (auto simp: role_plan_def)
qed

lemma role_plans_apply:
  assumes "lists_roles (crLister m) S" and "distinct (map rt_name ts)"
    and "\<And>rt. rt \<in> set ts \<Longrightarrow> S1 (rt_name rt) = S (rt_name rt)"
  shows "fold apply_role (concat (map (role_plan m) ts)) S1 n =
    (case find (\<lambda>rt. rt_name rt = n \<and> \<not> rt_external rt) ts of
       Some rt \<Rightarrow> Some (case S n of Some r \<Rightarrow> r\<lparr>role_rules := rt_rules rt\<rparr>
                          | None \<Rightarrow> \<lparr>role_meta = meta0\<lparr>om_name := n\<rparr>, role_rules = rt_rules rt\<rparr>)
     | None \<Rightarrow> S1 n)"
  using assms(2,3)
proof (induction ts arbitrary: S1)
  case (Cons rt ts)
  let ?S = "fold apply_role (role_plan m rt) S1"
  have one: "\<And>n. ?S n = (if n = rt_name rt \<and> \<not> rt_external rt
     then Some (case S n of Some r \<Rightarrow> r\<lparr>role_rules := rt_rules rt\<rparr>
                          | None \<Rightarrow> \<lparr>role_meta = meta0\<lparr>om_name := n\<rparr>, role_rules = rt_rules rt\<rparr>)
     else S1 n)"
    using role_plan_apply [OF assms(1)] Cons.prems(2) by simp
  have "?S (rt_name rt') = S (rt_name rt')" if "rt' \<in> set ts" for rt'
    using Cons.prems that unfolding one by (auto simp: image_iff)
  with Cons have IH: "fold apply_role (concat (map (role_plan m) ts)) ?S n =
    (case find (\<lambda>rt. rt_name rt = n \<and> \<not> rt_external rt) ts of
       Some rt \<Rightarrow> Some (case S n of Some r \<Rightarrow> r\<lparr>role_rules := rt_rules rt\<rparr>
                          | None \<Rightarrow> \<lparr>role_meta = meta0\<lparr>om_name := n\<rparr>, role_rules = rt_rules rt\<rparr>)
     | None \<Rightarrow> ?S n)"
    by simp
  show ?case
  proof (cases "rt_name rt = n \<and> \<not> rt_external rt")
    case True
    then have "find (\<lambda>rt. rt_name rt = n \<and> \<not> rt_external rt) ts = None"
      using Cons.prems(1) by (auto simp: find_None_iff image_iff)
    with IH True show ?thesis by (simp add: one)
  next
    case False
    with IH show ?thesis by (auto simp: one split: option.splits)
  qed
qed simp

section \<open>Properties\<close>


definition crtb_ex :: rtb where
  "crtb_ex = \<lparr>rtb_kind = CRTB, rtb_meta = meta0\<lparr>om_name := ''crtb-1'', om_uid := ''uid-1''\<rparr>,
     rtb_userName = ''u-1'', rtb_userPrincipalName = [], rtb_groupName = [], rtb_groupPrincipalName = [],
     rtb_target = ''c-1'', rtb_roleTemplateName = ''view''\<rparr>"

definition user_ex :: subject where
  "user_ex = \<lparr>sub_kind = ''User'', sub_name = ''u-1''\<rparr>"

definition crb_ex :: "string \<Rightarrow> string \<Rightarrow> k8s_binding" where
  "crb_ex name role = \<lparr>rb_meta = meta0\<lparr>om_name := name, om_labels := [(rtbOwnerLabel, ''uid-1'')]\<rparr>,
     rb_subjects = [user_ex], rb_roleRef = \<lparr>ref_apiGroup = [], ref_kind = ''ClusterRole'', ref_name = role\<rparr>\<rparr>"

definition roles_ex :: template_map where
  "roles_ex = [(''view'', template_ex ''view'' [])]"

definition bindings_ex :: "selector \<Rightarrow> k8s_binding list result" where
  "bindings_ex sel = Inr [crb_ex ''crb-a'' ''view'', crb_ex ''crb-b'' ''edit'']"

lemma crtb_ex_simps [simp]: "buildSubjectFromRTB crtb_ex = Inr user_ex" "rtb_uid crtb_ex = ''uid-1''"
  and crb_ex_name [simp]: "rb_name (crb_ex n r) = n"
  by (simp_all add: buildSubjectFromRTB_def crtb_ex_def user_ex_def crb_ex_def)

lemma bindingKey_crb_ex [simp]: "bindingKey (crb_ex n r) = Some (rbRoleSubjectKey r user_ex)"
  by (simp add: crb_ex_def bindingKey_def)


text \<open>
  A sync that succeeds sends nothing exactly when the bindings of the owner already are the
  wanted ones, one for each role: a second sync after a first one is silent.
\<close>

theorem ensureBindings_quiet_iff:
  assumes subj: "buildSubjectFromRTB b = Inr subj" and list: "list [(rtbOwnerLabel, rtb_uid b)] = Inr current"
    and names: "distinct (map rb_name current)" and rng: "valid_rng (env_rng env)"
    and del: "\<And>n. is_delete (delete n)"
    and run: "ensureBindings env roles b create delete list h = (Inr (), d)"
  shows "d = [] \<longleftrightarrow> distinct (map bindingKey current) \<and>
    bindingKey ` set current = (\<lambda>role. Some (rbRoleSubjectKey role subj)) ` fst ` set roles"
proof -
  obtain creates deletes where plan:
    "bindings_plan (env_rng env) (map fst roles) (rtb_uid b) subj current = (creates, deletes)"
    by fastforce
  have "map fst d = map create creates @ map delete deletes"
    using follows_plan_success [OF ensureBindings_follows run] subj list plan del by blast
  then have "d = [] \<longleftrightarrow> (creates, deletes) = ([], [])" by (metis Nil_is_append_conv list.map_disc_iff prod.inject)
  then show ?thesis
    unfolding plan [symmetric] bindings_plan_quiet_iff [OF rng names] by simp
qed

theorem ensureBindings_quiet_iff_witness:
  "\<exists>d. ensureBindings accept_all roles_ex crtb_ex CreateCRB DeleteCRB bindings_ex [] = (Inr (), d) \<and> d \<noteq> []"
proof -
  let ?cur = "[crb_ex ''crb-a'' ''view'', crb_ex ''crb-b'' ''edit'']"
  have list: "bindings_ex [(rtbOwnerLabel, rtb_uid crtb_ex)] = Inr ?cur" "distinct (map rb_name ?cur)"
    by (simp_all add: bindings_ex_def)
  obtain d where run: "ensureBindings accept_all roles_ex crtb_ex CreateCRB DeleteCRB bindings_ex [] = (Inr (), d)"
    using succeeds_ensureBindings [where list = bindings_ex, OF crtb_ex_simps(1) list(1) accept_all_simps(4), of roles_ex CreateCRB DeleteCRB]
    unfolding succeeds_def by (metis old.unit.exhaust)
  from ensureBindings_quiet_iff [OF crtb_ex_simps(1) list accept_all_simps(3) is_delete_simps(1) run] run
  show ?thesis by (auto simp: roles_ex_def)
qed

text \<open>
  The key under which bindings are compared and indexed identifies the role and the subject,
  for subjects whose kind and name have no dot.
\<close>

theorem rbRoleSubjectKey_inj:
  assumes "CHR ''.'' \<notin> set (sub_kind s)" "CHR ''.'' \<notin> set (sub_name s)"
    and "CHR ''.'' \<notin> set (sub_kind s')" "CHR ''.'' \<notin> set (sub_name s')"
  shows "rbRoleSubjectKey r s = rbRoleSubjectKey r' s' \<longleftrightarrow> r = r' \<and> s = s'"
  using append_dot_inj [of "sub_name s" "sub_name s'" "r @ ''.'' @ sub_kind s" "r' @ ''.'' @ sub_kind s'"]
    append_dot_inj [of "sub_kind s" "sub_kind s'" r r'] assms
  by (auto simp: rbRoleSubjectKey_def)

theorem rbRoleSubjectKey_inj_witness:
  "rbRoleSubjectKey ''a.b'' \<lparr>sub_kind = ''User'', sub_name = ''u-1''\<rparr>
     \<noteq> rbRoleSubjectKey ''a'' \<lparr>sub_kind = ''User'', sub_name = ''u-2''\<rparr>"
  using rbRoleSubjectKey_inj [of "\<lparr>sub_kind = ''User'', sub_name = ''u-1''\<rparr>" "\<lparr>sub_kind = ''User'', sub_name = ''u-2''\<rparr>" "''a.b''" "''a''"]
  by simp

text \<open>
  Making sure the roles exist. After a call that returns without error, from caches that are
  up to date, every template of the map that is not external has a cluster role of its name with
  exactly its rules; a role that existed keeps its metadata; no other cluster role has changed.
\<close>

theorem ensureRoles_establishes:
  assumes lists: "lists_roles (crLister m) S" and wf: "wf_map rts"
    and names: "\<And>k rt. (k, rt) \<in> set rts \<Longrightarrow> rt_name rt = k" and rng: "valid_rng (env_rng env)"
    and run: "ensureRoles env m rts h = (Inr (), d)"
  shows "fold apply_role (map fst d) S n =
    (case map_of rts n of
       Some rt \<Rightarrow> if rt_external rt then S n
         else Some (case S n of Some r \<Rightarrow> r\<lparr>role_rules := rt_rules rt\<rparr>
                              | None \<Rightarrow> \<lparr>role_meta = meta0\<lparr>om_name := n\<rparr>, role_rules = rt_rules rt\<rparr>)
     | None \<Rightarrow> S n)"
proof -
  let ?ts = "map snd (range_map (env_rng env) rts)"
  have set_ts: "set (range_map (env_rng env) rts) = set rts" by (rule set_range_map [OF rng wf])
  have "map rt_name ?ts = map fst (range_map (env_rng env) rts)"
    unfolding map_map comp_def by (rule map_cong [OF refl]) (use names set_ts in force)
  then have dist: "distinct (map rt_name ?ts)" using rng wf by (simp add: wf_map_def)
  have d: "map fst d = concat (map (role_plan m) ?ts)"
    using follows_plan_success [OF ensureRoles_follows run] by blast
  have find: "find (\<lambda>rt. rt_name rt = n \<and> \<not> rt_external rt) ?ts =
    (case map_of rts n of None \<Rightarrow> None | Some rt \<Rightarrow> if rt_external rt then None else Some rt)"
  proof (cases "find (\<lambda>rt. rt_name rt = n \<and> \<not> rt_external rt) ?ts")
    case None
    then have none: "\<not> (rt_name rt = n \<and> \<not> rt_external rt)" if "(k, rt) \<in> set rts" for k rt
      using that set_ts by (auto simp: find_None_iff)
    show ?thesis using None none names by (auto split: option.splits dest!: map_of_SomeD)
  next
    case (Some rt)
    then have rt: "rt \<in> set ?ts" "rt_name rt = n" "\<not> rt_external rt" by (auto simp: find_Some_iff)
    then have "(n, rt) \<in> set rts" using set_ts names by auto
    then have "map_of rts n = Some rt" using wf by (simp add: wf_map_def)
    with Some rt show ?thesis by simp
  qed
  show ?thesis unfolding d role_plans_apply [OF lists dist refl] find by (simp split: option.splits)
qed

definition manager_ex :: "k8s_role list \<Rightarrow> user_manager" where
  "manager_ex crs = Register ''c-1'' \<lparr>uc_rts = [template_ex ''view'' []], uc_prtbs = [], uc_crtbs = [crtb_ex],
     uc_namespaces = [], uc_clusterRoles = crs, uc_crbs = [], uc_rbs = [], uc_clusters = []\<rparr>"

theorem ensureRoles_establishes_witness:
  "\<exists>d. ensureRoles accept_all (manager_ex []) roles_ex [] = (Inr (), d) \<and>
     fold apply_role (map fst d) Map.empty ''view'' =
       Some \<lparr>role_meta = meta0\<lparr>om_name := ''view''\<rparr>, role_rules = rt_rules (template_ex ''view'' [])\<rparr>"
proof -
  have lists: "lists_roles (crLister (manager_ex [])) Map.empty"
    by (simp add: lists_roles_def manager_ex_def Register_def lister_get_def)
  have run: "ensureRoles accept_all (manager_ex []) roles_ex [] =
    (Inr (), [(CreateClusterRole \<lparr>role_meta = meta0\<lparr>om_name := ''view''\<rparr>, role_rules = rt_rules (template_ex ''view'' [])\<rparr>, None)])"
    by (simp add: ensureRoles_def roles_ex_def range_map_def ensureRole_def manager_ex_def Register_def
        lister_get_def template_ex_def go_wrap_def go_bind_def go_return_def)
  have "fold apply_role (map fst [(CreateClusterRole \<lparr>role_meta = meta0\<lparr>om_name := ''view''\<rparr>, role_rules = rt_rules (template_ex ''view'' [])\<rparr>, None :: api_error option)]) Map.empty ''view'' =
     Some \<lparr>role_meta = meta0\<lparr>om_name := ''view''\<rparr>, role_rules = rt_rules (template_ex ''view'' [])\<rparr>"
    by (subst ensureRoles_establishes [OF lists _ _ accept_all_simps(3) run])
      (auto simp: roles_ex_def wf_map_def, simp add: template_ex_def)
  with run show ?thesis by blast
qed

end
