(* ===== verification/User_Handlers.thy ===== *)
theory User_Handlers
  imports User_Bindings
begin

text \<open>
  The handlers of \<open>pkg/controllers/user/rbac\<close>, one section per file: project role template
  bindings, cluster role template bindings, role templates, global role bindings, projects and
  the cluster itself.  A handler is the method of the lifecycle with the object as its argument;
  its result is the error it returns.  A recursion over role templates that does not end is the
  stack overflow it is in Go.
\<close>

section \<open>Project role template bindings: \<open>prtb_handler.go\<close>\<close>

definition owner :: string where
  "owner = ''owner-user''"

definition globalResourcesNeededInProjects :: "string list" where
  "globalResourcesNeededInProjects = [''persistentvolumes'', ''storageclasses'']"

definition projectNSVerbToSuffix :: "(string, string) gomap" where
  "projectNSVerbToSuffix = [(''get'', ''readonly''), (''*'', ''edit'')]"

text \<open>\<open>fmt.Sprintf(projectNSGetClusterRoleNameFmt, project, suffix)\<close>\<close>

definition projectNSGetClusterRoleName :: "string \<Rightarrow> string \<Rightarrow> string" where
  "projectNSGetClusterRoleName projectName sfx = projectName @ ''-namespaces-'' @ sfx"

text \<open>The verbs of a template's rules on a global resource, as a set.\<close>

definition checkForGlobalResourceRules :: "user_manager \<Rightarrow> role_template \<Rightarrow> string \<Rightarrow> string list result" where
  "checkForGlobalResourceRules m role resource =
     (case (if rt_external role
            then (case crLister m (rt_name role) of
                    Inr externalRole \<Rightarrow> Inr (role_rules externalRole)
                  | Inl err \<Rightarrow> if is_not_found err then Inr [] else Inl err)
            else Inr (rt_rules role)) of
        Inl err \<Rightarrow> Inl err
      | Inr rules \<Rightarrow> Inr (fold set_add (concat (map pr_verbs (filter (\<lambda>rule.
          (contains_string (pr_resources rule) resource \<or> contains_string (pr_resources rule) ''*'') \<and>
          pr_resourceNames rule = []) rules))) []))"

definition buildRule :: "(string list \<Rightarrow> string list) \<Rightarrow> string \<Rightarrow> string list \<Rightarrow> policy_rule" where
  "buildRule rng resource verbs =
     rule0\<lparr>pr_resources := [resource], pr_verbs := rng verbs, pr_apiGroups := [''*'']\<rparr>"

definition reconcileRoleForProjectAccessToGlobalResource ::
  "ureq env \<Rightarrow> user_manager \<Rightarrow> string \<Rightarrow> role_template \<Rightarrow> string list \<Rightarrow> (ureq, string) go" where
  "reconcileRoleForProjectAccessToGlobalResource env m resource rt newVerbs =
     (let roleName = rt_name rt @ ''-promoted''; rule' = buildRule (env_rng env) resource newVerbs in
      case crLister m roleName of
        Inr role \<Rightarrow>
          (let currentVerbs = fold set_add (concat (map pr_verbs (filter (\<lambda>rule.
                 contains_string (pr_resources rule) resource) (role_rules role)))) [] in
           if set currentVerbs \<noteq> set newVerbs then
             (let added = list_ex (\<lambda>rule. contains_string (pr_resources rule) resource) (role_rules role);
                  replaced = map (\<lambda>rule. if contains_string (pr_resources rule) resource then rule' else rule) (role_rules role);
                  rules = (if added then replaced else replaced @ [rule'])
              in go_bind (go_call env (UpdateClusterRole (role\<lparr>role_rules := rules\<rparr>))) (\<lambda>_. go_return roleName))
           else go_return roleName)
      | Inl err \<Rightarrow>
          go_bind (go_wrap (''couldn't create role '' @ roleName)
            (go_call env (CreateClusterRole \<lparr>role_meta = meta0\<lparr>om_name := roleName\<rparr>, role_rules = [rule']\<rparr>)))
            (\<lambda>_. go_return roleName))"

text \<open>The two loops over the templates of \<open>reconcileProjectAccessToGlobalResources\<close>.\<close>

definition grantsNamespaceCreation :: "(string, role_template) gomap \<Rightarrow> bool" where
  "grantsNamespaceCreation rts = list_ex (\<lambda>(k, r). list_ex (\<lambda>rule.
     contains_string (pr_resources rule) ''namespaces'' \<and> pr_resourceNames rule = [] \<and>
     (contains_string (pr_verbs rule) ''*'' \<or> contains_string (pr_verbs rule) ''create'')) (rt_rules r)) rts"

definition promoteRoles :: "ureq env \<Rightarrow> user_manager \<Rightarrow> template_map \<Rightarrow> string list \<Rightarrow> (ureq, string list) go" where
  "promoteRoles env m rts roles0 =
     go_fold (\<lambda>(k, rt) roles. go_fold (\<lambda>resource roles.
         go_bind (go_lift (checkForGlobalResourceRules m rt resource)) (\<lambda>verbs.
         if verbs \<noteq> [] then
           go_bind (reconcileRoleForProjectAccessToGlobalResource env m resource rt verbs) (\<lambda>roleName.
           go_return (roles @ [roleName]))
         else go_return roles)) globalResourcesNeededInProjects roles)
       (range_map (env_rng env) rts) roles0"

definition ensureCreateNSRole :: "ureq env \<Rightarrow> user_manager \<Rightarrow> (ureq, unit) go" where
  "ensureCreateNSRole env m =
     (case crLister m ''create-ns'' of
        Inr nsRole \<Rightarrow> go_return ()
      | Inl _ \<Rightarrow>
          go_bind (go_lift (rtLister m ''create-ns'')) (\<lambda>createNSRT.
          go_bind (go_try (ensureRoles env m [(''create-ns'', createNSRT)])) (\<lambda>res.
          case res of
            Inr _ \<Rightarrow> go_return ()
          | Inl err \<Rightarrow> if is_already_exists err then go_return () else go_fail err)))"

definition ensureOwnedCRB :: "ureq env \<Rightarrow> user_manager \<Rightarrow> string \<Rightarrow> subject \<Rightarrow> string \<Rightarrow> (ureq, unit) go" where
  "ensureOwnedCRB env m rtbUID subj role =
     (let crbKey = rbRoleSubjectKey role subj;
          crbs = (case crbIndexer m crbByRoleAndSubjectIndex crbKey of Inr l \<Rightarrow> l | Inl _ \<Rightarrow> [])
      in if crbs = [] then
           go_call env (CreateCRB
             \<lparr>rb_meta = meta0\<lparr>om_generateName := ''clusterrolebinding-'', om_labels := [(rtbUID, owner)]\<rparr>,
              rb_subjects = [subj],
              rb_roleRef = \<lparr>ref_apiGroup = [], ref_kind = ''ClusterRole'', ref_name = role\<rparr>\<rparr>)
         else go_for crbs (\<lambda>crb.
           if has_key (om_labels (rb_meta crb)) rtbUID then go_return ()
           else go_call env (UpdateCRB (crb\<lparr>rb_meta := (rb_meta crb)\<lparr>om_labels :=
                  AList.update rtbUID owner (om_labels (rb_meta crb))\<rparr>\<rparr>))))"

definition reconcileProjectAccessToGlobalResources ::
  "ureq env \<Rightarrow> user_manager \<Rightarrow> rtb \<Rightarrow> template_map \<Rightarrow> (ureq, unit) go" where
  "reconcileProjectAccessToGlobalResources env m binding rts =
     (case splitn2 (CHR '':'') (rtb_target binding) of
        [_, projectName] \<Rightarrow>
          (if projectName = [] then go_return ()
           else
             let createNSPerms = grantsNamespaceCreation rts;
                 roleVerb = (if createNSPerms then ''*'' else ''get'');
                 roleSuffix = map_str projectNSVerbToSuffix roleVerb;
                 role = projectNSGetClusterRoleName projectName roleSuffix
             in go_bind (promoteRoles env m rts [role]) (\<lambda>roles.
                let roles' = (if createNSPerms then roles @ [''create-ns''] else roles) in
                go_bind (go_when createNSPerms (ensureCreateNSRole env m)) (\<lambda>_.
                go_bind (go_lift (buildSubjectFromRTB binding)) (\<lambda>subj.
                go_for roles' (ensureOwnedCRB env m (rtb_uid binding) subj)))))
      | _ \<Rightarrow> go_return ())"

definition syncPRTB :: "ureq env \<Rightarrow> user_manager \<Rightarrow> rtb \<Rightarrow> (ureq, unit) go" where
  "syncPRTB env m binding =
     (if rtb_roleTemplateName binding = [] then go_return ()
      else if rtb_userName binding = [] \<and> rtb_groupPrincipalName binding = [] \<and> rtb_groupName binding = []
      then go_return ()
      else
        go_bind (go_wrap (''couldn't get role template '' @ rtb_roleTemplateName binding)
          (go_lift (rtLister m (rtb_roleTemplateName binding)))) (\<lambda>rt.
        go_bind (go_wrap (''couldn't list namespaces with project ID '' @ rtb_target binding)
          (go_lift (nsIndexer m nsByProjectIndex (rtb_target binding)))) (\<lambda>namespaces.
        go_bind (go_recursion (gatherRoles (rtLister m) rt [])) (\<lambda>roles.
        go_bind (go_wrap ''couldn't ensure roles'' (ensureRoles env m roles)) (\<lambda>_.
        go_bind (go_for namespaces (\<lambda>ns.
          go_wrap (''couldn't ensure binding '' @ om_name (rtb_meta binding) @ '' in '' @ ns_name ns)
            (ensureProjectRoleBindings env m (ns_name ns) roles binding))) (\<lambda>_.
        reconcileProjectAccessToGlobalResources env m binding roles))))))"

definition reconcileProjectAccessToGlobalResourcesForDelete ::
  "ureq env \<Rightarrow> user_manager \<Rightarrow> rtb \<Rightarrow> (ureq, unit) go" where
  "reconcileProjectAccessToGlobalResourcesForDelete env m binding =
     go_bind (go_lift (prtbIndexer m prtbByProjecSubjectIndex (getPRTBProjectAndSubjectKey binding))) (\<lambda>prtbs.
     if list_ex (\<lambda>pr. \<not> om_deleting (rtb_meta pr)) prtbs then go_return ()
     else
       go_bind (go_lift (crbLister m [(rtb_uid binding, owner)])) (\<lambda>crbs.
       go_for crbs (\<lambda>crb.
         let labels = om_labels (rb_meta crb);
             labels' = (if map_of labels (rtb_uid binding) = Some owner then AList.delete (rtb_uid binding) labels else labels)
         in if labels' = [] then go_call_nf env (DeleteCRB (rb_name crb))
            else go_call env (UpdateCRB (crb\<lparr>rb_meta := (rb_meta crb)\<lparr>om_labels := labels'\<rparr>\<rparr>)))))"

definition ensurePRTBDelete :: "ureq env \<Rightarrow> user_manager \<Rightarrow> rtb \<Rightarrow> (ureq, unit) go" where
  "ensurePRTBDelete env m binding =
     go_bind (go_wrap (''couldn't list namespaces with project ID '' @ rtb_target binding)
       (go_lift (nsIndexer m nsByProjectIndex (rtb_target binding)))) (\<lambda>namespaces.
     go_bind (go_for namespaces (\<lambda>ns.
       go_bind (go_wrap ''couldn't list rolebindings with selector''
         (go_lift (rbLister m (ns_name ns) [(rtbOwnerLabel, rtb_uid binding)]))) (\<lambda>rbs.
       go_for rbs (\<lambda>rb. go_wrap (''error deleting rolebinding '' @ rb_name rb)
         (go_call_nf env (DeleteRB (ns_name ns) (rb_name rb))))))) (\<lambda>_.
     reconcileProjectAccessToGlobalResourcesForDelete env m binding))"

definition prtbLifecycle_Create :: "ureq env \<Rightarrow> user_manager \<Rightarrow> rtb \<Rightarrow> (ureq, unit) go" where
  "prtbLifecycle_Create env m obj = syncPRTB env m obj"

definition prtbLifecycle_Updated :: "ureq env \<Rightarrow> user_manager \<Rightarrow> rtb \<Rightarrow> (ureq, unit) go" where
  "prtbLifecycle_Updated env m obj = syncPRTB env m obj"

definition prtbLifecycle_Remove :: "ureq env \<Rightarrow> user_manager \<Rightarrow> rtb \<Rightarrow> (ureq, unit) go" where
  "prtbLifecycle_Remove env m obj = ensurePRTBDelete env m obj"

section \<open>Cluster role template bindings: \<open>crtb_handler.go\<close>\<close>

definition syncCRTB :: "ureq env \<Rightarrow> user_manager \<Rightarrow> rtb \<Rightarrow> (ureq, unit) go" where
  "syncCRTB env m binding =
     (if rtb_roleTemplateName binding = [] then go_return ()
      else if rtb_userName binding = [] \<and> rtb_groupPrincipalName binding = [] \<and> rtb_groupName binding = []
      then go_return ()
      else
        go_bind (go_wrap (''couldn't get role template '' @ rtb_roleTemplateName binding)
          (go_lift (rtLister m (rtb_roleTemplateName binding)))) (\<lambda>rt.
        go_bind (go_recursion (gatherRoles (rtLister m) rt [])) (\<lambda>roles.
        go_bind (go_wrap ''couldn't ensure roles'' (ensureRoles env m roles)) (\<lambda>_.
        go_wrap ''couldn't ensure cluster bindings'' (ensureClusterBindings env m roles binding)))))"

definition ensureCRTBDelete :: "ureq env \<Rightarrow> user_manager \<Rightarrow> rtb \<Rightarrow> (ureq, unit) go" where
  "ensureCRTBDelete env m binding =
     go_bind (go_wrap ''couldn't list clusterrolebindings with selector''
       (go_lift (crbLister m [(rtbOwnerLabel, rtb_uid binding)]))) (\<lambda>rbs.
     go_for rbs (\<lambda>rb. go_wrap (''error deleting clusterrolebinding '' @ rb_name rb)
       (go_call_nf env (DeleteCRB (rb_name rb)))))"

definition crtbLifecycle_Create :: "ureq env \<Rightarrow> user_manager \<Rightarrow> rtb \<Rightarrow> (ureq, unit) go" where
  "crtbLifecycle_Create env m obj = syncCRTB env m obj"

definition crtbLifecycle_Updated :: "ureq env \<Rightarrow> user_manager \<Rightarrow> rtb \<Rightarrow> (ureq, unit) go" where
  "crtbLifecycle_Updated env m obj = syncCRTB env m obj"

definition crtbLifecycle_Remove :: "ureq env \<Rightarrow> user_manager \<Rightarrow> rtb \<Rightarrow> (ureq, unit) go" where
  "crtbLifecycle_Remove env m obj = ensureCRTBDelete env m obj"

section \<open>Role templates: \<open>roletemplate_handler.go\<close>\<close>

definition syncRT :: "ureq env \<Rightarrow> user_manager \<Rightarrow> role_template \<Rightarrow> bool \<Rightarrow> (ureq, unit) go" where
  "syncRT env m template usedInProjects =
     go_bind (go_recursion (gatherRoles (rtLister m) template [])) (\<lambda>roles.
     go_bind (go_wrap ''couldn't ensure roles'' (ensureRoles env m roles)) (\<lambda>_.
     go_when usedInProjects
       (go_for (range_map (env_rng env) roles) (\<lambda>(k, rt).
          go_for globalResourcesNeededInProjects (\<lambda>resource.
            go_bind (go_lift (checkForGlobalResourceRules m rt resource)) (\<lambda>verbs.
            go_when (verbs \<noteq> [])
              (go_bind (go_wrap ''couldn't reconcile role for project access to global resources''
                 (reconcileRoleForProjectAccessToGlobalResource env m resource rt verbs)) (\<lambda>_. go_return ()))))))))"

definition ensureRTDelete :: "ureq env \<Rightarrow> role_template \<Rightarrow> (ureq, unit) go" where
  "ensureRTDelete env template =
     go_wrap (''error deleting clusterrole '' @ rt_name template) (go_call_nf env (DeleteClusterRole (rt_name template)))"

definition rtLifecycle_Create :: "ureq env \<Rightarrow> user_manager \<Rightarrow> role_template \<Rightarrow> (ureq, unit) go" where
  "rtLifecycle_Create env m obj = go_return ()"

definition rtLifecycle_Updated :: "ureq env \<Rightarrow> user_manager \<Rightarrow> role_template \<Rightarrow> (ureq, unit) go" where
  "rtLifecycle_Updated env m obj =
     go_bind (go_lift (prtbIndexer m rtbByClusterAndRoleTemplateIndex (clusterName m @ ''-'' @ rt_name obj))) (\<lambda>prtbs.
     let hasPRTBs = (prtbs \<noteq> []) in
     go_bind (if hasPRTBs then go_return True
              else go_bind (go_lift (crtbIndexer m rtbByClusterAndRoleTemplateIndex (clusterName m @ ''-'' @ rt_name obj)))
                     (\<lambda>crtbs. go_return (crtbs \<noteq> []))) (\<lambda>hasRTBs.
     if \<not> hasRTBs then go_return () else syncRT env m obj hasPRTBs))"

definition rtLifecycle_Remove :: "ureq env \<Rightarrow> user_manager \<Rightarrow> role_template \<Rightarrow> (ureq, unit) go" where
  "rtLifecycle_Remove env m obj = ensureRTDelete env obj"

section \<open>Global role bindings: \<open>globalrole_handler.go\<close>\<close>

record grbHandler =
  grb_crbLister :: "string \<Rightarrow> k8s_binding result"
  grb_indexer :: "string \<Rightarrow> string \<Rightarrow> global_role_binding list result"

definition grbByUserAndRoleIndex :: string where
  "grbByUserAndRoleIndex = ''authz.cluster.cattle.io/grb-by-user-and-role''"

definition grbByUserAndRole :: "global_role_binding \<Rightarrow> string list" where
  "grbByUserAndRole grb = [grb_userName grb @ ''-'' @ grb_globalRoleName grb]"

definition newGlobalRoleBindingHandler :: "global_role_binding list \<Rightarrow> k8s_binding list \<Rightarrow> grbHandler" where
  "newGlobalRoleBindingHandler grbs crbs =
     \<lparr>grb_crbLister = lister_get rb_name crbs,
      grb_indexer = by_index [(grbByUserAndRoleIndex, grbByUserAndRole)] grbs\<rparr>"

definition grbCRBName :: "global_role_binding \<Rightarrow> string" where
  "grbCRBName grb = ''globaladmin-'' @ grb_userName grb"

definition grbHandler_Create :: "ureq env \<Rightarrow> grbHandler \<Rightarrow> global_role_binding \<Rightarrow> (ureq, unit) go" where
  "grbHandler_Create env c obj =
     (if grb_globalRoleName obj \<noteq> ''admin'' then go_return ()
      else case grb_crbLister c (grbCRBName obj) of
          Inr b \<Rightarrow> go_return ()
        | Inl err \<Rightarrow>
            if \<not> is_not_found err then go_fail err
            else go_call env (CreateCRB
                   \<lparr>rb_meta = meta0\<lparr>om_name := grbCRBName obj\<rparr>,
                    rb_subjects = [\<lparr>sub_kind = ''User'', sub_name = grb_userName obj\<rparr>],
                    rb_roleRef = \<lparr>ref_apiGroup = [], ref_kind = ''ClusterRole'', ref_name = ''cluster-admin''\<rparr>\<rparr>))"

definition grbHandler_Updated :: "ureq env \<Rightarrow> grbHandler \<Rightarrow> global_role_binding \<Rightarrow> (ureq, unit) go" where
  "grbHandler_Updated env c obj = go_return ()"

definition grbHandler_Remove :: "ureq env \<Rightarrow> grbHandler \<Rightarrow> global_role_binding \<Rightarrow> (ureq, unit) go" where
  "grbHandler_Remove env c obj =
     (if grb_globalRoleName obj \<noteq> ''admin'' then go_return ()
      else go_bind (go_lift (grb_indexer c grbByUserAndRoleIndex (grb_userName obj @ ''-'' @ grb_globalRoleName obj))) (\<lambda>grbs.
        if length grbs > 1 then go_return ()
        else go_call_nf env (DeleteCRB (grbCRBName obj))))"

section \<open>Projects: \<open>project_handler.go\<close>\<close>

definition createProjectNSRole :: "ureq env \<Rightarrow> string \<Rightarrow> string \<Rightarrow> string \<Rightarrow> (ureq, unit) go" where
  "createProjectNSRole env roleName verb ns =
     go_call env (CreateClusterRole
       \<lparr>role_meta = meta0\<lparr>om_name := roleName, om_annotations := [(projectNSAnn, roleName)]\<rparr>,
        role_rules = (if ns \<noteq> [] then
          [rule0\<lparr>pr_apiGroups := [''''], pr_verbs := [verb], pr_resources := [''namespaces''], pr_resourceNames := [ns]\<rparr>]
          else [])\<rparr>)"

definition defaultProjectLabel :: string where
  "defaultProjectLabel = ''authz.management.cattle.io/default-project''"

text \<open>
  \<open>ensureDefaultNamespaceAssigned\<close>: the callback of the condition records that it ran and
  moves the default namespace into the project, unless it is in one.  The cluster's object is
  written back even when the callback has failed; its error is returned after that.
\<close>

definition ensureDefaultNamespaceAssigned ::
  "(go_error \<Rightarrow> string) \<Rightarrow> string \<Rightarrow> ureq env \<Rightarrow> user_manager \<Rightarrow> project \<Rightarrow> (ureq, unit) go" where
  "ensureDefaultNamespaceAssigned msg now env m project =
     (if \<not> has_key (om_labels (pj_meta project)) defaultProjectLabel then go_return ()
      else case nsLister m ''default'' of
          Inl err \<Rightarrow> if is_not_found err then go_return () else go_fail err
        | Inr ns \<Rightarrow>
            go_bind (go_lift (clusterLister m (clusterName m))) (\<lambda>cluster.
            let updateCluster = \<not> condIsTrue ''DefaultNamespaceAssigned'' (cl_conditions cluster) in
            go_bind (clusterDoUntilTrue msg now ''DefaultNamespaceAssigned'' cluster (\<lambda>_.
              if map_str (ns_annotations ns) projectIDAnnotation \<noteq> [] then go_return (None, None)
              else go_bind (go_try (go_call env (UpdateNamespace (ns\<lparr>ns_meta := (ns_meta ns)\<lparr>om_annotations :=
                     AList.update projectIDAnnotation (clusterName m @ '':'' @ pj_name project) (ns_annotations ns)\<rparr>\<rparr>))))
                   (\<lambda>res. case res of Inl err \<Rightarrow> go_return (None, Some err) | Inr _ \<Rightarrow> go_return (None, None)))) (\<lambda>(c, err).
            go_bind (go_when updateCluster (go_call env (UpdateCluster c))) (\<lambda>_.
            case err of None \<Rightarrow> go_return () | Some e \<Rightarrow> go_fail e))))"

definition pLifecycle_Create ::
  "(go_error \<Rightarrow> string) \<Rightarrow> string \<Rightarrow> ureq env \<Rightarrow> user_manager \<Rightarrow> project \<Rightarrow> (ureq, unit) go" where
  "pLifecycle_Create msg now env m project =
     go_bind (go_for (range_map (env_rng env) projectNSVerbToSuffix) (\<lambda>(verb, sfx).
       let roleName = projectNSGetClusterRoleName (pj_name project) sfx in
       case crLister m roleName of
         Inr _ \<Rightarrow> go_return ()
       | Inl err \<Rightarrow> if \<not> is_not_found err then go_return () else createProjectNSRole env roleName verb [])) (\<lambda>_.
     ensureDefaultNamespaceAssigned msg now env m project)"

definition pLifecycle_Updated :: "ureq env \<Rightarrow> user_manager \<Rightarrow> project \<Rightarrow> (ureq, unit) go" where
  "pLifecycle_Updated env m project = go_return ()"

definition creatorIDAnn :: string where
  "creatorIDAnn = ''field.cattle.io/creatorId''"

text \<open>The loop body of \<open>Remove\<close>: a map that is not nil is one that is not empty here.\<close>

definition releaseNamespace :: "ureq env \<Rightarrow> namespace \<Rightarrow> (ureq, unit) go" where
  "releaseNamespace env ns =
     (if has_key (ns_annotations ns) creatorIDAnn then go_call_nf env (DeleteNamespace (ns_name ns))
      else if ns_annotations ns \<noteq> [] then
        go_call env (UpdateNamespace (ns\<lparr>ns_meta := (ns_meta ns)\<lparr>om_annotations :=
          AList.delete projectIDAnnotation (ns_annotations ns)\<rparr>\<rparr>))
      else go_return ())"

definition pLifecycle_Remove :: "ureq env \<Rightarrow> user_manager \<Rightarrow> project \<Rightarrow> (ureq, unit) go" where
  "pLifecycle_Remove env m project =
     go_bind (go_for (range_map (env_rng env) projectNSVerbToSuffix) (\<lambda>(verb, sfx).
       go_call_nf env (DeleteClusterRole (projectNSGetClusterRoleName (pj_name project) sfx)))) (\<lambda>_.
     go_bind (go_lift (nsIndexer m nsByProjectIndex (om_namespace (pj_meta project) @ '':'' @ pj_name project))) (\<lambda>namespaces.
     go_for namespaces (releaseNamespace env)))"

section \<open>The cluster: \<open>cluster_handler.go\<close>\<close>

definition grbByRoleIndex :: string where
  "grbByRoleIndex = ''management.cattle.io/grb-by-role''"

definition grbByRole :: "global_role_binding \<Rightarrow> string list" where
  "grbByRole grb = [grb_globalRoleName grb]"

record clusterHandler =
  ch_grbIndexer :: "string \<Rightarrow> string \<Rightarrow> global_role_binding list result"
  ch_clusterName :: string

definition newClusterHandler :: "string \<Rightarrow> global_role_binding list \<Rightarrow> clusterHandler" where
  "newClusterHandler name grbs = \<lparr>ch_grbIndexer = by_index [(grbByRoleIndex, grbByRole)] grbs, ch_clusterName = name\<rparr>"

text \<open>\<open>doSync\<close> works on the copy of the cluster that it is given, here returned.\<close>

definition clusterHandler_doSync ::
  "(go_error \<Rightarrow> string) \<Rightarrow> string \<Rightarrow> ureq env \<Rightarrow> clusterHandler \<Rightarrow> cluster \<Rightarrow> (ureq, cluster \<times> go_error option) go" where
  "clusterHandler_doSync msg now env ch cluster =
     clusterDoUntilTrue msg now ''GlobalAdminsSynced'' cluster (\<lambda>marked.
       case ch_grbIndexer ch grbByRoleIndex ''admin'' of
         Inl err \<Rightarrow> go_return (Some marked, Some err)
       | Inr grbs \<Rightarrow> go_bind (go_for grbs (\<lambda>grb. go_emit (EnqueueGRB (om_name (grb_meta grb)))))
           (\<lambda>_. go_return (Some marked, None)))"

definition clusterHandler_sync ::
  "(go_error \<Rightarrow> string) \<Rightarrow> string \<Rightarrow> ureq env \<Rightarrow> clusterHandler \<Rightarrow> string \<Rightarrow> cluster option \<Rightarrow> (ureq, unit) go" where
  "clusterHandler_sync msg now env ch key cluster =
     (case cluster of
        None \<Rightarrow> go_return ()
      | Some original \<Rightarrow>
          if key = [] \<or> cl_name original \<noteq> ch_clusterName ch then go_return ()
          else go_bind (clusterHandler_doSync msg now env ch original) (\<lambda>(c, err).
               go_bind (if c \<noteq> original then go_try (go_call env (UpdateCluster c)) else go_return (Inr ())) (\<lambda>updateErr.
               case err of
                 Some e \<Rightarrow> go_fail e
               | None \<Rightarrow> (case updateErr of Inl e \<Rightarrow> go_fail e | Inr _ \<Rightarrow> go_return ()))))"

end
