(* ===== verification/Project_Access.thy ===== *)
theory Project_Access
  imports User_Handlers
begin

text \<open>
  What the handlers of \<open>User_Handlers\<close> achieve and what they never do: access to the
  namespaces of a project, confinement of a sync to the binding's own project and subject, and
  the removal of bindings and projects.
\<close>

section \<open>The manager over its caches\<close>

lemmas index_names = prtbByProjectIndex_def prtbByProjecSubjectIndex_def prtbByUIDIndex_def
  rtbByClusterAndRoleTemplateIndex_def nsByProjectIndex_def crByNSIndex_def crbByRoleAndSubjectIndex_def

lemma Register_simps [simp]:
  "rtLister (Register cl c) = lister_get rt_name (uc_rts c)"
  "crLister (Register cl c) = lister_get role_name (uc_clusterRoles c)"
  "nsLister (Register cl c) = lister_get ns_name (uc_namespaces c)"
  "clusterLister (Register cl c) = lister_get cl_name (uc_clusters c)"
  "clusterName (Register cl c) = cl"
  "crbLister (Register cl c) sel = Inr (filter (\<lambda>b. selects sel (om_labels (rb_meta b))) (uc_crbs c))"
  "rbLister (Register cl c) ns sel =
     Inr (filter (\<lambda>b. selects sel (om_labels (rb_meta b))) (filter (\<lambda>b. om_namespace (rb_meta b) = ns) (uc_rbs c)))"
  by (simp_all add: Register_def lister_list_def)

lemma Register_indexers [simp]:
  "nsIndexer (Register cl c) nsByProjectIndex pid =
     Inr (filter (\<lambda>n. map_of (ns_annotations n) projectIDAnnotation = Some pid) (uc_namespaces c))"
  "prtbIndexer (Register cl c) prtbByProjecSubjectIndex k =
     Inr (filter (\<lambda>p. getPRTBProjectAndSubjectKey p = k) (uc_prtbs c))"
  "prtbIndexer (Register cl c) prtbByProjectIndex k = Inr (filter (\<lambda>p. rtb_target p = k) (uc_prtbs c))"
  "prtbIndexer (Register cl c) prtbByUIDIndex k = Inr (filter (\<lambda>p. rtb_uid p = k) (uc_prtbs c))"
  "crbIndexer (Register cl c) crbByRoleAndSubjectIndex k =
     Inr (filter (\<lambda>b. k \<in> set (crbByRoleAndSubject b)) (uc_crbs c))"
  "crIndexer (Register cl c) crByNSIndex k = Inr (filter (\<lambda>cr. k \<in> set (crByNS cr)) (uc_clusterRoles c))"
  by (auto simp: Register_def by_index_def index_names nsByProjectID_def prtbByProjectAndSubject_def
      prtbByProjectName_def prtbByUID_def eq_commute split: option.splits intro!: filter_cong)

definition project_namespaces :: "user_caches \<Rightarrow> string \<Rightarrow> namespace list" where
  "project_namespaces c pid =
     filter (\<lambda>n. map_of (ns_annotations n) projectIDAnnotation = Some pid) (uc_namespaces c)"

definition owned_rbs :: "user_caches \<Rightarrow> string \<Rightarrow> string \<Rightarrow> k8s_binding list" where
  "owned_rbs c ns uid = filter (\<lambda>b. om_namespace (rb_meta b) = ns \<and> map_of (om_labels (rb_meta b)) rtbOwnerLabel = Some uid) (uc_rbs c)"

lemma rbLister_owned: "rbLister (Register cl c) ns [(rtbOwnerLabel, uid)] = Inr (owned_rbs c ns uid)"
  by (simp add: owned_rbs_def conj_commute cong: filter_cong)

text \<open>Names of role bindings are unique in a namespace.\<close>

definition unique_rb_names :: "user_caches \<Rightarrow> bool" where
  "unique_rb_names c \<longleftrightarrow> distinct (map (\<lambda>b. (om_namespace (rb_meta b), rb_name b)) (uc_rbs c))"

lemma distinct_owned_rbs: "unique_rb_names c \<Longrightarrow> distinct (map rb_name (owned_rbs c ns uid))"
proof -
  assume "unique_rb_names c"
  then have "distinct (map (\<lambda>b. (om_namespace (rb_meta b), rb_name b)) (owned_rbs c ns uid))"
    unfolding unique_rb_names_def owned_rbs_def by (rule distinct_map_filter)
  moreover have "map (\<lambda>b. (om_namespace (rb_meta b), rb_name b)) (owned_rbs c ns uid) =
      map (Pair ns) (map rb_name (owned_rbs c ns uid))"
    by (auto simp: owned_rbs_def)
  ultimately show ?thesis by (auto simp: distinct_map dest: inj_on_imageI2)
qed

section \<open>What the parts of a sync issue\<close>

definition is_role_req :: "(string \<Rightarrow> bool) \<Rightarrow> ureq \<Rightarrow> bool" where
  "is_role_req N q \<longleftrightarrow> (\<exists>r. (q = CreateClusterRole r \<or> q = UpdateClusterRole r) \<and> N (role_name r))"

lemma lister_get_role_name: "lister_get role_name cache n = Inr r \<Longrightarrow> role_name r = n"
  by (drule lister_get_name) simp

lemma ensureRole_issues: "issues_only (is_role_req (\<lambda>n. n = rt_name rt)) (ensureRole env (Register cl c) rt)"
  unfolding ensureRole_def
  by (auto intro!: issues_intros simp: is_role_req_def split: sum.splits dest!: lister_get_role_name)

lemma is_role_req_mono: "is_role_req N q \<Longrightarrow> (\<And>n. N n \<Longrightarrow> N' n) \<Longrightarrow> is_role_req N' q"
  by (auto simp: is_role_req_def)

lemma ensureRoles_issues:
  assumes "valid_rng (env_rng env)" and "wf_map rts"
  shows "issues_only (is_role_req (\<lambda>n. \<exists>k rt. (k, rt) \<in> set rts \<and> n = rt_name rt)) (ensureRoles env (Register cl c) rts)"
  unfolding ensureRoles_def
proof (rule issues_only_for)
  fix x assume "x \<in> set (range_map (env_rng env) rts)"
  moreover obtain k rt where kt: "x = (k, rt)" by fastforce
  ultimately have x: "(k, rt) \<in> set rts" using set_range_map [OF assms] by simp
  have "issues_only (is_role_req (\<lambda>n. \<exists>k rt. (k, rt) \<in> set rts \<and> n = rt_name rt)) (ensureRole env (Register cl c) rt)"
    by (rule issues_only_mono [OF ensureRole_issues], erule is_role_req_mono) (use x in blast)
  then show "issues_only (is_role_req (\<lambda>n. \<exists>k rt. (k, rt) \<in> set rts \<and> n = rt_name rt))
      (case x of (k, rt) \<Rightarrow> ensureRole env (Register cl c) rt)"
    by (simp add: kt)
qed

lemma reconcileRole_issues:
  "issues_only (is_role_req (\<lambda>n. n = rt_name rt @ ''-promoted''))
     (reconcileRoleForProjectAccessToGlobalResource env (Register cl c) resource rt verbs)"
  unfolding reconcileRoleForProjectAccessToGlobalResource_def Let_def
  by (auto intro!: issues_intros issues_only_bind simp: is_role_req_def split: sum.splits dest!: lister_get_role_name)

lemma promoteRoles_issues:
  assumes "valid_rng (env_rng env)" and "wf_map rts"
  shows "issues_only (is_role_req (\<lambda>n. \<exists>k rt. (k, rt) \<in> set rts \<and> n = rt_name rt @ ''-promoted''))
     (promoteRoles env (Register cl c) rts roles)"
  unfolding promoteRoles_def
proof (intro issues_only_fold)
  fix x s assume "x \<in> set (range_map (env_rng env) rts)"
  moreover obtain k rt where kt: "x = (k, rt)" by fastforce
  ultimately have x: "(k, rt) \<in> set rts" using set_range_map [OF assms] by simp
  let ?P = "is_role_req (\<lambda>n. \<exists>k rt. (k, rt) \<in> set rts \<and> n = rt_name rt @ ''-promoted'')"
  have "issues_only ?P (reconcileRoleForProjectAccessToGlobalResource env (Register cl c) resource rt verbs)"
    for resource verbs
    by (rule issues_only_mono [OF reconcileRole_issues], erule is_role_req_mono) (use x in blast)
  then show "issues_only ?P ((case x of (k, rt) \<Rightarrow> \<lambda>roles. go_fold (\<lambda>resource roles.
         go_bind (go_lift (checkForGlobalResourceRules (Register cl c) rt resource)) (\<lambda>verbs.
         if verbs \<noteq> [] then
           go_bind (reconcileRoleForProjectAccessToGlobalResource env (Register cl c) resource rt verbs) (\<lambda>roleName.
           go_return (roles @ [roleName]))
         else go_return roles)) globalResourcesNeededInProjects roles) s)"
    unfolding kt by (auto intro!: issues_intros issues_only_bind)
qed

lemma ensureCreateNSRole_issues:
  assumes "valid_rng (env_rng env)"
  shows "issues_only (is_role_req (\<lambda>n. n = ''create-ns'')) (ensureCreateNSRole env (Register cl c))"
  unfolding ensureCreateNSRole_def
proof (auto split: sum.splits intro!: issues_intros issues_only_bind)
  fix rt assume "lister_get rt_name (uc_rts c) ''create-ns'' = Inr rt"
  then have "rt_name rt = ''create-ns''" by (auto dest: lister_get_name)
  then show "issues_only (is_role_req (\<lambda>n. n = ''create-ns'')) (ensureRoles env (Register cl c) [(''create-ns'', rt)])"
    by (intro issues_only_mono [OF ensureRoles_issues [OF assms]]) (auto intro: is_role_req_mono simp: wf_map_def)
qed

definition is_crb_req :: "user_caches \<Rightarrow> string \<Rightarrow> subject \<Rightarrow> ureq \<Rightarrow> bool" where
  "is_crb_req c uid subj q \<longleftrightarrow>
     (\<exists>rb. q = CreateCRB rb \<and> rb_subjects rb = [subj] \<and> om_labels (rb_meta rb) = [(uid, owner)]) \<or>
     (\<exists>crb \<in> set (uc_crbs c). \<exists>role. rbRoleSubjectKey role subj \<in> set (crbByRoleAndSubject crb) \<and>
        q = UpdateCRB (crb\<lparr>rb_meta := (rb_meta crb)\<lparr>om_labels := AList.update uid owner (om_labels (rb_meta crb))\<rparr>\<rparr>))"

lemma ensureOwnedCRB_issues: "issues_only (is_crb_req c uid subj) (ensureOwnedCRB env (Register cl c) uid subj role)"
  unfolding ensureOwnedCRB_def Let_def Register_indexers sum.case
proof (auto intro!: issues_intros)
  fix crb assume "crb \<in> set (uc_crbs c)" "rbRoleSubjectKey role subj \<in> set (crbByRoleAndSubject crb)"
  then show "is_crb_req c uid subj (UpdateCRB (crb\<lparr>rb_meta := (rb_meta crb)\<lparr>om_labels :=
      AList.update uid owner (om_labels (rb_meta crb))\<rparr>\<rparr>))"
    unfolding is_crb_req_def by blast
qed (auto simp: is_crb_req_def)

lemma reconcileProjectAccess_issues:
  assumes rng: "valid_rng (env_rng env)" and wf: "wf_map rts" and subj: "buildSubjectFromRTB b = Inr subj"
  shows "issues_only (\<lambda>q. is_crb_req c (rtb_uid b) subj q \<or>
      is_role_req (\<lambda>n. n = ''create-ns'' \<or> (\<exists>k rt. (k, rt) \<in> set rts \<and> n = rt_name rt @ ''-promoted'')) q)
     (reconcileProjectAccessToGlobalResources env (Register cl c) b rts)" (is "issues_only ?P _")
proof -
  have promote: "issues_only ?P (promoteRoles env (Register cl c) rts roles)" for roles
    by (rule issues_only_mono [OF promoteRoles_issues [OF rng wf]], rule disjI2, erule is_role_req_mono) blast
  have createns: "issues_only ?P (ensureCreateNSRole env (Register cl c))"
    by (rule issues_only_mono [OF ensureCreateNSRole_issues [OF rng]], rule disjI2, erule is_role_req_mono) simp
  have crb: "issues_only ?P (ensureOwnedCRB env (Register cl c) (rtb_uid b) subj role)" for role
    by (rule issues_only_mono [OF ensureOwnedCRB_issues]) simp
  show ?thesis
    unfolding reconcileProjectAccessToGlobalResources_def Let_def subj go_bind_lift_Inr
    by (auto split: list.splits intro!: issues_intros issues_only_bind promote createns crb)
qed

definition rb_request :: "user_caches \<Rightarrow> rtb \<Rightarrow> subject \<Rightarrow> (string \<Rightarrow> bool) \<Rightarrow> string \<Rightarrow> ureq \<Rightarrow> bool" where
  "rb_request c b subj N ns q \<longleftrightarrow>
     (\<exists>role. N role \<and> q = CreateRB ns (desiredBinding role (rtb_uid b) subj)) \<or>
     (\<exists>rb \<in> set (owned_rbs c ns (rtb_uid b)). q = DeleteRB ns (rb_name rb))"

lemma ensureProjectRoleBindings_plan:
  assumes rng: "valid_rng (env_rng env)" and names: "unique_rb_names c" and subj: "buildSubjectFromRTB b = Inr subj"
  obtains creates deletes where
    "follows_plan is_delete (ensureProjectRoleBindings env (Register cl c) ns roles b)
       (map (CreateRB ns) creates @ map (DeleteRB ns) deletes)"
    and "set creates \<subseteq> (\<lambda>role. desiredBinding role (rtb_uid b) subj) ` fst ` set roles"
    and "set deletes \<subseteq> rb_name ` set (owned_rbs c ns (rtb_uid b))"
    and "distinct (map bindingKey (filter (\<lambda>rb. rb_name rb \<notin> set deletes) (owned_rbs c ns (rtb_uid b)) @ creates))"
    and "bindingKey ` set (filter (\<lambda>rb. rb_name rb \<notin> set deletes) (owned_rbs c ns (rtb_uid b)) @ creates) =
      (\<lambda>role. Some (rbRoleSubjectKey role subj)) ` fst ` set roles"
proof -
  obtain creates deletes where plan:
    "bindings_plan (env_rng env) (map fst roles) (rtb_uid b) subj (owned_rbs c ns (rtb_uid b)) = (creates, deletes)"
    by fastforce
  have follows: "follows_plan is_delete (ensureProjectRoleBindings env (Register cl c) ns roles b)
       (map (CreateRB ns) creates @ map (DeleteRB ns) deletes)"
    unfolding ensureProjectRoleBindings_def
    by (rule ensureBindings_follows [where list = "rbLister (Register cl c) ns", OF subj rbLister_owned plan]) simp
  show thesis
    using that [OF follows] bindings_plan_result [OF rng distinct_owned_rbs [OF names] plan] by simp
qed

lemma ensureProjectRoleBindings_issues:
  assumes "valid_rng (env_rng env)" and "unique_rb_names c" and "buildSubjectFromRTB b = Inr subj"
  shows "issues_only (rb_request c b subj (\<lambda>role. role \<in> fst ` set roles) ns)
     (ensureProjectRoleBindings env (Register cl c) ns roles b)"
proof (rule ensureProjectRoleBindings_plan [OF assms, of cl ns roles])
  fix creates deletes
  assume plan: "follows_plan is_delete (ensureProjectRoleBindings env (Register cl c) ns roles b)
       (map (CreateRB ns) creates @ map (DeleteRB ns) deletes)"
    "set creates \<subseteq> (\<lambda>role. desiredBinding role (rtb_uid b) subj) ` fst ` set roles"
    "set deletes \<subseteq> rb_name ` set (owned_rbs c ns (rtb_uid b))"
  have c: "rb_request c b subj (\<lambda>role. role \<in> fst ` set roles) ns (CreateRB ns rb)" if "rb \<in> set creates" for rb
    using that plan(2) unfolding rb_request_def by blast
  have d: "rb_request c b subj (\<lambda>role. role \<in> fst ` set roles) ns (DeleteRB ns n)" if "n \<in> set deletes" for n
    using that plan(3) unfolding rb_request_def by blast
  show ?thesis by (rule issues_only_plan [OF plan(1)]) (use c d in auto)
qed

section \<open>Synchronising a project role template binding\<close>

text \<open>
  The requests a sync of the binding may send: role bindings of the template's roles for the
  binding's subject, in the namespaces of its project, marked with the binding; deletions of role
  bindings so marked; cluster role bindings for the subject, and its mark on existing ones; cluster
  roles of the template's names and their promoted variants.
\<close>

definition prtb_request :: "user_caches \<Rightarrow> rtb \<Rightarrow> subject \<Rightarrow> ureq \<Rightarrow> bool" where
  "prtb_request c b subj q \<longleftrightarrow> (\<exists>rt. lister_get rt_name (uc_rts c) (rtb_roleTemplateName b) = Inr rt \<and>
     (let N = template_of (lister_get rt_name (uc_rts c)) rt in
      (\<exists>ns \<in> set (project_namespaces c (rtb_target b)). rb_request c b subj N (ns_name ns) q) \<or>
      is_crb_req c (rtb_uid b) subj q \<or>
      is_role_req (\<lambda>n. N n \<or> n = ''create-ns'' \<or> (\<exists>k. N k \<and> n = k @ ''-promoted'')) q))"

lemma buildSubject_nonempty:
  "buildSubjectFromRTB b = Inr subj \<Longrightarrow>
     \<not> (rtb_userName b = [] \<and> rtb_groupPrincipalName b = [] \<and> rtb_groupName b = [])"
  by (auto simp: buildSubjectFromRTB_cases)

lemma gatherRoles_keys:
  assumes "gatherRoles (lister_get rt_name cache) rt [] = Some (Inr roles)"
  shows "wf_map roles" and "fst ` set roles = Collect (template_of (lister_get rt_name cache) rt)"
    and "\<And>k t. (k, t) \<in> set roles \<Longrightarrow> rt_name t = k"
proof -
  have name: "rt_name t = n" if "lister_get rt_name cache n = Inr t" for n t
    using that by (auto dest: lister_get_name)
  from gatherRoles_result [OF name assms]
  show "wf_map roles" "fst ` set roles = Collect (template_of (lister_get rt_name cache) rt)"
    "\<And>k t. (k, t) \<in> set roles \<Longrightarrow> rt_name t = k" by blast+
qed

lemma syncPRTB_issues:
  assumes rng: "valid_rng (env_rng env)" and names: "unique_rb_names c" and subj: "buildSubjectFromRTB b = Inr subj"
  shows "issues_only (prtb_request c b subj) (syncPRTB env (Register cl c) b)"
proof -
  let ?P = "prtb_request c b subj"
  let ?get = "lister_get rt_name (uc_rts c)"
  { fix rt roles
    assume rt: "?get (rtb_roleTemplateName b) = Inr rt" and g: "gatherRoles ?get rt [] = Some (Inr roles)"
    note keys = gatherRoles_keys [OF g]
    have N: "template_of ?get rt (rt_name t)" if "(k, t) \<in> set roles" for k t
      using keys(2,3) that by (metis fst_conv image_eqI mem_Collect_eq)
    have role: "?P q" if "is_role_req M q" and "\<And>n. M n \<Longrightarrow> template_of ?get rt n \<or> n = ''create-ns'' \<or>
        (\<exists>k. template_of ?get rt k \<and> n = k @ ''-promoted'')" for M q
    proof -
      have "is_role_req (\<lambda>n. template_of ?get rt n \<or> n = ''create-ns'' \<or> (\<exists>k. template_of ?get rt k \<and> n = k @ ''-promoted'')) q"
        using that(1) by (rule is_role_req_mono) (rule that(2))
      with rt show ?thesis unfolding prtb_request_def Let_def by blast
    qed
    have crb: "?P q" if "is_crb_req c (rtb_uid b) subj q" for q
      using that rt unfolding prtb_request_def Let_def by blast
    have "issues_only ?P (ensureRoles env (Register cl c) roles)"
      by (rule issues_only_mono [OF ensureRoles_issues [OF rng keys(1)]], erule role) (use N in blast)
    moreover have "issues_only ?P (reconcileProjectAccessToGlobalResources env (Register cl c) b roles)"
      by (rule issues_only_mono [OF reconcileProjectAccess_issues [OF rng keys(1) subj]], erule disjE, erule crb, erule role)
        (use N in blast)
    moreover have "issues_only ?P (ensureProjectRoleBindings env (Register cl c) (ns_name ns) roles b)"
      if "ns \<in> set (project_namespaces c (rtb_target b))" for ns
      by (rule issues_only_mono [OF ensureProjectRoleBindings_issues [OF rng names subj]])
        (use rt that keys(2) in \<open>auto simp: prtb_request_def Let_def\<close>)
    ultimately have "issues_only ?P (ensureRoles env (Register cl c) roles) \<and>
      issues_only ?P (reconcileProjectAccessToGlobalResources env (Register cl c) b roles) \<and>
      (\<forall>ns \<in> set (project_namespaces c (rtb_target b)).
         issues_only ?P (ensureProjectRoleBindings env (Register cl c) (ns_name ns) roles b))" by blast }
  note parts = this
  show ?thesis
    unfolding syncPRTB_def Register_simps Register_indexers project_namespaces_def [symmetric]
    by (auto intro!: issues_intros issues_only_bind elim!: go_wrap_InrE go_lift_InrE dest!: go_recursion_Inr
        dest: parts)
qed


text \<open>Requests about the role bindings of one namespace.\<close>

definition about_ns :: "string \<Rightarrow> ureq \<Rightarrow> bool" where
  "about_ns ns q \<longleftrightarrow> (\<exists>rb. q = CreateRB ns rb) \<or> (\<exists>n. q = DeleteRB ns n)"

lemma about_ns_simps [simp]:
  "about_ns ns (CreateRB ns' rb) \<longleftrightarrow> ns' = ns" "about_ns ns (DeleteRB ns' n) \<longleftrightarrow> ns' = ns"
  "is_role_req N q \<Longrightarrow> \<not> about_ns ns q" "is_crb_req c uid subj q \<Longrightarrow> \<not> about_ns ns q"
  by (auto simp: about_ns_def is_role_req_def is_crb_req_def)

lemma rb_request_about: "rb_request c b subj N ns' q \<Longrightarrow> about_ns ns q \<longleftrightarrow> ns' = ns"
  by (auto simp: rb_request_def)

lemma filter_about_plan [simp]:
  "filter (about_ns ns) (map (CreateRB ns) xs @ map (DeleteRB ns) ys) = map (CreateRB ns) xs @ map (DeleteRB ns) ys"
  by (auto simp: filter_id_conv)

text \<open>The requests of a successful sync about one namespace of the project are those of its one loop body.\<close>

lemma syncPRTB_namespace:
  assumes rng: "valid_rng (env_rng env)" and names: "unique_rb_names c" and subj: "buildSubjectFromRTB b = Inr subj"
    and rtn: "rtb_roleTemplateName b \<noteq> []" and rt: "lister_get rt_name (uc_rts c) (rtb_roleTemplateName b) = Inr rt"
    and dist: "distinct (map ns_name (uc_namespaces c))" and ns: "ns \<in> set (project_namespaces c (rtb_target b))"
    and run: "syncPRTB env (Register cl c) b h = (Inr (), d)"
  obtains roles h' dx where "gatherRoles (lister_get rt_name (uc_rts c)) rt [] = Some (Inr roles)"
    and "ensureProjectRoleBindings env (Register cl c) (ns_name ns) roles b h' = (Inr (), dx)"
    and "filter (about_ns (ns_name ns)) (map fst d) = filter (about_ns (ns_name ns)) (map fst dx)"
proof -
  let ?m = "Register cl c"
  let ?loop = "\<lambda>roles ns. go_wrap (''couldn't ensure binding '' @ om_name (rtb_meta b) @ '' in '' @ ns_name ns)
     (ensureProjectRoleBindings env ?m (ns_name ns) roles b)"
  obtain roles h1 h2 h3 d1 d2 d3 where g: "gatherRoles (lister_get rt_name (uc_rts c)) rt [] = Some (Inr roles)"
    and er: "ensureRoles env ?m roles h1 = (Inr (), d1)"
    and loop: "go_for (project_namespaces c (rtb_target b)) (?loop roles) h2 = (Inr (), d2)"
    and rec: "reconcileProjectAccessToGlobalResources env ?m b roles h3 = (Inr (), d3)"
    and d: "d = d1 @ d2 @ d3"
    using run buildSubject_nonempty [OF subj] rtn rt
    unfolding syncPRTB_def Register_simps Register_indexers project_namespaces_def [symmetric]
    by (auto elim!: go_bind_InrE go_wrap_InrE go_lift_InrE dest!: go_recursion_Inr)
  note wf = gatherRoles_keys(1) [OF g]
  have own: "issues_only (\<lambda>q. about_ns (ns_name ns) q \<longrightarrow> ns_name y = ns_name ns) (?loop roles y)" for y
    by (intro issues_only_wrap issues_only_mono [OF ensureProjectRoleBindings_issues [OF rng names subj]])
      (simp add: rb_request_about)
  have dist': "distinct (map ns_name (project_namespaces c (rtb_target b)))"
    unfolding project_namespaces_def using dist by (rule distinct_map_filter)
  obtain h' dx where f: "?loop roles ns h' = (Inr (), dx)"
    "filter (about_ns (ns_name ns)) (map fst d2) = filter (about_ns (ns_name ns)) (map fst dx)"
    by (rule go_for_about [where about = about_ns and key = ns_name, OF loop dist' ns own])
  have "filter (about_ns (ns_name ns)) (map fst d1) = []"
    by (rule filter_map_fst_Nil [OF ensureRoles_issues [OF rng wf] _ er]) simp
  moreover have "filter (about_ns (ns_name ns)) (map fst d3) = []"
    by (rule filter_map_fst_Nil [OF reconcileProjectAccess_issues [OF rng wf subj] _ rec]) auto
  ultimately show thesis
    using that [OF g, of h' dx] f d by (auto elim!: go_wrap_InrE)
qed


definition ns_ex :: "string \<Rightarrow> string \<Rightarrow> namespace" where
  "ns_ex n pid = \<lparr>ns_meta = meta0\<lparr>om_name := n, om_annotations := [(projectIDAnnotation, pid)]\<rparr>, ns_phase = ''Active''\<rparr>"

definition prtb_ex :: rtb where
  "prtb_ex = \<lparr>rtb_kind = PRTB, rtb_meta = meta0\<lparr>om_name := ''prtb-1'', om_uid := ''uid-1''\<rparr>,
     rtb_userName = ''u-1'', rtb_userPrincipalName = [], rtb_groupName = [], rtb_groupPrincipalName = [],
     rtb_target = ''c-1:p-1'', rtb_roleTemplateName = ''view''\<rparr>"

definition caches_ex :: user_caches where
  "caches_ex = \<lparr>uc_rts = [template_ex ''view'' []], uc_prtbs = [prtb_ex], uc_crtbs = [],
     uc_namespaces = [ns_ex ''ns-a'' ''c-1:p-1'', ns_ex ''ns-b'' ''c-1:p-2''], uc_clusterRoles = [],
     uc_crbs = [], uc_rbs = [(crb_ex ''rb-old'' ''edit'')\<lparr>rb_meta := meta0\<lparr>om_name := ''rb-old'',
       om_namespace := ''ns-a'', om_labels := [(rtbOwnerLabel, ''uid-1'')]\<rparr>\<rparr>], uc_clusters = []\<rparr>"

lemma prtb_ex_simps [simp]:
  "buildSubjectFromRTB prtb_ex = Inr user_ex" "rtb_uid prtb_ex = ''uid-1''" "rtb_target prtb_ex = ''c-1:p-1''"
  "rtb_roleTemplateName prtb_ex = ''view''" "om_name (rtb_meta prtb_ex) = ''prtb-1''" "rtb_userName prtb_ex = ''u-1''"
  by (simp_all add: prtb_ex_def buildSubjectFromRTB_def user_ex_def)

lemma ns_ex_simps [simp]: "ns_name (ns_ex n pid) = n" "ns_annotations (ns_ex n pid) = [(projectIDAnnotation, pid)]"
  by (simp_all add: ns_ex_def)

lemma caches_ex_facts:
  "unique_rb_names caches_ex" "lister_get rt_name (uc_rts caches_ex) ''view'' = Inr (template_ex ''view'' [])"
  "distinct (map ns_name (uc_namespaces caches_ex))" "ns_ex ''ns-a'' ''c-1:p-1'' \<in> set (project_namespaces caches_ex ''c-1:p-1'')"
  by (simp_all add: caches_ex_def unique_rb_names_def lister_get_def project_namespaces_def)

lemma gatherRoles_ex: "gatherRoles get (template_ex n []) [] = Some (Inr [(n, cleanTemplate (template_ex n []))])"
  by (simp add: gatherRoles_def gatherRolesRecurse_def gather_names.simps cleanRoles_def)

lemma syncPRTB_ex: "fst (syncPRTB accept_all (Register ''c-1'' caches_ex) prtb_ex []) = Inr ()"
  by code_simp



section \<open>Removing bindings and projects\<close>

text \<open>
  C34. Removing a project role template binding revokes its access: when the removal succeeds, a
  deletion was sent for every role binding that carries its mark in every namespace of its
  project, and was accepted or found the role binding gone.
\<close>

theorem ensurePRTBDelete_revokes:
  assumes run: "ensurePRTBDelete env (Register cl c) b h = (Inr (), d)"
    and ns: "ns \<in> set (project_namespaces c (rtb_target b))" and rb: "rb \<in> set (owned_rbs c (ns_name ns) (rtb_uid b))"
  shows "(DeleteRB (ns_name ns) (rb_name rb), None) \<in> set d \<or> (DeleteRB (ns_name ns) (rb_name rb), Some NotFound) \<in> set d"
proof -
  let ?del = "\<lambda>ns rb. go_wrap (''error deleting rolebinding '' @ rb_name rb) (go_call_nf env (DeleteRB (ns_name ns) (rb_name rb)))"
  obtain h1 d1 d2 where loop: "go_for (project_namespaces c (rtb_target b)) (\<lambda>ns.
      go_bind (go_wrap ''couldn't list rolebindings with selector'' (go_lift (Inr (owned_rbs c (ns_name ns) (rtb_uid b)))))
        (\<lambda>rbs. go_for rbs (?del ns))) h1 = (Inr (), d1)" and d: "d = d1 @ d2"
    using run unfolding ensurePRTBDelete_def rbLister_owned Register_indexers project_namespaces_def [symmetric]
    by (auto elim!: go_bind_InrE go_wrap_InrE go_lift_InrE)
  obtain h2 dn where inner: "go_for (owned_rbs c (ns_name ns) (rtb_uid b)) (?del ns) h2 = (Inr (), dn)" "set dn \<subseteq> set d1"
    by (rule go_for_Inr_elem [OF loop ns]) (auto elim!: go_bind_InrE go_wrap_InrE go_lift_InrE)
  obtain h3 dr where del: "?del ns rb h3 = (Inr (), dr)" "set dr \<subseteq> set dn"
    by (rule go_for_Inr_elem [OF inner(1) rb])
  have "follows_plan is_delete (?del ns rb) [DeleteRB (ns_name ns) (rb_name rb)]"
    by (intro follows_plan_wrap follows_plan_call_nf) simp
  from follows_plan_success [OF this del(1)] obtain a
    where "dr = [(DeleteRB (ns_name ns) (rb_name rb), a)]" "a = None \<or> a = Some NotFound"
    by auto
  with del(2) inner(2) d show ?thesis by auto
qed

theorem ensurePRTBDelete_revokes_witness:
  "DeleteRB ''ns-a'' ''rb-old'' \<in> fst ` set (snd (ensurePRTBDelete accept_all (Register ''c-1'' caches_ex) prtb_ex []))"
proof -
  have "fst (ensurePRTBDelete accept_all (Register ''c-1'' caches_ex) prtb_ex []) = Inr ()" by code_simp
  then have run: "ensurePRTBDelete accept_all (Register ''c-1'' caches_ex) prtb_ex [] =
    (Inr (), snd (ensurePRTBDelete accept_all (Register ''c-1'' caches_ex) prtb_ex []))"
    by (metis prod.collapse)
  have ns: "ns_ex ''ns-a'' ''c-1:p-1'' \<in> set (project_namespaces caches_ex (rtb_target prtb_ex))"
    using caches_ex_facts by simp
  obtain rb where rb: "rb \<in> set (owned_rbs caches_ex (ns_name (ns_ex ''ns-a'' ''c-1:p-1'')) (rtb_uid prtb_ex))" "rb_name rb = ''rb-old''"
    by (simp add: owned_rbs_def caches_ex_def)
  from ensurePRTBDelete_revokes [OF run ns rb(1)] rb(2) show ?thesis by (auto intro: rev_image_eqI)
qed

text \<open>
  Two bindings of one subject in one project share the cluster role binding to the project's
  role: each puts its mark on it. When the first is removed while the second lives, its mark is
  left; when the second is removed later, that mark keeps the cluster role binding from being
  deleted. After both removals succeeded the subject still has the access.
\<close>

theorem removed_prtbs_leave_crb:
  assumes key: "getPRTBProjectAndSubjectKey a = getPRTBProjectAndSubjectKey b" and uid: "rtb_uid a \<noteq> rtb_uid b"
    and labels: "om_labels (rb_meta crb) = [(rtb_uid a, owner), (rtb_uid b, owner)]"
    and c1: "b \<in> set (uc_prtbs c1)" "\<not> om_deleting (rtb_meta b)"
    and c2: "uc_crbs c2 = [crb]" "\<And>p. p \<in> set (uc_prtbs c2) \<Longrightarrow> om_deleting (rtb_meta p)"
  shows "reconcileProjectAccessToGlobalResourcesForDelete env (Register cl c1) a h = (Inr (), []) \<and>
    map fst (snd (reconcileProjectAccessToGlobalResourcesForDelete env (Register cl c2) b h)) =
      [UpdateCRB (crb\<lparr>rb_meta := (rb_meta crb)\<lparr>om_labels := [(rtb_uid a, owner)]\<rparr>\<rparr>)]"
proof
  show "reconcileProjectAccessToGlobalResourcesForDelete env (Register cl c1) a h = (Inr (), [])"
    using c1 key unfolding reconcileProjectAccessToGlobalResourcesForDelete_def Register_indexers
    by (auto simp: go_return_def list_ex_iff)
  have "\<not> list_ex (\<lambda>pr. \<not> om_deleting (rtb_meta pr)) (filter (\<lambda>p. getPRTBProjectAndSubjectKey p = getPRTBProjectAndSubjectKey b) (uc_prtbs c2))"
    using c2(2) by (auto simp: list_ex_iff)
  then show "map fst (snd (reconcileProjectAccessToGlobalResourcesForDelete env (Register cl c2) b h)) =
      [UpdateCRB (crb\<lparr>rb_meta := (rb_meta crb)\<lparr>om_labels := [(rtb_uid a, owner)]\<rparr>\<rparr>)]"
    using c2(1) labels uid
    unfolding reconcileProjectAccessToGlobalResourcesForDelete_def Register_indexers Register_simps go_bind_lift_Inr
    by (simp add: Let_def go_call_def go_bind_def go_return_def split: option.splits)
qed

definition shared_crb_ex :: k8s_binding where
  "shared_crb_ex = (crb_ex ''crb-1'' ''p-1-namespaces-readonly'')\<lparr>rb_meta := meta0\<lparr>om_name := ''crb-1'',
     om_labels := [(''uid-1'', owner), (''uid-2'', owner)]\<rparr>\<rparr>"

definition prtb2_ex :: "bool \<Rightarrow> rtb" where
  "prtb2_ex deleting = prtb_ex\<lparr>rtb_meta := meta0\<lparr>om_name := ''prtb-2'', om_uid := ''uid-2'', om_deleting := deleting\<rparr>\<rparr>"

theorem removed_prtbs_leave_crb_witness:
  "map fst (snd (reconcileProjectAccessToGlobalResourcesForDelete accept_all
      (Register ''c-1'' (caches_ex\<lparr>uc_prtbs := [prtb2_ex True], uc_crbs := [shared_crb_ex]\<rparr>)) (prtb2_ex False) [])) =
    [UpdateCRB (shared_crb_ex\<lparr>rb_meta := (rb_meta shared_crb_ex)\<lparr>om_labels := [(''uid-1'', owner)]\<rparr>\<rparr>)]"
  using removed_prtbs_leave_crb [of prtb_ex "prtb2_ex False" shared_crb_ex "caches_ex\<lparr>uc_prtbs := [prtb2_ex False]\<rparr>"
      "caches_ex\<lparr>uc_prtbs := [prtb2_ex True], uc_crbs := [shared_crb_ex]\<rparr>" accept_all "''c-1''" "[]"]
  by (simp add: prtb2_ex_def shared_crb_ex_def getPRTBProjectAndSubjectKey_def)

text \<open>
  Removing a project releases every namespace in it: when the removal succeeds, each was
  deleted, if it was created through this system, or written back without its project annotation;
  and both cluster roles for the project's namespaces were deleted.
\<close>

theorem pLifecycle_Remove_releases:
  assumes rng: "valid_rng (env_rng env)" and run: "pLifecycle_Remove env (Register cl c) p h = (Inr (), d)"
    and ns: "ns \<in> set (project_namespaces c (om_namespace (pj_meta p) @ '':'' @ pj_name p))"
  shows "(if has_key (ns_annotations ns) creatorIDAnn then DeleteNamespace (ns_name ns) \<in> fst ` set d
     else \<exists>ns'. UpdateNamespace ns' \<in> fst ` set d \<and> ns_name ns' = ns_name ns \<and> nsByProjectID ns' = []) \<and>
    DeleteClusterRole (pj_name p @ ''-namespaces-readonly'') \<in> fst ` set d \<and>
    DeleteClusterRole (pj_name p @ ''-namespaces-edit'') \<in> fst ` set d"
proof -
  let ?nss = "project_namespaces c (om_namespace (pj_meta p) @ '':'' @ pj_name p)"
  let ?del = "\<lambda>(verb :: string, sfx). go_call_nf env (DeleteClusterRole (projectNSGetClusterRoleName (pj_name p) sfx))"
  obtain h1 h2 d1 d2 where roles: "go_for (range_map (env_rng env) projectNSVerbToSuffix) ?del h1 = (Inr (), d1)"
    and loop: "go_for ?nss (releaseNamespace env) h2 = (Inr (), d2)" and d: "d = d1 @ d2"
    using run unfolding pLifecycle_Remove_def Register_indexers project_namespaces_def [symmetric]
    by (auto elim!: go_bind_InrE go_lift_InrE)
  have plan: "follows_plan is_delete (go_for (range_map (env_rng env) projectNSVerbToSuffix) ?del)
      (map (\<lambda>(verb, sfx). DeleteClusterRole (projectNSGetClusterRoleName (pj_name p) sfx)) (range_map (env_rng env) projectNSVerbToSuffix))"
    by (rule follows_plan_for_single) (auto intro: follows_plan_call_nf split: prod.splits)
  have "set (range_map (env_rng env) projectNSVerbToSuffix) = set projectNSVerbToSuffix"
    by (rule set_range_map [OF rng]) (simp add: wf_map_def projectNSVerbToSuffix_def)
  then have "fst ` set d1 = (\<lambda>(verb, sfx). DeleteClusterRole (projectNSGetClusterRoleName (pj_name p) sfx)) ` set projectNSVerbToSuffix"
    using follows_plan_success [OF plan roles] by (metis list.set_map)
  then have deleted: "DeleteClusterRole (pj_name p @ ''-namespaces-readonly'') \<in> fst ` set d"
    "DeleteClusterRole (pj_name p @ ''-namespaces-edit'') \<in> fst ` set d"
    unfolding d by (simp_all add: image_Un projectNSVerbToSuffix_def projectNSGetClusterRoleName_def)
  obtain h3 dn where rel: "releaseNamespace env ns h3 = (Inr (), dn)" "set dn \<subseteq> set d2"
    by (rule go_for_Inr_elem [OF loop ns])
  let ?ns' = "ns\<lparr>ns_meta := (ns_meta ns)\<lparr>om_annotations := AList.delete projectIDAnnotation (ns_annotations ns)\<rparr>\<rparr>"
  have "ns_annotations ns \<noteq> []" using ns by (auto simp: project_namespaces_def)
  then have plan: "follows_plan is_delete (releaseNamespace env ns)
      [if has_key (ns_annotations ns) creatorIDAnn then DeleteNamespace (ns_name ns) else UpdateNamespace ?ns']"
    unfolding releaseNamespace_def by (auto intro: plan_intros)
  have "nsByProjectID ?ns' = []" by (simp add: nsByProjectID_def delete_conv')
  moreover have "ns_name ?ns' = ns_name ns" by simp
  moreover have "fst ` set dn \<subseteq> fst ` set d" unfolding d using rel(2) by auto
  then have "(if has_key (ns_annotations ns) creatorIDAnn then DeleteNamespace (ns_name ns) else UpdateNamespace ?ns') \<in> fst ` set d"
    using follows_plan_success [OF plan rel(1)] unfolding set_map [symmetric] by auto
  ultimately show ?thesis using deleted
    by (cases "has_key (ns_annotations ns) creatorIDAnn") (simp_all, intro exI [of _ ?ns'], simp)
qed

definition project_ex :: project where
  "project_ex = \<lparr>pj_meta = meta0\<lparr>om_name := ''p-1'', om_namespace := ''c-1''\<rparr>, pj_displayName = ''P'', pj_description = [],
     pj_clusterName = ''c-1'', pj_conditions = []\<rparr>"

theorem pLifecycle_Remove_releases_witness:
  "DeleteClusterRole ''p-1-namespaces-edit'' \<in> fst ` set (snd (pLifecycle_Remove accept_all (Register ''c-1'' caches_ex) project_ex []))"
proof -
  have "fst (pLifecycle_Remove accept_all (Register ''c-1'' caches_ex) project_ex []) = Inr ()" by code_simp
  then have run: "pLifecycle_Remove accept_all (Register ''c-1'' caches_ex) project_ex [] =
    (Inr (), snd (pLifecycle_Remove accept_all (Register ''c-1'' caches_ex) project_ex []))"
    by (metis prod.collapse)
  have "ns_ex ''ns-a'' ''c-1:p-1'' \<in> set (project_namespaces caches_ex (om_namespace (pj_meta project_ex) @ '':'' @ pj_name project_ex))"
    using caches_ex_facts(4) by (simp add: project_ex_def)
  from pLifecycle_Remove_releases [OF accept_all_simps(3) run this] show ?thesis by (simp add: project_ex_def)
qed

section \<open>Roles for global resources\<close>

text \<open>A server that refuses to create a cluster role with a name that was created before.\<close>

definition unique_roles_api :: "ureq trace \<Rightarrow> ureq \<Rightarrow> api_error option" where
  "unique_roles_api h q = (case q of
       CreateClusterRole r \<Rightarrow> if list_ex (\<lambda>(q', a). a = None \<and>
         (case q' of CreateClusterRole r' \<Rightarrow> role_name r' = role_name r | _ \<Rightarrow> False)) h then Some AlreadyExists else None
     | _ \<Rightarrow> None)"

lemma unique_roles_api_first: "unique_roles_api [] q = None"
  by (simp add: unique_roles_api_def split: ureq.splits)

lemma unique_roles_api_again:
  "role_name r' = role_name r \<Longrightarrow> unique_roles_api [(CreateClusterRole r', None)] (CreateClusterRole r) = Some AlreadyExists"
  by (simp add: unique_roles_api_def)

text \<open>
  A template that grants both resources that projects need at cluster level makes the first
  sync fail: the role promoted for it is created once for each resource, from caches that cannot
  have the first creation yet, and the server refuses the second.
\<close>

theorem promoted_role_created_twice:
  assumes env: "env_api env = unique_roles_api" "env_rng env [k] = [k]"
    and rules: "checkForGlobalResourceRules m rt ''persistentvolumes'' = Inr (v # vs)"
      "checkForGlobalResourceRules m rt ''storageclasses'' = Inr (w # ws)"
    and absent: "crLister m (rt_name rt @ ''-promoted'') = Inl (Api NotFound)"
    and target: "splitn2 (CHR '':'') (rtb_target b) = [cl, p]" "p \<noteq> []"
  shows "fst (reconcileProjectAccessToGlobalResources env m b [(k, rt)] []) =
    Inl (Wrap (''couldn't create role '' @ rt_name rt @ ''-promoted'') (Api AlreadyExists))"
proof -
  let ?role = "\<lambda>res vs. \<lparr>role_meta = meta0\<lparr>om_name := rt_name rt @ ''-promoted''\<rparr>,
    role_rules = [buildRule (env_rng env) res vs]\<rparr>"
  let ?q1 = "CreateClusterRole (?role ''persistentvolumes'' (v # vs))"
  have run: "promoteRoles env m [(k, rt)] rs [] =
    (Inl (Wrap (''couldn't create role '' @ rt_name rt @ ''-promoted'') (Api AlreadyExists)),
     [(?q1, None), (CreateClusterRole (?role ''storageclasses'' (w # ws)), Some AlreadyExists)])" for rs
    unfolding promoteRoles_def range_map_def
    by (simp add: env globalResourcesNeededInProjects_def rules reconcileRoleForProjectAccessToGlobalResource_def Let_def
        absent go_bind_def go_lift_def go_wrap_def go_call_def go_return_def unique_roles_api_first unique_roles_api_again wrap_error_def)
  show ?thesis
    unfolding reconcileProjectAccessToGlobalResources_def
    by (simp add: target Let_def) (simp add: go_bind_def run)
qed

theorem promoted_role_created_twice_witness:
  "fst (reconcileProjectAccessToGlobalResources \<lparr>env_api = unique_roles_api, env_rng = (\<lambda>ks. ks)\<rparr> (Register ''c-1'' caches_ex) prtb_ex
     [(''all'', (template_ex ''all'' [])\<lparr>rt_rules := [rule0\<lparr>pr_verbs := [''get''], pr_resources := [''*'']\<rparr>]\<rparr>)] []) =
    Inl (Wrap ''couldn't create role all-promoted'' (Api AlreadyExists))"
  using promoted_role_created_twice [of "\<lparr>env_api = unique_roles_api, env_rng = (\<lambda>ks. ks)\<rparr>" "''all''" "Register ''c-1'' caches_ex"
      "(template_ex ''all'' [])\<lparr>rt_rules := [rule0\<lparr>pr_verbs := [''get''], pr_resources := [''*'']\<rparr>]\<rparr>" "''get''" "[]" "''get''" "[]"
      prtb_ex "''c-1''" "''p-1''"]
  by (simp add: checkForGlobalResourceRules_def rule0_def template_ex_def set_add_def caches_ex_def lister_get_def splitn2_def)

section \<open>Global administrators\<close>

text \<open>
  The cluster's handler hands every global administrator to the binding handler once. A cluster
  that is marked as synchronised gets no request at all; for one that is not, each binding of the
  administrator role is put on the queue and the cluster, now marked, is written back.
\<close>

theorem clusterHandler_sync_once:
  assumes key: "key \<noteq> []" and name: "cl_name c = ch_clusterName ch" and admins: "ch_grbIndexer ch grbByRoleIndex ''admin'' = Inr grbs"
    and acc: "accepting env"
  shows "if condIsTrue ''GlobalAdminsSynced'' (cl_conditions c)
    then clusterHandler_sync msg now env ch key (Some c) h = (Inr (), [])
    else \<exists>c'. condIsTrue ''GlobalAdminsSynced'' (cl_conditions c') \<and>
      fst (clusterHandler_sync msg now env ch key (Some c) h) = Inr () \<and>
      map fst (snd (clusterHandler_sync msg now env ch key (Some c) h)) =
        map (\<lambda>grb. EnqueueGRB (om_name (grb_meta grb))) grbs @ [UpdateCluster c']"
proof (cases "condIsTrue ''GlobalAdminsSynced'' (cl_conditions c)")
  case True
  then show ?thesis
    using key name by (simp add: clusterHandler_sync_def clusterHandler_doSync_def condDoUntilTrue_def go_defs)
next
  case False
  let ?loop = "go_for grbs (\<lambda>grb. go_emit (EnqueueGRB (om_name (grb_meta grb))))"
  define c' where "c' = cl_conditions_update (condRestore ''GlobalAdminsSynced'' (cl_conditions c))
    (cl_conditions_update (condAfter msg now ''GlobalAdminsSynced'' None)
      (cl_conditions_update (condBefore now ''GlobalAdminsSynced'') c))"
  have c': "condIsTrue ''GlobalAdminsSynced'' (cl_conditions c')" by (simp add: c'_def condIsTrue_after)
  with False have neq: "c' \<noteq> c" by auto
  obtain d where d: "?loop h = (Inr (), d)" "map fst d = map (\<lambda>grb. EnqueueGRB (om_name (grb_meta grb))) grbs"
    by (simp add: comp_def)
  have "clusterHandler_doSync msg now env ch c h = (Inr (c', None), d)"
    using False admins d(1)
    by (simp add: clusterHandler_doSync_def condDoUntilTrue_def condDo_def Let_def c'_def go_bind_def go_return_def)
  then have "clusterHandler_sync msg now env ch key (Some c) h = (Inr (), d @ [(UpdateCluster c', None)])"
    using key name neq acc by (simp add: clusterHandler_sync_def go_bind_def go_try_def go_call_def go_return_def accepting_def)
  with c' d(2) False show ?thesis by auto
qed

theorem clusterHandler_sync_once_witness:
  "let c = \<lparr>cl_meta = meta0\<lparr>om_name := ''c-1''\<rparr>, cl_conditions = []\<rparr> in
   \<exists>c'. condIsTrue ''GlobalAdminsSynced'' (cl_conditions c') \<and>
     map fst (snd (clusterHandler_sync (\<lambda>e. []) ''t'' accept_all (newClusterHandler ''c-1''
       [\<lparr>grb_meta = meta0\<lparr>om_name := ''grb-1''\<rparr>, grb_userName = ''u-1'', grb_globalRoleName = ''admin''\<rparr>]) ''c-1'' (Some c) [])) =
     [EnqueueGRB ''grb-1'', UpdateCluster c']"
  using clusterHandler_sync_once [of "''c-1''" "\<lparr>cl_meta = meta0\<lparr>om_name := ''c-1''\<rparr>, cl_conditions = []\<rparr>"
      "newClusterHandler ''c-1'' [\<lparr>grb_meta = meta0\<lparr>om_name := ''grb-1''\<rparr>, grb_userName = ''u-1'', grb_globalRoleName = ''admin''\<rparr>]"
      "[\<lparr>grb_meta = meta0\<lparr>om_name := ''grb-1''\<rparr>, grb_userName = ''u-1'', grb_globalRoleName = ''admin''\<rparr>]" accept_all "\<lambda>e. []" "''t''" "[]"]
  by (auto simp: Let_def newClusterHandler_def by_index_def grbByRole_def condIsTrue_def getCondStatus_def)

end
