(* ===== verification/User_Namespaces.thy ===== *)
theory User_Namespaces
  imports Project_Access
begin

text \<open>
  The namespace lifecycle of a user cluster, \<open>pkg/controllers/user/rbac/namespace_handler.go\<close>:
  the role bindings of a project's members in a namespace that joins, stays in or leaves the
  project, and the cluster roles through which members see the project's namespaces.  The status
  annotation that \<open>Create\<close> writes afterwards, in JSON and from a goroutine that sleeps, is
  not modelled.
\<close>

section \<open>Role bindings in a namespace\<close>

text \<open>The project's own name in a project id, as \<open>strings.SplitN(id, ":", 2)\<close> finds it.\<close>

definition projectNameOf :: "string \<Rightarrow> string option" where
  "projectNameOf pid = (case splitn2 (CHR '':'') pid of [_, p] \<Rightarrow> if p \<noteq> [] then Some p else None | _ \<Rightarrow> None)"

definition deleteRB :: "ureq env \<Rightarrow> namespace \<Rightarrow> k8s_binding \<Rightarrow> (ureq, unit) go" where
  "deleteRB env ns rb = go_wrap (''couldn't delete role binding '' @ rb_name rb)
     (go_call_nf env (DeleteRB (ns_name ns) (rb_name rb)))"

definition addPRTBToNamespace :: "ureq env \<Rightarrow> user_manager \<Rightarrow> namespace \<Rightarrow> rtb \<Rightarrow> (ureq, unit) go" where
  "addPRTBToNamespace env m ns prtb =
     (if rtb_userName prtb = [] \<and> rtb_groupPrincipalName prtb = [] \<and> rtb_groupName prtb = [] then go_return ()
      else if rtb_roleTemplateName prtb = [] then go_return ()
      else
        go_bind (go_wrap (''couldn't get role template '' @ rtb_roleTemplateName prtb)
          (go_lift (rtLister m (rtb_roleTemplateName prtb)))) (\<lambda>rt.
        go_bind (go_recursion (gatherRoles (rtLister m) rt [])) (\<lambda>roles.
        go_bind (go_wrap ''couldn't ensure roles'' (ensureRoles env m roles)) (\<lambda>_.
        go_wrap (''couldn't ensure binding '' @ om_name (rtb_meta prtb) @ '' in '' @ ns_name ns)
          (ensureProjectRoleBindings env m (ns_name ns) roles prtb)))))"

definition removeForeignRB :: "ureq env \<Rightarrow> user_manager \<Rightarrow> namespace \<Rightarrow> string \<Rightarrow> k8s_binding \<Rightarrow> (ureq, unit) go" where
  "removeForeignRB env m ns projectNamespace rb =
     (let uid = map_str (om_labels (rb_meta rb)) rtbOwnerLabel in
      if uid = [] then go_return ()
      else case prtbIndexer m prtbByUIDIndex uid of
          Inl err \<Rightarrow> if is_not_found err then go_return ()
                     else go_fail (wrap_error (''couldn't find prtb for '' @ rb_name rb) err)
        | Inr prtbs \<Rightarrow> go_for prtbs (\<lambda>prtb.
            go_when (om_namespace (rtb_meta prtb) \<noteq> projectNamespace) (deleteRB env ns rb)))"

definition ensurePRTBAddToNamespace :: "ureq env \<Rightarrow> user_manager \<Rightarrow> namespace \<Rightarrow> (ureq, bool) go" where
  "ensurePRTBAddToNamespace env m ns =
     (let projectID = map_str (ns_annotations ns) projectIDAnnotation;
          listRBs = go_wrap (''couldn't list role bindings in '' @ ns_name ns) (go_lift (rbLister m (ns_name ns) []))
      in if projectID = [] then
           go_bind listRBs (\<lambda>rbs.
           go_bind (go_for rbs (\<lambda>rb.
             go_when (map_str (om_labels (rb_meta rb)) rtbOwnerLabel \<noteq> []) (deleteRB env ns rb))) (\<lambda>_.
           go_return False))
         else
           go_bind (go_wrap (''couldn't get project role binding templates associated with project id '' @ projectID)
             (go_lift (prtbIndexer m prtbByProjectIndex projectID))) (\<lambda>prtbs.
           let hasPRTBs = (prtbs \<noteq> []) in
           go_bind (go_for prtbs (addPRTBToNamespace env m ns)) (\<lambda>_.
           case projectNameOf projectID of
             None \<Rightarrow> go_return hasPRTBs
           | Some projectNamespace \<Rightarrow>
               go_bind listRBs (\<lambda>rbs.
               go_bind (go_for rbs (removeForeignRB env m ns projectNamespace)) (\<lambda>_.
               go_return hasPRTBs)))))"

section \<open>Cluster roles for the namespaces of a project\<close>

definition nsRule :: "string \<Rightarrow> string \<Rightarrow> policy_rule \<Rightarrow> bool" where
  "nsRule verb ns r \<longleftrightarrow> contains_string (pr_verbs r) verb \<and> contains_string (pr_resources r) ''namespaces'' \<and>
     contains_string (pr_resourceNames r) ns"

text \<open>
  A role that names the namespace and is not the one it belongs to: the namespace is taken out of
  the rules with the verb; a role whose rules all name nothing is deleted.
\<close>

definition removeFromRole :: "ureq env \<Rightarrow> string \<Rightarrow> string \<Rightarrow> k8s_role \<Rightarrow> (ureq, unit) go" where
  "removeFromRole env verb ns cr =
     (let modified = list_ex (nsRule verb ns) (role_rules cr);
          rules = map (\<lambda>r. if nsRule verb ns r then r\<lparr>pr_resourceNames := filter (\<lambda>x. x \<noteq> ns) (pr_resourceNames r)\<rparr> else r) (role_rules cr);
          toDeleteRules = length (filter (\<lambda>r. pr_resourceNames r = []) rules)
      in if toDeleteRules = length rules then go_call env (DeleteClusterRole (role_name cr))
         else let updatedRules = (if toDeleteRules \<noteq> 0 then filter (\<lambda>r. pr_resourceNames r \<noteq> []) rules else rules)
              in go_when modified (go_call env (UpdateClusterRole (cr\<lparr>role_rules := updatedRules\<rparr>))))"

text \<open>The first rule with the verb on namespaces gets the name; without one, a rule is added.\<close>

fun appendToFirst :: "string \<Rightarrow> string \<Rightarrow> policy_rule list \<Rightarrow> policy_rule list" where
  "appendToFirst verb ns [] =
     [rule0\<lparr>pr_apiGroups := [''''], pr_verbs := [verb], pr_resources := [''namespaces''], pr_resourceNames := [ns]\<rparr>]"
| "appendToFirst verb ns (r # rs) =
     (if contains_string (pr_verbs r) verb \<and> contains_string (pr_resources r) ''namespaces''
      then r\<lparr>pr_resourceNames := pr_resourceNames r @ [ns]\<rparr> # rs
      else r # appendToFirst verb ns rs)"

text \<open>
  The body of the loop over the verbs; its result says whether it returned from the whole
  function, which it does after creating or updating a role.
\<close>

definition reconcileNSVerb :: "ureq env \<Rightarrow> user_manager \<Rightarrow> namespace \<Rightarrow> string \<Rightarrow> string \<Rightarrow> (ureq, bool) go" where
  "reconcileNSVerb env m ns verb sfx =
     (let desiredRole = (if om_deleting (ns_meta ns) then []
            else case projectNameOf (map_str (ns_annotations ns) projectIDAnnotation) of
                   Some p \<Rightarrow> projectNSGetClusterRoleName p sfx | None \<Rightarrow> [])
      in go_bind (go_lift (crIndexer m crByNSIndex (ns_name ns))) (\<lambda>clusterRoles.
         let nsInDesiredRole = list_ex (\<lambda>cr. role_name cr = desiredRole) clusterRoles in
         go_bind (go_for clusterRoles (\<lambda>cr. go_when (role_name cr \<noteq> desiredRole) (removeFromRole env verb (ns_name ns) cr))) (\<lambda>_.
         if nsInDesiredRole \<or> desiredRole = [] then go_return False
         else case crLister m desiredRole of
             Inl err \<Rightarrow>
               if \<not> is_not_found err then go_fail err
               else go_bind (createProjectNSRole env desiredRole verb (ns_name ns)) (\<lambda>_. go_return True)
           | Inr cr \<Rightarrow>
               if list_ex (nsRule verb (ns_name ns)) (role_rules cr) then go_return False
               else go_bind (go_call env (UpdateClusterRole (cr\<lparr>role_rules := appendToFirst verb (ns_name ns) (role_rules cr)\<rparr>)))
                      (\<lambda>_. go_return True))))"

fun reconcileNSVerbs :: "ureq env \<Rightarrow> user_manager \<Rightarrow> namespace \<Rightarrow> (string \<times> string) list \<Rightarrow> (ureq, unit) go" where
  "reconcileNSVerbs env m ns [] = go_return ()"
| "reconcileNSVerbs env m ns ((verb, sfx) # rest) =
     go_bind (reconcileNSVerb env m ns verb sfx) (\<lambda>returned.
     if returned then go_return () else reconcileNSVerbs env m ns rest)"

definition reconcileNamespaceProjectClusterRole :: "ureq env \<Rightarrow> user_manager \<Rightarrow> namespace \<Rightarrow> (ureq, unit) go" where
  "reconcileNamespaceProjectClusterRole env m ns =
     reconcileNSVerbs env m ns (range_map (env_rng env) projectNSVerbToSuffix)"

section \<open>The lifecycle\<close>

definition syncNS :: "ureq env \<Rightarrow> user_manager \<Rightarrow> namespace \<Rightarrow> (ureq, bool) go" where
  "syncNS env m obj =
     go_bind (ensurePRTBAddToNamespace env m obj) (\<lambda>hasPRTBs.
     go_bind (reconcileNamespaceProjectClusterRole env m obj) (\<lambda>_.
     go_return hasPRTBs))"

definition nsLifecycle_Updated :: "ureq env \<Rightarrow> user_manager \<Rightarrow> namespace \<Rightarrow> (ureq, unit) go" where
  "nsLifecycle_Updated env m obj = go_bind (syncNS env m obj) (\<lambda>_. go_return ())"

definition nsLifecycle_Remove :: "ureq env \<Rightarrow> user_manager \<Rightarrow> namespace \<Rightarrow> (ureq, unit) go" where
  "nsLifecycle_Remove env m obj = reconcileNamespaceProjectClusterRole env m obj"

section \<open>Properties\<close>

lemma deleteRB_issued:
  assumes "deleteRB env ns rb h = (Inr (), d)" shows "DeleteRB (ns_name ns) (rb_name rb) \<in> fst ` set d"
proof -
  have "follows_plan is_delete (deleteRB env ns rb) [DeleteRB (ns_name ns) (rb_name rb)]"
    unfolding deleteRB_def by (intro follows_plan_wrap follows_plan_call_nf) simp
  from follows_plan_success [OF this assms] have "map fst d = [DeleteRB (ns_name ns) (rb_name rb)]" ..
  then show ?thesis by auto
qed

text \<open>
  The role binding's owner is a project role template binding of another project than the
  namespace's, or the namespace is in no project.
\<close>

definition foreign_rb :: "user_caches \<Rightarrow> namespace \<Rightarrow> k8s_binding \<Rightarrow> bool" where
  "foreign_rb c ns rb \<longleftrightarrow> om_namespace (rb_meta rb) = ns_name ns \<and>
     (let uid = map_str (om_labels (rb_meta rb)) rtbOwnerLabel; pid = map_str (ns_annotations ns) projectIDAnnotation in
      uid \<noteq> [] \<and> (pid = [] \<or> (\<exists>p. projectNameOf pid = Some p \<and>
        (\<exists>prtb \<in> set (uc_prtbs c). rtb_uid prtb = uid \<and> om_namespace (rtb_meta prtb) \<noteq> p))))"

text \<open>
  A namespace that has left a project loses the access that came from it: when the sync of a
  namespace succeeds, a deletion was sent for every role binding in it whose owner is a binding of
  another project, and, for a namespace in no project, for every role binding with an owner.
\<close>

theorem ensurePRTBAddToNamespace_removes_foreign:
  assumes run: "ensurePRTBAddToNamespace env (Register cl c) ns h = (Inr res, d)"
    and rb: "rb \<in> set (uc_rbs c)" "foreign_rb c ns rb"
  shows "DeleteRB (ns_name ns) (rb_name rb) \<in> fst ` set d"
proof -
  let ?uid = "map_str (om_labels (rb_meta rb)) rtbOwnerLabel"
  let ?pid = "map_str (ns_annotations ns) projectIDAnnotation"
  let ?rbs = "filter (\<lambda>b. om_namespace (rb_meta b) = ns_name ns) (uc_rbs c)"
  have mem: "rb \<in> set ?rbs" and uid: "?uid \<noteq> []" using rb by (auto simp: foreign_rb_def Let_def)
  show ?thesis
  proof (cases "?pid = []")
    case True
    then obtain h1 d1 where loop: "go_for ?rbs (\<lambda>rb.
        go_when (map_str (om_labels (rb_meta rb)) rtbOwnerLabel \<noteq> []) (deleteRB env ns rb)) h1 = (Inr (), d1)" and d: "set d1 \<subseteq> set d"
      using run unfolding ensurePRTBAddToNamespace_def Let_def Register_simps
      by (auto elim!: go_bind_InrE go_wrap_InrE go_lift_InrE)
    obtain h2 dr where "go_when (?uid \<noteq> []) (deleteRB env ns rb) h2 = (Inr (), dr)" "set dr \<subseteq> set d1"
      by (rule go_for_Inr_elem [OF loop mem])
    with uid deleteRB_issued [of env ns rb h2 dr] d show ?thesis by auto
  next
    case False
    then obtain p prtb where p: "projectNameOf ?pid = Some p" and prtb: "prtb \<in> set (uc_prtbs c)" "rtb_uid prtb = ?uid"
      "om_namespace (rtb_meta prtb) \<noteq> p"
      using rb(2) by (auto simp: foreign_rb_def Let_def)
    obtain h1 d0 d1 d2 where loop: "go_for ?rbs (removeForeignRB env (Register cl c) ns p) h1 = (Inr (), d1)" and "d = d0 @ d1 @ d2"
      using run p False unfolding ensurePRTBAddToNamespace_def Let_def Register_simps Register_indexers
      by (auto elim!: go_bind_InrE go_wrap_InrE go_lift_InrE)
    then have d: "set d1 \<subseteq> set d" by auto
    obtain h2 dr where rem: "removeForeignRB env (Register cl c) ns p rb h2 = (Inr (), dr)" "set dr \<subseteq> set d1"
      by (rule go_for_Inr_elem [OF loop mem])
    have "go_for (filter (\<lambda>p. rtb_uid p = ?uid) (uc_prtbs c))
        (\<lambda>prtb. go_when (om_namespace (rtb_meta prtb) \<noteq> p) (deleteRB env ns rb)) h2 = (Inr (), dr)"
      using rem(1) uid unfolding removeForeignRB_def Let_def Register_indexers by simp
    then obtain h3 dp where "go_when (om_namespace (rtb_meta prtb) \<noteq> p) (deleteRB env ns rb) h3 = (Inr (), dp)" "set dp \<subseteq> set dr"
      by (rule go_for_Inr_elem [where x = prtb]) (use prtb in auto)
    with prtb(3) deleteRB_issued [of env ns rb h3 dp] rem(2) d show ?thesis by auto
  qed
qed

definition foreign_ex :: user_caches where
  "foreign_ex = caches_ex\<lparr>uc_prtbs := [prtb_ex\<lparr>rtb_meta := meta0\<lparr>om_name := ''prtb-1'', om_uid := ''uid-1'', om_namespace := ''p-1''\<rparr>\<rparr>]\<rparr>"

theorem ensurePRTBAddToNamespace_removes_foreign_witness:
  "DeleteRB ''ns-a'' ''rb-old'' \<in> fst ` set (snd (ensurePRTBAddToNamespace accept_all (Register ''c-1'' foreign_ex) (ns_ex ''ns-a'' ''c-1:p-2'') []))"
proof -
  have "fst (ensurePRTBAddToNamespace accept_all (Register ''c-1'' foreign_ex) (ns_ex ''ns-a'' ''c-1:p-2'') []) = Inr False"
    by code_simp
  then have run: "ensurePRTBAddToNamespace accept_all (Register ''c-1'' foreign_ex) (ns_ex ''ns-a'' ''c-1:p-2'') [] =
    (Inr False, snd (ensurePRTBAddToNamespace accept_all (Register ''c-1'' foreign_ex) (ns_ex ''ns-a'' ''c-1:p-2'') []))"
    by (metis prod.collapse)
  obtain rb where rb: "rb \<in> set (uc_rbs foreign_ex)" "foreign_rb foreign_ex (ns_ex ''ns-a'' ''c-1:p-2'') rb" "rb_name rb = ''rb-old''"
    by (simp add: foreign_ex_def caches_ex_def foreign_rb_def map_str_def projectNameOf_def splitn2_def)
  from ensurePRTBAddToNamespace_removes_foreign [OF run rb(1,2)] rb(3) show ?thesis by simp
qed

text \<open>The parts of the cluster role reconciliation that end without a request.\<close>

lemma go_bind_quiet: "go_bind m f h = (Inr y, []) \<longleftrightarrow> (\<exists>x. m h = (Inr x, []) \<and> f x h = (Inr y, []))"
  by (auto simp: go_bind_def split: prod.splits sum.splits)

lemma go_for_quiet: "go_for xs f h = (Inr u, []) \<longleftrightarrow> (\<forall>x \<in> set xs. f x h = (Inr (), []))"
  by (induction xs) (auto simp: go_return_def go_bind_quiet)

lemma go_call_not_quiet [simp]: "go_call env r h \<noteq> (res, [])"
  by (simp add: go_call_def Let_def)

lemma removeFromRole_quiet:
  "removeFromRole env verb ns cr h = (Inr (), []) \<Longrightarrow> \<not> list_ex (nsRule verb ns) (role_rules cr)"
  by (auto simp: removeFromRole_def Let_def split: if_splits)

lemma reconcileNSVerb_quiet:
  assumes "reconcileNSVerb env (Register cl c) ns verb sfx h = (Inr b, [])"
    and "\<not> om_deleting (ns_meta ns)" and "projectNameOf (map_str (ns_annotations ns) projectIDAnnotation) = Some p"
  shows "b = False"
    and "\<exists>cr \<in> set (uc_clusterRoles c). role_name cr = projectNSGetClusterRoleName p sfx \<and>
      (ns_name ns \<in> set (crByNS cr) \<or> list_ex (nsRule verb (ns_name ns)) (role_rules cr))"
    and "\<And>cr. cr \<in> set (uc_clusterRoles c) \<Longrightarrow> ns_name ns \<in> set (crByNS cr) \<Longrightarrow>
      role_name cr \<noteq> projectNSGetClusterRoleName p sfx \<Longrightarrow> \<not> list_ex (nsRule verb (ns_name ns)) (role_rules cr)"
proof -
  let ?role = "projectNSGetClusterRoleName p sfx"
  let ?crs = "filter (\<lambda>cr. ns_name ns \<in> set (crByNS cr)) (uc_clusterRoles c)"
  have ne: "?role \<noteq> []" by (simp add: projectNSGetClusterRoleName_def)
  have loop: "\<forall>cr \<in> set ?crs. go_when (role_name cr \<noteq> ?role) (removeFromRole env verb (ns_name ns) cr) h = (Inr (), [])"
    and rest: "(if list_ex (\<lambda>cr. role_name cr = ?role) ?crs then go_return False
      else case crLister (Register cl c) ?role of
             Inl err \<Rightarrow>
               if \<not> is_not_found err then go_fail err
               else go_bind (createProjectNSRole env ?role verb (ns_name ns)) (\<lambda>_. go_return True)
           | Inr cr \<Rightarrow>
               if list_ex (nsRule verb (ns_name ns)) (role_rules cr) then go_return False
               else go_bind (go_call env (UpdateClusterRole (cr\<lparr>role_rules := appendToFirst verb (ns_name ns) (role_rules cr)\<rparr>)))
                      (\<lambda>_. go_return True)) h = (Inr b, [])"
    using assms ne by (auto simp: reconcileNSVerb_def Let_def go_bind_quiet go_for_quiet split: if_splits)
  show "\<not> list_ex (nsRule verb (ns_name ns)) (role_rules cr)"
    if "cr \<in> set (uc_clusterRoles c)" "ns_name ns \<in> set (crByNS cr)" "role_name cr \<noteq> ?role" for cr
    using loop that removeFromRole_quiet by fastforce
  have "b = False \<and> (\<exists>cr \<in> set (uc_clusterRoles c). role_name cr = ?role \<and>
      (ns_name ns \<in> set (crByNS cr) \<or> list_ex (nsRule verb (ns_name ns)) (role_rules cr)))"
  proof (cases "list_ex (\<lambda>cr. role_name cr = ?role) ?crs")
    case True
    with rest show ?thesis by (auto simp: go_return_def list_ex_iff)
  next
    case False
    with rest obtain cr where cr: "lister_get role_name (uc_clusterRoles c) ?role = Inr cr"
      "list_ex (nsRule verb (ns_name ns)) (role_rules cr)" "b = False"
      by (auto simp: go_bind_quiet createProjectNSRole_def go_fail_def go_return_def split: sum.splits if_splits)
    then show ?thesis using lister_get_name [OF cr(1)] by blast
  qed
  then show "b = False" "\<exists>cr \<in> set (uc_clusterRoles c). role_name cr = ?role \<and>
      (ns_name ns \<in> set (crByNS cr) \<or> list_ex (nsRule verb (ns_name ns)) (role_rules cr))" by blast+
qed

lemma reconcileNSVerbs_quiet:
  assumes "reconcileNSVerbs env (Register cl c) ns vs h = (Inr (), [])" and "(verb, sfx) \<in> set vs"
    and "\<not> om_deleting (ns_meta ns)" and "projectNameOf (map_str (ns_annotations ns) projectIDAnnotation) = Some p"
  shows "reconcileNSVerb env (Register cl c) ns verb sfx h = (Inr False, [])"
  using assms(1,2)
proof (induction vs)
  case (Cons v vs)
  obtain verb' sfx' where v: "v = (verb', sfx')" by fastforce
  from Cons.prems(1) obtain b where b: "reconcileNSVerb env (Register cl c) ns verb' sfx' h = (Inr b, [])"
    "(if b then go_return () else reconcileNSVerbs env (Register cl c) ns vs) h = (Inr (), [])"
    by (auto simp: v go_bind_quiet)
  have "b = False" by (rule reconcileNSVerb_quiet(1) [OF b(1) assms(3,4)])
  with b Cons v show ?case by auto
qed simp

text \<open>
  When the reconciliation of the project roles has nothing left to do, the roles are right. For
  each of the two verbs the project's role for it exists and names the namespace, and no other
  role that the project machinery marks still grants the verb on the namespace.
\<close>

theorem namespace_roles_quiescent:
  assumes rng: "valid_rng (env_rng env)"
    and run: "reconcileNamespaceProjectClusterRole env (Register cl c) ns h = (Inr (), [])"
    and live: "\<not> om_deleting (ns_meta ns)"
    and proj: "projectNameOf (map_str (ns_annotations ns) projectIDAnnotation) = Some p"
    and vs: "(verb, sfx) \<in> {(''get'', ''readonly''), (''*'', ''edit'')}"
  shows "(\<exists>cr \<in> set (uc_clusterRoles c). role_name cr = projectNSGetClusterRoleName p sfx \<and>
      (ns_name ns \<in> set (crByNS cr) \<or> list_ex (nsRule verb (ns_name ns)) (role_rules cr))) \<and>
    (\<forall>cr \<in> set (uc_clusterRoles c). ns_name ns \<in> set (crByNS cr) \<and> role_name cr \<noteq> projectNSGetClusterRoleName p sfx \<longrightarrow>
      \<not> list_ex (nsRule verb (ns_name ns)) (role_rules cr))"
proof -
  have "set (range_map (env_rng env) projectNSVerbToSuffix) = set projectNSVerbToSuffix"
    by (rule set_range_map [OF rng]) (simp add: wf_map_def projectNSVerbToSuffix_def)
  then have "(verb, sfx) \<in> set (range_map (env_rng env) projectNSVerbToSuffix)"
    using vs by (simp add: projectNSVerbToSuffix_def)
  from reconcileNSVerbs_quiet [OF run [unfolded reconcileNamespaceProjectClusterRole_def] this live proj]
  have quiet: "reconcileNSVerb env (Register cl c) ns verb sfx h = (Inr False, [])" .
  show ?thesis using reconcileNSVerb_quiet(2,3) [OF quiet live proj] by blast
qed

definition ns_role_ex :: "string \<Rightarrow> string \<Rightarrow> string \<Rightarrow> k8s_role" where
  "ns_role_ex p verb sfx = \<lparr>role_meta = meta0\<lparr>om_name := p @ ''-namespaces-'' @ sfx,
       om_annotations := [(projectNSAnn, p @ ''-namespaces-'' @ sfx)]\<rparr>,
     role_rules = [rule0\<lparr>pr_apiGroups := [''''], pr_verbs := [verb], pr_resources := [''namespaces''], pr_resourceNames := [''ns-a'']\<rparr>]\<rparr>"

definition roles_of_ex :: "string \<Rightarrow> user_caches" where
  "roles_of_ex p = caches_ex\<lparr>uc_clusterRoles := [ns_role_ex p ''get'' ''readonly'', ns_role_ex p ''*'' ''edit'']\<rparr>"

theorem namespace_roles_quiescent_witness:
  "\<exists>cr \<in> set (uc_clusterRoles (roles_of_ex ''p-1'')). role_name cr = ''p-1-namespaces-edit''"
proof -
  have "fst (reconcileNamespaceProjectClusterRole accept_all (Register ''c-1'' (roles_of_ex ''p-1'')) (ns_ex ''ns-a'' ''c-1:p-1'') []) = Inr ()"
    "snd (reconcileNamespaceProjectClusterRole accept_all (Register ''c-1'' (roles_of_ex ''p-1'')) (ns_ex ''ns-a'' ''c-1:p-1'') []) = []"
    by code_simp+
  then have run: "reconcileNamespaceProjectClusterRole accept_all (Register ''c-1'' (roles_of_ex ''p-1'')) (ns_ex ''ns-a'' ''c-1:p-1'') [] = (Inr (), [])"
    by (metis prod.collapse)
  have "projectNameOf (map_str (ns_annotations (ns_ex ''ns-a'' ''c-1:p-1'')) projectIDAnnotation) = Some ''p-1''"
    by (simp add: map_str_def projectNameOf_def splitn2_def)
  from namespace_roles_quiescent [OF accept_all_simps(3) run _ this, of "''*''" "''edit''"]
  show ?thesis by (auto simp: projectNSGetClusterRoleName_def ns_ex_def meta0_def)
qed

text \<open>
  A sync that has to create the project's role for the first verb stops there, so the roles for
  the second verb are left as they are: when a namespace moves to a new project, a role of the old
  project that grants all verbs on it is neither updated nor deleted by the sync that sees the move.
\<close>

theorem moved_namespace_keeps_old_role:
  assumes rng: "env_rng env [''get'', ''*''] = [''get'', ''*'']"
    and live: "\<not> om_deleting (ns_meta ns)"
    and proj: "projectNameOf (map_str (ns_annotations ns) projectIDAnnotation) = Some p"
    and new: "\<And>cr. cr \<in> set (uc_clusterRoles c) \<Longrightarrow> role_name cr \<noteq> projectNSGetClusterRoleName p ''readonly''"
    and uniq: "distinct (map role_name (uc_clusterRoles c))"
    and old: "cr \<in> set (uc_clusterRoles c)" "\<not> list_ex (nsRule ''get'' (ns_name ns)) (role_rules cr)"
      "list_ex (\<lambda>r. pr_resourceNames r \<noteq> []) (role_rules cr)"
    and run: "reconcileNamespaceProjectClusterRole env (Register cl c) ns h = (r, d)" and q: "(q, a) \<in> set d"
  shows "q \<noteq> DeleteClusterRole (role_name cr) \<and> (\<forall>cr'. q = UpdateClusterRole cr' \<longrightarrow> role_name cr' \<noteq> role_name cr)"
proof -
  let ?P = "\<lambda>q. q \<noteq> DeleteClusterRole (role_name cr) \<and> (\<forall>cr'. q = UpdateClusterRole cr' \<longrightarrow> role_name cr' \<noteq> role_name cr)"
  let ?role = "projectNSGetClusterRoleName p ''readonly''"
  have absent: "lister_get role_name (uc_clusterRoles c) ?role = Inl (Api NotFound)"
  proof (cases "lister_get role_name (uc_clusterRoles c) ?role")
    case (Inl e)
    then show ?thesis using lister_get_error [OF Inl] by simp
  next
    case (Inr x)
    then show ?thesis using lister_get_name [OF Inr] new by blast
  qed
  have ne: "?role \<noteq> []" by (simp add: projectNSGetClusterRoleName_def)
  have body: "issues_only ?P (removeFromRole env ''get'' (ns_name ns) cr')" if "cr' \<in> set (uc_clusterRoles c)" for cr'
  proof (cases "cr' = cr")
    case True
    have "map (\<lambda>r. if nsRule ''get'' (ns_name ns) r then r\<lparr>pr_resourceNames := filter (\<lambda>x. x \<noteq> ns_name ns) (pr_resourceNames r)\<rparr> else r)
        (role_rules cr) = role_rules cr"
      using old(2) by (auto simp: list_ex_iff intro!: map_idI)
    moreover have "length (filter (\<lambda>r. pr_resourceNames r = []) (role_rules cr)) \<noteq> length (role_rules cr)"
      using old(3) by (metis (mono_tags, lifting) list_ex_iff length_filter_less less_not_refl)
    ultimately show ?thesis using old(2) True by (auto simp: removeFromRole_def Let_def intro!: issues_intros)
  next
    case False
    then have "role_name cr' \<noteq> role_name cr" using uniq old(1) that by (auto simp: distinct_map dest: inj_onD)
    then show ?thesis by (auto simp: removeFromRole_def Let_def intro!: issues_intros)
  qed
  have create: "issues_only ?P (createProjectNSRole env n v w)" for n v w
    unfolding createProjectNSRole_def by (intro issues_intros) simp
  have verb: "issues_only ?P (reconcileNSVerb env (Register cl c) ns ''get'' ''readonly'')"
    unfolding reconcileNSVerb_def Let_def
    by (auto simp: live proj ne absent intro!: issues_intros issues_only_bind body create)
  have ret: "reconcileNSVerb env (Register cl c) ns ''get'' ''readonly'' h = (Inr b, d') \<Longrightarrow> b" for h b d'
  proof -
    have "\<not> list_ex (\<lambda>cr. role_name cr = ?role) (filter (\<lambda>cr. ns_name ns \<in> set (crByNS cr)) (uc_clusterRoles c))"
      using new by (auto simp: list_ex_iff)
    moreover assume "reconcileNSVerb env (Register cl c) ns ''get'' ''readonly'' h = (Inr b, d')"
    ultimately show b
      using ne by (auto simp: reconcileNSVerb_def Let_def live proj absent go_return_def elim!: go_bind_InrE)
  qed
  have "range_map (env_rng env) projectNSVerbToSuffix = [(''get'', ''readonly''), (''*'', ''edit'')]"
    by (simp add: range_map_def projectNSVerbToSuffix_def rng)
  then have "issues_only ?P (reconcileNamespaceProjectClusterRole env (Register cl c) ns)"
    unfolding reconcileNamespaceProjectClusterRole_def
    by (auto intro!: issues_only_bind verb dest: ret intro: issues_intros)
  from issues_onlyD [OF this run q] show ?thesis .
qed

theorem moved_namespace_keeps_old_role_witness:
  "list_all (\<lambda>(q, a). q \<noteq> DeleteClusterRole ''p-1-namespaces-edit'')
     (snd (reconcileNamespaceProjectClusterRole accept_all (Register ''c-1'' (roles_of_ex ''p-1'')) (ns_ex ''ns-a'' ''c-1:p-2'') []))"
proof -
  have "projectNameOf (map_str (ns_annotations (ns_ex ''ns-a'' ''c-1:p-2'')) projectIDAnnotation) = Some ''p-2''"
    by (simp add: map_str_def projectNameOf_def splitn2_def)
  note moved = moved_namespace_keeps_old_role [of accept_all "ns_ex ''ns-a'' ''c-1:p-2''" "''p-2''" "roles_of_ex ''p-1''"
      "ns_role_ex ''p-1'' ''*'' ''edit''" "''c-1''", OF accept_all_simps(2) _ this _ _ _ _ _ surjective_pairing]
  have new: "role_name cr \<noteq> projectNSGetClusterRoleName ''p-2'' ''readonly''" if "cr \<in> set (uc_clusterRoles (roles_of_ex ''p-1''))" for cr
    using that by (auto simp: roles_of_ex_def ns_role_ex_def projectNSGetClusterRoleName_def)
  have "q \<noteq> DeleteClusterRole (role_name (ns_role_ex ''p-1'' ''*'' ''edit''))"
    if "(q, a) \<in> set (snd (reconcileNamespaceProjectClusterRole accept_all (Register ''c-1'' (roles_of_ex ''p-1'')) (ns_ex ''ns-a'' ''c-1:p-2'') []))" for q a
    using moved [OF _ new _ _ _ _ that]
    by (simp add: ns_ex_def meta0_def roles_of_ex_def ns_role_ex_def projectNSGetClusterRoleName_def nsRule_def rule0_def caches_ex_def)
  then show ?thesis by (auto simp: ns_role_ex_def list_all_iff)
qed

end
