(* ===== verification/Mgmt_Auth.thy ===== *)
theory Mgmt_Auth
  imports Role_Templates Conditions Binding_Diff
begin

text \<open>
  The controllers of the management cluster that turn role template bindings into roles and
  bindings there, \<open>pkg/controllers/management/auth\<close>: \<open>manager.go\<close>,
  \<open>indexes.go\<close>, \<open>crtb_handler.go\<close> and \<open>prtb_handler.go\<close>.  A binding gives its
  subject a membership role, through which the cluster or project itself is visible, and the
  privileges of its template on the resources of the management plane, in the namespace that backs
  the cluster or project.
\<close>

section \<open>Requests and the manager\<close>

datatype mreq =
    MCreateClusterRole k8s_role
  | MUpdateClusterRole k8s_role
  | MCreateRole string k8s_role
  | MUpdateRole string k8s_role
  | MCreateCRB k8s_binding
  | MUpdateCRB k8s_binding
  | MDeleteCRB string
  | MCreateRB string k8s_binding
  | MUpdateRB string k8s_binding
  | MDeleteRB string string
  | MUpdateCluster cluster
  | MUpdateProject project
  | MCreateProject string project
  | MCreateRTB string rtb
  | MDeleteRTB rtb_kind string string
  | MDeleteGRB string string
  | MDeleteToken string string
  | MCreateNamespace namespace
  | MDeleteNamespace string
  | MUserRequest string

text \<open>
  The manager's listers and indexers.  A namespace that is the empty string means all namespaces
  to a lister.  \<open>EnsureUser\<close> is a method of the interface \<open>user.Manager\<close>: a program of
  its own, which answers with the name of the user.
\<close>

record mgmt_manager =
  mm_projectGet :: "string \<Rightarrow> string \<Rightarrow> project result"
  mm_projectList :: "string \<Rightarrow> project list result"
  mm_crLister :: "string \<Rightarrow> k8s_role result"
  mm_rLister :: "string \<Rightarrow> string \<Rightarrow> k8s_role result"
  mm_rbLister :: "string \<Rightarrow> selector \<Rightarrow> k8s_binding list result"
  mm_crbLister :: "selector \<Rightarrow> k8s_binding list result"
  mm_rtLister :: "string \<Rightarrow> role_template result"
  mm_rbIndexer :: "string \<Rightarrow> string \<Rightarrow> k8s_binding list result"
  mm_crbIndexer :: "string \<Rightarrow> string \<Rightarrow> k8s_binding list result"
  mm_clusterLister :: "string \<Rightarrow> cluster result"
  mm_ensureUser :: "string \<Rightarrow> string \<Rightarrow> (mreq, string) go"

definition clusterResource :: string where
  "clusterResource = ''clusters''"

definition projectResource :: string where
  "projectResource = ''projects''"

definition membershipBindingOwner :: string where
  "membershipBindingOwner = ''memberhsip-binding-owner''"

definition crtbInProjectBindingOwner :: string where
  "crtbInProjectBindingOwner = ''crtb-in-project-binding-owner''"

definition prtbInClusterBindingOwner :: string where
  "prtbInClusterBindingOwner = ''prtb-in-cluster-binding-owner''"

definition rbByOwnerIndex :: string where
  "rbByOwnerIndex = ''auth.management.cattle.io/rb-by-owner''"

definition rbByRoleAndSubjectIndex :: string where
  "rbByRoleAndSubjectIndex = ''auth.management.cattle.io/crb-by-role-and-subject''"

definition clusterManagmentPlaneResources :: "string list" where
  "clusterManagmentPlaneResources = [''clusterroletemplatebindings'', ''nodes'', ''nodepools'', ''clusterevents'',
     ''projects'', ''clusterregistrationtokens'', ''clusterpipelines'', ''clusterloggings'', ''notifiers'', ''clusteralerts'',
     ''podsecuritypolicytemplateprojectbindings'']"

definition projectManagmentPlaneResources :: "string list" where
  "projectManagmentPlaneResources = [''projectroletemplatebindings'', ''apps'', ''secrets'', ''pipelines'',
     ''pipelineexecutions'', ''pipelineexecutionlogs'', ''projectloggings'', ''projectalerts'']"

definition prtbClusterManagmentPlaneResources :: "string list" where
  "prtbClusterManagmentPlaneResources = [''notifiers'', ''clusterpipelines'']"

section \<open>Keys and indexes: \<open>indexes.go\<close>\<close>

definition rbRoleSubjectKey :: "string \<Rightarrow> subject \<Rightarrow> string" where
  "rbRoleSubjectKey roleName subj = roleName @ ''.'' @ sub_kind subj @ ''.'' @ sub_name subj"

definition rbRoleSubjectKeys :: "string \<Rightarrow> subject list \<Rightarrow> string list" where
  "rbRoleSubjectKeys roleName subjects = map (rbRoleSubjectKey roleName) subjects"

definition rbByRoleAndSubject :: "k8s_binding \<Rightarrow> string list" where
  "rbByRoleAndSubject rb = rbRoleSubjectKeys (ref_name (rb_roleRef rb)) (rb_subjects rb)"

definition getRBOwnerKey :: "k8s_binding \<Rightarrow> string list" where
  "getRBOwnerKey rb = map own_uid (om_owners (rb_meta rb))"

definition rbByOwner :: "k8s_binding \<Rightarrow> string list" where
  "rbByOwner rb = getRBOwnerKey rb"

text \<open>\<open>newRTBLifecycles\<close> builds the manager over the caches of the informers.\<close>

record mgmt_caches =
  mc_projects :: "project list"
  mc_clusters :: "cluster list"
  mc_clusterRoles :: "k8s_role list"
  mc_roles :: "k8s_role list"
  mc_rbs :: "k8s_binding list"
  mc_crbs :: "k8s_binding list"
  mc_rts :: "role_template list"

definition in_namespace :: "string \<Rightarrow> object_meta \<Rightarrow> bool" where
  "in_namespace ns om \<longleftrightarrow> ns = [] \<or> om_namespace om = ns"

definition newRTBLifecycles :: "mgmt_caches \<Rightarrow> (string \<Rightarrow> string \<Rightarrow> (mreq, string) go) \<Rightarrow> mgmt_manager" where
  "newRTBLifecycles c ensureUser =
     \<lparr>mm_projectGet = (\<lambda>ns. lister_get pj_name (filter (\<lambda>p. om_namespace (pj_meta p) = ns) (mc_projects c))),
      mm_projectList = (\<lambda>ns. Inr (filter (\<lambda>p. in_namespace ns (pj_meta p)) (mc_projects c))),
      mm_crLister = lister_get role_name (mc_clusterRoles c),
      mm_rLister = (\<lambda>ns. lister_get role_name (filter (\<lambda>r. om_namespace (role_meta r) = ns) (mc_roles c))),
      mm_rbLister = (\<lambda>ns. lister_list (\<lambda>b. om_labels (rb_meta b)) (filter (\<lambda>b. in_namespace ns (rb_meta b)) (mc_rbs c))),
      mm_crbLister = lister_list (\<lambda>b. om_labels (rb_meta b)) (mc_crbs c),
      mm_rtLister = lister_get rt_name (mc_rts c),
      mm_rbIndexer = by_index [(rbByOwnerIndex, rbByOwner), (rbByRoleAndSubjectIndex, rbByRoleAndSubject)] (mc_rbs c),
      mm_crbIndexer = by_index [(rbByRoleAndSubjectIndex, rbByRoleAndSubject)] (mc_crbs c),
      mm_clusterLister = lister_get cl_name (mc_clusters c),
      mm_ensureUser = ensureUser\<rparr>"

definition buildSubjectFromRTB :: "rtb \<Rightarrow> subject result" where
  "buildSubjectFromRTB b =
     (let userName = rtb_userName b; groupPrincipalName = rtb_groupPrincipalName b; groupName = rtb_groupName b;
          (name1, kind1) = (if userName \<noteq> [] then (userName, ''User'') else ([], []))
      in if groupPrincipalName \<noteq> [] \<and> name1 \<noteq> []
         then Inl (Err ''roletemplatebinding has more than one subject fields set'')
         else let (name2, kind2) = (if groupPrincipalName \<noteq> [] then (groupPrincipalName, ''Group'') else (name1, kind1))
         in if groupName \<noteq> [] \<and> name2 \<noteq> []
            then Inl (Err ''roletemplatebinding has more than one subject fields set'')
            else let (name3, kind3) = (if groupName \<noteq> [] then (groupName, ''Group'') else (name2, kind2))
            in if name3 = [] then Inl (Err ''roletemplatebinding doesn't have any subject fields set'')
               else Inr \<lparr>sub_kind = kind3, sub_name = name3\<rparr>)"

section \<open>Membership\<close>

definition createMembershipRole ::
  "mreq env \<Rightarrow> string \<Rightarrow> string \<Rightarrow> bool \<Rightarrow> object_meta \<Rightarrow> (k8s_role \<Rightarrow> mreq) \<Rightarrow> (mreq, unit) go" where
  "createMembershipRole env resourceType roleName makeOwner metaObj create =
     go_call env (create
       \<lparr>role_meta = meta0\<lparr>om_name := roleName, om_owners := [\<lparr>own_apiVersion = om_apiVersion metaObj,
          own_kind = om_kind metaObj, own_name = om_name metaObj, own_uid = om_uid metaObj\<rparr>]\<rparr>,
        role_rules = [rule0\<lparr>pr_apiGroups := [''management.cattle.io''], pr_resources := [resourceType],
          pr_resourceNames := [om_name metaObj], pr_verbs := (if makeOwner then [''*''] else [''get''])\<rparr>]\<rparr>)"

definition createClusterMembershipRole ::
  "mreq env \<Rightarrow> mgmt_manager \<Rightarrow> string \<Rightarrow> cluster \<Rightarrow> bool \<Rightarrow> (mreq, unit) go" where
  "createClusterMembershipRole env m roleName cluster makeOwner =
     (case mm_crLister m roleName of
        Inl _ \<Rightarrow> createMembershipRole env clusterResource roleName makeOwner (cl_meta cluster) MCreateClusterRole
      | Inr _ \<Rightarrow> go_return ())"

definition createProjectMembershipRole ::
  "mreq env \<Rightarrow> mgmt_manager \<Rightarrow> string \<Rightarrow> string \<Rightarrow> project \<Rightarrow> bool \<Rightarrow> (mreq, unit) go" where
  "createProjectMembershipRole env m roleName namespace project makeOwner =
     (case mm_rLister m namespace roleName of
        Inl _ \<Rightarrow> createMembershipRole env projectResource roleName makeOwner (pj_meta project) (MCreateRole namespace)
      | Inr _ \<Rightarrow> go_return ())"

definition reconcileMembershipBindingForDelete ::
  "mreq env \<Rightarrow> string \<Rightarrow> string \<Rightarrow> (selector \<Rightarrow> k8s_binding list result) \<Rightarrow> (k8s_binding \<Rightarrow> mreq) \<Rightarrow> (string \<Rightarrow> mreq)
     \<Rightarrow> (mreq, unit) go" where
  "reconcileMembershipBindingForDelete env roleToKeep rtbUID list update delete =
     go_bind (go_lift (list [(rtbUID, membershipBindingOwner)])) (\<lambda>roleBindings.
     go_for roleBindings (\<lambda>rb.
       if ref_name (rb_roleRef rb) = roleToKeep then go_return ()
       else
         let labels = om_labels (rb_meta rb);
             labels' = (if map_of labels rtbUID = Some membershipBindingOwner then AList.delete rtbUID labels else labels)
         in if labels' = [] then go_call_nf env (delete (rb_name rb))
            else go_call env (update (rb\<lparr>rb_meta := (rb_meta rb)\<lparr>om_labels := labels'\<rparr>\<rparr>))))"

definition reconcileClusterMembershipBindingForDelete ::
  "mreq env \<Rightarrow> mgmt_manager \<Rightarrow> string \<Rightarrow> string \<Rightarrow> (mreq, unit) go" where
  "reconcileClusterMembershipBindingForDelete env m roleToKeep rtbUID =
     reconcileMembershipBindingForDelete env roleToKeep rtbUID (mm_crbLister m) MUpdateCRB MDeleteCRB"

definition reconcileProjectMembershipBindingForDelete ::
  "mreq env \<Rightarrow> mgmt_manager \<Rightarrow> string \<Rightarrow> string \<Rightarrow> string \<Rightarrow> (mreq, unit) go" where
  "reconcileProjectMembershipBindingForDelete env m namespace roleToKeep rtbUID =
     reconcileMembershipBindingForDelete env roleToKeep rtbUID (mm_rbLister m namespace) (MUpdateRB namespace) (MDeleteRB namespace)"

text \<open>
  The loop over the bindings that carry the label of the role template binding.  The subjects are
  compared when there is not exactly one of them; with none, the index into the empty slice panics.
\<close>

definition findMembershipBinding ::
  "(mreq, unit) go \<Rightarrow> string \<Rightarrow> k8s_binding list \<Rightarrow> (mreq, k8s_binding option) go" where
  "findMembershipBinding reconcileForDelete key rbs =
     go_fold (\<lambda>iRB found.
       if length (rb_subjects iRB) \<noteq> 1 then
         (case rb_subjects iRB of
            [] \<Rightarrow> go_fail (Panic ''index out of range'')
          | s # _ \<Rightarrow>
              if rbRoleSubjectKey (ref_name (rb_roleRef iRB)) s = key then go_return (Some iRB)
              else go_bind reconcileForDelete (\<lambda>_. go_return found))
       else go_bind reconcileForDelete (\<lambda>_. go_return found)) rbs None"

definition membershipBinding :: "string \<Rightarrow> string \<Rightarrow> string \<Rightarrow> subject \<Rightarrow> string \<Rightarrow> k8s_binding" where
  "membershipBinding generateName kind rtbUID subj roleName =
     \<lparr>rb_meta = meta0\<lparr>om_generateName := generateName, om_labels := [(rtbUID, membershipBindingOwner)]\<rparr>,
      rb_subjects = [subj], rb_roleRef = \<lparr>ref_apiGroup = [], ref_kind = kind, ref_name = roleName\<rparr>\<rparr>"

text \<open>Without a binding found, one with the same role and subject is marked, or a new one is created.\<close>

definition claimClusterMembershipBinding ::
  "mreq env \<Rightarrow> mgmt_manager \<Rightarrow> string \<Rightarrow> string \<Rightarrow> subject \<Rightarrow> k8s_binding option \<Rightarrow> (mreq, unit) go" where
  "claimClusterMembershipBinding env m roleName rtbUID subj crb =
     (case crb of
        Some _ \<Rightarrow> go_return ()
      | None \<Rightarrow>
          go_bind (go_lift (mm_crbIndexer m rbByRoleAndSubjectIndex (rbRoleSubjectKey roleName subj))) (\<lambda>objs.
          case objs of
            [] \<Rightarrow> go_call env (MCreateCRB (membershipBinding ''clusterrolebinding-'' ''ClusterRole'' rtbUID subj roleName))
          | crb' # _ \<Rightarrow>
              if has_key (om_labels (rb_meta crb')) rtbUID then go_return ()
              else go_call env (MUpdateCRB (crb'\<lparr>rb_meta := (rb_meta crb')\<lparr>om_labels :=
                     AList.update rtbUID membershipBindingOwner (om_labels (rb_meta crb'))\<rparr>\<rparr>))))"

definition ensureClusterMembershipBinding ::
  "mreq env \<Rightarrow> mgmt_manager \<Rightarrow> string \<Rightarrow> string \<Rightarrow> cluster \<Rightarrow> bool \<Rightarrow> subject \<Rightarrow> (mreq, unit) go" where
  "ensureClusterMembershipBinding env m roleName rtbUID cluster makeOwner subj =
     go_bind (createClusterMembershipRole env m roleName cluster makeOwner) (\<lambda>_.
     go_bind (go_lift (mm_crbLister m [(rtbUID, membershipBindingOwner)])) (\<lambda>crbs.
     go_bind (findMembershipBinding (reconcileClusterMembershipBindingForDelete env m roleName rtbUID)
       (rbRoleSubjectKey roleName subj) crbs) (claimClusterMembershipBinding env m roleName rtbUID subj)))"

text \<open>
  The same for projects, with role bindings.  The index that is asked is that of the cluster role
  bindings: its objects fail the type assertion to a role binding, and reading the labels of the
  nil pointer panics.
\<close>

definition ensureProjectMembershipBinding ::
  "mreq env \<Rightarrow> mgmt_manager \<Rightarrow> string \<Rightarrow> string \<Rightarrow> string \<Rightarrow> project \<Rightarrow> bool \<Rightarrow> subject \<Rightarrow> (mreq, unit) go" where
  "ensureProjectMembershipBinding env m roleName rtbUID namespace project makeOwner subj =
     go_bind (createProjectMembershipRole env m roleName namespace project makeOwner) (\<lambda>_.
     let key = rbRoleSubjectKey roleName subj in
     go_bind (go_lift (mm_rbLister m [] [(rtbUID, membershipBindingOwner)])) (\<lambda>rbs.
     go_bind (findMembershipBinding (reconcileProjectMembershipBindingForDelete env m namespace roleName rtbUID) key rbs) (\<lambda>rb.
     case rb of
       Some _ \<Rightarrow> go_return ()
     | None \<Rightarrow>
         go_bind (go_lift (mm_crbIndexer m rbByRoleAndSubjectIndex key)) (\<lambda>objs.
         case objs of
           [] \<Rightarrow> go_call env (MCreateRB namespace (membershipBinding ''rolebinding-'' ''Role'' rtbUID subj roleName))
         | _ # _ \<Rightarrow> go_fail (Panic ''nil pointer dereference'')))))"

section \<open>Privileges on the management plane\<close>

definition checkForManagementPlaneRules :: "mgmt_manager \<Rightarrow> role_template \<Rightarrow> string \<Rightarrow> string list result" where
  "checkForManagementPlaneRules m role managementPlaneResource =
     (case (if rt_external role
            then (case mm_crLister m (rt_name role) of
                    Inr externalRole \<Rightarrow> Inr (role_rules externalRole)
                  | Inl err \<Rightarrow> if is_not_found err then Inr [] else Inl err)
            else Inr (rt_rules role)) of
        Inl err \<Rightarrow> Inl err
      | Inr rules \<Rightarrow> Inr (fold set_add (concat (map pr_verbs (filter (\<lambda>rule.
          (contains_string (pr_resources rule) managementPlaneResource \<or> contains_string (pr_resources rule) ''*'') \<and>
          pr_resourceNames rule = []) rules))) []))"

definition buildRule :: "(string list \<Rightarrow> string list) \<Rightarrow> string \<Rightarrow> string list \<Rightarrow> policy_rule" where
  "buildRule rng resource verbs =
     rule0\<lparr>pr_resources := [resource], pr_verbs := rng verbs, pr_apiGroups := [''*'']\<rparr>"

text \<open>The verbs that a role's rules grant on a resource.\<close>

definition verbsOn :: "policy_rule list \<Rightarrow> string \<Rightarrow> string list" where
  "verbsOn rules resource =
     fold set_add (concat (map pr_verbs (filter (\<lambda>rule. contains_string (pr_resources rule) resource) rules))) []"

text \<open>One resource of the loop over the resources: the rules of the new role and whether to update.\<close>

definition reconcileResourceRule ::
  "(string list \<Rightarrow> string list) \<Rightarrow> policy_rule list \<Rightarrow> string \<times> string list \<Rightarrow> policy_rule list \<times> bool \<Rightarrow> policy_rule list \<times> bool" where
  "reconcileResourceRule rng current rv st =
     (case (rv, st) of ((resource, newVerbs), (rules, update)) \<Rightarrow>
        if set (verbsOn current resource) \<noteq> set newVerbs then
          (let rule' = buildRule rng resource newVerbs;
               added = list_ex (\<lambda>rule. contains_string (pr_resources rule) resource) rules;
               replaced = map (\<lambda>rule. if contains_string (pr_resources rule) resource then rule' else rule) rules
           in (if added then replaced else replaced @ [rule'], True))
        else (rules, update))"

definition reconcileManagementPlaneRole ::
  "mreq env \<Rightarrow> mgmt_manager \<Rightarrow> string \<Rightarrow> (string, string list) gomap \<Rightarrow> role_template \<Rightarrow> (mreq, unit) go" where
  "reconcileManagementPlaneRole env m namespace resourceToVerbs rt =
     (case mm_rLister m namespace (rt_name rt) of
        Inr role \<Rightarrow>
          (case fold (reconcileResourceRule (env_rng env) (role_rules role)) (range_map (env_rng env) resourceToVerbs) (role_rules role, False) of
             (rules, update) \<Rightarrow> go_when update (go_call env (MUpdateRole namespace (role\<lparr>role_rules := rules\<rparr>))))
      | Inl _ \<Rightarrow>
          go_wrap (''couldn't create role '' @ rt_name rt)
            (go_call env (MCreateRole namespace \<lparr>role_meta = meta0\<lparr>om_name := rt_name rt\<rparr>,
               role_rules = map (\<lambda>(resource, newVerbs). buildRule (env_rng env) resource newVerbs)
                 (range_map (env_rng env) resourceToVerbs)\<rparr>)))"

definition gatherAndDedupeRoles :: "(string list \<Rightarrow> string list) \<Rightarrow> mgmt_manager \<Rightarrow> string \<Rightarrow> (mreq, template_map) go" where
  "gatherAndDedupeRoles rng m roleTemplateName =
     go_bind (go_lift (mm_rtLister m roleTemplateName)) (\<lambda>rt.
     go_bind (go_recursion (gatherRoleTemplates (mm_rtLister m) rt [])) (\<lambda>allRoles.
     go_return (fold (\<lambda>(k, role). AList.update (rt_name role) role) (range_map rng allRoles) [])))"

text \<open>
  The loop over the roles that the three functions below share: the bindings wanted for the roles
  with privileges, by name, while the roles themselves are reconciled.
\<close>

fun resourceVerbs :: "mgmt_manager \<Rightarrow> role_template \<Rightarrow> string list \<Rightarrow> (string, string list) gomap result" where
  "resourceVerbs m role [] = Inr []"
| "resourceVerbs m role (resource # rest) =
     (case checkForManagementPlaneRules m role resource of
        Inl err \<Rightarrow> Inl err
      | Inr verbs \<Rightarrow>
          (case resourceVerbs m role rest of
             Inl err \<Rightarrow> Inl err
           | Inr r2v \<Rightarrow> Inr (if verbs \<noteq> [] then (resource, verbs) # AList.delete resource r2v else r2v)))"

definition grantLoop ::
  "mreq env \<Rightarrow> mgmt_manager \<Rightarrow> string \<Rightarrow> string list \<Rightarrow> string \<Rightarrow> (string \<Rightarrow> role_template \<Rightarrow> k8s_binding) \<Rightarrow> template_map
     \<Rightarrow> (mreq, (string, k8s_binding) gomap) go" where
  "grantLoop env m namespace resources owningName makeRB roles =
     go_fold (\<lambda>(k, role) desiredRBs.
       go_bind (go_lift (resourceVerbs m role resources)) (\<lambda>resourceToVerbs.
       let bindingName = owningName @ ''-'' @ rt_name role;
           desiredRBs' = (if resourceToVerbs \<noteq> [] \<and> \<not> has_key desiredRBs bindingName
             then AList.update bindingName (makeRB bindingName role) desiredRBs else desiredRBs)
       in go_bind (go_when (resourceToVerbs \<noteq> []) (reconcileManagementPlaneRole env m namespace resourceToVerbs role)) (\<lambda>_.
          go_return desiredRBs'))) (range_map (env_rng env) roles) []"

definition mgmtDiff_step :: "k8s_binding \<Rightarrow> k8s_binding diff_state \<Rightarrow> k8s_binding diff_state" where
  "mgmtDiff_step rb st =
     (case st of (desiredRBs, rbsToDelete, processed) \<Rightarrow>
        if rb_name rb \<in> set processed then (desiredRBs, rbsToDelete, processed)
        else let processed' = set_add (rb_name rb) processed in
          if has_key desiredRBs (rb_name rb)
          then (AList.delete (rb_name rb) desiredRBs, rbsToDelete, processed')
          else (desiredRBs, set_add (rb_name rb) rbsToDelete, processed'))"

definition reconcileDesiredMGMTPlaneRoleBindings ::
  "mreq env \<Rightarrow> string \<Rightarrow> (string, k8s_binding) gomap \<Rightarrow> (string, k8s_binding) gomap \<Rightarrow> (mreq, unit) go" where
  "reconcileDesiredMGMTPlaneRoleBindings env namespace currentRBs desiredRBs =
     (case fold mgmtDiff_step (map snd (range_map (env_rng env) currentRBs)) (desiredRBs, [], []) of
        (desiredRBs', rbsToDelete, processed) \<Rightarrow>
          go_bind (go_for (range_map (env_rng env) desiredRBs') (\<lambda>(k, rb). go_call env (MCreateRB namespace rb))) (\<lambda>_.
          go_for (env_rng env rbsToDelete) (\<lambda>name. go_call env (MDeleteRB namespace name))))"

definition byName :: "k8s_binding list \<Rightarrow> (string, k8s_binding) gomap" where
  "byName rbs = fold (\<lambda>rb. AList.update (rb_name rb) rb) rbs []"

definition ownedRB :: "object_meta \<Rightarrow> subject \<Rightarrow> string \<Rightarrow> role_template \<Rightarrow> k8s_binding" where
  "ownedRB bindingMeta subj bindingName role =
     \<lparr>rb_meta = meta0\<lparr>om_name := bindingName, om_owners := [\<lparr>own_apiVersion = om_apiVersion bindingMeta,
        own_kind = om_kind bindingMeta, own_name = om_name bindingMeta, own_uid = om_uid bindingMeta\<rparr>]\<rparr>,
      rb_subjects = [subj],
      rb_roleRef = \<lparr>ref_apiGroup = [], ref_kind = ''Role'', ref_name = rt_name role\<rparr>\<rparr>"

definition grantManagementPlanePrivileges ::
  "mreq env \<Rightarrow> mgmt_manager \<Rightarrow> string \<Rightarrow> string list \<Rightarrow> subject \<Rightarrow> rtb \<Rightarrow> (mreq, unit) go" where
  "grantManagementPlanePrivileges env m roleTemplateName resources subj binding =
     (let bindingMeta = rtb_meta binding; namespace = om_namespace bindingMeta in
      go_bind (gatherAndDedupeRoles (env_rng env) m roleTemplateName) (\<lambda>roles.
      go_bind (grantLoop env m namespace resources (om_name bindingMeta) (ownedRB bindingMeta subj) roles) (\<lambda>desiredRBs.
      go_bind (go_lift (mm_rbIndexer m rbByOwnerIndex (om_uid bindingMeta))) (\<lambda>current.
      reconcileDesiredMGMTPlaneRoleBindings env namespace (byName current) desiredRBs))))"

definition labelledRB :: "string \<Rightarrow> string \<Rightarrow> subject \<Rightarrow> string \<Rightarrow> role_template \<Rightarrow> k8s_binding" where
  "labelledRB uid ownerLabel subj bindingName role =
     \<lparr>rb_meta = meta0\<lparr>om_name := bindingName, om_labels := [(uid, ownerLabel)]\<rparr>,
      rb_subjects = [subj],
      rb_roleRef = \<lparr>ref_apiGroup = [], ref_kind = ''Role'', ref_name = rt_name role\<rparr>\<rparr>"

definition grantManagementClusterScopedPrivilegesInProjectNamespace ::
  "mreq env \<Rightarrow> mgmt_manager \<Rightarrow> string \<Rightarrow> string \<Rightarrow> string list \<Rightarrow> subject \<Rightarrow> rtb \<Rightarrow> (mreq, unit) go" where
  "grantManagementClusterScopedPrivilegesInProjectNamespace env m roleTemplateName projectNamespace resources subj binding =
     go_bind (gatherAndDedupeRoles (env_rng env) m roleTemplateName) (\<lambda>roles.
     go_bind (grantLoop env m projectNamespace resources (om_name (rtb_meta binding))
       (labelledRB (rtb_uid binding) crtbInProjectBindingOwner subj) roles) (\<lambda>desiredRBs.
     go_bind (go_lift (mm_rbLister m projectNamespace [(rtb_uid binding, crtbInProjectBindingOwner)])) (\<lambda>current.
     reconcileDesiredMGMTPlaneRoleBindings env projectNamespace (byName current) desiredRBs)))"

definition grantManagementProjectScopedPrivilegesInClusterNamespace ::
  "mreq env \<Rightarrow> mgmt_manager \<Rightarrow> string \<Rightarrow> string \<Rightarrow> string list \<Rightarrow> subject \<Rightarrow> rtb \<Rightarrow> (mreq, unit) go" where
  "grantManagementProjectScopedPrivilegesInClusterNamespace env m roleTemplateName clusterNamespace resources subj binding =
     go_bind (gatherAndDedupeRoles (env_rng env) m roleTemplateName) (\<lambda>roles.
     go_bind (grantLoop env m clusterNamespace resources (om_name (rtb_meta binding))
       (labelledRB (rtb_uid binding) prtbInClusterBindingOwner subj) roles) (\<lambda>desiredRBs.
     go_bind (go_lift (mm_rbLister m clusterNamespace [(rtb_uid binding, prtbInClusterBindingOwner)])) (\<lambda>current.
     reconcileDesiredMGMTPlaneRoleBindings env clusterNamespace (byName current) desiredRBs)))"

section \<open>Cluster role template bindings: \<open>crtb_handler.go\<close>\<close>

text \<open>\<open>reconcileSubject\<close> is the same for both kinds of bindings.\<close>

definition reconcileSubject :: "mgmt_manager \<Rightarrow> rtb \<Rightarrow> (mreq, rtb) go" where
  "reconcileSubject m binding =
     (if rtb_userName binding \<noteq> [] \<or> rtb_groupName binding \<noteq> [] \<or> rtb_groupPrincipalName binding \<noteq> [] then go_return binding
      else if rtb_userPrincipalName binding \<noteq> [] \<and> rtb_userName binding = [] then
        (let displayName = map_str (om_annotations (rtb_meta binding)) ''auth.cattle.io/principal-display-name'' in
         go_bind (mm_ensureUser m (rtb_userPrincipalName binding) displayName) (\<lambda>userName.
         go_return (binding\<lparr>rtb_userName := userName\<rparr>)))
      else go_fail (Err (''Binding '' @ om_name (rtb_meta binding) @ '' has no subject'')))"

definition crtb_reconcilBindings :: "mreq env \<Rightarrow> mgmt_manager \<Rightarrow> rtb \<Rightarrow> (mreq, unit) go" where
  "crtb_reconcilBindings env m binding =
     (if rtb_userName binding = [] \<and> rtb_groupPrincipalName binding = [] \<and> rtb_groupName binding = [] then go_return ()
      else
        let clusterName = rtb_target binding in
        go_bind (go_lift (mm_clusterLister m clusterName)) (\<lambda>cluster.
        let isOwnerRole = (rtb_roleTemplateName binding = ''cluster-owner'');
            clusterRoleName = to_lower (if isOwnerRole then clusterName @ ''-clusterowner'' else clusterName @ ''-clustermember'')
        in go_bind (go_lift (buildSubjectFromRTB binding)) (\<lambda>subj.
           go_bind (ensureClusterMembershipBinding env m clusterRoleName (rtb_uid binding) cluster isOwnerRole subj) (\<lambda>_.
           go_bind (grantManagementPlanePrivileges env m (rtb_roleTemplateName binding) clusterManagmentPlaneResources subj binding) (\<lambda>_.
           go_bind (go_lift (mm_projectList m (om_namespace (rtb_meta binding)))) (\<lambda>projects.
           go_for projects (\<lambda>p. grantManagementClusterScopedPrivilegesInProjectNamespace env m (rtb_roleTemplateName binding)
             (pj_name p) projectManagmentPlaneResources subj binding)))))))"

definition removeMGMTClusterScopedPrivilegesInProjectNamespace :: "mreq env \<Rightarrow> mgmt_manager \<Rightarrow> rtb \<Rightarrow> (mreq, unit) go" where
  "removeMGMTClusterScopedPrivilegesInProjectNamespace env m binding =
     go_bind (go_lift (mm_projectList m (om_namespace (rtb_meta binding)))) (\<lambda>projects.
     go_for projects (\<lambda>p.
       go_bind (go_lift (mm_rbLister m (pj_name p) [(rtb_uid binding, crtbInProjectBindingOwner)])) (\<lambda>rbs.
       go_for rbs (\<lambda>rb. go_call env (MDeleteRB (pj_name p) (rb_name rb))))))"

definition creatorOwnerBindingAnnotation :: string where
  "creatorOwnerBindingAnnotation = ''authz.management.cattle.io/creator-owner-binding''"

definition crtbLifecycle_Create :: "string \<Rightarrow> mreq env \<Rightarrow> mgmt_manager \<Rightarrow> rtb \<Rightarrow> (mreq, rtb) go" where
  "crtbLifecycle_Create now env m obj0 =
     go_bind (reconcileSubject m obj0) (\<lambda>obj.
     go_bind (crtb_reconcilBindings env m obj) (\<lambda>_.
     if map_str (om_annotations (rtb_meta obj)) creatorOwnerBindingAnnotation = ''true'' then
       go_bind (go_lift (mm_clusterLister m (rtb_target obj))) (\<lambda>cluster.
       go_bind (go_when (\<not> condIsTrue ''InitialRolesPopulated'' (cl_conditions cluster))
         (go_call env (MUpdateCluster (cl_conditions_update (setCondStatus now ''InitialRolesPopulated'' ''True'') cluster)))) (\<lambda>_.
       go_return obj))
     else go_return obj))"

definition crtbLifecycle_Updated :: "mreq env \<Rightarrow> mgmt_manager \<Rightarrow> rtb \<Rightarrow> (mreq, rtb) go" where
  "crtbLifecycle_Updated env m obj0 =
     go_bind (reconcileSubject m obj0) (\<lambda>obj.
     go_bind (crtb_reconcilBindings env m obj) (\<lambda>_. go_return obj))"

definition crtbLifecycle_Remove :: "mreq env \<Rightarrow> mgmt_manager \<Rightarrow> rtb \<Rightarrow> (mreq, unit) go" where
  "crtbLifecycle_Remove env m obj =
     go_bind (reconcileClusterMembershipBindingForDelete env m [] (rtb_uid obj)) (\<lambda>_.
     removeMGMTClusterScopedPrivilegesInProjectNamespace env m obj)"

section \<open>Project role template bindings: \<open>prtb_handler.go\<close>\<close>

definition prtb_reconcileBindings :: "mreq env \<Rightarrow> mgmt_manager \<Rightarrow> rtb \<Rightarrow> (mreq, unit) go" where
  "prtb_reconcileBindings env m binding =
     (if rtb_userName binding = [] \<and> rtb_groupPrincipalName binding = [] \<and> rtb_groupName binding = [] then go_return ()
      else case splitn2 (CHR '':'') (rtb_target binding) of
          [clusterName, projectName] \<Rightarrow>
            go_bind (go_lift (mm_projectGet m clusterName projectName)) (\<lambda>proj.
            go_bind (go_lift (mm_clusterLister m clusterName)) (\<lambda>cluster.
            let roleName = to_lower (clusterName @ ''-clustermember'');
                isOwnerRole = (rtb_roleTemplateName binding = ''project-owner'');
                projectRoleName = to_lower (if isOwnerRole then projectName @ ''-projectowner'' else projectName @ ''-projectmember'')
            in go_bind (go_lift (buildSubjectFromRTB binding)) (\<lambda>subj.
               go_bind (ensureProjectMembershipBinding env m projectRoleName (rtb_uid binding) clusterName proj isOwnerRole subj) (\<lambda>_.
               go_bind (ensureClusterMembershipBinding env m roleName (rtb_uid binding) cluster False subj) (\<lambda>_.
               go_bind (grantManagementProjectScopedPrivilegesInClusterNamespace env m (rtb_roleTemplateName binding)
                 (om_namespace (pj_meta proj)) prtbClusterManagmentPlaneResources subj binding) (\<lambda>_.
               grantManagementPlanePrivileges env m (rtb_roleTemplateName binding) projectManagmentPlaneResources subj binding))))))
        | _ \<Rightarrow> go_fail (Err (''cannot determine project and cluster from '' @ rtb_target binding)))"

definition prtbLifecycle_Create :: "mreq env \<Rightarrow> mgmt_manager \<Rightarrow> rtb \<Rightarrow> (mreq, rtb) go" where
  "prtbLifecycle_Create env m obj0 =
     go_bind (reconcileSubject m obj0) (\<lambda>obj.
     go_bind (prtb_reconcileBindings env m obj) (\<lambda>_. go_return obj))"

definition prtbLifecycle_Updated :: "mreq env \<Rightarrow> mgmt_manager \<Rightarrow> rtb \<Rightarrow> (mreq, rtb) go" where
  "prtbLifecycle_Updated env m obj0 =
     go_bind (reconcileSubject m obj0) (\<lambda>obj.
     go_bind (prtb_reconcileBindings env m obj) (\<lambda>_. go_return obj))"

definition prtbLifecycle_Remove :: "mreq env \<Rightarrow> mgmt_manager \<Rightarrow> rtb \<Rightarrow> (mreq, unit) go" where
  "prtbLifecycle_Remove env m obj =
     (case splitn2 (CHR '':'') (rtb_target obj) of
        [clusterName, _] \<Rightarrow>
          go_bind (reconcileProjectMembershipBindingForDelete env m clusterName [] (rtb_uid obj)) (\<lambda>_.
          reconcileClusterMembershipBindingForDelete env m [] (rtb_uid obj))
      | _ \<Rightarrow> go_fail (Err (''cannot determine project and cluster from '' @ rtb_target obj)))"

end
