(* ===== verification/Mgmt_Access.thy ===== *)
theory Mgmt_Access
  imports Mgmt_Auth
begin

text \<open>
  What the controllers of \<open>Mgmt_Auth\<close> achieve: the bindings wanted are the bindings left,
  every resource of the management plane ends with exactly its verbs, membership is established
  and, on removal, revoked.
\<close>

section \<open>Reconciling role bindings\<close>

interpretation mgmt_diff: binding_diff "\<lambda>rb. Some (rb_name rb)" rb_name mgmtDiff_step
  by unfold_locales (simp add: mgmtDiff_step_def)


text \<open>A map of bindings whose keys are the names of the bindings.\<close>

definition named_map :: "(string, k8s_binding) gomap \<Rightarrow> bool" where
  "named_map D \<longleftrightarrow> wf_map D \<and> list_all (\<lambda>(k, rb). rb_name rb = k) D"

lemma named_map_Nil: "named_map []"
  by (simp add: named_map_def)

lemma named_map_update: "named_map D \<Longrightarrow> rb_name rb = k \<Longrightarrow> named_map (AList.update k rb D)"
proof -
  assume "named_map D" "rb_name rb = k"
  moreover have "set (AList.update k rb D) \<subseteq> insert (k, rb) (set D)" by (induction D) auto
  ultimately show ?thesis unfolding named_map_def list_all_iff by (auto simp: distinct_update)
qed

lemma named_map_byName: "named_map (byName rbs)"
proof -
  have "named_map D \<Longrightarrow> named_map (fold (\<lambda>rb. AList.update (rb_name rb) rb) rbs D)" for D
    by (induction rbs arbitrary: D) (simp_all add: named_map_update)
  then show ?thesis by (simp add: byName_def named_map_Nil)
qed

lemma keys_byName: "fst ` set (byName rbs) = rb_name ` set rbs"
proof -
  have "fst ` set (fold (\<lambda>rb. AList.update (rb_name rb) rb) rbs D) = fst ` set D \<union> rb_name ` set rbs" for D
    by (induction rbs arbitrary: D) (auto simp: dom_update)
  from this [of "[]"] show ?thesis by (simp add: byName_def)
qed

lemma map_name_named: "named_map D \<Longrightarrow> map rb_name (map snd D) = map fst D"
  unfolding named_map_def list_all_iff map_map by (intro map_cong) auto

lemma named_map_range: "valid_rng rng \<Longrightarrow> named_map D \<Longrightarrow> named_map (range_map rng D)"
  by (auto simp: named_map_def set_range_map list_all_iff)

text \<open>The plan: create the wanted bindings that are missing, delete those that are not wanted.\<close>

lemma reconcileDesired_plan:
  assumes rng: "valid_rng (env_rng env)" and C: "named_map C" and D: "named_map D"
  obtains creates deletes where
    "follows_plan (\<lambda>_. False) (reconcileDesiredMGMTPlaneRoleBindings env ns C D)
       (map (MCreateRB ns) creates @ map (MDeleteRB ns) deletes)"
    and "distinct (map rb_name creates)"
    and "set creates = {rb. \<exists>k. (k, rb) \<in> set D \<and> k \<notin> fst ` set C}"
    and "distinct deletes" and "set deletes = fst ` set C - fst ` set D"
proof -
  let ?cs = "map snd (range_map (env_rng env) C)"
  obtain D' X P where run: "fold mgmtDiff_step ?cs (D, [], []) = (D', X, P)" by (metis prod_cases3)
  have nC: "named_map (range_map (env_rng env) C)" by (rule named_map_range [OF rng C])
  have names: "distinct (map rb_name ?cs)" "map rb_name ?cs = map fst (range_map (env_rng env) C)"
    using nC unfolding map_name_named [OF nC] by (simp_all add: named_map_def wf_map_def)
  have setC: "rb_name ` set ?cs = fst ` set C"
    using arg_cong [OF names(2), of set] set_range_map [OF rng, of C] C
    by (simp only: list.set_map named_map_def)
  have keys: "distinct (map (\<lambda>rb. Some (rb_name rb)) ?cs)"
    using names(1) by (simp add: distinct_map comp_def inj_on_def)
  have marks: "set X = rb_name ` {c \<in> set ?cs. Some (rb_name c) \<notin> Some ` fst ` set D}"
    "D' = filter (\<lambda>x. Some (fst x) \<notin> (\<lambda>rb. Some (rb_name rb)) ` set ?cs) D"
    using mgmt_diff.diff_marks [OF run names(1) keys] by simp_all
  have "(\<lambda>rb. Some (rb_name rb)) ` set ?cs = Some ` fst ` set C"
    unfolding setC [symmetric] by (simp only: image_image)
  with marks(2) have D': "D' = filter (\<lambda>x. fst x \<notin> fst ` set C) D" by (simp add: inj_image_mem_iff)
  have X: "set X = fst ` set C - fst ` set D"
    unfolding marks(1) setC [symmetric] by (auto simp: inj_image_mem_iff)
  have wfD': "wf_map D'" using D unfolding D' named_map_def wf_map_def by (simp add: distinct_map_filter)
  have "distinct X" using mgmt_diff.diff_result [OF run names(1)] D by (simp add: named_map_def)
  let ?creates = "map snd (range_map (env_rng env) D')" and ?deletes = "env_rng env X"
  have "follows_plan (\<lambda>_. False) (reconcileDesiredMGMTPlaneRoleBindings env ns C D)
     (map (MCreateRB ns) ?creates @ map (MDeleteRB ns) ?deletes)"
    unfolding reconcileDesiredMGMTPlaneRoleBindings_def run prod.case map_map
    by (intro follows_plan_bind follows_plan_for_single) (auto intro: plan_intros)
  moreover have "named_map D'" using D wfD' unfolding named_map_def D' by (auto simp: list_all_iff)
  then have nD': "named_map (range_map (env_rng env) D')" by (rule named_map_range [OF rng])
  then have "distinct (map rb_name ?creates)" unfolding map_name_named [OF nD'] by (simp add: named_map_def wf_map_def)
  moreover have "set ?creates = {rb. \<exists>k. (k, rb) \<in> set D \<and> k \<notin> fst ` set C}"
    using set_range_map [OF rng wfD'] by (auto simp: D' image_iff)
  moreover have "distinct ?deletes" "set ?deletes = fst ` set C - fst ` set D"
    using rng \<open>distinct X\<close> X by simp_all
  ultimately show thesis by (rule that)
qed

section \<open>The bindings wanted\<close>

lemma update_fresh: "k \<notin> fst ` set D \<Longrightarrow> AList.update k v D = D @ [(k, v)]"
  by (induction D) auto

definition privileged :: "mgmt_manager \<Rightarrow> string list \<Rightarrow> role_template \<Rightarrow> bool" where
  "privileged m resources role \<longleftrightarrow> (case resourceVerbs m role resources of Inl _ \<Rightarrow> False | Inr r2v \<Rightarrow> r2v \<noteq> [])"

definition mrole_req :: "string \<Rightarrow> mreq \<Rightarrow> bool" where
  "mrole_req ns q \<longleftrightarrow> (\<exists>r. q = MCreateRole ns r \<or> q = MUpdateRole ns r)"

lemma reconcileManagementPlaneRole_issues:
  "issues_only (mrole_req ns) (reconcileManagementPlaneRole env m ns r2v rt)"
  unfolding reconcileManagementPlaneRole_def
  by (auto intro!: issues_intros simp: mrole_req_def split: sum.splits prod.splits)

lemma gatherAndDedupeRoles_result:
  assumes rng: "valid_rng rng" and name: "\<And>n rt. mm_rtLister m n = Inr rt \<Longrightarrow> rt_name rt = n"
    and rt: "mm_rtLister m n = Inr rt" and run: "gatherAndDedupeRoles rng m n h = (Inr roles, d)"
  shows "d = []" and "wf_map roles" and "(k, t) \<in> set roles \<longleftrightarrow> template_of (mm_rtLister m) rt k \<and> mm_rtLister m k = Inr t"
proof -
  obtain all where g: "gatherRoleTemplates (mm_rtLister m) rt [] = Some (Inr all)" and d: "d = []"
    and roles: "roles = fold (\<lambda>(k, role). AList.update (rt_name role) role) (range_map rng all) []"
    using run rt unfolding gatherAndDedupeRoles_def
    by (auto elim!: go_bind_InrE go_lift_InrE dest!: go_recursion_Inr simp: go_return_def)
  have top: "mm_rtLister m (rt_name rt) = Inr rt" using name [OF rt] rt by simp
  note all = gatherRoleTemplates_result [OF name top g]
  have same: "(k, t) \<in> set all \<Longrightarrow> rt_name t = k" for k t using all(2) name by blast
  have "wf_map xs \<Longrightarrow> (\<And>k t. (k, t) \<in> set xs \<Longrightarrow> rt_name t = k) \<Longrightarrow> fst ` set xs \<inter> fst ` set D = {} \<Longrightarrow>
     fold (\<lambda>(k, role). AList.update (rt_name role) role) xs D = D @ xs" for xs D :: template_map
  proof (induction xs arbitrary: D)
    case (Cons x xs)
    obtain k t where x: "x = (k, t)" by fastforce
    have up: "AList.update (rt_name t) t D = D @ [x]"
      using Cons.prems(3) Cons.prems(2) [of k t] x by (simp add: update_fresh)
    have side: "wf_map xs" "fst ` set xs \<inter> fst ` set (D @ [x]) = {}" using Cons.prems(1,3) x by (auto simp: wf_map_def)
    have "rt_name t' = k'" if "(k', t') \<in> set xs" for k' t' using that by (intro Cons.prems(2)) simp
    from Cons.IH [OF side(1) this side(2)] show ?case by (simp add: x [symmetric] up, simp add: x up)
  qed simp
  from this [of "range_map rng all" "[]"] have "roles = range_map rng all"
    unfolding roles using all(1) rng by (auto simp: set_range_map intro: same)
  with all rng d show "d = []" "wf_map roles" "(k, t) \<in> set roles \<longleftrightarrow> template_of (mm_rtLister m) rt k \<and> mm_rtLister m k = Inr t"
    by (simp_all add: set_range_map)
qed

definition wanted_step ::
  "mgmt_manager \<Rightarrow> string list \<Rightarrow> string \<Rightarrow> (string \<Rightarrow> role_template \<Rightarrow> k8s_binding) \<Rightarrow> string \<times> role_template
     \<Rightarrow> (string, k8s_binding) gomap \<Rightarrow> (string, k8s_binding) gomap" where
  "wanted_step m resources owningName makeRB x D =
     (let bn = owningName @ ''-'' @ rt_name (snd x) in
      if privileged m resources (snd x) \<and> \<not> has_key D bn then AList.update bn (makeRB bn (snd x)) D else D)"

lemma grantLoop_fold:
  assumes "grantLoop env m ns resources owningName makeRB roles h = (Inr D, d)"
  shows "D = fold (wanted_step m resources owningName makeRB) (range_map (env_rng env) roles) [] \<and> list_all (mrole_req ns) (map fst d)"
proof -
  let ?F = "\<lambda>(k, role) desiredRBs.
       go_bind (go_lift (resourceVerbs m role resources)) (\<lambda>resourceToVerbs.
       let bindingName = owningName @ ''-'' @ rt_name role;
           desiredRBs' = (if resourceToVerbs \<noteq> [] \<and> \<not> has_key desiredRBs bindingName
             then AList.update bindingName (makeRB bindingName role) desiredRBs else desiredRBs)
       in go_bind (go_when (resourceToVerbs \<noteq> []) (reconcileManagementPlaneRole env m ns resourceToVerbs role)) (\<lambda>_.
          go_return desiredRBs'))"
  have "go_fold ?F xs D0 h = (Inr D, d) \<Longrightarrow>
     D = fold (wanted_step m resources owningName makeRB) xs D0 \<and> list_all (mrole_req ns) (map fst d)" for xs D0 h D d
  proof (induction xs arbitrary: D0 h d)
    case (Cons x xs)
    obtain k role where x: "x = (k, role)" by fastforce
    from Cons.prems obtain D1 d1 d2 where first: "?F x D0 h = (Inr D1, d1)"
      and rest: "go_fold ?F xs D1 (h @ d1) = (Inr D, d2)" and d: "d = d1 @ d2"
      by (auto elim: go_bind_InrE)
    from first x obtain r2v h' where r2v: "resourceVerbs m role resources = Inr r2v"
      and rec: "go_when (r2v \<noteq> []) (reconcileManagementPlaneRole env m ns r2v role) h' = (Inr (), d1)"
      and D1: "D1 = (let bn = owningName @ ''-'' @ rt_name role in
        if r2v \<noteq> [] \<and> \<not> has_key D0 bn then AList.update bn (makeRB bn role) D0 else D0)"
      by (auto elim!: go_bind_InrE go_lift_InrE simp: go_return_def Let_def)
    have "issues_only (mrole_req ns) (go_when (r2v \<noteq> []) (reconcileManagementPlaneRole env m ns r2v role))"
      by (intro issues_only_when reconcileManagementPlaneRole_issues)
    with rec have "list_all (mrole_req ns) (map fst d1)" by (auto simp: list_all_iff dest: issues_onlyD)
    moreover have "D1 = wanted_step m resources owningName makeRB x D0"
      using D1 r2v by (simp add: wanted_step_def privileged_def x Let_def)
    ultimately show ?case using Cons.IH [OF rest] d by simp
  qed (simp add: go_return_def)
  then show ?thesis using assms unfolding grantLoop_def by blast
qed

lemma wanted_fold:
  assumes "\<And>bn role. rb_name (makeRB bn role) = bn" and "distinct (map (\<lambda>x. rt_name (snd x)) xs)" and "named_map D"
    and "\<And>x. x \<in> set xs \<Longrightarrow> owningName @ ''-'' @ rt_name (snd x) \<notin> fst ` set D"
  shows "named_map (fold (wanted_step m resources owningName makeRB) xs D) \<and>
    set (fold (wanted_step m resources owningName makeRB) xs D) = set D \<union>
      (\<lambda>x. let bn = owningName @ ''-'' @ rt_name (snd x) in (bn, makeRB bn (snd x))) ` {x \<in> set xs. privileged m resources (snd x)}"
  using assms
proof (induction xs arbitrary: D)
  case (Cons x xs)
  let ?bn = "owningName @ ''-'' @ rt_name (snd x)"
  let ?D = "wanted_step m resources owningName makeRB x D"
  have new: "?bn \<notin> fst ` set D" using Cons.prems(4) by simp
  then have D: "?D = (if privileged m resources (snd x) then D @ [(?bn, makeRB ?bn (snd x))] else D)"
    by (simp add: wanted_step_def has_key_iff update_fresh Let_def)
  have "named_map ?D"
    using Cons.prems(1,3) by (simp add: wanted_step_def Let_def named_map_update)
  moreover have "owningName @ ''-'' @ rt_name (snd y) \<notin> fst ` set ?D" if "y \<in> set xs" for y
  proof -
    have "rt_name (snd y) \<noteq> rt_name (snd x)" using Cons.prems(2) that by (auto simp: image_iff)
    moreover have "owningName @ ''-'' @ rt_name (snd y) \<notin> fst ` set D" using Cons.prems(4) that by simp
    ultimately show ?thesis unfolding D by simp
  qed
  moreover have "distinct (map (\<lambda>x. rt_name (snd x)) xs)" using Cons.prems(2) by simp
  ultimately have IH: "named_map (fold (wanted_step m resources owningName makeRB) xs ?D) \<and>
    set (fold (wanted_step m resources owningName makeRB) xs ?D) = set ?D \<union>
      (\<lambda>x. let bn = owningName @ ''-'' @ rt_name (snd x) in (bn, makeRB bn (snd x))) ` {x \<in> set xs. privileged m resources (snd x)}"
    by (intro Cons.IH Cons.prems(1))
  have "set ?D = set D \<union> (if privileged m resources (snd x) then {(?bn, makeRB ?bn (snd x))} else {})"
    unfolding D by simp
  moreover have "{y \<in> set (x # xs). privileged m resources (snd y)} =
      (if privileged m resources (snd x) then {x} else {}) \<union> {x \<in> set xs. privileged m resources (snd x)}"
    by auto
  ultimately show ?case using IH by (simp add: Let_def)
qed simp

text \<open>The bindings that the loop wants: one for every role with privileges.\<close>

lemma grantLoop_wanted:
  assumes rng: "valid_rng (env_rng env)" and wf: "wf_map roles" and name: "\<And>k t. (k, t) \<in> set roles \<Longrightarrow> rt_name t = k"
    and makeRB: "\<And>bn role. rb_name (makeRB bn role) = bn"
    and loop: "grantLoop env m ns resources own makeRB roles h = (Inr D, d)"
  shows "named_map D"
    and "(k, rb) \<in> set D \<longleftrightarrow> (\<exists>n t. (n, t) \<in> set roles \<and> privileged m resources t \<and> k = own @ ''-'' @ n \<and> rb = makeRB k t)"
proof -
  let ?xs = "range_map (env_rng env) roles"
  have names: "rt_name (snd x) = fst x" if "x \<in> set ?xs" for x
    using that name [of "fst x" "snd x"] by (simp add: set_range_map [OF rng wf])
  then have "map (\<lambda>x. rt_name (snd x)) ?xs = map fst ?xs" by (intro map_cong) simp_all
  then have dist: "distinct (map (\<lambda>x. rt_name (snd x)) ?xs)"
    using wf wf_range_map [OF rng, of roles] by (simp only: wf_map_def)
  note D = wanted_fold [where makeRB = makeRB and m = m and resources = resources and owningName = own,
      OF makeRB dist named_map_Nil, simplified, folded conjunct1 [OF grantLoop_fold [OF loop]]]
  then show "named_map D" by simp
  have "(k, rb) \<in> set D \<longleftrightarrow> (\<exists>x \<in> set ?xs. privileged m resources (snd x) \<and> k = own @ ''-'' @ fst x \<and> rb = makeRB k (snd x))"
    using D names by (auto simp: Let_def)
  then show "(k, rb) \<in> set D \<longleftrightarrow> (\<exists>n t. (n, t) \<in> set roles \<and> privileged m resources t \<and> k = own @ ''-'' @ n \<and> rb = makeRB k t)"
    by (simp add: Bex_def split_paired_Ex set_range_map [OF rng wf])
qed

text \<open>The three functions that grant privileges are one program, with different bindings and namespaces.\<close>

lemma grant_result:
  assumes rng: "valid_rng (env_rng env)" and name: "\<And>n rt. mm_rtLister m n = Inr rt \<Longrightarrow> rt_name rt = n"
    and rt: "mm_rtLister m rtn = Inr rt" and makeRB: "\<And>bn role. rb_name (makeRB bn role) = bn"
    and run: "go_bind (gatherAndDedupeRoles (env_rng env) m rtn) (\<lambda>roles.
      go_bind (grantLoop env m ns resources own makeRB roles) (\<lambda>desiredRBs.
      go_bind (go_lift (Inr current)) (\<lambda>current.
      reconcileDesiredMGMTPlaneRoleBindings env ns (byName current) desiredRBs))) h = (Inr (), d)"
  defines "wanted \<equiv> \<lambda>n t. template_of (mm_rtLister m) rt n \<and> mm_rtLister m n = Inr t \<and> privileged m resources t"
  shows "MCreateRB ns' rb \<in> fst ` set d \<longleftrightarrow> ns' = ns \<and>
      (\<exists>n t. wanted n t \<and> rb = makeRB (own @ ''-'' @ n) t \<and> own @ ''-'' @ n \<notin> rb_name ` set current)"
    and "MDeleteRB ns' x \<in> fst ` set d \<longleftrightarrow> ns' = ns \<and> x \<in> rb_name ` set current \<and> (\<nexists>n t. wanted n t \<and> x = own @ ''-'' @ n)"
proof -
  obtain roles D h1 h2 d1 d2 where g: "gatherAndDedupeRoles (env_rng env) m rtn h = (Inr roles, [])"
    and loop: "grantLoop env m ns resources own makeRB roles h1 = (Inr D, d1)"
    and rec: "reconcileDesiredMGMTPlaneRoleBindings env ns (byName current) D h2 = (Inr (), d2)" and d: "d = d1 @ d2"
    using run gatherAndDedupeRoles_result(1) [OF rng name rt] by (auto elim!: go_bind_InrE)
  note roles = gatherAndDedupeRoles_result(2,3) [OF rng name rt g]
  have role_name: "rt_name t = k" if "(k, t) \<in> set roles" for k t using that roles(2) name by blast
  note D = grantLoop_wanted [where makeRB = makeRB, OF rng roles(1) role_name makeRB loop]
  have inD: "(k, rb) \<in> set D \<longleftrightarrow> (\<exists>n t. wanted n t \<and> k = own @ ''-'' @ n \<and> rb = makeRB k t)" for k rb
    using D(2) [of k rb] unfolding wanted_def by (simp only: roles(2) conj_assoc)
  have "k \<in> fst ` set D \<longleftrightarrow> (\<exists>rb. (k, rb) \<in> set D)" for k by force
  then have keysD: "k \<in> fst ` set D \<longleftrightarrow> (\<exists>n t. wanted n t \<and> k = own @ ''-'' @ n)" for k unfolding inD by blast
  have d1: "MCreateRB ns' rb \<notin> fst ` set d1" "MDeleteRB ns' x \<notin> fst ` set d1" for ns' rb x
    using grantLoop_fold [OF loop] by (auto simp: list_all_iff mrole_req_def)
  obtain creates deletes where plan: "follows_plan (\<lambda>_. False) (reconcileDesiredMGMTPlaneRoleBindings env ns (byName current) D)
       (map (MCreateRB ns) creates @ map (MDeleteRB ns) deletes)"
    and "distinct (map rb_name creates)"
    and c: "set creates = {rb. \<exists>k. (k, rb) \<in> set D \<and> k \<notin> fst ` set (byName current)}"
    and "distinct deletes" and del: "set deletes = fst ` set (byName current) - fst ` set D"
    by (rule reconcileDesired_plan [OF rng named_map_byName D(1)])
  have "fst ` set d2 = MCreateRB ns ` set creates \<union> MDeleteRB ns ` set deletes"
    using follows_plan_success [OF plan rec] by (metis list.set_map set_append)
  then have d2: "MCreateRB ns' rb \<in> fst ` set d \<longleftrightarrow> ns' = ns \<and> rb \<in> set creates"
    "MDeleteRB ns' x \<in> fst ` set d \<longleftrightarrow> ns' = ns \<and> x \<in> set deletes" for ns' rb x
    using d1 d by (auto simp: image_Un)
  show "MCreateRB ns' rb \<in> fst ` set d \<longleftrightarrow> ns' = ns \<and>
      (\<exists>n t. wanted n t \<and> rb = makeRB (own @ ''-'' @ n) t \<and> own @ ''-'' @ n \<notin> rb_name ` set current)"
    unfolding d2 c keys_byName inD by auto
  show "MDeleteRB ns' x \<in> fst ` set d \<longleftrightarrow> ns' = ns \<and> x \<in> rb_name ` set current \<and> (\<nexists>n t. wanted n t \<and> x = own @ ''-'' @ n)"
    unfolding d2 del keys_byName Diff_iff keysD by blast
qed

section \<open>The rules of a role\<close>

text \<open>Every rule that the controllers write is about one resource.\<close>

definition single_resource :: "policy_rule list \<Rightarrow> bool" where
  "single_resource rules \<longleftrightarrow> list_all (\<lambda>r. length (pr_resources r) = 1) rules"

lemma contains_string_single: "length (pr_resources r) = 1 \<Longrightarrow> contains_string (pr_resources r) x \<longleftrightarrow> pr_resources r = [x]"
  by (auto simp: length_Suc_conv)

lemma set_verbsOn: "set (verbsOn rules x) = (\<Union>r \<in> {r \<in> set rules. contains_string (pr_resources r) x}. set (pr_verbs r))"
  by (auto simp: verbsOn_def)

lemma buildRule_simps [simp]:
  "pr_resources (buildRule rng x vs) = [x]" "pr_verbs (buildRule rng x vs) = rng vs"
  by (simp_all add: buildRule_def)

text \<open>One resource of the loop: it gets its verbs, the other resources keep theirs.\<close>

lemma reconcileResourceRule_step:
  assumes rng: "valid_rng rng" and single: "single_resource rules"
    and same: "set (verbsOn rules x) = set (verbsOn current x)"
    and step: "reconcileResourceRule rng current (x, vs) (rules, u) = (rules', u')"
  shows "single_resource rules'" and "set (verbsOn rules' x) = set vs"
    and "y \<noteq> x \<Longrightarrow> set (verbsOn rules' y) = set (verbsOn rules y)" and "u' \<longleftrightarrow> u \<or> set (verbsOn current x) \<noteq> set vs"
    and "\<not> u' \<Longrightarrow> rules' = rules"
proof -
  let ?has = "\<lambda>r. contains_string (pr_resources r) x"
  let ?rule = "buildRule rng x vs"
  let ?replaced = "map (\<lambda>r. if ?has r then ?rule else r) rules"
  have one: "?has r \<longleftrightarrow> pr_resources r = [x]" if "r \<in> set rules" for r
    using that single by (auto simp: single_resource_def list_all_iff contains_string_single)
  have rules': "rules' = (if set (verbsOn current x) = set vs then rules
      else if list_ex ?has rules then ?replaced else ?replaced @ [?rule])"
    and u: "u' \<longleftrightarrow> u \<or> set (verbsOn current x) \<noteq> set vs" "\<not> u' \<Longrightarrow> rules' = rules"
    using step by (auto simp: reconcileResourceRule_def Let_def split: if_splits)
  from u show "u' \<longleftrightarrow> u \<or> set (verbsOn current x) \<noteq> set vs" "\<not> u' \<Longrightarrow> rules' = rules" by blast+
  show "single_resource rules'"
    using single unfolding rules' by (auto simp: single_resource_def list_all_iff)
  have x: "contains_string [x] y \<longleftrightarrow> y = x" for y by auto
  show "set (verbsOn rules' x) = set vs"
    using same rng unfolding rules' set_verbsOn by (auto simp: x list_ex_iff split: if_splits)
  show "set (verbsOn rules' y) = set (verbsOn rules y)" if "y \<noteq> x"
  proof -
    have "{r \<in> set rules'. contains_string (pr_resources r) y} = {r \<in> set rules. contains_string (pr_resources r) y}"
      using that one unfolding rules' by (auto simp: x split: if_splits)
    then show ?thesis unfolding set_verbsOn by simp
  qed
qed

lemma reconcileResourceRule_fold:
  assumes rng: "valid_rng rng" and "single_resource rules" and "distinct (map fst xs)"
    and "\<And>x. x \<in> fst ` set xs \<Longrightarrow> set (verbsOn rules x) = set (verbsOn current x)"
    and "fold (reconcileResourceRule rng current) xs (rules, u) = (rules', u')"
  shows "single_resource rules' \<and> (\<forall>(x, vs) \<in> set xs. set (verbsOn rules' x) = set vs) \<and>
    (\<forall>y. y \<notin> fst ` set xs \<longrightarrow> set (verbsOn rules' y) = set (verbsOn rules y)) \<and> (\<not> u' \<longrightarrow> rules' = rules)"
  using assms(2-)
proof (induction xs arbitrary: rules u)
  case (Cons xv xs)
  obtain x vs where xv: "xv = (x, vs)" by fastforce
  obtain rules1 u1 where s: "reconcileResourceRule rng current (x, vs) (rules, u) = (rules1, u1)" by fastforce
  have same: "set (verbsOn rules x) = set (verbsOn current x)" using Cons.prems(3) xv by simp
  note step = reconcileResourceRule_step [OF rng Cons.prems(1) same s]
  have fresh: "x \<notin> fst ` set xs" using Cons.prems(2) xv by simp
  have same1: "set (verbsOn rules1 y) = set (verbsOn current y)" if "y \<in> fst ` set xs" for y
    using that fresh step(3) [of y] Cons.prems(3) [of y] by auto
  have rest: "fold (reconcileResourceRule rng current) xs (rules1, u1) = (rules', u')"
    using Cons.prems(4) xv s by simp
  have "distinct (map fst xs)" using Cons.prems(2) by simp
  note IH = Cons.IH [OF step(1) this same1 rest]
  have "set (verbsOn rules' x) = set vs" using IH fresh step(2) by blast
  moreover have "u1 \<Longrightarrow> u'"
  proof -
    have "u1 \<Longrightarrow> snd (fold (reconcileResourceRule rng current) xs (rules1, u1))" for rules1 u1
      by (induction xs arbitrary: rules1 u1) (auto simp: reconcileResourceRule_def Let_def split: prod.splits if_splits)
    from this [of u1 rules1] show "u1 \<Longrightarrow> u'" unfolding rest by simp
  qed
  ultimately show ?case using IH step(3,5) xv by auto
qed simp

lemma verbsOn_built:
  assumes rng: "valid_rng rng" and wf: "wf_map r2v"
  shows "set (verbsOn (map (\<lambda>(resource, newVerbs). buildRule rng resource newVerbs) (range_map rng r2v)) x) =
    (case map_of r2v x of Some vs \<Rightarrow> set vs | None \<Rightarrow> {})"
proof -
  have "set (verbsOn (map (\<lambda>(resource, newVerbs). buildRule rng resource newVerbs) (range_map rng r2v)) x) =
      (\<Union>(y, vs) \<in> set r2v. if y = x then set vs else {})"
    using rng wf by (auto simp: set_verbsOn set_range_map split: if_splits)
  moreover have "(y, vs) \<in> set r2v \<longleftrightarrow> map_of r2v y = Some vs" for y vs using wf by (simp add: wf_map_def)
  ultimately show ?thesis by (auto split: option.splits if_splits intro!: bexI [of _ "(x, the (map_of r2v x))"])
qed

section \<open>The manager over its caches\<close>

lemma newRTB_simps [simp]:
  "mm_rtLister (newRTBLifecycles c eu) = lister_get rt_name (mc_rts c)"
  "mm_crLister (newRTBLifecycles c eu) = lister_get role_name (mc_clusterRoles c)"
  "mm_rLister (newRTBLifecycles c eu) ns = lister_get role_name (filter (\<lambda>r. om_namespace (role_meta r) = ns) (mc_roles c))"
  "mm_clusterLister (newRTBLifecycles c eu) = lister_get cl_name (mc_clusters c)"
  "mm_projectList (newRTBLifecycles c eu) ns = Inr (filter (\<lambda>p. in_namespace ns (pj_meta p)) (mc_projects c))"
  "mm_crbLister (newRTBLifecycles c eu) sel = Inr (filter (\<lambda>b. selects sel (om_labels (rb_meta b))) (mc_crbs c))"
  "mm_rbLister (newRTBLifecycles c eu) ns sel =
     Inr (filter (\<lambda>b. selects sel (om_labels (rb_meta b))) (filter (\<lambda>b. in_namespace ns (rb_meta b)) (mc_rbs c)))"
  "mm_rbIndexer (newRTBLifecycles c eu) rbByOwnerIndex k = Inr (filter (\<lambda>b. k \<in> set (rbByOwner b)) (mc_rbs c))"
  "mm_crbIndexer (newRTBLifecycles c eu) rbByRoleAndSubjectIndex k = Inr (filter (\<lambda>b. k \<in> set (rbByRoleAndSubject b)) (mc_crbs c))"
  by (simp_all add: newRTBLifecycles_def lister_list_def by_index_def rbByOwnerIndex_def rbByRoleAndSubjectIndex_def)

lemma rb_name_made [simp]: "rb_name (ownedRB om s bn role) = bn" "rb_name (labelledRB u l s bn role) = bn"
  by (simp_all add: ownedRB_def labelledRB_def)

section \<open>Properties: privileges\<close>

text \<open>
  C27. Granting privileges on the management plane. A run that succeeds creates a role binding for
  every template that the binding's template stands for and that has a verb on one of the
  resources, unless a role binding of that name is there already, and nothing else; and it deletes
  exactly the role bindings owned by the binding whose name is not among the wanted ones. All of
  it happens in the binding's own namespace and for its own subject.
\<close>

theorem grantManagementPlanePrivileges_exact:
  fixes c eu
  defines "m \<equiv> newRTBLifecycles c eu" and "get \<equiv> lister_get rt_name (mc_rts c)"
  assumes rng: "valid_rng (env_rng env)" and rt: "get rtn = Inr rt"
    and run: "grantManagementPlanePrivileges env m rtn resources subj b h = (Inr (), d)"
  defines "current \<equiv> {rb \<in> set (mc_rbs c). rtb_uid b \<in> own_uid ` set (om_owners (rb_meta rb))}"
    and "wanted \<equiv> \<lambda>n t. template_of get rt n \<and> get n = Inr t \<and> privileged m resources t"
    and "own \<equiv> \<lambda>n. om_name (rtb_meta b) @ ''-'' @ n"
  shows "{(ns, rb). MCreateRB ns rb \<in> fst ` set d} =
      {(om_namespace (rtb_meta b), ownedRB (rtb_meta b) subj (own n) t) | n t. wanted n t \<and> own n \<notin> rb_name ` current} \<and>
    {(ns, x). MDeleteRB ns x \<in> fst ` set d} =
      {om_namespace (rtb_meta b)} \<times> (rb_name ` current - {own n | n t. wanted n t})"
proof -
  have name: "rt_name t = n" if "mm_rtLister m n = Inr t" for n t
    using that by (auto simp: m_def dest: lister_get_name)
  have rt': "mm_rtLister m rtn = Inr rt" using rt by (simp add: m_def get_def)
  let ?current = "filter (\<lambda>b'. rtb_uid b \<in> set (rbByOwner b')) (mc_rbs c)"
  have cur: "set ?current = current" by (auto simp: current_def rbByOwner_def getRBOwnerKey_def)
  have lookup: "mm_rbIndexer m rbByOwnerIndex (rtb_uid b) = Inr ?current" by (simp add: m_def)
  have wanted: "wanted = (\<lambda>n t. template_of (mm_rtLister m) rt n \<and> mm_rtLister m n = Inr t \<and> privileged m resources t)"
    by (simp add: wanted_def m_def get_def)
  note run' = run [unfolded grantManagementPlanePrivileges_def Let_def lookup]
  have "MCreateRB ns' rb \<in> fst ` set d \<longleftrightarrow> ns' = om_namespace (rtb_meta b) \<and>
      (\<exists>n t. wanted n t \<and> rb = ownedRB (rtb_meta b) subj (own n) t \<and> own n \<notin> rb_name ` current)" for ns' rb
    unfolding wanted own_def cur [symmetric] by (rule grant_result(1) [OF rng name rt' rb_name_made(1) run'])
  then have "{(ns, rb). MCreateRB ns rb \<in> fst ` set d} =
      {(om_namespace (rtb_meta b), ownedRB (rtb_meta b) subj (own n) t) | n t. wanted n t \<and> own n \<notin> rb_name ` current}"
    by auto
  moreover have "MDeleteRB ns' x \<in> fst ` set d \<longleftrightarrow> ns' = om_namespace (rtb_meta b) \<and> x \<in> rb_name ` current \<and> (\<nexists>n t. wanted n t \<and> x = own n)" for ns' x
    unfolding wanted own_def cur [symmetric] by (rule grant_result(2) [OF rng name rt' rb_name_made(1) run'])
  then have "{(ns, x). MDeleteRB ns x \<in> fst ` set d} =
      {om_namespace (rtb_meta b)} \<times> (rb_name ` current - {own n | n t. wanted n t})"
    by (auto simp only: mem_Times_iff split_paired_all mem_Collect_eq case_prod_conv fst_conv snd_conv Diff_iff singleton_iff intro!: set_eqI)
  ultimately show ?thesis ..
qed

text \<open>
  The role that backs the privileges. When it is reconciled with success, the role that is
  created, updated, or left as it was gives every resource of the template exactly the wanted
  verbs; the resources that the template does not mention keep the verbs they had, and every rule
  is still about one resource.
\<close>

theorem reconcileManagementPlaneRole_grants:
  fixes c eu
  defines "m \<equiv> newRTBLifecycles c eu"
  assumes rng: "valid_rng (env_rng env)" and wf: "wf_map r2v"
    and old: "old = (case mm_rLister m ns (rt_name rt) of Inr r \<Rightarrow> role_rules r | Inl _ \<Rightarrow> [])" and single: "single_resource old"
    and run: "reconcileManagementPlaneRole env m ns r2v rt h = (Inr (), d)"
  shows "\<exists>role. (d = [] \<and> mm_rLister m ns (rt_name rt) = Inr role \<or> d = [(MUpdateRole ns role, None)] \<or> d = [(MCreateRole ns role, None)]) \<and>
    role_name role = rt_name rt \<and> single_resource (role_rules role) \<and>
    (\<forall>x. set (verbsOn (role_rules role) x) = (case map_of r2v x of Some vs \<Rightarrow> set vs | None \<Rightarrow> set (verbsOn old x)))"
proof (cases "mm_rLister m ns (rt_name rt)")
  case (Inr role)
  obtain rules u where f: "fold (reconcileResourceRule (env_rng env) (role_rules role)) (range_map (env_rng env) r2v) (role_rules role, False) = (rules, u)"
    by fastforce
  have old_role: "old = role_rules role" and name: "role_name role = rt_name rt"
    using Inr old by (auto simp: m_def dest: lister_get_name)
  have dist: "distinct (map fst (range_map (env_rng env) r2v))"
    using wf wf_range_map [OF rng, of r2v] by (simp only: wf_map_def)
  note res = reconcileResourceRule_fold [OF rng single [unfolded old_role] dist refl f, unfolded set_range_map [OF rng wf]]
  have verbs: "set (verbsOn rules x) = (case map_of r2v x of Some vs \<Rightarrow> set vs | None \<Rightarrow> set (verbsOn old x))" for x
    using res unfolding old_role by (force split: option.splits dest: map_of_SomeD simp: map_of_eq_None_iff)
  have "d = [] \<and> \<not> u \<or> u \<and> d = [(MUpdateRole ns (role\<lparr>role_rules := rules\<rparr>), None)]"
    using run Inr f by (cases u) (auto simp: reconcileManagementPlaneRole_def go_return_def go_call_def Let_def split: option.splits)
  then show ?thesis
  proof
    assume "d = [] \<and> \<not> u"
    then show ?thesis using Inr name conjunct1 [OF res] res verbs by (intro exI [of _ role]) auto
  next
    assume "u \<and> d = [(MUpdateRole ns (role\<lparr>role_rules := rules\<rparr>), None)]"
    then show ?thesis using name res verbs by (intro exI [of _ "role\<lparr>role_rules := rules\<rparr>"]) simp
  qed
next
  case (Inl e)
  let ?rules = "map (\<lambda>(resource, newVerbs). buildRule (env_rng env) resource newVerbs) (range_map (env_rng env) r2v)"
  let ?role = "\<lparr>role_meta = meta0\<lparr>om_name := rt_name rt\<rparr>, role_rules = ?rules\<rparr>"
  have "d = [(MCreateRole ns ?role, None)]"
    using run Inl by (auto simp: reconcileManagementPlaneRole_def go_wrap_def go_call_def Let_def split: option.splits)
  moreover have "single_resource ?rules" by (auto simp: single_resource_def list_all_iff)
  moreover have "set (verbsOn ?rules x) = (case map_of r2v x of Some vs \<Rightarrow> set vs | None \<Rightarrow> set (verbsOn old x))" for x
    unfolding verbsOn_built [OF rng wf] using Inl old by (simp add: verbsOn_def split: option.splits)
  ultimately show ?thesis by (intro exI [of _ ?role]) simp
qed

section \<open>Examples\<close>

definition mtemplate_ex :: role_template where
  "mtemplate_ex = (template_ex ''member'' [])\<lparr>rt_rules := [rule0\<lparr>pr_verbs := [''get''], pr_resources := [''nodes'', ''notifiers'']\<rparr>]\<rparr>"

definition mrb_ex :: "string \<Rightarrow> string \<Rightarrow> (string \<times> string) list \<Rightarrow> owner_ref list \<Rightarrow> k8s_binding" where
  "mrb_ex name role labels owners =
     \<lparr>rb_meta = meta0\<lparr>om_name := name, om_namespace := ''c-1'', om_labels := labels, om_owners := owners\<rparr>,
      rb_subjects = [\<lparr>sub_kind = ''User'', sub_name = ''u-1''\<rparr>],
      rb_roleRef = \<lparr>ref_apiGroup = [], ref_kind = ''Role'', ref_name = role\<rparr>\<rparr>"

definition mcrtb_ex :: rtb where
  "mcrtb_ex = \<lparr>rtb_kind = CRTB, rtb_meta = meta0\<lparr>om_name := ''crtb-1'', om_namespace := ''c-1'', om_uid := ''uid-1''\<rparr>,
     rtb_userName = ''u-1'', rtb_userPrincipalName = [], rtb_groupName = [], rtb_groupPrincipalName = [],
     rtb_target = ''c-1'', rtb_roleTemplateName = ''member''\<rparr>"

definition mprtb_ex :: rtb where
  "mprtb_ex = mcrtb_ex\<lparr>rtb_kind := PRTB, rtb_target := ''c-1:p-1''\<rparr>"

definition mproject_ex :: project where
  "mproject_ex = \<lparr>pj_meta = meta0\<lparr>om_name := ''p-1'', om_namespace := ''c-1''\<rparr>, pj_displayName = [], pj_description = [],
     pj_clusterName = ''c-1'', pj_conditions = []\<rparr>"

definition mcaches_ex :: mgmt_caches where
  "mcaches_ex = \<lparr>mc_projects = [mproject_ex], mc_clusters = [], mc_clusterRoles = [],
     mc_roles = [\<lparr>role_meta = meta0\<lparr>om_name := ''p-1-projectmember'', om_namespace := ''c-1''\<rparr>, role_rules = []\<rparr>],
     mc_rbs = [mrb_ex ''crtb-1-old'' ''old'' [] [\<lparr>own_apiVersion = [], own_kind = [], own_name = ''crtb-1'', own_uid = ''uid-1''\<rparr>],
       mrb_ex ''rb-member'' ''p-1-projectmember'' [(''uid-1'', membershipBindingOwner)] [],
       mrb_ex ''prtb-1-member'' ''member'' [(''uid-1'', prtbInClusterBindingOwner)] []],
     mc_crbs = [mrb_ex ''crb-member'' ''c-1-clustermember'' [(''uid-1'', membershipBindingOwner)] []],
     mc_rts = [mtemplate_ex]\<rparr>"

definition ensureUser_ex :: "string \<Rightarrow> string \<Rightarrow> (mreq, string) go" where
  "ensureUser_ex name displayName = go_return ''u-1''"

abbreviation muser_ex :: subject where
  "muser_ex \<equiv> \<lparr>sub_kind = ''User'', sub_name = ''u-1''\<rparr>"

theorem grantManagementPlanePrivileges_exact_witness:
  "\<exists>d. grantManagementPlanePrivileges accept_all (newRTBLifecycles mcaches_ex ensureUser_ex) ''member'' clusterManagmentPlaneResources
       muser_ex mcrtb_ex [] = (Inr (), d) \<and> (MDeleteRB ''c-1'' ''crtb-1-old'') \<in> fst ` set d"
proof -
  let ?run = "grantManagementPlanePrivileges accept_all (newRTBLifecycles mcaches_ex ensureUser_ex) ''member'' clusterManagmentPlaneResources
       muser_ex mcrtb_ex []"
  have ok: "fst ?run = Inr ()" by code_simp
  then have run: "?run = (Inr (), snd ?run)" by (metis prod.collapse)
  have rt: "lister_get rt_name (mc_rts mcaches_ex) ''member'' = Inr mtemplate_ex" by code_simp
  let ?old = "mrb_ex ''crtb-1-old'' ''old'' [] [\<lparr>own_apiVersion = [], own_kind = [], own_name = ''crtb-1'', own_uid = ''uid-1''\<rparr>]"
  have "?old \<in> {rb \<in> set (mc_rbs mcaches_ex). rtb_uid mcrtb_ex \<in> own_uid ` set (om_owners (rb_meta rb))}"
    by (simp add: mcaches_ex_def mcrtb_ex_def mrb_ex_def)
  moreover have "rb_name ?old = ''crtb-1-old''" by (simp add: mrb_ex_def)
  ultimately have old: "''crtb-1-old'' \<in> rb_name ` {rb \<in> set (mc_rbs mcaches_ex). rtb_uid mcrtb_ex \<in> own_uid ` set (om_owners (rb_meta rb))}"
    by (metis (no_types, lifting) imageI)
  have "\<not> template_of (lister_get rt_name (mc_rts mcaches_ex)) mtemplate_ex ''old''"
    by (simp add: template_of_def mtemplate_ex_def template_ex_def)
  then have "''crtb-1-old'' \<notin> {om_name (rtb_meta mcrtb_ex) @ ''-'' @ n | n t. template_of (lister_get rt_name (mc_rts mcaches_ex)) mtemplate_ex n \<and>
      lister_get rt_name (mc_rts mcaches_ex) n = Inr t \<and> privileged (newRTBLifecycles mcaches_ex ensureUser_ex) clusterManagmentPlaneResources t}"
    by (auto simp: mcrtb_ex_def)
  with old have "(''c-1'', ''crtb-1-old'') \<in> {(ns, x). MDeleteRB ns x \<in> fst ` set (snd ?run)}"
    unfolding conjunct2 [OF grantManagementPlanePrivileges_exact [OF accept_all_simps(3) rt run]] by (simp add: mcrtb_ex_def)
  with run show ?thesis by (intro exI [of _ "snd ?run"]) simp
qed

theorem reconcileManagementPlaneRole_grants_witness:
  "\<exists>d (role :: k8s_role). reconcileManagementPlaneRole accept_all (newRTBLifecycles mcaches_ex ensureUser_ex) ''c-1'' [(''nodes'', [''get''])] mtemplate_ex [] =
      (Inr (), d) \<and> set (verbsOn (role_rules role) ''nodes'') = {''get''}"
proof -
  let ?m = "newRTBLifecycles mcaches_ex ensureUser_ex"
  let ?run = "reconcileManagementPlaneRole accept_all ?m ''c-1'' [(''nodes'', [''get''])] mtemplate_ex []"
  have "fst ?run = Inr ()" by code_simp
  then have run: "?run = (Inr (), snd ?run)" by (metis prod.collapse)
  have old: "[] = (case mm_rLister ?m ''c-1'' (rt_name mtemplate_ex) of Inr r \<Rightarrow> role_rules r | Inl _ \<Rightarrow> [])" by code_simp
  have side: "wf_map [(''nodes'', [''get''])]" "single_resource []" by (simp_all add: single_resource_def wf_map_def)
  obtain role :: k8s_role where "\<forall>x. set (verbsOn (role_rules role) x) =
      (case map_of [(''nodes'', [''get''])] x of Some vs \<Rightarrow> set vs | None \<Rightarrow> set (verbsOn [] x))"
    using reconcileManagementPlaneRole_grants [OF accept_all_simps(3) side(1) old side(2) run] by (elim exE conjE) (rule that)
  from spec [OF this, of "''nodes''"] run show ?thesis by (intro exI [of _ "snd ?run"] exI [of _ role] conjI) simp_all
qed

end
