(* ===== verification/Mgmt_Membership.thy ===== *)
theory Mgmt_Membership
  imports Mgmt_Access
begin

text \<open>
  Membership of clusters and projects: the cluster role bindings and role bindings, marked with
  the identifier of a role template binding, through which its subject sees the cluster or project
  itself.  What a sync establishes, what the removal of a binding revokes, and what it leaves.
\<close>

section \<open>Taking a mark away\<close>

definition marked :: "string \<Rightarrow> string \<Rightarrow> k8s_binding \<Rightarrow> bool" where
  "marked uid owner rb \<longleftrightarrow> map_of (om_labels (rb_meta rb)) uid = Some owner"

definition unmarked :: "string \<Rightarrow> k8s_binding \<Rightarrow> k8s_binding" where
  "unmarked uid rb = rb\<lparr>rb_meta := (rb_meta rb)\<lparr>om_labels := AList.delete uid (om_labels (rb_meta rb))\<rparr>\<rparr>"

text \<open>The requests for one marked binding: deleted when the mark was its only label, otherwise updated.\<close>

definition release_request :: "(k8s_binding \<Rightarrow> mreq) \<Rightarrow> (string \<Rightarrow> mreq) \<Rightarrow> string \<Rightarrow> k8s_binding \<Rightarrow> mreq" where
  "release_request update delete uid rb =
     (if om_labels (rb_meta (unmarked uid rb)) = [] then delete (rb_name rb) else update (unmarked uid rb))"

definition release_plan :: "(k8s_binding \<Rightarrow> mreq) \<Rightarrow> (string \<Rightarrow> mreq) \<Rightarrow> string \<Rightarrow> string \<Rightarrow> k8s_binding \<Rightarrow> mreq list" where
  "release_plan update delete roleToKeep uid rb =
     (if ref_name (rb_roleRef rb) = roleToKeep then [] else [release_request update delete uid rb])"

lemma reconcileMembership_follows:
  assumes list: "list [(uid, membershipBindingOwner)] = Inr rbs" and mark: "list_all (marked uid membershipBindingOwner) rbs"
    and del: "\<And>n. T (delete n)"
  shows "follows_plan T (reconcileMembershipBindingForDelete env roleToKeep uid list update delete)
    (concat (map (release_plan update delete roleToKeep uid) rbs))"
  unfolding reconcileMembershipBindingForDelete_def list go_bind_lift_Inr
proof (rule follows_plan_for)
  fix rb assume "rb \<in> set rbs"
  with mark have m: "map_of (om_labels (rb_meta rb)) uid = Some membershipBindingOwner" by (simp add: list_all_iff marked_def)
  show "follows_plan T (if ref_name (rb_roleRef rb) = roleToKeep then go_return ()
       else let labels = om_labels (rb_meta rb);
              labels' = (if map_of labels uid = Some membershipBindingOwner then AList.delete uid labels else labels)
         in if labels' = [] then go_call_nf env (delete (rb_name rb))
            else go_call env (update (rb\<lparr>rb_meta := (rb_meta rb)\<lparr>om_labels := labels'\<rparr>\<rparr>)))
     (release_plan update delete roleToKeep uid rb)"
    using del by (simp add: m release_plan_def release_request_def unmarked_def follows_plan_return follows_plan_call follows_plan_call_nf)
qed

definition marked_in :: "string \<Rightarrow> string \<Rightarrow> string \<Rightarrow> k8s_binding list \<Rightarrow> k8s_binding list" where
  "marked_in ns uid owner rbs = filter (\<lambda>rb. in_namespace ns (rb_meta rb) \<and> marked uid owner rb) rbs"

lemma lister_marked:
  "mm_crbLister (newRTBLifecycles c eu) [(uid, owner)] = Inr (filter (marked uid owner) (mc_crbs c))"
  "mm_rbLister (newRTBLifecycles c eu) ns [(uid, owner)] = Inr (marked_in ns uid owner (mc_rbs c))"
  by (auto simp: marked_in_def marked_def intro!: filter_cong)

lemma marked_filters [simp]:
  "list_all (marked uid owner) (filter (marked uid owner) rbs)" "list_all (marked uid owner) (marked_in ns uid owner rbs)"
  by (simp_all add: list_all_iff marked_in_def)

definition is_mdelete :: "mreq \<Rightarrow> bool" where
  "is_mdelete q \<longleftrightarrow> (\<exists>ns n. q = MDeleteRB ns n) \<or> (\<exists>n. q = MDeleteCRB n)"

lemma is_mdelete_simps [simp]: "is_mdelete (MDeleteRB ns n)" "is_mdelete (MDeleteCRB n)"
  by (simp_all add: is_mdelete_def)

lemma clusterMembershipForDelete_follows:
  "follows_plan is_mdelete (reconcileClusterMembershipBindingForDelete env (newRTBLifecycles c eu) roleToKeep uid)
     (concat (map (release_plan MUpdateCRB MDeleteCRB roleToKeep uid) (filter (marked uid membershipBindingOwner) (mc_crbs c))))"
  unfolding reconcileClusterMembershipBindingForDelete_def
  by (rule reconcileMembership_follows) (simp_all only: lister_marked marked_filters is_mdelete_simps)

lemma projectMembershipForDelete_follows:
  "follows_plan is_mdelete (reconcileProjectMembershipBindingForDelete env (newRTBLifecycles c eu) ns roleToKeep uid)
     (concat (map (release_plan (MUpdateRB ns) (MDeleteRB ns) roleToKeep uid) (marked_in ns uid membershipBindingOwner (mc_rbs c))))"
  unfolding reconcileProjectMembershipBindingForDelete_def
  by (rule reconcileMembership_follows) (simp_all only: lister_marked marked_filters is_mdelete_simps)

lemma clusterMembership_released:
  assumes run: "reconcileClusterMembershipBindingForDelete env (newRTBLifecycles c eu) roleToKeep uid h = (Inr (), d)"
    and crb: "crb \<in> set (mc_crbs c)" "marked uid membershipBindingOwner crb" "ref_name (rb_roleRef crb) \<noteq> roleToKeep"
  shows "release_request MUpdateCRB MDeleteCRB uid crb \<in> fst ` set d"
proof -
  have "release_request MUpdateCRB MDeleteCRB uid crb \<in> set (concat (map (release_plan MUpdateCRB MDeleteCRB roleToKeep uid)
      (filter (marked uid membershipBindingOwner) (mc_crbs c))))"
    using crb by (auto simp: release_plan_def)
  then show ?thesis
    unfolding follows_plan_success [OF clusterMembershipForDelete_follows run, THEN conjunct1, symmetric] by simp
qed

section \<open>Looking for a binding\<close>

text \<open>What is found is a marked binding with the wanted key; on the way only release requests are sent.\<close>

lemma findMembershipBinding_found:
  assumes "findMembershipBinding rec key rbs h = (Inr (Some rb), d)"
  shows "rb \<in> set rbs \<and> key \<in> set (rbByRoleAndSubject rb)"
proof -
  let ?F = "\<lambda>iRB found. if length (rb_subjects iRB) \<noteq> 1 then
         (case rb_subjects iRB of
            [] \<Rightarrow> go_fail (Panic ''index out of range'')
          | s # _ \<Rightarrow>
              if rbRoleSubjectKey (ref_name (rb_roleRef iRB)) s = key then go_return (Some iRB)
              else go_bind rec (\<lambda>_. go_return found))
       else go_bind rec (\<lambda>_. go_return found)"
  have step: "x = found \<or> x = Some iRB \<and> key \<in> set (rbByRoleAndSubject iRB)" if "?F iRB found h = (Inr x, d)" for iRB found x h d
    using that by (auto simp: go_return_def go_fail_def rbByRoleAndSubject_def rbRoleSubjectKeys_def
        split: if_splits list.splits elim!: go_bind_InrE)
  have "go_fold ?F xs found h = (Inr (Some rb), d) \<Longrightarrow> found = Some rb \<or> rb \<in> set xs \<and> key \<in> set (rbByRoleAndSubject rb)"
    for xs found h d
  proof (induction xs arbitrary: found h d)
    case (Cons x xs)
    then obtain y h' d1 d2 where "?F x found h = (Inr y, d1)" and "go_fold ?F xs y h' = (Inr (Some rb), d2)"
      by (auto elim: go_bind_InrE)
    with Cons.IH [of y h' d2] step [of x found h y d1] show ?case by auto
  qed (simp add: go_return_def)
  then show ?thesis using assms unfolding findMembershipBinding_def by fastforce
qed

lemma findMembershipBinding_issues:
  "issues_only P rec \<Longrightarrow> issues_only P (findMembershipBinding rec key rbs)"
  unfolding findMembershipBinding_def
  by (intro issues_only_fold) (auto intro!: issues_intros issues_only_bind split: list.splits)

text \<open>With one subject each, nothing is ever found: the comparison is made when there is not one subject.\<close>

lemma findMembershipBinding_single:
  assumes "\<And>h. rec h = (Inr (), [])" and "list_all (\<lambda>rb. length (rb_subjects rb) = 1) rbs"
  shows "findMembershipBinding rec key rbs h = (Inr None, [])"
  using assms(2) unfolding findMembershipBinding_def
  by (induction rbs arbitrary: h) (simp_all add: go_return_def go_bind_def assms(1))

section \<open>Establishing membership\<close>

text \<open>The subject has its binding: created, marked before, or marked now.\<close>

definition membership_granted :: "mgmt_caches \<Rightarrow> string \<Rightarrow> string \<Rightarrow> subject \<Rightarrow> mreq trace \<Rightarrow> bool" where
  "membership_granted c roleName uid subj d \<longleftrightarrow>
     MCreateCRB (membershipBinding ''clusterrolebinding-'' ''ClusterRole'' uid subj roleName) \<in> fst ` set d \<or>
     (\<exists>crb \<in> set (mc_crbs c). rbRoleSubjectKey roleName subj \<in> set (rbByRoleAndSubject crb) \<and>
        (has_key (om_labels (rb_meta crb)) uid \<or>
         MUpdateCRB (crb\<lparr>rb_meta := (rb_meta crb)\<lparr>om_labels := AList.update uid membershipBindingOwner (om_labels (rb_meta crb))\<rparr>\<rparr>) \<in> fst ` set d))"

lemma membership_granted_mono: "membership_granted c roleName uid subj d \<Longrightarrow> set d \<subseteq> set d' \<Longrightarrow> membership_granted c roleName uid subj d'"
  unfolding membership_granted_def by blast

lemma claimClusterMembershipBinding_grants:
  assumes run: "claimClusterMembershipBinding env (newRTBLifecycles c eu) roleName uid subj found h = (Inr (), d)"
    and found: "\<And>crb. found = Some crb \<Longrightarrow> crb \<in> set (mc_crbs c) \<and> marked uid membershipBindingOwner crb \<and>
      rbRoleSubjectKey roleName subj \<in> set (rbByRoleAndSubject crb)"
  shows "membership_granted c roleName uid subj d"
proof (cases found)
  case (Some crb)
  with found show ?thesis unfolding membership_granted_def by (auto simp: marked_def has_key_def)
next
  case None
  let ?objs = "filter (\<lambda>b. rbRoleSubjectKey roleName subj \<in> set (rbByRoleAndSubject b)) (mc_crbs c)"
  show ?thesis
  proof (cases ?objs)
    case Nil
    then show ?thesis using run None
      by (auto simp: membership_granted_def claimClusterMembershipBinding_def go_call_def Let_def split: option.splits)
  next
    case (Cons crb rest)
    then have "crb \<in> set ?objs" by simp
    then have crb: "crb \<in> set (mc_crbs c)" "rbRoleSubjectKey roleName subj \<in> set (rbByRoleAndSubject crb)" by simp_all
    let ?up = "MUpdateCRB (crb\<lparr>rb_meta := (rb_meta crb)\<lparr>om_labels := AList.update uid membershipBindingOwner (om_labels (rb_meta crb))\<rparr>\<rparr>)"
    have "has_key (om_labels (rb_meta crb)) uid \<or> d = [(?up, None)]"
      using run None Cons by (auto simp: claimClusterMembershipBinding_def go_call_def Let_def split: option.splits if_splits)
    with crb show ?thesis unfolding membership_granted_def by (intro disjI2 bexI [of _ crb]) auto
  qed
qed

lemma claimClusterMembershipBinding_issues:
  "issues_only (\<lambda>q. \<forall>n. q \<noteq> MDeleteCRB n) (claimClusterMembershipBinding env m roleName uid subj found)"
  unfolding claimClusterMembershipBinding_def by (auto intro!: issues_intros split: option.splits list.splits)

section \<open>Properties\<close>

text \<open>
  A sync that succeeds makes the subject a member of the cluster: a cluster role binding of
  the wanted role and subject, marked by the role template binding, has been created; or one was
  there and carries the label already, or has been updated to carry it. A cluster role binding is
  deleted only when it carries the mark of this binding and binds another role.
\<close>

theorem ensureClusterMembershipBinding_establishes:
  assumes run: "ensureClusterMembershipBinding env (newRTBLifecycles c eu) roleName uid cluster makeOwner subj h = (Inr (), d)"
  shows "membership_granted c roleName uid subj d \<and>
    (\<forall>n. MDeleteCRB n \<in> fst ` set d \<longrightarrow> (\<exists>crb \<in> set (mc_crbs c). rb_name crb = n \<and> marked uid membershipBindingOwner crb \<and>
       ref_name (rb_roleRef crb) \<noteq> roleName))"
proof
  let ?m = "newRTBLifecycles c eu"
  let ?rec = "reconcileClusterMembershipBindingForDelete env ?m roleName uid"
  let ?P = "\<lambda>q. \<forall>n. q = MDeleteCRB n \<longrightarrow> (\<exists>crb \<in> set (mc_crbs c). rb_name crb = n \<and> marked uid membershipBindingOwner crb \<and>
       ref_name (rb_roleRef crb) \<noteq> roleName)"
  have "issues_only ?P ?rec"
    by (rule issues_only_plan [OF clusterMembershipForDelete_follows]) (auto simp: release_plan_def release_request_def split: if_splits)
  moreover have "issues_only ?P (createClusterMembershipRole env ?m roleName cluster makeOwner)"
    by (auto simp: createClusterMembershipRole_def createMembershipRole_def intro!: issues_intros split: sum.splits)
  moreover have "issues_only ?P (claimClusterMembershipBinding env ?m roleName uid subj found)" for found
    by (rule issues_only_mono [OF claimClusterMembershipBinding_issues]) simp
  ultimately have "issues_only ?P (ensureClusterMembershipBinding env ?m roleName uid cluster makeOwner subj)"
    unfolding ensureClusterMembershipBinding_def
    by (intro issues_only_bind issues_only_simple findMembershipBinding_issues)
  then show "\<forall>n. MDeleteCRB n \<in> fst ` set d \<longrightarrow> (\<exists>crb \<in> set (mc_crbs c). rb_name crb = n \<and> marked uid membershipBindingOwner crb \<and>
       ref_name (rb_roleRef crb) \<noteq> roleName)"
    using run by (auto dest: issues_onlyD)
  obtain found h1 h2 d0 d1 d2
    where find: "findMembershipBinding ?rec (rbRoleSubjectKey roleName subj) (filter (marked uid membershipBindingOwner) (mc_crbs c)) h1 = (Inr found, d1)"
    and last: "claimClusterMembershipBinding env ?m roleName uid subj found h2 = (Inr (), d2)" and "d = d0 @ d1 @ d2"
    using run unfolding ensureClusterMembershipBinding_def lister_marked by (auto elim!: go_bind_InrE)
  then have d: "set d2 \<subseteq> set d" by auto
  have "crb \<in> set (mc_crbs c) \<and> marked uid membershipBindingOwner crb \<and> rbRoleSubjectKey roleName subj \<in> set (rbByRoleAndSubject crb)"
    if "found = Some crb" for crb
    using findMembershipBinding_found [OF find [unfolded that]] by simp
  from membership_granted_mono [OF claimClusterMembershipBinding_grants [OF last this] d]
  show "membership_granted c roleName uid subj d" .
qed

text \<open>
  Removing a cluster role template binding revokes what it granted. When the removal succeeds,
  every cluster role binding that carries its mark has been deleted if the mark was the only label,
  and updated without it otherwise; and in the namespace of every project of the cluster every
  role binding made for it has been deleted.
\<close>

theorem crtbLifecycle_Remove_revokes:
  assumes run: "crtbLifecycle_Remove env (newRTBLifecycles c eu) b h = (Inr (), d)"
  shows "(\<forall>crb \<in> set (mc_crbs c). marked (rtb_uid b) membershipBindingOwner crb \<and> ref_name (rb_roleRef crb) \<noteq> [] \<longrightarrow>
       release_request MUpdateCRB MDeleteCRB (rtb_uid b) crb \<in> fst ` set d) \<and>
    (\<forall>p \<in> set (mc_projects c). in_namespace (om_namespace (rtb_meta b)) (pj_meta p) \<longrightarrow>
       (\<forall>rb \<in> set (marked_in (pj_name p) (rtb_uid b) crtbInProjectBindingOwner (mc_rbs c)). (MDeleteRB (pj_name p) (rb_name rb), None) \<in> set d))"
proof (intro conjI ballI impI)
  let ?m = "newRTBLifecycles c eu"
  obtain h1 d1 d2 where rel: "reconcileClusterMembershipBindingForDelete env ?m [] (rtb_uid b) h = (Inr (), d1)"
    and rem: "removeMGMTClusterScopedPrivilegesInProjectNamespace env ?m b h1 = (Inr (), d2)" and d: "d = d1 @ d2"
    using run unfolding crtbLifecycle_Remove_def by (auto elim!: go_bind_InrE)
  fix crb assume crb: "crb \<in> set (mc_crbs c)" "marked (rtb_uid b) membershipBindingOwner crb \<and> ref_name (rb_roleRef crb) \<noteq> []"
  then show "release_request MUpdateCRB MDeleteCRB (rtb_uid b) crb \<in> fst ` set d"
    using clusterMembership_released [OF rel, of crb] d by auto
next
  fix p rb
  assume p: "p \<in> set (mc_projects c)" "in_namespace (om_namespace (rtb_meta b)) (pj_meta p)"
    and rb: "rb \<in> set (marked_in (pj_name p) (rtb_uid b) crtbInProjectBindingOwner (mc_rbs c))"
  let ?del = "\<lambda>p rb. go_call env (MDeleteRB (pj_name p) (rb_name rb))"
  obtain h1 d0 d1 where loop: "go_for (filter (\<lambda>p. in_namespace (om_namespace (rtb_meta b)) (pj_meta p)) (mc_projects c))
      (\<lambda>p. go_for (marked_in (pj_name p) (rtb_uid b) crtbInProjectBindingOwner (mc_rbs c)) (?del p)) h1 = (Inr (), d1)" and d: "d = d0 @ d1"
    using run unfolding crtbLifecycle_Remove_def removeMGMTClusterScopedPrivilegesInProjectNamespace_def lister_marked newRTB_simps(5) go_bind_lift_Inr
    by (auto elim!: go_bind_InrE)
  from p have "p \<in> set (filter (\<lambda>p. in_namespace (om_namespace (rtb_meta b)) (pj_meta p)) (mc_projects c))" by simp
  then obtain h2 d2 where inner: "go_for (marked_in (pj_name p) (rtb_uid b) crtbInProjectBindingOwner (mc_rbs c)) (?del p) h2 = (Inr (), d2)"
    and d2: "set d2 \<subseteq> set d1"
    by (rule go_for_Inr_elem [OF loop])
  obtain h3 d3 where "?del p rb h3 = (Inr (), d3)" and "set d3 \<subseteq> set d2" by (rule go_for_Inr_elem [OF inner rb])
  then show "(MDeleteRB (pj_name p) (rb_name rb), None) \<in> set d"
    using d d2 by (auto simp: go_call_def Let_def split: option.splits)
qed

text \<open>
  Removing a project role template binding leaves privileges behind. The role bindings that a
  sync creates in the cluster's namespace for the project's access to cluster resources carry
  another mark than the one the removal looks for: whatever the server answers, no deletion of
  such a role binding is sent.
\<close>

theorem prtbLifecycle_Remove_leaves:
  assumes run: "prtbLifecycle_Remove env (newRTBLifecycles c eu) b h = (r, d)"
    and names: "distinct (map (\<lambda>rb. (om_namespace (rb_meta rb), rb_name rb)) (mc_rbs c))"
    and rb: "rb \<in> set (mc_rbs c)" "marked (rtb_uid b) prtbInClusterBindingOwner rb" and ns: "om_namespace (rb_meta rb) \<noteq> []"
  shows "MDeleteRB (om_namespace (rb_meta rb)) (rb_name rb) \<notin> fst ` set d"
proof
  let ?ns = "om_namespace (rb_meta rb)" and ?m = "newRTBLifecycles c eu"
  let ?P = "\<lambda>q. q \<noteq> MDeleteRB ?ns (rb_name rb)"
  have cluster: "issues_only ?P (reconcileClusterMembershipBindingForDelete env ?m [] (rtb_uid b))"
    by (rule issues_only_plan [OF clusterMembershipForDelete_follows])
      (auto simp: release_plan_def release_request_def split: if_splits)
  have project: "issues_only ?P (reconcileProjectMembershipBindingForDelete env ?m ns [] (rtb_uid b))" for ns
  proof (rule issues_only_plan [OF projectMembershipForDelete_follows])
    fix q assume "q \<in> set (concat (map (release_plan (MUpdateRB ns) (MDeleteRB ns) [] (rtb_uid b)) (marked_in ns (rtb_uid b) membershipBindingOwner (mc_rbs c))))"
    then obtain rb' where rb': "rb' \<in> set (mc_rbs c)" "in_namespace ns (rb_meta rb')" "marked (rtb_uid b) membershipBindingOwner rb'"
      and q: "q \<in> set (release_plan (MUpdateRB ns) (MDeleteRB ns) [] (rtb_uid b) rb')"
      by (auto simp: marked_in_def)
    have "rb' \<noteq> rb" using rb(2) rb'(3) by (auto simp: marked_def membershipBindingOwner_def prtbInClusterBindingOwner_def)
    then have "(om_namespace (rb_meta rb'), rb_name rb') \<noteq> (?ns, rb_name rb)"
      using names rb(1) rb'(1) by (auto simp: distinct_map dest: inj_onD)
    then show "?P q" using q rb'(2) ns by (auto simp: release_plan_def release_request_def in_namespace_def split: if_splits)
  qed
  have "issues_only ?P (prtbLifecycle_Remove env ?m b)"
    unfolding prtbLifecycle_Remove_def
    by (auto intro!: issues_intros issues_only_bind cluster project split: list.splits)
  moreover assume "MDeleteRB ?ns (rb_name rb) \<in> fst ` set d"
  ultimately show False using run by (auto dest: issues_onlyD)
qed

text \<open>
  A project member gets one more role binding at every sync. When the marked role bindings of
  the role template binding all bind the wanted role to one subject each, as the controller creates
  them, the sync looks for an existing one among the cluster role bindings, finds none, and creates
  another; the request does not depend on what is there.
\<close>

theorem ensureProjectMembershipBinding_creates_again:
  assumes role: "mm_rLister (newRTBLifecycles c eu) ns roleName = Inr role"
    and ours: "list_all (\<lambda>rb. length (rb_subjects rb) = 1 \<and> ref_name (rb_roleRef rb) = roleName) (marked_in [] uid membershipBindingOwner (mc_rbs c))"
    and none: "list_all (\<lambda>crb. rbRoleSubjectKey roleName subj \<notin> set (rbByRoleAndSubject crb)) (mc_crbs c)"
  shows "map fst (snd (ensureProjectMembershipBinding env (newRTBLifecycles c eu) roleName uid ns project makeOwner subj h)) =
    [MCreateRB ns (membershipBinding ''rolebinding-'' ''Role'' uid subj roleName)]"
proof -
  let ?m = "newRTBLifecycles c eu" and ?rbs = "marked_in [] uid membershipBindingOwner (mc_rbs c)"
  let ?rec = "reconcileProjectMembershipBindingForDelete env ?m ns roleName uid"
  have keep: "list_all (\<lambda>rb. ref_name (rb_roleRef rb) = roleName) (marked_in ns uid membershipBindingOwner (mc_rbs c))"
    using ours by (auto simp: list_all_iff marked_in_def in_namespace_def)
  have loop: "go_for rbs (\<lambda>rb. if ref_name (rb_roleRef rb) = roleName then go_return () else f rb) h = (Inr (), [])"
    if "list_all (\<lambda>rb. ref_name (rb_roleRef rb) = roleName) rbs" for rbs f and h :: "mreq trace"
    using that by (induction rbs arbitrary: h) (simp_all add: go_return_run)
  have "?rec h = (Inr (), [])" for h
    unfolding reconcileProjectMembershipBindingForDelete_def reconcileMembershipBindingForDelete_def lister_marked go_bind_lift_Inr
    by (rule loop [OF keep])
  moreover have "list_all (\<lambda>rb. length (rb_subjects rb) = 1) ?rbs" using ours by (simp add: list_all_iff)
  ultimately have find: "findMembershipBinding ?rec key ?rbs h = (Inr None, [])" for key h
    by (rule findMembershipBinding_single)
  have "mm_crbIndexer ?m rbByRoleAndSubjectIndex (rbRoleSubjectKey roleName subj) = Inr []"
    using none by (auto simp: list_all_iff filter_empty_conv)
  then show ?thesis
    using role unfolding ensureProjectMembershipBinding_def createProjectMembershipRole_def lister_marked Let_def
    by (simp add: go_bind_def find go_lift_def go_call_def go_return_def Let_def)
qed

section \<open>Witnesses\<close>

definition mcluster_ex :: cluster where
  "mcluster_ex = \<lparr>cl_meta = meta0\<lparr>om_name := ''c-1''\<rparr>, cl_conditions = []\<rparr>"

theorem ensureClusterMembershipBinding_establishes_witness:
  "membership_granted mcaches_ex ''c-1-clusterowner'' ''uid-1'' muser_ex
     (snd (ensureClusterMembershipBinding accept_all (newRTBLifecycles mcaches_ex ensureUser_ex) ''c-1-clusterowner'' ''uid-1''
        mcluster_ex True muser_ex []))"
proof -
  let ?run = "ensureClusterMembershipBinding accept_all (newRTBLifecycles mcaches_ex ensureUser_ex) ''c-1-clusterowner'' ''uid-1''
        mcluster_ex True muser_ex []"
  have "fst ?run = Inr ()" by code_simp
  then have "?run = (Inr (), snd ?run)" by (metis prod.collapse)
  from ensureClusterMembershipBinding_establishes [OF this] show ?thesis ..
qed

theorem crtbLifecycle_Remove_revokes_witness:
  "MDeleteCRB ''crb-member'' \<in> fst ` set (snd (crtbLifecycle_Remove accept_all (newRTBLifecycles mcaches_ex ensureUser_ex) mcrtb_ex []))"
proof -
  let ?run = "crtbLifecycle_Remove accept_all (newRTBLifecycles mcaches_ex ensureUser_ex) mcrtb_ex []"
  let ?crb = "mrb_ex ''crb-member'' ''c-1-clustermember'' [(''uid-1'', membershipBindingOwner)] []"
  have "fst ?run = Inr ()" by code_simp
  then have run: "?run = (Inr (), snd ?run)" by (metis prod.collapse)
  have crb: "?crb \<in> set (mc_crbs mcaches_ex)" by (simp add: mcaches_ex_def)
  have side: "marked (rtb_uid mcrtb_ex) membershipBindingOwner ?crb \<and> ref_name (rb_roleRef ?crb) \<noteq> []"
    by (simp add: marked_def mrb_ex_def mcrtb_ex_def)
  have "release_request MUpdateCRB MDeleteCRB (rtb_uid mcrtb_ex) ?crb = MDeleteCRB ''crb-member''"
    by (simp add: release_request_def unmarked_def mrb_ex_def mcrtb_ex_def)
  then show ?thesis
    using bspec [OF conjunct1 [OF crtbLifecycle_Remove_revokes [OF run]] crb, THEN mp, OF side] by (simp only:)
qed

theorem prtbLifecycle_Remove_leaves_witness:
  "MDeleteRB ''c-1'' ''prtb-1-member'' \<notin>
     fst ` set (snd (prtbLifecycle_Remove accept_all (newRTBLifecycles mcaches_ex ensureUser_ex) mprtb_ex []))"
proof -
  let ?rb = "mrb_ex ''prtb-1-member'' ''member'' [(''uid-1'', prtbInClusterBindingOwner)] []"
  have names: "distinct (map (\<lambda>rb. (om_namespace (rb_meta rb), rb_name rb)) (mc_rbs mcaches_ex))"
    by (simp add: mcaches_ex_def mrb_ex_def)
  have rb: "?rb \<in> set (mc_rbs mcaches_ex)" "marked (rtb_uid mprtb_ex) prtbInClusterBindingOwner ?rb" "om_namespace (rb_meta ?rb) \<noteq> []"
    by (simp_all add: mcaches_ex_def marked_def mrb_ex_def mprtb_ex_def mcrtb_ex_def)
  from prtbLifecycle_Remove_leaves [OF surjective_pairing names rb, of accept_all ensureUser_ex "[]"]
  show ?thesis by (simp add: mrb_ex_def)
qed

theorem ensureProjectMembershipBinding_creates_again_witness:
  "map fst (snd (ensureProjectMembershipBinding accept_all (newRTBLifecycles mcaches_ex ensureUser_ex) ''p-1-projectmember'' ''uid-1'' ''c-1''
      mproject_ex False muser_ex [])) =
    [MCreateRB ''c-1'' (membershipBinding ''rolebinding-'' ''Role'' ''uid-1'' muser_ex ''p-1-projectmember'')]"
proof (rule ensureProjectMembershipBinding_creates_again)
  show "mm_rLister (newRTBLifecycles mcaches_ex ensureUser_ex) ''c-1'' ''p-1-projectmember'' =
      Inr \<lparr>role_meta = meta0\<lparr>om_name := ''p-1-projectmember'', om_namespace := ''c-1''\<rparr>, role_rules = []\<rparr>"
    by (simp add: mcaches_ex_def lister_get_def meta0_def)
qed (code_simp)+

end
