(* ===== verification/Authn_Types.thy ===== *)
theory Authn_Types
  imports Rbac_Types "HOL-Library.Word"
begin

text \<open>
  The objects of the management API about who a user is, as
  \<open>management.cattle.io/v3\<close> has them: principals, users, tokens and global roles.  The time
  to live of a token is a signed number of 64 bits of milliseconds, the time of its creation a
  number of nanoseconds.
\<close>

record principal =
  prin_name :: string
  prin_displayName :: string
  prin_loginName :: string
  prin_principalType :: string
  prin_provider :: string
  prin_me :: bool
  prin_memberOf :: bool

record user =
  us_meta :: object_meta
  us_displayName :: string
  us_description :: string
  us_username :: string
  us_password :: string
  us_mustChangePassword :: bool
  us_principalIDs :: "string list"

abbreviation us_name :: "user \<Rightarrow> string" where
  "us_name u \<equiv> om_name (us_meta u)"

record token =
  tk_meta :: object_meta
  tk_creationTimestamp :: int
  tk_token :: string
  tk_userPrincipal :: principal
  tk_groupPrincipals :: "principal list"
  tk_providerInfo :: "(string, string) gomap"
  tk_userID :: string
  tk_authProvider :: string
  tk_ttlMillis :: "64 word"
  tk_lastUpdateTime :: string
  tk_isDerived :: bool
  tk_description :: string
  tk_expired :: bool
  tk_expiresAt :: string

abbreviation tk_name :: "token \<Rightarrow> string" where
  "tk_name t \<equiv> om_name (tk_meta t)"

record global_role =
  gr_meta :: object_meta
  gr_displayName :: string
  gr_description :: string
  gr_rules :: "policy_rule list"
  gr_builtin :: bool

abbreviation gr_name :: "global_role \<Rightarrow> string" where
  "gr_name g \<equiv> om_name (gr_meta g)"

end
