(* ===== verification/Mgmt_Lifecycles.thy ===== *)
theory Mgmt_Lifecycles
  imports Mgmt_Auth Authn_Types
begin

text \<open>
  The other controllers of \<open>pkg/controllers/management/auth\<close>: the set-up of a new project
  or cluster (\<open>project_cluster_handler.go\<close>), global roles and their bindings
  (\<open>globalrole_handler.go\<close>, \<open>globalrolebinding_handler.go\<close>), and the removal of a user
  (\<open>user.go\<close>).
\<close>

section \<open>Projects and clusters: \<open>project_cluster_handler.go\<close>\<close>

definition creatorIDAnn :: string where
  "creatorIDAnn = ''field.cattle.io/creatorId''"

definition defaultProjectLabels :: "(string \<times> string) list" where
  "defaultProjectLabels = [(''authz.management.cattle.io/default-project'', ''true'')]"

definition crtbCeatorOwnerAnnotations :: "(string, string) gomap" where
  "crtbCeatorOwnerAnnotations = [(creatorOwnerBindingAnnotation, ''true'')]"

text \<open>
  The listers of the handler, and the live \<open>Get\<close> of a namespace, which answers with what the
  server has after the requests sent so far.
\<close>

record pc_mgr =
  pc_nsLister :: "string \<Rightarrow> namespace result"
  pc_projectLister :: "string \<Rightarrow> selector \<Rightarrow> project list result"
  pc_prtbLister :: "string \<Rightarrow> string \<Rightarrow> rtb result"
  pc_crtbLister :: "string \<Rightarrow> string \<Rightarrow> rtb result"
  pc_nsGet :: "mreq trace \<Rightarrow> string \<Rightarrow> namespace result"

record pc_caches =
  pcc_namespaces :: "namespace list"
  pcc_projects :: "project list"
  pcc_prtbs :: "rtb list"
  pcc_crtbs :: "rtb list"

definition rtb_get :: "rtb list \<Rightarrow> string \<Rightarrow> string \<Rightarrow> rtb result" where
  "rtb_get cache ns = lister_get (\<lambda>b. om_name (rtb_meta b)) (filter (\<lambda>b. om_namespace (rtb_meta b) = ns) cache)"

definition newPandCLifecycles :: "pc_caches \<Rightarrow> (mreq trace \<Rightarrow> string \<Rightarrow> namespace result) \<Rightarrow> pc_mgr" where
  "newPandCLifecycles c nsGet =
     \<lparr>pc_nsLister = lister_get ns_name (pcc_namespaces c),
      pc_projectLister = (\<lambda>ns. lister_list (\<lambda>p. om_labels (pj_meta p)) (filter (\<lambda>p. in_namespace ns (pj_meta p)) (pcc_projects c))),
      pc_prtbLister = rtb_get (pcc_prtbs c),
      pc_crtbLister = rtb_get (pcc_crtbs c),
      pc_nsGet = nsGet\<rparr>"

text \<open>
  The callbacks that the handlers run under a condition answer with the object and an error or
  none; they read the object's metadata only.
\<close>

definition as_callback :: "(object_meta \<Rightarrow> (mreq, unit) go) \<Rightarrow> ('o \<Rightarrow> object_meta) \<Rightarrow> (mreq, 'o) cond_callback" where
  "as_callback f meta obj = go_bind (go_try (f (meta obj))) (\<lambda>r.
     go_return (Some obj, case r of Inl e \<Rightarrow> Some e | Inr _ \<Rightarrow> None))"

definition createDefaultProject :: "mreq env \<Rightarrow> pc_mgr \<Rightarrow> object_meta \<Rightarrow> (mreq, unit) go" where
  "createDefaultProject env m om =
     go_bind (go_lift (pc_projectLister m (om_name om) defaultProjectLabels)) (\<lambda>projects.
     if projects \<noteq> [] then go_return ()
     else case map_of (om_annotations om) creatorIDAnn of
         None \<Rightarrow> go_return ()
       | Some creatorID \<Rightarrow>
           go_call env (MCreateProject (om_name om)
             \<lparr>pj_meta = meta0\<lparr>om_generateName := ''project-'', om_annotations := [(creatorIDAnn, creatorID)],
                om_labels := defaultProjectLabels\<rparr>,
              pj_displayName = ''Default'', pj_description = ''Default project created for the cluster'',
              pj_clusterName = om_name om, pj_conditions = []\<rparr>))"

definition creatorRTB :: "rtb_kind \<Rightarrow> string \<Rightarrow> (string, string) gomap \<Rightarrow> string \<Rightarrow> string \<Rightarrow> string \<Rightarrow> rtb" where
  "creatorRTB kind namespace annotations target roleTemplateName creatorID =
     \<lparr>rtb_kind = kind, rtb_meta = meta0\<lparr>om_name := ''creator'', om_namespace := namespace, om_annotations := annotations\<rparr>,
      rtb_userName = creatorID, rtb_userPrincipalName = [], rtb_groupName = [], rtb_groupPrincipalName = [],
      rtb_target = target, rtb_roleTemplateName = roleTemplateName\<rparr>"

definition reconcileCreatorRTB :: "mreq env \<Rightarrow> pc_mgr \<Rightarrow> object_meta \<Rightarrow> (mreq, unit) go" where
  "reconcileCreatorRTB env m om =
     (case map_of (om_annotations om) creatorIDAnn of
        None \<Rightarrow> go_return ()
      | Some creatorID \<Rightarrow>
          if om_kind om = ''Project'' then
            (case pc_prtbLister m (om_name om) ''creator'' of
               Inr _ \<Rightarrow> go_return ()
             | Inl _ \<Rightarrow> go_call env (MCreateRTB (om_name om)
                 (creatorRTB PRTB (om_name om) [] (om_namespace om @ '':'' @ om_name om) ''project-owner'' creatorID)))
          else if om_kind om = ''Cluster'' then
            (case pc_crtbLister m (om_name om) ''creator'' of
               Inr _ \<Rightarrow> go_return ()
             | Inl _ \<Rightarrow> go_call env (MCreateRTB (om_name om)
                 (creatorRTB CRTB (om_name om) crtbCeatorOwnerAnnotations (om_name om) ''cluster-owner'' creatorID)))
          else go_return ())"

text \<open>\<open>condition.Error\<close> gives an error the reason that the condition will show.\<close>

definition reconcileResourceToNamespace :: "mreq env \<Rightarrow> pc_mgr \<Rightarrow> object_meta \<Rightarrow> (mreq, unit) go" where
  "reconcileResourceToNamespace env m om =
     (case pc_nsLister m (om_name om) of
        Inr _ \<Rightarrow> go_return ()
      | Inl _ \<Rightarrow>
          go_bind (go_try (go_call env (MCreateNamespace
            \<lparr>ns_meta = meta0\<lparr>om_name := om_name om, om_annotations := [(''management.cattle.io/system-namespace'', ''true'')]\<rparr>,
             ns_phase = []\<rparr>))) (\<lambda>r. case r of
               Inr _ \<Rightarrow> go_return ()
             | Inl err \<Rightarrow> go_fail (CondError ''NamespaceCreationFailure''
                 (wrap_error (''failed to create namespace for '' @ om_kind om @ '' '' @ om_name om) err))))"

definition deleteNamespace :: "mreq env \<Rightarrow> pc_mgr \<Rightarrow> object_meta \<Rightarrow> (mreq, unit) go" where
  "deleteNamespace env m om = (\<lambda>h.
     (case pc_nsGet m h (om_name om) of
        Inl err \<Rightarrow> if is_not_found err then go_return () else go_call_nf env (MDeleteNamespace (om_name om))
      | Inr ns \<Rightarrow> if ns_phase ns \<noteq> ''Terminating'' then go_call_nf env (MDeleteNamespace (om_name om)) else go_return ()) h)"

text \<open>The steps of a sync: each under its condition, the first error ends the sync.\<close>

definition step_error :: "('r, 'o \<times> go_error option) go \<Rightarrow> ('r, 'o) go" where
  "step_error m = go_bind m (\<lambda>(obj, err). case err of None \<Rightarrow> go_return obj | Some e \<Rightarrow> go_fail e)"

definition projectLifecycle_sync ::
  "(go_error \<Rightarrow> string) \<Rightarrow> string \<Rightarrow> mreq env \<Rightarrow> pc_mgr \<Rightarrow> project option \<Rightarrow> (mreq, unit) go" where
  "projectLifecycle_sync msg now env m orig =
     (case orig of
        None \<Rightarrow> go_return ()
      | Some orig \<Rightarrow>
          go_bind (step_error (condDo msg now pj_conditions pj_conditions_update ''BackingNamespaceCreated'' orig
            (as_callback (reconcileResourceToNamespace env m) pj_meta))) (\<lambda>obj1.
          go_bind (step_error (projectDoUntilTrue msg now ''CreatorMadeOwner'' obj1
            (as_callback (reconcileCreatorRTB env m) pj_meta))) (\<lambda>obj2.
          go_when (obj2 \<noteq> orig) (go_call env (MUpdateProject obj2)))))"

definition clusterLifecycle_sync ::
  "(go_error \<Rightarrow> string) \<Rightarrow> string \<Rightarrow> mreq env \<Rightarrow> pc_mgr \<Rightarrow> cluster option \<Rightarrow> (mreq, unit) go" where
  "clusterLifecycle_sync msg now env m orig =
     (case orig of
        None \<Rightarrow> go_return ()
      | Some orig \<Rightarrow>
          go_bind (step_error (condDo msg now cl_conditions cl_conditions_update ''BackingNamespaceCreated'' orig
            (as_callback (reconcileResourceToNamespace env m) cl_meta))) (\<lambda>obj1.
          go_bind (step_error (clusterDoUntilTrue msg now ''DefaultProjectCreated'' obj1
            (as_callback (createDefaultProject env m) cl_meta))) (\<lambda>obj2.
          go_bind (step_error (clusterDoUntilTrue msg now ''CreatorMadeOwner'' obj2
            (as_callback (reconcileCreatorRTB env m) cl_meta))) (\<lambda>obj3.
          go_when (obj3 \<noteq> orig) (go_call env (MUpdateCluster obj3))))))"

definition projectLifecycle_Create :: "project \<Rightarrow> (mreq, project) go" where
  "projectLifecycle_Create obj = go_return obj"

definition projectLifecycle_Updated :: "project \<Rightarrow> (mreq, project) go" where
  "projectLifecycle_Updated obj = go_return obj"

definition projectLifecycle_Remove :: "mreq env \<Rightarrow> pc_mgr \<Rightarrow> project \<Rightarrow> (mreq, project) go" where
  "projectLifecycle_Remove env m obj = go_bind (deleteNamespace env m (pj_meta obj)) (\<lambda>_. go_return obj)"

definition clusterLifecycle_Create :: "cluster \<Rightarrow> (mreq, cluster) go" where
  "clusterLifecycle_Create obj = go_return obj"

definition clusterLifecycle_Updated :: "cluster \<Rightarrow> (mreq, cluster) go" where
  "clusterLifecycle_Updated obj = go_return obj"

definition clusterLifecycle_Remove :: "mreq env \<Rightarrow> pc_mgr \<Rightarrow> cluster \<Rightarrow> (mreq, cluster) go" where
  "clusterLifecycle_Remove env m obj = go_bind (deleteNamespace env m (cl_meta obj)) (\<lambda>_. go_return obj)"

section \<open>Global roles: \<open>globalrole_handler.go\<close>\<close>

definition crNameAnnotation :: string where
  "crNameAnnotation = ''authz.management.cattle.io/cr-name''"

definition generateCRName :: "string \<Rightarrow> string" where
  "generateCRName name = ''cattle-globalrole-'' @ name"

definition getCRName :: "global_role \<Rightarrow> string" where
  "getCRName gr = (case map_of (om_annotations (gr_meta gr)) crNameAnnotation of
       Some crName \<Rightarrow> crName
     | None \<Rightarrow> generateCRName (gr_name gr))"

text \<open>
  \<open>crLister.Get\<close> hands out the object that the cache holds, and the handler writes the new
  rules into it before it asks the server to update: the cache is part of the state.  Like the
  annotation written into the global role, the change stays when the request fails, so the run
  answers with the cache, the global role and the error.
\<close>

definition reconcileGlobalRole ::
  "mreq env \<Rightarrow> k8s_role list \<Rightarrow> global_role \<Rightarrow> (mreq, (k8s_role list \<times> global_role) \<times> go_error option) go" where
  "reconcileGlobalRole env crs gr =
     (let crName = getCRName gr in
      case lister_get role_name crs crName of
        Inr clusterRole \<Rightarrow>
          if gr_rules gr \<noteq> role_rules clusterRole then
            (let clusterRole' = clusterRole\<lparr>role_rules := gr_rules gr\<rparr>;
                 crs' = map (\<lambda>r. if role_name r = crName then clusterRole' else r) crs
             in go_bind (go_try (go_call env (MUpdateClusterRole clusterRole'))) (\<lambda>r. case r of
                  Inl err \<Rightarrow> go_return ((crs', gr), Some (wrap_error (''couldn't update ClusterRole '' @ crName) err))
                | Inr _ \<Rightarrow> go_return ((crs', gr), None)))
          else go_return ((crs, gr), None)
      | Inl _ \<Rightarrow>
          go_bind (go_try (go_call env (MCreateClusterRole
            \<lparr>role_meta = meta0\<lparr>om_name := crName,
               om_owners := [\<lparr>own_apiVersion = om_apiVersion (gr_meta gr), own_kind = om_kind (gr_meta gr),
                 own_name = gr_name gr, own_uid = om_uid (gr_meta gr)\<rparr>],
               om_labels := [(''authz.management.cattle.io/globalrole'', ''true'')]\<rparr>,
             role_rules = gr_rules gr\<rparr>))) (\<lambda>r. case r of
               Inl err \<Rightarrow> go_return ((crs, gr), Some err)
             | Inr _ \<Rightarrow> go_return ((crs, gr\<lparr>gr_meta := (gr_meta gr)\<lparr>om_annotations :=
                 AList.update crNameAnnotation crName (om_annotations (gr_meta gr))\<rparr>\<rparr>), None)))"

definition globalRole_Create ::
  "mreq env \<Rightarrow> k8s_role list \<Rightarrow> global_role \<Rightarrow> (mreq, (k8s_role list \<times> global_role) \<times> go_error option) go" where
  "globalRole_Create env crs obj = reconcileGlobalRole env crs obj"

text \<open>\<open>Updated\<close> hands no object back, \<open>Remove\<close> leaves the cluster role to its owner reference.\<close>

definition globalRole_Updated :: "mreq env \<Rightarrow> k8s_role list \<Rightarrow> global_role \<Rightarrow> (mreq, k8s_role list \<times> go_error option) go" where
  "globalRole_Updated env crs obj = go_bind (reconcileGlobalRole env crs obj) (\<lambda>((crs', _), err). go_return (crs', err))"

definition globalRole_Remove :: "global_role \<Rightarrow> (mreq, unit) go" where
  "globalRole_Remove obj = go_return ()"

section \<open>Global role bindings: \<open>globalrolebinding_handler.go\<close>\<close>

definition crbNameAnnotation :: string where
  "crbNameAnnotation = ''authz.management.cattle.io/crb-name''"

definition crbNamePrefix :: string where
  "crbNamePrefix = ''cattle-globalrolebinding-''"

record grb_lifecycle =
  gl_crbLister :: "string \<Rightarrow> k8s_binding result"
  gl_grLister :: "string \<Rightarrow> global_role result"

definition newGlobalRoleBindingLifecycle :: "k8s_binding list \<Rightarrow> global_role list \<Rightarrow> grb_lifecycle" where
  "newGlobalRoleBindingLifecycle crbs grs = \<lparr>gl_crbLister = lister_get rb_name crbs, gl_grLister = lister_get gr_name grs\<rparr>"

definition crbNameOf :: "global_role_binding \<Rightarrow> string" where
  "crbNameOf grb = (case map_of (om_annotations (grb_meta grb)) crbNameAnnotation of
       Some n \<Rightarrow> n | None \<Rightarrow> crbNamePrefix @ om_name (grb_meta grb))"

definition reconcileGlobalRoleBinding :: "mreq env \<Rightarrow> grb_lifecycle \<Rightarrow> global_role_binding \<Rightarrow> (mreq, global_role_binding) go" where
  "reconcileGlobalRoleBinding env l grb =
     (let crbName = crbNameOf grb;
          subj = \<lparr>sub_kind = ''User'', sub_name = grb_userName grb\<rparr>
      in case gl_crbLister l crbName of
        Inr crb \<Rightarrow>
          (let updateSubject = ([subj] \<noteq> rb_subjects crb);
               newRef = (case gl_grLister l (grb_globalRoleName grb) of
                   Inr gr \<Rightarrow> if getCRName gr \<noteq> ref_name (rb_roleRef crb)
                     then Some \<lparr>ref_apiGroup = [], ref_kind = ''ClusterRole'', ref_name = getCRName gr\<rparr> else None
                 | Inl _ \<Rightarrow> None)
           in go_bind (go_when (updateSubject \<or> newRef \<noteq> None)
                (go_wrap (''couldn't update ClusterRoleBinding '' @ rb_name crb)
                  (go_call env (MUpdateCRB (crb\<lparr>rb_roleRef := (case newRef of Some r \<Rightarrow> r | None \<Rightarrow> rb_roleRef crb),
                     rb_subjects := [subj]\<rparr>))))) (\<lambda>_. go_return grb))
      | Inl _ \<Rightarrow>
          (let crName = (case gl_grLister l (grb_globalRoleName grb) of
                 Inr gr \<Rightarrow> getCRName gr | Inl _ \<Rightarrow> generateCRName (grb_globalRoleName grb))
           in go_bind (go_call env (MCreateCRB
                \<lparr>rb_meta = meta0\<lparr>om_name := crbName,
                   om_owners := [\<lparr>own_apiVersion = om_apiVersion (grb_meta grb), own_kind = om_kind (grb_meta grb),
                     own_name = om_name (grb_meta grb), own_uid = om_uid (grb_meta grb)\<rparr>],
                   om_labels := [(''authz.management.cattle.io/globalrolebinding'', ''true'')]\<rparr>,
                 rb_subjects = [subj],
                 rb_roleRef = \<lparr>ref_apiGroup = [], ref_kind = ''ClusterRole'', ref_name = crName\<rparr>\<rparr>)) (\<lambda>_.
              go_return (grb\<lparr>grb_meta := (grb_meta grb)\<lparr>om_annotations :=
                AList.update crbNameAnnotation crbName (om_annotations (grb_meta grb))\<rparr>\<rparr>))))"

definition globalRoleBinding_Create :: "mreq env \<Rightarrow> grb_lifecycle \<Rightarrow> global_role_binding \<Rightarrow> (mreq, global_role_binding) go" where
  "globalRoleBinding_Create env l obj = reconcileGlobalRoleBinding env l obj"

definition globalRoleBinding_Updated :: "mreq env \<Rightarrow> grb_lifecycle \<Rightarrow> global_role_binding \<Rightarrow> (mreq, unit) go" where
  "globalRoleBinding_Updated env l obj = go_bind (reconcileGlobalRoleBinding env l obj) (\<lambda>_. go_return ())"

definition globalRoleBinding_Remove :: "global_role_binding \<Rightarrow> (mreq, unit) go" where
  "globalRoleBinding_Remove obj = go_return ()"

section \<open>Users: \<open>user.go\<close>\<close>

definition crtbByUserRefKey :: string where
  "crtbByUserRefKey = ''auth.management.cattle.io/crtb-by-user-ref''"

definition prtbByUserRefKey :: string where
  "prtbByUserRefKey = ''auth.management.cattle.io/prtb-by-user-ref''"

definition grbByUserRefKey :: string where
  "grbByUserRefKey = ''auth.management.cattle.io/grb-by-user-ref''"

definition tokenByUserRefKey :: string where
  "tokenByUserRefKey = ''auth.management.cattle.io/token-by-user-ref''"

definition grbByUserRefFunc :: "global_role_binding \<Rightarrow> string list" where
  "grbByUserRefFunc grb = [grb_userName grb]"

definition prtbByUserRefFunc :: "rtb \<Rightarrow> string list" where
  "prtbByUserRefFunc b = (if rtb_kind b \<noteq> PRTB \<or> rtb_userName b = [] then [] else [rtb_userName b])"

definition crtbByUserRefFunc :: "rtb \<Rightarrow> string list" where
  "crtbByUserRefFunc b = (if rtb_kind b \<noteq> CRTB \<or> rtb_userName b = [] then [] else [rtb_userName b])"

definition tokenByUserRefFunc :: "token \<Rightarrow> string list" where
  "tokenByUserRefFunc t = [tk_userID t]"

record user_lifecycle =
  ul_namespaceLister :: "string \<Rightarrow> namespace result"
  ul_prtbIndexer :: "string \<Rightarrow> string \<Rightarrow> rtb list result"
  ul_crtbIndexer :: "string \<Rightarrow> string \<Rightarrow> rtb list result"
  ul_grbIndexer :: "string \<Rightarrow> string \<Rightarrow> global_role_binding list result"
  ul_tokenIndexer :: "string \<Rightarrow> string \<Rightarrow> token list result"

record ul_caches =
  ulc_namespaces :: "namespace list"
  ulc_prtbs :: "rtb list"
  ulc_crtbs :: "rtb list"
  ulc_grbs :: "global_role_binding list"
  ulc_tokens :: "token list"

definition newUserLifecycle :: "ul_caches \<Rightarrow> user_lifecycle" where
  "newUserLifecycle c =
     \<lparr>ul_namespaceLister = lister_get ns_name (ulc_namespaces c),
      ul_prtbIndexer = by_index [(prtbByUserRefKey, prtbByUserRefFunc)] (ulc_prtbs c),
      ul_crtbIndexer = by_index [(crtbByUserRefKey, crtbByUserRefFunc)] (ulc_crtbs c),
      ul_grbIndexer = by_index [(grbByUserRefKey, grbByUserRefFunc)] (ulc_grbs c),
      ul_tokenIndexer = by_index [(tokenByUserRefKey, tokenByUserRefFunc)] (ulc_tokens c)\<rparr>"

definition userLifecycle_Create :: "user \<Rightarrow> user" where
  "userLifecycle_Create u =
     (if list_ex (prefix ''local://'') (us_principalIDs u) then u
      else u\<lparr>us_principalIDs := us_principalIDs u @ [''local://'' @ us_name u]\<rparr>)"

definition userLifecycle_Updated :: "user \<Rightarrow> user" where
  "userLifecycle_Updated u = u"

text \<open>
  \<open>fmt.Errorf\<close> with the text of an error loses its kind: the result is neither a status of
  the server nor one that can be unwrapped.
\<close>

definition errorf :: "string \<Rightarrow> ('r, 'a) go \<Rightarrow> ('r, 'a) go" where
  "errorf s m = go_wrap s m"

definition getCRTBByUserName :: "user_lifecycle \<Rightarrow> string \<Rightarrow> (mreq, rtb list) go" where
  "getCRTBByUserName l username = errorf ''error getting cluster roles'' (go_lift (ul_crtbIndexer l crtbByUserRefKey username))"

definition getPRTBByUserName :: "user_lifecycle \<Rightarrow> string \<Rightarrow> (mreq, rtb list) go" where
  "getPRTBByUserName l username = errorf ''error getting indexed project roles'' (go_lift (ul_prtbIndexer l prtbByUserRefKey username))"

definition getGRBByUserName :: "user_lifecycle \<Rightarrow> string \<Rightarrow> (mreq, global_role_binding list) go" where
  "getGRBByUserName l username = errorf ''error getting indexed global roles'' (go_lift (ul_grbIndexer l grbByUserRefKey username))"

definition getTokensByUserName :: "user_lifecycle \<Rightarrow> string \<Rightarrow> (mreq, token list) go" where
  "getTokensByUserName l username = errorf ''error getting indexed tokens'' (go_lift (ul_tokenIndexer l tokenByUserRefKey username))"

text \<open>Without a namespace the object is deleted by name alone, which the empty namespace stands for.\<close>

definition deleteAllCRTB :: "mreq env \<Rightarrow> rtb list \<Rightarrow> (mreq, unit) go" where
  "deleteAllCRTB env crtbs = go_for crtbs (\<lambda>b. errorf ''error deleting cluster role''
     (go_call env (MDeleteRTB CRTB (om_namespace (rtb_meta b)) (om_name (rtb_meta b)))))"

definition deleteAllPRTB :: "mreq env \<Rightarrow> rtb list \<Rightarrow> (mreq, unit) go" where
  "deleteAllPRTB env prtbs = go_for prtbs (\<lambda>b. errorf ''error deleting projet role''
     (go_call env (MDeleteRTB PRTB (om_namespace (rtb_meta b)) (om_name (rtb_meta b)))))"

definition deleteAllGRB :: "mreq env \<Rightarrow> global_role_binding list \<Rightarrow> (mreq, unit) go" where
  "deleteAllGRB env grbs = go_for grbs (\<lambda>b. errorf (''error deleting global role template '' @ om_name (grb_meta b))
     (go_call env (MDeleteGRB (om_namespace (grb_meta b)) (om_name (grb_meta b)))))"

definition deleteAllTokens :: "mreq env \<Rightarrow> token list \<Rightarrow> (mreq, unit) go" where
  "deleteAllTokens env tokens = go_for tokens (\<lambda>t. errorf ''error deleting token''
     (go_call env (MDeleteToken (om_namespace (tk_meta t)) (tk_name t))))"

definition deleteUserNamespace :: "mreq env \<Rightarrow> user_lifecycle \<Rightarrow> string \<Rightarrow> (mreq, unit) go" where
  "deleteUserNamespace env l username =
     (case ul_namespaceLister l username of
        Inl err \<Rightarrow> if is_not_found err then go_return () else errorf ''error getting user namespace'' (go_fail err)
      | Inr ns \<Rightarrow> if ns_phase ns = ''Terminating'' then go_return ()
          else errorf ''error deleting user namespace'' (go_call env (MDeleteNamespace username)))"

definition userLifecycle_Remove :: "mreq env \<Rightarrow> user_lifecycle \<Rightarrow> user \<Rightarrow> (mreq, user) go" where
  "userLifecycle_Remove env l u =
     go_bind (getCRTBByUserName l (us_name u)) (\<lambda>clusterRoles.
     go_bind (deleteAllCRTB env clusterRoles) (\<lambda>_.
     go_bind (getPRTBByUserName l (us_name u)) (\<lambda>projectRoles.
     go_bind (deleteAllPRTB env projectRoles) (\<lambda>_.
     go_bind (getGRBByUserName l (us_name u)) (\<lambda>globalRoles.
     go_bind (deleteAllGRB env globalRoles) (\<lambda>_.
     go_bind (getTokensByUserName l (us_name u)) (\<lambda>tokens.
     go_bind (deleteAllTokens env tokens) (\<lambda>_.
     go_bind (deleteUserNamespace env l (us_name u)) (\<lambda>_.
     go_return u)))))))))"

end
