(* ===== verification/Mgmt_Setup.thy ===== *)
theory Mgmt_Setup
  imports Mgmt_Lifecycles
begin

text \<open>
  What the controllers of \<open>Mgmt_Lifecycles\<close> achieve: a new cluster is set up in one sync and
  left alone afterwards, a global role binding binds its user to its role, a lost update of a
  global role, and the removal of a user.
\<close>

section \<open>Steps under a condition\<close>

text \<open>Objects with conditions: reading and mapping the conditions, and metadata they do not touch.\<close>

locale conditioned =
  fixes get :: "'o \<Rightarrow> condition list" and upd :: "(condition list \<Rightarrow> condition list) \<Rightarrow> 'o \<Rightarrow> 'o"
    and meta :: "'o \<Rightarrow> object_meta"
  assumes get_upd: "get (upd f obj) = f (get obj)"
    and meta_upd: "meta (upd f obj) = meta obj"
    and upd_upd: "upd f (upd g obj) = upd (\<lambda>cs. f (g cs)) obj"
    and upd_same: "f (get obj) = get obj \<Longrightarrow> upd f obj = obj"
begin

text \<open>A step that succeeds: its callback has succeeded and its condition is true; other conditions stay.\<close>

definition set_true :: "string \<Rightarrow> 'o \<Rightarrow> 'o \<Rightarrow> bool" where
  "set_true name obj obj' \<longleftrightarrow> meta obj' = meta obj \<and> condIsTrue name (get obj') \<and>
     (\<forall>n. n \<noteq> name \<longrightarrow> findCond (get obj') n = findCond (get obj) n)"

lemma step_condDo:
  assumes "step_error (condDo msg now get upd name obj (as_callback f meta)) h = (Inr obj', d)"
  shows "f (meta obj) h = (Inr (), d)" and "set_true name obj obj'"
    and "getCondReason name (get obj') = [] \<and> getCondMessage name (get obj') = []"
proof -
  from assms obtain d' where run: "f (meta obj) h = (Inr (), d')" and d: "d' = d"
    and obj': "obj' = upd (\<lambda>cs. condRestore name (get obj) (condAfter msg now name None (condBefore now name cs))) obj"
    by (auto simp: step_error_def condDo_def as_callback_def Let_def meta_upd upd_upd go_return_def go_fail_def go_bind_def go_try_def
        split: option.splits sum.splits prod.splits if_splits)
  from run d show "f (meta obj) h = (Inr (), d)" by simp
  show "set_true name obj obj'"
    unfolding set_true_def obj' get_upd meta_upd
    by (simp add: condIsTrue_after findCond_condRestore_other findCond_condAfter_other findCond_condBefore_other)
  show "getCondReason name (get obj') = [] \<and> getCondMessage name (get obj') = []"
    unfolding obj' get_upd by (simp add: condRestore_def condAfter_def cond_getter_defs split: option.splits)
qed

lemma step_condDo_succeeds:
  assumes "f (meta obj) h = (Inr (), d)"
  shows "\<exists>obj'. step_error (condDo msg now get upd name obj (as_callback f meta)) h = (Inr obj', d)"
  using assms by (simp add: step_error_def condDo_def as_callback_def Let_def meta_upd go_return_def go_bind_def go_try_def)

lemma set_true_refl: "condIsTrue name (get obj) \<Longrightarrow> set_true name obj obj"
  by (simp add: set_true_def)

lemma step_until_true:
  assumes "step_error (condDoUntilTrue msg now get upd name obj (as_callback f meta)) h = (Inr obj', d)"
  shows "condIsTrue name (get obj) \<and> obj' = obj \<and> d = [] \<or> f (meta obj) h = (Inr (), d)" and "set_true name obj obj'"
proof -
  have "condIsTrue name (get obj) \<and> obj' = obj \<and> d = [] \<or>
      step_error (condDo msg now get upd name obj (as_callback f meta)) h = (Inr obj', d)"
    using assms by (auto simp: condDoUntilTrue_def step_error_def go_return_run split: if_splits)
  then show "condIsTrue name (get obj) \<and> obj' = obj \<and> d = [] \<or> f (meta obj) h = (Inr (), d)" "set_true name obj obj'"
    using step_condDo(1,2) [of msg now name obj f h obj' d] set_true_refl [of name obj] by metis+
qed

lemma step_until_true_succeeds:
  assumes "f (meta obj) h = (Inr (), d)"
  shows "\<exists>obj' d'. step_error (condDoUntilTrue msg now get upd name obj (as_callback f meta)) h = (Inr obj', d')"
proof (cases "condIsTrue name (get obj)")
  case True
  then show ?thesis by (simp add: condDoUntilTrue_def step_error_def go_return_run)
next
  case False
  then have "condDoUntilTrue msg now get upd name obj (as_callback f meta) = condDo msg now get upd name obj (as_callback f meta)"
    by (simp add: condDoUntilTrue_def)
  then show ?thesis using step_condDo_succeeds [where f = f and msg = msg and now = now and name = name, OF assms] by auto
qed

lemma step_until_true_skip:
  "condIsTrue name (get obj) \<Longrightarrow> step_error (condDoUntilTrue msg now get upd name obj g) = go_return obj"
  by (simp add: condDoUntilTrue_def step_error_def)

end

interpretation conditioned_cluster: conditioned cl_conditions cl_conditions_update cl_meta
  by unfold_locales (simp_all add: comp_def)

interpretation conditioned_project: conditioned pj_conditions pj_conditions_update pj_meta
  by unfold_locales (simp_all add: comp_def)

section \<open>What the callbacks do\<close>

lemma reconcileResourceToNamespace_result:
  assumes "reconcileResourceToNamespace env m om h = (Inr (), d)"
  shows "(\<exists>ns. pc_nsLister m (om_name om) = Inr ns) \<and> d = [] \<or> (\<exists>ns. ns_name ns = om_name om \<and> d = [(MCreateNamespace ns, None)])"
  using assms
  by (auto simp: reconcileResourceToNamespace_def go_return_def go_fail_def go_bind_def go_try_def go_call_def Let_def
      split: sum.splits option.splits if_splits)

lemma succeeds_callbacks:
  assumes "accepting env"
  shows "\<exists>d. reconcileResourceToNamespace env m om h = (Inr (), d)"
    and "pc_projectLister m (om_name om) defaultProjectLabels = Inr ps \<Longrightarrow> \<exists>d. createDefaultProject env m om h = (Inr (), d)"
    and "\<exists>d. reconcileCreatorRTB env m om h = (Inr (), d)"
  using assms
  by (auto simp: reconcileResourceToNamespace_def createDefaultProject_def reconcileCreatorRTB_def accepting_def
      go_return_def go_bind_def go_try_def go_call_def go_lift_def Let_def split: sum.splits option.splits)

lemma reconcileCreatorRTB_cluster:
  assumes "reconcileCreatorRTB env m om h = (Inr (), d)" and "om_kind om = ''Cluster''"
    and "map_of (om_annotations om) creatorIDAnn = Some creator" and "pc_crtbLister m (om_name om) ''creator'' = Inl e"
  shows "d = [(MCreateRTB (om_name om) (creatorRTB CRTB (om_name om) crtbCeatorOwnerAnnotations (om_name om) ''cluster-owner'' creator), None)]"
  using assms by (auto simp: reconcileCreatorRTB_def go_call_def Let_def split: option.splits)

section \<open>A condition that is true stays as it is\<close>

lemma modCond_same: "findCond cs name = Some c \<Longrightarrow> f c = c \<Longrightarrow> modCond name f cs = cs"
  by (induction cs) (auto split: if_splits)

lemma modCond_modCond:
  "(\<And>c. cond_type (g c) = cond_type c) \<Longrightarrow> modCond name f (modCond name g cs) = modCond name (\<lambda>c. f (g c)) cs"
  by (induction cs) auto

lemma cond_restored:
  assumes "condIsTrue name cs" and "getCondReason name cs = []" and "getCondMessage name cs = []"
  shows "condRestore name cs (condAfter msg now name None (condBefore now name cs)) = cs"
proof -
  obtain c where c: "findCond cs name = Some c" "cond_status c = ''True''" "cond_reason c = []" "cond_message c = []"
    using assms by (auto simp: condIsTrue_def cond_getter_defs split: option.splits)
  have "condIsFalse name cs = False" using c by (simp add: condIsFalse_def getCondStatus_def)
  then have "condRestore name cs (condAfter msg now name None (condBefore now name cs)) =
      setCondTS name (cond_lastUpdate c) (setCondMessage now name [] (setCondReason name [] (setCondStatus now name ''True''
        (setCondStatus now name ''Unknown'' cs))))"
    using c by (simp add: condRestore_def condAfter_def condBefore_def cond_getter_defs)
  also have "\<dots> = cs"
    unfolding cond_setter_defs by (simp add: modCond_modCond) (rule modCond_same [OF c(1)], use c in simp)
  finally show ?thesis .
qed

section \<open>Properties\<close>

text \<open>The parts of a successful sync of a cluster.\<close>

lemma clusterLifecycle_sync_parts:
  assumes run: "clusterLifecycle_sync msg now env m (Some orig) h = (Inr (), d)"
  obtains obj1 obj2 obj3 d1 d2 d3 d4 h1 h2 where
    "reconcileResourceToNamespace env m (cl_meta orig) h = (Inr (), d1)"
    and "conditioned_cluster.set_true ''BackingNamespaceCreated'' orig obj1"
    and "getCondReason ''BackingNamespaceCreated'' (cl_conditions obj1) = [] \<and> getCondMessage ''BackingNamespaceCreated'' (cl_conditions obj1) = []"
    and "conditioned_cluster.set_true ''DefaultProjectCreated'' obj1 obj2"
    and "condIsTrue ''CreatorMadeOwner'' (cl_conditions obj2) \<and> obj3 = obj2 \<or> reconcileCreatorRTB env m (cl_meta obj2) h2 = (Inr (), d3)"
    and "conditioned_cluster.set_true ''CreatorMadeOwner'' obj2 obj3"
    and "obj3 = orig \<or> (MUpdateCluster obj3, None) \<in> set d4" and "d = d1 @ d2 @ d3 @ d4"
proof -
  from run obtain obj1 d1 obj2 d2 obj3 d3 d4 h1 h2 h3 where
    s1: "step_error (condDo msg now cl_conditions cl_conditions_update ''BackingNamespaceCreated'' orig
      (as_callback (reconcileResourceToNamespace env m) cl_meta)) h = (Inr obj1, d1)"
    and s2: "step_error (clusterDoUntilTrue msg now ''DefaultProjectCreated'' obj1 (as_callback (createDefaultProject env m) cl_meta)) h1 = (Inr obj2, d2)"
    and s3: "step_error (clusterDoUntilTrue msg now ''CreatorMadeOwner'' obj2 (as_callback (reconcileCreatorRTB env m) cl_meta)) h2 = (Inr obj3, d3)"
    and s4: "go_when (obj3 \<noteq> orig) (go_call env (MUpdateCluster obj3)) h3 = (Inr (), d4)" and d: "d = d1 @ d2 @ d3 @ d4"
    unfolding clusterLifecycle_sync_def by (auto elim!: go_bind_InrE)
  note c1 = conditioned_cluster.step_condDo [OF s1] and c2 = conditioned_cluster.step_until_true [OF s2]
    and c3 = conditioned_cluster.step_until_true [OF s3]
  have "condIsTrue ''CreatorMadeOwner'' (cl_conditions obj2) \<and> obj3 = obj2 \<or> reconcileCreatorRTB env m (cl_meta obj2) h2 = (Inr (), d3)"
    using c3(1) by blast
  moreover have "obj3 = orig \<or> (MUpdateCluster obj3, None) \<in> set d4"
    using s4 by (cases "obj3 = orig") (auto simp: go_call_def Let_def split: option.splits)
  ultimately show thesis by (rule that [OF c1(1,2,3) c2(2) _ c3(2) _ d])
qed

lemma clusterLifecycle_sync_quiet:
  assumes "pc_nsLister m (om_name (cl_meta obj)) = Inr ns"
    and true: "condIsTrue ''BackingNamespaceCreated'' (cl_conditions obj)" "condIsTrue ''DefaultProjectCreated'' (cl_conditions obj)"
      "condIsTrue ''CreatorMadeOwner'' (cl_conditions obj)"
    and "getCondReason ''BackingNamespaceCreated'' (cl_conditions obj) = []" "getCondMessage ''BackingNamespaceCreated'' (cl_conditions obj) = []"
  shows "clusterLifecycle_sync msg now env m (Some obj) h = (Inr (), [])"
proof -
  have "step_error (condDo msg now cl_conditions cl_conditions_update ''BackingNamespaceCreated'' obj
      (as_callback (reconcileResourceToNamespace env m) cl_meta)) h = (Inr obj, [])" for h
    using assms cond_restored [OF true(1) assms(5,6)]
    by (simp add: step_error_def condDo_def as_callback_def reconcileResourceToNamespace_def Let_def go_return_def go_bind_def go_try_def comp_def)
  then show ?thesis
    unfolding clusterLifecycle_sync_def
    by (simp add: go_bind_def conditioned_cluster.step_until_true_skip true go_return_def)
qed

lemma clusterLifecycle_sync_succeeds:
  assumes acc: "accepting env" and list: "pc_projectLister m (om_name (cl_meta orig)) defaultProjectLabels = Inr projects"
  shows "\<exists>d. clusterLifecycle_sync msg now env m (Some orig) h = (Inr (), d)"
proof -
  obtain d1 where "reconcileResourceToNamespace env m (cl_meta orig) h = (Inr (), d1)"
    using succeeds_callbacks(1) [OF acc] by metis
  then obtain obj1 where s1: "step_error (condDo msg now cl_conditions cl_conditions_update ''BackingNamespaceCreated'' orig
      (as_callback (reconcileResourceToNamespace env m) cl_meta)) h = (Inr obj1, d1)"
    using conditioned_cluster.step_condDo_succeeds by metis
  have m1: "cl_meta obj1 = cl_meta orig"
    using conditioned_cluster.step_condDo(2) [OF s1] by (simp add: conditioned_cluster.set_true_def)
  obtain d2 where "createDefaultProject env m (cl_meta obj1) (h @ d1) = (Inr (), d2)"
    using succeeds_callbacks(2) [OF acc] list unfolding m1 by metis
  then obtain obj2 d2' where s2: "step_error (clusterDoUntilTrue msg now ''DefaultProjectCreated'' obj1
      (as_callback (createDefaultProject env m) cl_meta)) (h @ d1) = (Inr obj2, d2')"
    using conditioned_cluster.step_until_true_succeeds by metis
  obtain d3 where "reconcileCreatorRTB env m (cl_meta obj2) (h @ d1 @ d2') = (Inr (), d3)"
    using succeeds_callbacks(3) [OF acc] by metis
  then obtain obj3 d3' where s3: "step_error (clusterDoUntilTrue msg now ''CreatorMadeOwner'' obj2
      (as_callback (reconcileCreatorRTB env m) cl_meta)) (h @ d1 @ d2') = (Inr obj3, d3')"
    using conditioned_cluster.step_until_true_succeeds by metis
  show ?thesis
    using acc unfolding clusterLifecycle_sync_def
    by (simp add: go_bind_def s1 s2 s3 go_when_def go_return_def go_call_def accepting_def)
qed


text \<open>
  The creator of a cluster becomes its owner: a sync that succeeds for a cluster with a creator
  and no owner binding yet has created the binding of the creator to the role template of cluster
  owners, marked as the creator's, in the cluster's namespace.
\<close>

theorem clusterLifecycle_sync_makes_owner:
  assumes run: "clusterLifecycle_sync msg now env m (Some orig) h = (Inr (), d)"
    and cl: "om_kind (cl_meta orig) = ''Cluster''" "map_of (om_annotations (cl_meta orig)) creatorIDAnn = Some creator"
    and new: "\<not> condIsTrue ''CreatorMadeOwner'' (cl_conditions orig)" "pc_crtbLister m (cl_name orig) ''creator'' = Inl e"
  shows "(MCreateRTB (cl_name orig) (creatorRTB CRTB (cl_name orig) crtbCeatorOwnerAnnotations (cl_name orig) ''cluster-owner'' creator), None)
    \<in> set d"
  using run
proof (rule clusterLifecycle_sync_parts)
  fix obj1 obj2 obj3 d1 d2 d3 d4 h2
  assume c: "conditioned_cluster.set_true ''BackingNamespaceCreated'' orig obj1" "conditioned_cluster.set_true ''DefaultProjectCreated'' obj1 obj2"
    and step: "condIsTrue ''CreatorMadeOwner'' (cl_conditions obj2) \<and> obj3 = obj2 \<or> reconcileCreatorRTB env m (cl_meta obj2) h2 = (Inr (), d3)"
    and d: "d = d1 @ d2 @ d3 @ d4"
  have "cl_meta obj2 = cl_meta orig" "findCond (cl_conditions obj2) ''CreatorMadeOwner'' = findCond (cl_conditions orig) ''CreatorMadeOwner''"
    using c unfolding conditioned_cluster.set_true_def by simp_all
  then have "reconcileCreatorRTB env m (cl_meta orig) h2 = (Inr (), d3)"
    using step new(1) by (auto simp: condIsTrue_def getCondStatus_def)
  from reconcileCreatorRTB_cluster [OF this cl new(2)] d show ?thesis by simp
qed

definition setup_cluster_ex :: cluster where
  "setup_cluster_ex = \<lparr>cl_meta = meta0\<lparr>om_name := ''c-1'', om_kind := ''Cluster'', om_annotations := [(creatorIDAnn, ''u-1'')]\<rparr>, cl_conditions = []\<rparr>"

definition setup_mgr_ex :: pc_mgr where
  "setup_mgr_ex = newPandCLifecycles \<lparr>pcc_namespaces = [], pcc_projects = [], pcc_prtbs = [], pcc_crtbs = []\<rparr> (\<lambda>h n. Inl (Api NotFound))"


theorem clusterLifecycle_sync_makes_owner_witness:
  "MCreateRTB ''c-1'' (creatorRTB CRTB ''c-1'' crtbCeatorOwnerAnnotations ''c-1'' ''cluster-owner'' ''u-1'') \<in>
     fst ` set (snd (clusterLifecycle_sync (\<lambda>e. []) ''now'' accept_all setup_mgr_ex (Some setup_cluster_ex) []))"
proof -
  let ?run = "clusterLifecycle_sync (\<lambda>e. []) ''now'' accept_all setup_mgr_ex (Some setup_cluster_ex) []"
  have "fst ?run = Inr ()" by code_simp
  then have run: "?run = (Inr (), snd ?run)" by (metis prod.collapse)
  have side: "om_kind (cl_meta setup_cluster_ex) = ''Cluster''" "map_of (om_annotations (cl_meta setup_cluster_ex)) creatorIDAnn = Some ''u-1''"
    "\<not> condIsTrue ''CreatorMadeOwner'' (cl_conditions setup_cluster_ex)" and name: "cl_name setup_cluster_ex = ''c-1''"
    by (simp_all add: setup_cluster_ex_def condIsTrue_def getCondStatus_def)
  have get: "pc_crtbLister setup_mgr_ex (cl_name setup_cluster_ex) ''creator'' = Inl (Api NotFound)" by code_simp
  from clusterLifecycle_sync_makes_owner [OF run side get] show ?thesis unfolding name by (rule image_eqI [rotated]) simp
qed

text \<open>
  An update of a global role can be lost. The handler writes the new rules into the cached
  cluster role before the server has taken them; when the update fails, the next run compares the
  rules with the changed cache, finds nothing to do, sends nothing and reports success.
\<close>

theorem reconcileGlobalRole_lost_update:
  assumes cr: "lister_get role_name crs (getCRName gr) = Inr cr" and rules: "gr_rules gr \<noteq> role_rules cr"
    and fails: "env_api env h (MUpdateClusterRole (cr\<lparr>role_rules := gr_rules gr\<rparr>)) = Some e"
  shows "\<exists>crs' err d. reconcileGlobalRole env crs gr h = (Inr ((crs', gr), Some err), d) \<and>
    (\<forall>env' h'. reconcileGlobalRole env' crs' gr h' = (Inr ((crs', gr), None), []))"
proof -
  let ?cr = "cr\<lparr>role_rules := gr_rules gr\<rparr>"
  let ?crs = "map (\<lambda>r. if role_name r = getCRName gr then ?cr else r) crs"
  have name: "role_name cr = getCRName gr" "getCRName gr \<in> role_name ` set crs"
    using lister_get_name [OF cr] by (simp, metis imageI)
  have "find (\<lambda>r. role_name r = getCRName gr) ?crs = Some ?cr"
    using name by (induction crs) auto
  then have "lister_get role_name ?crs (getCRName gr) = Inr ?cr" by (simp add: lister_get_def)
  then have "reconcileGlobalRole env' ?crs gr h' = (Inr ((?crs, gr), None), [])" for env' h'
    by (simp add: reconcileGlobalRole_def go_return_def)
  moreover have "reconcileGlobalRole env crs gr h =
      (Inr ((?crs, gr), Some (wrap_error (''couldn't update ClusterRole '' @ getCRName gr) (Api e))), [(MUpdateClusterRole ?cr, Some e)])"
    using cr rules fails by (simp add: reconcileGlobalRole_def Let_def go_bind_def go_try_def go_call_def go_return_def)
  ultimately show ?thesis by blast
qed

definition grole_ex :: global_role where
  "grole_ex = \<lparr>gr_meta = meta0\<lparr>om_name := ''admin''\<rparr>, gr_displayName = [], gr_description = [],
     gr_rules = [rule0\<lparr>pr_verbs := [''get''], pr_resources := [''nodes'']\<rparr>], gr_builtin = False\<rparr>"

definition grole_cr_ex :: k8s_role where
  "grole_cr_ex = \<lparr>role_meta = meta0\<lparr>om_name := ''cattle-globalrole-admin''\<rparr>, role_rules = []\<rparr>"

theorem reconcileGlobalRole_lost_update_witness:
  "\<exists>crs' err d. reconcileGlobalRole \<lparr>env_api = \<lambda>h q. Some Conflict, env_rng = \<lambda>ks. ks\<rparr> [grole_cr_ex] grole_ex [] =
     (Inr ((crs', grole_ex), Some err), d)"
  using reconcileGlobalRole_lost_update [of "[grole_cr_ex]" grole_ex grole_cr_ex "\<lparr>env_api = \<lambda>h q. Some Conflict, env_rng = \<lambda>ks. ks\<rparr>" "[]" Conflict]
  by (auto simp: lister_get_def getCRName_def generateCRName_def grole_ex_def grole_cr_ex_def meta0_def)

text \<open>
  A global role binding that is reconciled with success binds its user, and only that user, to
  the cluster role of its global role: the cluster role binding was so already, was updated to be
  so, or was created so; every other cluster role binding is left alone.
\<close>

theorem reconcileGlobalRoleBinding_binds:
  assumes gr: "lister_get gr_name grs (grb_globalRoleName grb) = Inr gr"
    and run: "reconcileGlobalRoleBinding env (newGlobalRoleBindingLifecycle crbs grs) grb h = (Inr grb', d)"
  shows "\<exists>crb. (d = [] \<and> crb \<in> set crbs \<or> d = [(MUpdateCRB crb, None)] \<or> d = [(MCreateCRB crb, None)]) \<and> rb_name crb = crbNameOf grb \<and>
    rb_subjects crb = [\<lparr>sub_kind = ''User'', sub_name = grb_userName grb\<rparr>] \<and> ref_name (rb_roleRef crb) = getCRName gr"
proof (cases "lister_get rb_name crbs (crbNameOf grb)")
  case (Inl e)
  then show ?thesis using run gr
    by (auto simp: reconcileGlobalRoleBinding_def newGlobalRoleBindingLifecycle_def Let_def go_return_def go_call_def
        split: option.splits elim!: go_bind_InrE)
next
  case (Inr crb)
  let ?subj = "\<lparr>sub_kind = ''User'', sub_name = grb_userName grb\<rparr>"
  note name = lister_get_name [OF Inr]
  have "(d = [] \<and> [?subj] = rb_subjects crb \<and> getCRName gr = ref_name (rb_roleRef crb)) \<or>
    (\<exists>crb'. d = [(MUpdateCRB crb', None)] \<and> rb_name crb' = rb_name crb \<and> rb_subjects crb' = [?subj] \<and> ref_name (rb_roleRef crb') = getCRName gr)"
    using run gr Inr
    by (cases "[?subj] = rb_subjects crb"; cases "getCRName gr = ref_name (rb_roleRef crb)")
      (auto simp: reconcileGlobalRoleBinding_def newGlobalRoleBindingLifecycle_def Let_def go_return_def go_call_def go_when_def go_wrap_def
        split: option.splits if_splits elim!: go_bind_InrE)
  with name show ?thesis by metis
qed

definition grb_ex :: global_role_binding where
  "grb_ex = \<lparr>grb_meta = meta0\<lparr>om_name := ''grb-1''\<rparr>, grb_userName = ''u-1'', grb_globalRoleName = ''admin''\<rparr>"

theorem reconcileGlobalRoleBinding_binds_witness:
  "\<exists>grb' d crb. reconcileGlobalRoleBinding accept_all (newGlobalRoleBindingLifecycle [] [grole_ex]) grb_ex [] = (Inr grb', d) \<and>
     ref_name (rb_roleRef (crb :: k8s_binding)) = ''cattle-globalrole-admin''"
proof -
  let ?run = "reconcileGlobalRoleBinding accept_all (newGlobalRoleBindingLifecycle [] [grole_ex]) grb_ex []"
  obtain grb' d where run: "?run = (Inr grb', d)"
    by (simp add: reconcileGlobalRoleBinding_def newGlobalRoleBindingLifecycle_def lister_get_def go_bind_def go_return_def Let_def)
  have gr: "lister_get gr_name [grole_ex] (grb_globalRoleName grb_ex) = Inr grole_ex"
    by (simp add: lister_get_def grole_ex_def grb_ex_def)
  have "getCRName grole_ex = ''cattle-globalrole-admin''"
    by (simp add: getCRName_def generateCRName_def grole_ex_def meta0_def)
  with reconcileGlobalRoleBinding_binds [OF gr run] run show ?thesis by metis
qed

section \<open>Removing a user\<close>

text \<open>Everything of a user, in the order in which it is deleted.\<close>

definition user_removal_plan :: "ul_caches \<Rightarrow> string \<Rightarrow> mreq list" where
  "user_removal_plan c name =
     map (\<lambda>b. MDeleteRTB CRTB (om_namespace (rtb_meta b)) (om_name (rtb_meta b)))
       (filter (\<lambda>b. rtb_kind b = CRTB \<and> rtb_userName b = name) (ulc_crtbs c)) @
     map (\<lambda>b. MDeleteRTB PRTB (om_namespace (rtb_meta b)) (om_name (rtb_meta b)))
       (filter (\<lambda>b. rtb_kind b = PRTB \<and> rtb_userName b = name) (ulc_prtbs c)) @
     map (\<lambda>b. MDeleteGRB (om_namespace (grb_meta b)) (om_name (grb_meta b))) (filter (\<lambda>b. grb_userName b = name) (ulc_grbs c)) @
     map (\<lambda>t. MDeleteToken (om_namespace (tk_meta t)) (tk_name t)) (filter (\<lambda>t. tk_userID t = name) (ulc_tokens c)) @
     (case lister_get ns_name (ulc_namespaces c) name of
        Inr ns \<Rightarrow> if ns_phase ns = ''Terminating'' then [] else [MDeleteNamespace name] | Inl _ \<Rightarrow> [])"

lemma userLifecycle_indexers:
  assumes "name \<noteq> []"
  shows "ul_crtbIndexer (newUserLifecycle c) crtbByUserRefKey name = Inr (filter (\<lambda>b. rtb_kind b = CRTB \<and> rtb_userName b = name) (ulc_crtbs c))"
    and "ul_prtbIndexer (newUserLifecycle c) prtbByUserRefKey name = Inr (filter (\<lambda>b. rtb_kind b = PRTB \<and> rtb_userName b = name) (ulc_prtbs c))"
    and "ul_grbIndexer (newUserLifecycle c) grbByUserRefKey name = Inr (filter (\<lambda>b. grb_userName b = name) (ulc_grbs c))"
    and "ul_tokenIndexer (newUserLifecycle c) tokenByUserRefKey name = Inr (filter (\<lambda>t. tk_userID t = name) (ulc_tokens c))"
  using assms
  by (auto simp: newUserLifecycle_def by_index_def crtbByUserRefFunc_def prtbByUserRefFunc_def grbByUserRefFunc_def tokenByUserRefFunc_def
      intro!: filter_cong)

lemma deletions_follow:
  "follows_plan T (deleteAllCRTB env crtbs) (map (\<lambda>b. MDeleteRTB CRTB (om_namespace (rtb_meta b)) (om_name (rtb_meta b))) crtbs)"
  "follows_plan T (deleteAllPRTB env prtbs) (map (\<lambda>b. MDeleteRTB PRTB (om_namespace (rtb_meta b)) (om_name (rtb_meta b))) prtbs)"
  "follows_plan T (deleteAllGRB env grbs) (map (\<lambda>b. MDeleteGRB (om_namespace (grb_meta b)) (om_name (grb_meta b))) grbs)"
  "follows_plan T (deleteAllTokens env tokens) (map (\<lambda>t. MDeleteToken (om_namespace (tk_meta t)) (tk_name t)) tokens)"
  "follows_plan T (deleteUserNamespace env (newUserLifecycle c) name)
     (case lister_get ns_name (ulc_namespaces c) name of
        Inr ns \<Rightarrow> if ns_phase ns = ''Terminating'' then [] else [MDeleteNamespace name] | Inl _ \<Rightarrow> [])"
  unfolding deleteAllCRTB_def deleteAllPRTB_def deleteAllGRB_def deleteAllTokens_def deleteUserNamespace_def errorf_def
  by (auto simp: newUserLifecycle_def intro!: follows_plan_for_single plan_intros split: sum.splits)

lemma errorf_bind_lift: "go_bind (errorf s (go_lift (Inr x))) f = f x"
  by (simp add: errorf_def go_wrap_def go_lift_def go_bind_def fun_eq_iff)

text \<open>
  Removing a user deletes everything that refers to the user and nothing else: the role
  template bindings, the global role bindings, the tokens and the user's namespace. Whatever the
  server answers, the requests sent are a prefix of that plan; a removal that succeeds has sent the
  whole plan and had every request accepted.
\<close>

theorem userLifecycle_Remove_plan:
  assumes name: "us_name u \<noteq> []" and run: "userLifecycle_Remove env (newUserLifecycle c) u h = (r, d)"
  shows "prefix (map fst d) (user_removal_plan c (us_name u)) \<and>
    (r = Inr u \<longrightarrow> map fst d = user_removal_plan c (us_name u) \<and> list_all (\<lambda>x. snd x = None) d)"
proof -
  have "follows_plan (\<lambda>_. False) (userLifecycle_Remove env (newUserLifecycle c) u) (user_removal_plan c (us_name u) @ [])"
    unfolding userLifecycle_Remove_def getCRTBByUserName_def getPRTBByUserName_def getGRBByUserName_def getTokensByUserName_def
      userLifecycle_indexers [OF name] user_removal_plan_def append_assoc errorf_bind_lift
    by (intro follows_plan_bind deletions_follow follows_plan_return)
  then have plan: "follows_plan (\<lambda>_. False) (userLifecycle_Remove env (newUserLifecycle c) u) (user_removal_plan c (us_name u))" by simp
  have "map fst d = user_removal_plan c (us_name u) \<and> list_all (\<lambda>x. snd x = None) d" if "r = Inr u"
    using follows_plan_success [OF plan run [unfolded that]] by (auto simp: accepted_def list_all_iff)
  with follows_plan_prefix [OF plan run] show ?thesis by blast
qed

definition user_removed_ex :: user where
  "user_removed_ex = \<lparr>us_meta = meta0\<lparr>om_name := ''u-1''\<rparr>, us_displayName = [], us_description = [], us_username = [], us_password = [],
     us_mustChangePassword = False, us_principalIDs = []\<rparr>"

definition ul_caches_ex :: ul_caches where
  "ul_caches_ex = \<lparr>ulc_namespaces = [\<lparr>ns_meta = meta0\<lparr>om_name := ''u-1''\<rparr>, ns_phase = ''Active''\<rparr>], ulc_prtbs = [],
     ulc_crtbs = [creatorRTB CRTB ''c-1'' [] ''c-1'' ''cluster-owner'' ''u-1'', creatorRTB CRTB ''c-2'' [] ''c-2'' ''cluster-owner'' ''u-2''],
     ulc_grbs = [grb_ex], ulc_tokens = []\<rparr>"

theorem userLifecycle_Remove_plan_witness:
  "prefix (map fst (snd (userLifecycle_Remove accept_all (newUserLifecycle ul_caches_ex) user_removed_ex [])))
     [MDeleteRTB CRTB ''c-1'' ''creator'', MDeleteGRB [] ''grb-1'', MDeleteNamespace ''u-1'']"
proof -
  have name: "us_name user_removed_ex \<noteq> []" by (simp add: user_removed_ex_def)
  have "user_removal_plan ul_caches_ex (us_name user_removed_ex) =
      [MDeleteRTB CRTB ''c-1'' ''creator'', MDeleteGRB [] ''grb-1'', MDeleteNamespace ''u-1'']"
    by (simp add: user_removal_plan_def ul_caches_ex_def user_removed_ex_def creatorRTB_def grb_ex_def lister_get_def meta0_def)
  with userLifecycle_Remove_plan [OF name surjective_pairing, of accept_all ul_caches_ex "[]"] show ?thesis by (simp only:)
qed

end
