(* ===== verification/Tunnel_Varint.thy ===== *)
theory Tunnel_Varint
  imports Main "HOL-Library.Word"
begin

text \<open>
  The variable-length integers of Go's \<open>encoding/binary\<close>, as the tunnel's messages use them
  (\<open>PutVarint\<close> and \<open>ReadVarint\<close> of Go 1.9, which the repository is built with): seven
  bits to a byte, the low ones first, the top bit of a byte set when another follows, and the sign
  in the lowest bit.  A byte is an 8-bit word and a Go \<open>int64\<close> a 64-bit word.
\<close>

unbundle bit_operations_syntax

type_synonym byte = "8 word"

text \<open>Errors of the tunnel; \<open>TErr\<close> is an error with a text.\<close>

datatype terr = EOF | ClosedPipe | ShortWrite | VarintOverflow | TErr "byte list"

section \<open>Encoding\<close>

lemma unat_drop_7_less: "\<not> x < 0x80 \<Longrightarrow> unat (drop_bit 7 (x :: 64 word)) < unat x"
proof -
  assume "\<not> x < 0x80"
  then have "128 \<le> unat x" by (simp add: word_less_nat_alt)
  moreover have "unat (drop_bit 7 x) = unat x div 128" unfolding unat_drop_bit_eq by (simp add: drop_bit_eq_div)
  ultimately show ?thesis by simp
qed

function putUvarint :: "64 word \<Rightarrow> byte list" where
  "putUvarint x = (if x < 0x80 then [ucast x] else (ucast x OR 0x80) # putUvarint (drop_bit 7 x))"
  by pat_completeness auto
termination
  by (relation "measure unat") (auto intro: unat_drop_7_less)

declare putUvarint.simps [simp del]

definition zigzag :: "64 word \<Rightarrow> 64 word" where
  "zigzag x = (let ux = push_bit 1 x in if x <s 0 then NOT ux else ux)"

definition putVarint :: "64 word \<Rightarrow> byte list" where
  "putVarint x = putUvarint (zigzag x)"

section \<open>Decoding\<close>

text \<open>
  The reader is the bytes left and the error it ends with.  \<open>i\<close> counts the bytes read,
  \<open>s\<close> is the shift of the next one.
\<close>

fun readUvarint_loop :: "terr \<Rightarrow> nat \<Rightarrow> nat \<Rightarrow> 64 word \<Rightarrow> byte list \<Rightarrow> terr + 64 word \<times> byte list" where
  "readUvarint_loop e i s x [] = Inl e"
| "readUvarint_loop e i s x (b # bs) =
     (if b < 0x80 then
        (if i > 9 \<or> i = 9 \<and> b > 1 then Inl VarintOverflow else Inr (x OR push_bit s (ucast b), bs))
      else readUvarint_loop e (i + 1) (s + 7) (x OR push_bit s (ucast (b AND 0x7f))) bs)"

definition readUvarint :: "terr \<Rightarrow> byte list \<Rightarrow> terr + 64 word \<times> byte list" where
  "readUvarint e bs = readUvarint_loop e 0 0 0 bs"

definition unzigzag :: "64 word \<Rightarrow> 64 word" where
  "unzigzag ux = (let x = drop_bit 1 ux in if ux AND 1 \<noteq> 0 then NOT x else x)"

definition readVarint :: "terr \<Rightarrow> byte list \<Rightarrow> terr + 64 word \<times> byte list" where
  "readVarint e bs = (case readUvarint e bs of Inl err \<Rightarrow> Inl err | Inr (ux, rest) \<Rightarrow> Inr (unzigzag ux, rest))"

section \<open>Round trip\<close>

lemma byte_less_80: "(b :: byte) < 0x80 \<longleftrightarrow> \<not> bit b 7"
proof -
  have "unat (drop_bit 7 b) = unat b div 128" unfolding unat_drop_bit_eq by (simp add: drop_bit_eq_div)
  then have less: "b < 0x80 \<longleftrightarrow> drop_bit 7 b = 0" by (simp only: word_less_nat_alt word_unat_eq_iff) (simp add: div_eq_0_iff)
  have "bit (drop_bit 7 b) n \<longleftrightarrow> n = 0 \<and> bit b 7" for n
    using bit_imp_le_length [of b "7 + n"] by (cases n) (auto simp: bit_drop_bit_eq)
  then show ?thesis unfolding less by (metis bit_0_eq bit_eqI bot_apply bot_bool_def)
qed

lemma low_byte: "(x :: 64 word) < 0x80 \<Longrightarrow> ucast (ucast x :: byte) = x" and low_byte_less: "(x :: 64 word) < 0x80 \<Longrightarrow> (ucast x :: byte) < 0x80"
  and low_byte_unat: "(x :: 64 word) < 0x80 \<Longrightarrow> unat (ucast x :: byte) = unat x"
proof -
  assume x: "x < 0x80"
  then have u: "unat x < 128" by (simp add: word_less_nat_alt)
  show eq: "unat (ucast x :: byte) = unat x" using u by (simp add: unsigned_ucast_eq take_bit_eq_mod)
  show "ucast (ucast x :: byte) = x" using u by (simp add: word_unat_eq_iff unsigned_ucast_eq take_bit_eq_mod unat_mod)
  show "(ucast x :: byte) < 0x80" using u eq by (simp add: word_less_nat_alt)
qed

lemma bit_0x80: "bit (0x80 :: byte) n \<longleftrightarrow> n = 7" and bit_0x7f: "bit (0x7f :: byte) n \<longleftrightarrow> n < 7"
proof -
  have "(0x80 :: byte) = push_bit 7 1" by simp
  then show "bit (0x80 :: byte) n \<longleftrightarrow> n = 7" by (simp only: bit_push_bit_iff) (auto simp: bit_1_iff)
  have "(0x7f :: byte) = mask 7" by (simp add: mask_numeral)
  then show "bit (0x7f :: byte) n \<longleftrightarrow> n < 7" by (simp only: bit_mask_iff) auto
qed

lemma more_byte: "\<not> (ucast (x :: 64 word) OR 0x80 :: byte) < 0x80"
  unfolding byte_less_80 by (simp add: bit_or_iff bit_0x80)

lemma more_byte_value: "ucast ((ucast (x :: 64 word) OR 0x80 :: byte) AND 0x7f) = take_bit 7 x"
  by (rule bit_word_eqI) (simp only: bit_unsigned_iff bit_and_iff bit_or_iff bit_0x80 bit_0x7f bit_take_bit_iff, auto)

lemma join_bits: "((acc :: 64 word) OR push_bit s (take_bit 7 x)) OR push_bit (7 + s) (drop_bit 7 x) = acc OR push_bit s x"
proof (rule bit_word_eqI)
  fix n assume "n < LENGTH(64)"
  moreover have "7 + (n - (7 + s)) = n - s" if "\<not> n - s < 7" using that by simp
  ultimately show "bit ((acc OR push_bit s (take_bit 7 x)) OR push_bit (7 + s) (drop_bit 7 x)) n = bit (acc OR push_bit s x) n"
    by (cases "n - s < 7") (auto simp: bit_simps)
qed

lemma unat_drop_7: "unat (drop_bit 7 (x :: 64 word)) = unat x div 128"
  unfolding unat_drop_bit_eq by (simp add: drop_bit_eq_div)

text \<open>What is still to be read fits above the bits that have been read.\<close>

lemma readUvarint_loop_put:
  assumes "i \<le> 9" and "unat x * 2 ^ (7 * i) < 2 ^ 64"
  shows "readUvarint_loop e i (7 * i) acc (putUvarint x @ rest) = Inr (acc OR push_bit (7 * i) x, rest)"
  using assms
proof (induction x arbitrary: i acc rule: putUvarint.induct)
  case (1 x)
  show ?case
  proof (cases "x < 0x80")
    case True
    have "unat x < 2" if "i = 9" using "1.prems"(2) that by simp
    then have "\<not> (i = 9 \<and> (ucast x :: byte) > 1)"
      using low_byte_unat [OF True] by (auto simp: word_less_nat_alt)
    with True "1.prems"(1) show ?thesis
      by (subst putUvarint.simps) (auto simp: low_byte low_byte_less)
  next
    case False
    then have big: "128 \<le> unat x" by (simp add: word_less_nat_alt)
    have "i \<le> 8"
    proof (rule ccontr)
      assume "\<not> i \<le> 8"
      with "1.prems"(1) have "i = 9" by simp
      with "1.prems"(2) big show False by simp
    qed
    moreover have "unat (drop_bit 7 x) * 2 ^ (7 * (i + 1)) < 2 ^ 64"
    proof -
      have "unat (drop_bit 7 x) * 2 ^ (7 * (i + 1)) = (unat x div 128) * 128 * 2 ^ (7 * i)"
        by (simp add: unat_drop_7 power_add)
      also have "\<dots> \<le> unat x * 2 ^ (7 * i)" by (rule mult_right_mono) simp_all
      finally show ?thesis using "1.prems"(2) by (rule le_less_trans)
    qed
    ultimately have "readUvarint_loop e (i + 1) (7 * (i + 1)) acc' (putUvarint (drop_bit 7 x) @ rest) =
        Inr (acc' OR push_bit (7 * (i + 1)) (drop_bit 7 x), rest)" for acc'
      using "1.IH" [OF False, of "i + 1" acc'] by simp
    from this [of "acc OR push_bit (7 * i) (take_bit 7 x)"] False show ?thesis
      by (subst putUvarint.simps) (simp add: more_byte more_byte_value join_bits add.commute [of "7 * i" 7])
  qed
qed

lemma readUvarint_put: "readUvarint e (putUvarint x @ rest) = Inr (x, rest)"
  using readUvarint_loop_put [of 0 x e 0 rest] unsigned_less [of x] by (simp add: readUvarint_def)

lemma bit_sless_0: "x <s (0 :: 64 word) \<longleftrightarrow> bit x 63"
  using bit_last_iff [of x] by (simp add: word_sless_alt)

lemma bit_zigzag: "n < 64 \<Longrightarrow> bit (zigzag x) n \<longleftrightarrow> (bit x 63 \<longleftrightarrow> \<not> (1 \<le> n \<and> bit x (n - 1)))"
  unfolding zigzag_def Let_def bit_sless_0 by (cases "bit x 63") (simp_all only: if_True if_False bit_not_iff bit_push_bit_iff, auto)

lemma unzigzag_zigzag: "unzigzag (zigzag x) = x"
proof -
  have "zigzag x AND 1 \<noteq> 0 \<longleftrightarrow> bit (zigzag x) 0"
    by (simp add: and_one_eq odd_iff_mod_2_eq_one bit_0)
  then have low: "zigzag x AND 1 \<noteq> 0 \<longleftrightarrow> bit x 63" by (simp add: bit_zigzag)
  show ?thesis
  proof (rule bit_word_eqI)
    fix n assume n: "n < LENGTH(64)"
    have "bit (drop_bit 1 (zigzag x)) n \<longleftrightarrow> n < 63 \<and> (bit x 63 \<longleftrightarrow> \<not> bit x n)"
      using bit_zigzag [of "1 + n" x] bit_imp_le_length [of "zigzag x" "1 + n"] by (auto simp: bit_drop_bit_eq simp del: drop_bit_Suc)
    then show "bit (unzigzag (zigzag x)) n = bit x n"
      using n low unfolding unzigzag_def Let_def by (cases "n = 63") (auto simp: bit_not_iff simp del: drop_bit_Suc)
  qed
qed

text \<open>Every 64-bit integer survives the wire, whatever follows it.\<close>

lemma readVarint_putVarint: "readVarint e (putVarint x @ rest) = Inr (x, rest)"
  by (simp add: readVarint_def putVarint_def readUvarint_put unzigzag_zigzag)

section \<open>Length of an encoding\<close>

lemma length_putUvarint: "unat x < 128 ^ k \<Longrightarrow> 0 < k \<Longrightarrow> length (putUvarint x) \<le> k"
proof (induction x arbitrary: k rule: putUvarint.induct)
  case (1 x)
  show ?case
  proof (cases "x < 0x80")
    case True
    with "1.prems"(2) show ?thesis by (subst putUvarint.simps) simp
  next
    case False
    then have big: "128 \<le> unat x" by (simp add: word_less_nat_alt)
    obtain j where k: "k = Suc j" using "1.prems"(2) by (cases k) auto
    have j: "0 < j" using "1.prems"(1) big k by (cases j) auto
    have "unat (drop_bit 7 x) < 128 ^ j"
      using "1.prems"(1) k by (simp add: unat_drop_7 less_mult_imp_div_less mult.commute)
    from "1.IH" [OF False this j] False k show ?thesis by (subst putUvarint.simps) simp
  qed
qed

lemma bit_sign_extended:
  assumes "- (2 ^ n) \<le> sint x" and "sint x < 2 ^ n" and "n \<le> m" and "m < 64"
  shows "bit (x :: 64 word) m \<longleftrightarrow> bit x 63"
proof -
  have "signed_take_bit n (sint x) = sint x" using assms(1,2) by (simp add: signed_take_bit_int_eq_self_iff)
  then have same: "bit (sint x) k \<longleftrightarrow> bit (sint x) (min k n)" for k
    using bit_signed_take_bit_iff [of n "sint x" k] by (simp add: min.commute)
  have bit: "bit (sint x) k \<longleftrightarrow> bit x k" if "k < 64" for k
    using that by (simp add: bit_sint_iff)
  have "bit x m \<longleftrightarrow> bit (sint x) (min m n)" using bit [OF assms(4)] same [of m] by simp
  also have "min m n = min 63 n" using assms(3,4) by linarith
  also have "bit (sint x) (min 63 n) \<longleftrightarrow> bit x 63" using bit [of 63] same [of 63] by simp
  finally show ?thesis .
qed

lemma unat_zigzag_less:
  assumes "- (2 ^ n) \<le> sint x" and "sint x < 2 ^ n"
  shows "unat (zigzag (x :: 64 word)) < 2 ^ (n + 1)"
proof -
  have "take_bit (n + 1) (zigzag x) = zigzag x"
  proof (rule bit_word_eqI)
    fix m assume m: "m < LENGTH(64)"
    have "\<not> bit (zigzag x) m" if "\<not> m < n + 1"
      using that m bit_sign_extended [OF assms, of "m - 1"] by (auto simp: bit_zigzag)
    then show "bit (take_bit (n + 1) (zigzag x)) m = bit (zigzag x) m"
      unfolding bit_take_bit_iff by blast
  qed
  then have "unat (zigzag x) = take_bit (n + 1) (unat (zigzag x))"
    by (metis unsigned_take_bit_eq)
  then show ?thesis by (metis take_bit_nat_less_exp)
qed

text \<open>Ten bytes are always enough, and fewer for a number of small magnitude.\<close>

lemma length_putVarint:
  assumes "- (2 ^ n) \<le> sint x" and "sint x < 2 ^ n" and "n + 1 \<le> 7 * k"
  shows "length (putVarint x) \<le> k"
proof -
  have "unat (zigzag x) < 2 ^ (n + 1)" by (rule unat_zigzag_less [OF assms(1,2)])
  also have "(2 :: nat) ^ (n + 1) \<le> 2 ^ (7 * k)" by (rule power_increasing [OF assms(3)]) simp
  also have "(2 :: nat) ^ (7 * k) = 128 ^ k" by (simp add: power_mult)
  finally show ?thesis unfolding putVarint_def using assms(3) by (intro length_putUvarint) auto
qed

lemma length_putVarint_10: "length (putVarint x) \<le> 10"
  using sint_ge [of x] sint_lt [of x] by (intro length_putVarint [where n = 63]) simp_all

end
