(* ===== verification/Tunnel_Message.thy ===== *)
theory Tunnel_Message
  imports Go_Prelude Tunnel_Varint "HOL-Library.Signed_Division"
begin

text \<open>
  The messages of the tunnel between the server and the agents of its clusters
  (\<open>src/pkg/remotedialer/message.go\<close>): a header of variable-length integers and a payload.
  Strings are byte lists.  A reader is the bytes it has left and the error it ends with; a
  run-time panic is a value.  The process-wide counter of message identifiers is threaded
  explicitly.
\<close>

section \<open>Errors, panics, readers\<close>

datatype tpanic = NilDereference | IndexOutOfRange | CloseOfClosedChannel | SendOnClosedChannel

type_synonym reader = "byte list \<times> terr"

definition str_bytes :: "string \<Rightarrow> byte list" where
  "str_bytes s = map of_char s"

definition slash :: byte where
  "slash = of_char CHR ''/''"

text \<open>The method \<open>Error\<close> of an error.\<close>

primrec terr_text :: "terr \<Rightarrow> byte list" where
  "terr_text EOF = str_bytes ''EOF''"
| "terr_text ClosedPipe = str_bytes ''io: read/write on closed pipe''"
| "terr_text ShortWrite = str_bytes ''short write''"
| "terr_text VarintOverflow = str_bytes ''binary: varint overflows a 64-bit integer''"
| "terr_text (TErr s) = s"

text \<open>
  \<open>ioutil.ReadAll(io.LimitReader(r, n))\<close>: the first \<open>n\<close> bytes and the reader left; an
  error of the reader other than the end of file counts only if it comes before the limit.
\<close>

definition read_limited :: "nat \<Rightarrow> reader \<Rightarrow> (terr + byte list) \<times> reader" where
  "read_limited n r = (case r of (bs, e) \<Rightarrow>
     if length bs < n \<and> e \<noteq> EOF then (Inl e, ([], e)) else (Inr (take n bs), (drop n bs, e)))"

text \<open>\<open>d.Nanoseconds() / 1000000\<close>: Go's division rounds towards zero.\<close>

definition duration_millis :: "64 word \<Rightarrow> 64 word" where
  "duration_millis d = word_of_int (sint d sdiv 1000000)"

section \<open>Messages\<close>

definition Data :: "64 word" where "Data = 1"
definition Connect :: "64 word" where "Connect = 2"
definition Error :: "64 word" where "Error = 3"

record message =
  mg_id :: "64 word"
  mg_err :: "terr option"
  mg_connID :: "64 word"
  mg_deadline :: "64 word"
  mg_type :: "64 word"
  mg_bytes :: "byte list"
  mg_body :: "reader option"
  mg_proto :: "byte list"
  mg_address :: "byte list"

definition nextid :: "64 word \<Rightarrow> 64 word \<times> 64 word" where
  "nextid idCounter = (idCounter + 1, idCounter + 1)"

definition newMessage :: "64 word \<Rightarrow> 64 word \<Rightarrow> byte list \<Rightarrow> 64 word \<Rightarrow> message \<times> 64 word" where
  "newMessage connID deadline bytes idCounter = (let (i, idCounter) = nextid idCounter in
     (\<lparr>mg_id = i, mg_err = None, mg_connID = connID, mg_deadline = deadline, mg_type = Data,
       mg_bytes = bytes, mg_body = None, mg_proto = [], mg_address = []\<rparr>, idCounter))"

definition newConnect :: "64 word \<Rightarrow> 64 word \<Rightarrow> byte list \<Rightarrow> byte list \<Rightarrow> 64 word \<Rightarrow> message \<times> 64 word" where
  "newConnect connID deadline proto address idCounter = (let (i, idCounter) = nextid idCounter in
     (\<lparr>mg_id = i, mg_err = None, mg_connID = connID, mg_deadline = duration_millis deadline, mg_type = Connect,
       mg_bytes = proto @ slash # address, mg_body = None, mg_proto = proto, mg_address = address\<rparr>,
      idCounter))"

definition newErrorMessage :: "64 word \<Rightarrow> terr \<Rightarrow> 64 word \<Rightarrow> message \<times> 64 word" where
  "newErrorMessage connID err idCounter = (let (i, idCounter) = nextid idCounter in
     (\<lparr>mg_id = i, mg_err = Some err, mg_connID = connID, mg_deadline = 0, mg_type = Error,
       mg_bytes = terr_text err, mg_body = None, mg_proto = [], mg_address = []\<rparr>, idCounter))"

text \<open>Reading a message: the header by bytes, the address of a connect message, the rest stays in the body.\<close>

definition newServerMessage_connect :: "message \<Rightarrow> reader \<Rightarrow> terr + message" where
  "newServerMessage_connect m buf = (case read_limited 100 buf of
     (Inl err, buf) \<Rightarrow> Inl err
   | (Inr bytes, buf) \<Rightarrow>
       (let parts = splitn2 slash bytes in
        if length parts \<noteq> 2 then Inl (TErr (str_bytes ''failed to parse connect address''))
        else Inr (m\<lparr>mg_proto := parts ! 0, mg_address := parts ! 1, mg_bytes := bytes, mg_body := Some buf\<rparr>)))"

definition newServerMessage :: "reader \<Rightarrow> terr + message" where
  "newServerMessage reader = (case reader of (bs, e) \<Rightarrow>
     (case readVarint e bs of Inl err \<Rightarrow> Inl err | Inr (i, bs) \<Rightarrow>
     (case readVarint e bs of Inl err \<Rightarrow> Inl err | Inr (connID, bs) \<Rightarrow>
     (case readVarint e bs of Inl err \<Rightarrow> Inl err | Inr (mType, bs) \<Rightarrow>
       (let m = \<lparr>mg_id = i, mg_err = None, mg_connID = connID, mg_deadline = 0, mg_type = mType,
                 mg_bytes = [], mg_body = Some (bs, e), mg_proto = [], mg_address = []\<rparr> in
        if mType = Data \<or> mType = Connect then
          (case readVarint e bs of Inl err \<Rightarrow> Inl err | Inr (deadline, bs) \<Rightarrow>
             (let m = m\<lparr>mg_deadline := deadline, mg_body := Some (bs, e)\<rparr> in
              if mType = Connect then newServerMessage_connect m (bs, e) else Inr m))
        else Inr m)))))"

text \<open>The error a message carries: read from the body the first time, at most 100 bytes of it.\<close>

definition message_Err :: "message \<Rightarrow> tpanic + terr \<times> message" where
  "message_Err m = (case mg_err m of
     Some err \<Rightarrow> Inr (err, m)
   | None \<Rightarrow> (case mg_body m of
       None \<Rightarrow> Inl NilDereference
     | Some body \<Rightarrow> (case read_limited 100 body of
           (Inl err, body) \<Rightarrow> Inr (err, m\<lparr>mg_body := Some body\<rparr>)
         | (Inr bytes, body) \<Rightarrow>
             (let err = if bytes = str_bytes ''EOF'' then EOF else TErr bytes in
              Inr (err, m\<lparr>mg_err := Some err, mg_body := Some body\<rparr>)))))"

text \<open>
  Writing a message: \<open>binary.PutVarint(buf[offset:], x)\<close> into a buffer of 24 bytes, which
  panics when the encoding does not fit what is left of it.
\<close>

definition put_at :: "64 word \<Rightarrow> byte list \<Rightarrow> tpanic + byte list" where
  "put_at x buf = (let bs = buf @ putVarint x in if length bs \<le> 24 then Inr bs else Inl IndexOutOfRange)"

definition message_header :: "message \<Rightarrow> tpanic + byte list" where
  "message_header m =
     (case put_at (mg_id m) [] of Inl p \<Rightarrow> Inl p | Inr buf \<Rightarrow>
     (case put_at (mg_connID m) buf of Inl p \<Rightarrow> Inl p | Inr buf \<Rightarrow>
     (case put_at (mg_type m) buf of Inl p \<Rightarrow> Inl p | Inr buf \<Rightarrow>
       if mg_type m = Data \<or> mg_type m = Connect then put_at (mg_deadline m) buf else Inr buf)))"

definition message_Bytes :: "message \<Rightarrow> tpanic + byte list" where
  "message_Bytes m = (case message_header m of Inl p \<Rightarrow> Inl p | Inr h \<Rightarrow> Inr (h @ mg_bytes m))"

section \<open>Wire format\<close>

definition has_deadline :: "message \<Rightarrow> bool" where
  "has_deadline m \<longleftrightarrow> mg_type m = Data \<or> mg_type m = Connect"

definition header_encoding :: "message \<Rightarrow> byte list" where
  "header_encoding m = putVarint (mg_id m) @ putVarint (mg_connID m) @ putVarint (mg_type m) @
     (if has_deadline m then putVarint (mg_deadline m) else [])"

lemma message_header_eq:
  "message_header m = (if length (header_encoding m) \<le> 24 then Inr (header_encoding m) else Inl IndexOutOfRange)"
  by (auto simp: message_header_def put_at_def header_encoding_def has_deadline_def Let_def)

lemma message_BytesE:
  assumes "message_Bytes m = Inr bs"
  obtains "bs = header_encoding m @ mg_bytes m"
  using assms by (auto simp: message_Bytes_def message_header_eq split: if_splits)

text \<open>What the other end makes of a message.\<close>

definition received :: "message \<Rightarrow> message" where
  "received m = \<lparr>mg_id = mg_id m, mg_err = None, mg_connID = mg_connID m,
     mg_deadline = (if has_deadline m then mg_deadline m else 0), mg_type = mg_type m,
     mg_bytes = (if mg_type m = Connect then mg_bytes m else []),
     mg_body = Some (if mg_type m = Connect then [] else mg_bytes m, EOF),
     mg_proto = (if mg_type m = Connect then mg_proto m else []),
     mg_address = (if mg_type m = Connect then mg_address m else [])\<rparr>"

text \<open>
  A connect message that its reader can take apart: the payload is the protocol, a slash that is
  the first one, and the address, within the reader's limit.
\<close>

definition wf_connect :: "message \<Rightarrow> bool" where
  "wf_connect m \<longleftrightarrow> mg_bytes m = mg_proto m @ slash # mg_address m \<and>
     slash \<notin> set (mg_proto m) \<and> length (mg_bytes m) \<le> 100"

lemma newServerMessage_header:
  "newServerMessage (header_encoding m @ bytes, e) =
     (let m' = \<lparr>mg_id = mg_id m, mg_err = None, mg_connID = mg_connID m,
                mg_deadline = (if has_deadline m then mg_deadline m else 0), mg_type = mg_type m,
                mg_bytes = [], mg_body = Some (bytes, e), mg_proto = [], mg_address = []\<rparr> in
      if mg_type m = Connect then newServerMessage_connect m' (bytes, e) else Inr m')"
  by (simp add: newServerMessage_def header_encoding_def readVarint_putVarint has_deadline_def Let_def)

lemma take_100_connect:
  "length p < 100 \<Longrightarrow> take 100 (p @ c # a) = p @ c # take (99 - length p) a"
  by (simp add: take_Cons')

lemma newServerMessage_connect_eq:
  assumes "slash \<notin> set proto" and "length proto < 100" and "bytes = proto @ slash # address"
  shows "newServerMessage_connect m (bytes, EOF) =
    Inr (m\<lparr>mg_proto := proto, mg_address := take (99 - length proto) address, mg_bytes := take 100 bytes,
           mg_body := Some (drop 100 bytes, EOF)\<rparr>)"
  using assms(1,2) unfolding newServerMessage_connect_def read_limited_def assms(3)
  by (simp add: take_100_connect splitn2_append Let_def del: take_append)

lemma newServerMessage_Bytes:
  assumes bytes: "message_Bytes m = Inr bs" and connect: "mg_type m = Connect \<Longrightarrow> wf_connect m"
  shows "newServerMessage (bs, EOF) = Inr (received m)"
proof -
  from bytes have bs: "bs = header_encoding m @ mg_bytes m" by (rule message_BytesE)
  show ?thesis
  proof (cases "mg_type m = Connect")
    case True
    with connect have wf: "mg_bytes m = mg_proto m @ slash # mg_address m" "slash \<notin> set (mg_proto m)"
        "length (mg_bytes m) \<le> 100" "length (mg_proto m) < 100"
      by (auto simp: wf_connect_def)
    have "take (99 - length (mg_proto m)) (mg_address m) = mg_address m" using wf(1,3) by simp
    then show ?thesis
      using wf(3) by (simp add: bs True newServerMessage_header newServerMessage_connect_eq [OF wf(2,4,1)] received_def)
  qed (simp add: bs newServerMessage_header received_def)
qed

text \<open>
  C12. A message survives the wire: what one end writes, the other end reads as the same identifier,
  connection, kind, deadline and payload, for every message whose header fits its buffer and, for a
  connect message, whose protocol and address the reader can take apart.
\<close>

theorem message_roundtrip:
  assumes "message_Bytes m = Inr bs" and "mg_type m = Connect \<longrightarrow> wf_connect m"
  shows "newServerMessage (bs, EOF) = Inr (received m)"
  using assms by (intro newServerMessage_Bytes) simp_all

definition connect_ex :: message where
  "connect_ex = fst (newConnect 2 5000000000 (str_bytes ''tcp'') (str_bytes ''10.0.0.1:443'') 41)"

theorem message_roundtrip_witness:
  "\<exists>bs. message_Bytes connect_ex = Inr bs \<and> newServerMessage (bs, EOF) = Inr (received connect_ex) \<and>
     mg_address (received connect_ex) = str_bytes ''10.0.0.1:443'' \<and> mg_deadline (received connect_ex) = 5000"
proof -
  have "projr (message_Bytes connect_ex) = projr (message_Bytes connect_ex) \<and> isl (message_Bytes connect_ex) = False"
    by code_simp
  then obtain bs where bs: "message_Bytes connect_ex = Inr bs" by (cases "message_Bytes connect_ex") auto
  have "wf_connect connect_ex" by code_simp
  then have "newServerMessage (bs, EOF) = Inr (received connect_ex)"
    by (intro message_roundtrip [OF bs]) simp
  moreover have "mg_address (received connect_ex) = str_bytes ''10.0.0.1:443'' \<and> mg_deadline (received connect_ex) = 5000"
    by code_simp
  ultimately show ?thesis using bs by blast
qed

section \<open>Bounds of the header\<close>

lemma sint_duration_millis:
  "sint (duration_millis d) = sint d sdiv 1000000 \<and> \<bar>sint d sdiv 1000000\<bar> < 2 ^ 44"
proof -
  have d: "\<bar>sint d\<bar> \<le> 2 ^ 63" using sint_ge [of d] sint_lt [of d] by simp
  then have "\<bar>sint d\<bar> div 1000000 \<le> 2 ^ 63 div 1000000" by (rule zdiv_mono1) simp
  moreover have "\<bar>sint d sdiv 1000000\<bar> \<le> \<bar>sint d\<bar> div 1000000"
    by (simp add: signed_divide_int_def abs_mult abs_sgn_eq)
  ultimately have small: "\<bar>sint d sdiv 1000000\<bar> < 2 ^ 44" by simp
  then have "signed_take_bit 63 (sint d sdiv 1000000) = sint d sdiv 1000000"
    by (intro signed_take_bit_int_eq_self) auto
  then show ?thesis using small by (simp add: duration_millis_def sint_sbintrunc')
qed

lemma length_putVarint_millis: "length (putVarint (duration_millis d)) \<le> 7"
  using sint_duration_millis [of d] by (intro length_putVarint [where n = 48]) auto

lemma length_putVarint_connID: "- (2 ^ 41) \<le> sint c \<Longrightarrow> sint c < 2 ^ 41 \<Longrightarrow> length (putVarint c) \<le> 6"
  by (rule length_putVarint [where n = 41]) simp_all

lemma length_putVarint_type: "length (putVarint Data) = 1" "length (putVarint Connect) = 1" "length (putVarint Error) = 1"
  by code_simp+

lemma length_putVarint_0: "length (putVarint 0) = 1"
  by code_simp

lemma message_header_fits:
  assumes "length (putVarint (mg_connID m)) + (if has_deadline m then length (putVarint (mg_deadline m)) else 0) \<le> 13"
    and "mg_type m = Data \<or> mg_type m = Connect \<or> mg_type m = Error"
  shows "message_header m = Inr (header_encoding m)"
  using assms length_putVarint_10 [of "mg_id m"] length_putVarint_type
  by (auto simp: message_header_eq header_encoding_def)

lemma newErrorMessage_header: "message_header (fst (newErrorMessage c err i)) = Inr (header_encoding (fst (newErrorMessage c err i)))"
  using length_putVarint_10 [of c]
  by (intro message_header_fits) (auto simp: newErrorMessage_def nextid_def has_deadline_def Data_def Connect_def Error_def)

lemma newMessage_header:
  assumes "- (2 ^ 41) \<le> sint c" and "sint c < 2 ^ 41"
  shows "message_header (fst (newMessage c (duration_millis d) bytes i)) = Inr (header_encoding (fst (newMessage c (duration_millis d) bytes i)))"
  using length_putVarint_connID [OF assms] length_putVarint_millis [of d]
  by (intro message_header_fits) (auto simp: newMessage_def nextid_def has_deadline_def)

lemma newMessage_header_0:
  "message_header (fst (newMessage c 0 bytes i)) = Inr (header_encoding (fst (newMessage c 0 bytes i)))"
  using length_putVarint_10 [of c] length_putVarint_0
  by (intro message_header_fits) (auto simp: newMessage_def nextid_def has_deadline_def)

lemma newConnect_header:
  assumes "- (2 ^ 41) \<le> sint c" and "sint c < 2 ^ 41"
  shows "message_header (fst (newConnect c d proto address i)) = Inr (header_encoding (fst (newConnect c d proto address i)))"
  using length_putVarint_connID [OF assms] length_putVarint_millis [of d]
  by (intro message_header_fits) (auto simp: newConnect_def nextid_def has_deadline_def)

text \<open>
  C32. The buffer of 24 bytes holds every header the tunnel writes while fewer than two to the power
  of 41 connections have been opened, whatever the message identifier and the deadline, and every
  error message and every data message without a deadline at all; one connection later a header
  with a long deadline exceeds it and the process panics.
\<close>

theorem message_header_bounds:
  assumes "- (2 ^ 41) \<le> sint connID" and "sint connID < 2 ^ 41"
  shows "(\<exists>h. message_header (fst (newConnect connID d proto address i)) = Inr h) \<and>
    (\<exists>h. message_header (fst (newMessage connID (duration_millis d) bytes i)) = Inr h) \<and>
    (\<exists>h. message_header (fst (newMessage any 0 bytes i)) = Inr h) \<and>
    (\<exists>h. message_header (fst (newErrorMessage any err i)) = Inr h) \<and>
    message_header (fst (newConnect (2 ^ 41) (2 ^ 62) proto address (2 ^ 62))) = Inl IndexOutOfRange"
proof -
  have "\<not> length (putVarint (2 ^ 62 + 1) @ putVarint (2 ^ 41) @ putVarint Connect @ putVarint (duration_millis (2 ^ 62))) \<le> 24"
    by code_simp
  then have "message_header (fst (newConnect (2 ^ 41) (2 ^ 62) proto address (2 ^ 62))) = Inl IndexOutOfRange"
    by (simp add: message_header_eq header_encoding_def has_deadline_def newConnect_def nextid_def)
  then show ?thesis
    using newConnect_header [OF assms] newMessage_header [OF assms] newMessage_header_0 newErrorMessage_header by blast
qed

theorem message_header_bounds_witness:
  "(\<exists>h. message_header (fst (newConnect (2 ^ 41 - 1) (2 ^ 62) (str_bytes ''tcp'') [] (2 ^ 62))) = Inr h) \<and>
   message_header (fst (newConnect (2 ^ 41) (2 ^ 62) (str_bytes ''tcp'') [] (2 ^ 62))) = Inl IndexOutOfRange"
proof -
  have "- (2 ^ 41) \<le> sint (2 ^ 41 - 1 :: 64 word)" "sint (2 ^ 41 - 1 :: 64 word) < 2 ^ 41" by simp_all
  from message_header_bounds [OF this] show ?thesis by blast
qed

section \<open>Limits of the reader\<close>

text \<open>The error the other end reads out of an error message: the text, cut at 100 bytes.\<close>

definition wire_err :: "terr \<Rightarrow> terr" where
  "wire_err err = (if terr_text err = str_bytes ''EOF'' then EOF else TErr (take 100 (terr_text err)))"

lemma wire_err_EOF [simp]: "wire_err EOF = EOF"
  by (simp add: wire_err_def)

lemma take_100_EOF: "take 100 t = str_bytes ''EOF'' \<longleftrightarrow> t = str_bytes ''EOF''"
proof
  assume t: "take 100 t = str_bytes ''EOF''"
  then have "length (take 100 t) = 3" by (simp add: str_bytes_def)
  then have "length t \<le> 100" by simp
  with t show "t = str_bytes ''EOF''" by simp
qed (simp add: str_bytes_def)

lemma message_Err_received:
  "\<exists>m'. message_Err (received (fst (newErrorMessage c err i))) = Inr (wire_err err, m') \<and> mg_connID m' = c"
  by (simp add: message_Err_def received_def newErrorMessage_def nextid_def read_limited_def wire_err_def
      take_100_EOF Let_def Connect_def Error_def)

text \<open>
  A connect message of more than 100 bytes is accepted with its address cut short: the other
  end dials an address the caller never named, and no error is reported.
\<close>

theorem newServerMessage_truncates:
  assumes "message_Bytes (fst (newConnect connID deadline proto address i)) = Inr bs"
    and "slash \<notin> set proto" and "length proto < 100" and "99 < length proto + length address"
  shows "\<exists>m'. newServerMessage (bs, EOF) = Inr m' \<and> mg_connID m' = connID \<and> mg_proto m' = proto \<and>
    mg_address m' = take (99 - length proto) address \<and> mg_address m' \<noteq> address"
proof -
  let ?m = "fst (newConnect connID deadline proto address i)"
  have m: "mg_bytes ?m = proto @ slash # address" "mg_type ?m = Connect" "mg_connID ?m = connID"
    by (simp_all add: newConnect_def nextid_def str_bytes_def)
  have "length (take (99 - length proto) address) < length address" using assms(3,4) by simp
  then have "take (99 - length proto) address \<noteq> address" by force
  moreover from assms(1) have "bs = header_encoding ?m @ mg_bytes ?m" by (rule message_BytesE)
  ultimately show ?thesis
    by (simp add: newServerMessage_header m newServerMessage_connect_eq [OF assms(2,3) refl])
qed

theorem newServerMessage_truncates_witness:
  "\<exists>bs m'. message_Bytes (fst (newConnect 2 0 (str_bytes ''tcp'') (replicate 97 97) 0)) = Inr bs \<and>
     newServerMessage (bs, EOF) = Inr m' \<and> mg_address m' = replicate 96 97"
proof -
  let ?m = "fst (newConnect 2 0 (str_bytes ''tcp'') (replicate 97 97) 0)"
  have "\<not> isl (message_Bytes ?m)" by code_simp
  then obtain bs where bs: "message_Bytes ?m = Inr bs" by (cases "message_Bytes ?m") auto
  obtain m' where "newServerMessage (bs, EOF) = Inr m'"
      "mg_address m' = take (99 - length (str_bytes ''tcp'')) (replicate 97 97)"
    using newServerMessage_truncates [OF bs] by (auto simp: str_bytes_def slash_def)
  moreover have "take (99 - length (str_bytes ''tcp'')) (replicate 97 97) = replicate 96 (97 :: byte)"
    by (simp add: str_bytes_def)
  ultimately show ?thesis using bs by auto
qed

end
