(* ===== verification/Tunnel_Connection.thy ===== *)
theory Tunnel_Connection
  imports Tunnel_Message
begin

text \<open>
  One end of a connection carried by the tunnel (\<open>src/pkg/remotedialer/connection.go\<close>): a
  channel of at most 1024 byte slices that the session fills and the user of the connection reads,
  and the error the connection was closed with.  A channel is its contents and whether it is
  closed; closing a closed channel and sending on one panic, receiving from an open empty one
  blocks.  Each operation below runs under the lock of the connection, so an interleaving of
  threads is a sequence of them.

  The connection is shown to refine a queue of bytes with an error: what is read is what was
  written, in order, and the error comes last.
\<close>

record connection =
  c_err :: "terr option"
  c_writeDeadline :: "int option"
  c_buf :: "byte list list"
  c_closed :: bool
  c_readBuf :: "byte list"
  c_proto :: "byte list"
  c_address :: "byte list"
  c_connID :: "64 word"

definition newConnection :: "64 word \<Rightarrow> byte list \<Rightarrow> byte list \<Rightarrow> connection" where
  "newConnection connID proto address = \<lparr>c_err = None, c_writeDeadline = None, c_buf = [], c_closed = False,
     c_readBuf = [], c_proto = proto, c_address = address, c_connID = connID\<rparr>"

section \<open>Operations\<close>

text \<open>\<open>None\<close> for the error is Go's \<open>nil\<close>.\<close>

definition doTunnelClose :: "terr option \<Rightarrow> connection \<Rightarrow> tpanic + connection" where
  "doTunnelClose err c =
     (if c_err c \<noteq> None then Inr c
      else (let c = c\<lparr>c_err := err\<rparr>;
                c = (if c_err c = None then c\<lparr>c_err := Some ClosedPipe\<rparr> else c) in
            if c_closed c then Inl CloseOfClosedChannel else Inr (c\<lparr>c_closed := True\<rparr>)))"

text \<open>
  The writer the session feeds the connection with.  A full channel refuses the slice: the
  \<open>select\<close> has a \<open>default\<close>.
\<close>

definition chanWriter_Write :: "byte list \<Rightarrow> connection \<Rightarrow> tpanic + (nat \<times> terr option) \<times> connection" where
  "chanWriter_Write buf c =
     (case c_err c of
        Some err \<Rightarrow> Inr ((0, Some err), c)
      | None \<Rightarrow>
          if c_closed c then Inl SendOnClosedChannel
          else if length (c_buf c) < 1024 then Inr ((length buf, None), c\<lparr>c_buf := c_buf c @ [buf]\<rparr>)
          else Inr ((0, Some (TErr (str_bytes ''backed up reader''))), c))"

definition copyData :: "nat \<Rightarrow> connection \<Rightarrow> byte list \<times> connection" where
  "copyData n c = (take n (c_readBuf c), c\<lparr>c_readBuf := drop n (c_readBuf c)\<rparr>)"

text \<open>\<open>Read(b)\<close> for a buffer \<open>b\<close> of \<open>n\<close> bytes.\<close>

datatype read_result = Blocks | ReadOk "byte list" | ReadErr terr

definition connection_Read :: "nat \<Rightarrow> connection \<Rightarrow> read_result \<times> connection" where
  "connection_Read n c =
     (if n = 0 then (ReadOk [], c)
      else (case copyData n c of (bs, c) \<Rightarrow>
        if 0 < length bs then (ReadOk bs, c)
        else (case c_buf c of
            [] \<Rightarrow> if c_closed c then (ReadErr (case c_err c of Some err \<Rightarrow> err | None \<Rightarrow> EOF), c) else (Blocks, c)
          | nxt # rest \<Rightarrow> (case copyData n (c\<lparr>c_buf := rest, c_readBuf := nxt\<rparr>) of (bs, c) \<Rightarrow> (ReadOk bs, c)))))"

definition SetReadDeadline :: "int option \<Rightarrow> connection \<Rightarrow> connection" where
  "SetReadDeadline t c = c"

definition SetWriteDeadline :: "int option \<Rightarrow> connection \<Rightarrow> connection" where
  "SetWriteDeadline t c = c\<lparr>c_writeDeadline := t\<rparr>"

definition SetDeadline :: "int option \<Rightarrow> connection \<Rightarrow> connection" where
  "SetDeadline t c = SetWriteDeadline t (SetReadDeadline t c)"

text \<open>\<open>LocalAddr\<close> and \<open>RemoteAddr\<close>: network and address.\<close>

definition connection_Addr :: "connection \<Rightarrow> byte list \<times> byte list" where
  "connection_Addr c = (c_proto c, c_address c)"

section \<open>Copying\<close>

text \<open>
  \<open>io.Copy\<close>: the source is the slices its \<open>Read\<close> returns and the error it ends
  with, the destination any writer.
\<close>

fun io_copy :: "(byte list \<Rightarrow> 's \<Rightarrow> tpanic + (nat \<times> terr option) \<times> 's) \<Rightarrow> byte list list \<Rightarrow> terr \<Rightarrow> 's \<Rightarrow>
    tpanic + terr option \<times> 's" where
  "io_copy wr [] e s = Inr (if e \<noteq> EOF then Some e else None, s)"
| "io_copy wr (b # bs) e s =
     (if 0 < length b then
        (case wr b s of
           Inl p \<Rightarrow> Inl p
         | Inr ((nw, ew), s) \<Rightarrow>
             (case ew of
                Some err \<Rightarrow> Inr (Some err, s)
              | None \<Rightarrow> if length b \<noteq> nw then Inr (Some ShortWrite, s) else io_copy wr bs e s))
      else io_copy wr bs e s)"

text \<open>
  The contract of \<open>io.Writer\<close>, relative to what the destination holds: on success the whole
  slice is appended, on an error nothing is.
\<close>

locale writer =
  fixes wr :: "byte list \<Rightarrow> 's \<Rightarrow> tpanic + (nat \<times> terr option) \<times> 's"
    and inv :: "'s \<Rightarrow> bool"
    and content :: "'s \<Rightarrow> byte list"
  assumes write_ok: "inv s \<Longrightarrow> \<exists>nw ew s'. wr b s = Inr ((nw, ew), s') \<and> inv s' \<and>
      (if ew = None then nw = length b \<and> content s' = content s @ b else content s' = content s)"
begin

lemma copy_total:
  assumes "inv s"
  shows "\<exists>err s' k. io_copy wr bs e s = Inr (err, s') \<and> inv s' \<and> content s' = content s @ concat (take k bs) \<and>
    (err = None \<longrightarrow> e = EOF \<and> k = length bs)"
  using assms
proof (induction bs arbitrary: s)
  case Nil
  show ?case using Nil by (intro exI [of _ "if e \<noteq> EOF then Some e else None"] exI [of _ s] exI [of _ 0]) simp
next
  case (Cons b bs)
  show ?case
  proof (cases "b = []")
    case True
    from Cons.IH [OF Cons.prems] obtain err s' k where IH: "io_copy wr bs e s = Inr (err, s')" "inv s'"
        "content s' = content s @ concat (take k bs)" "err = None \<longrightarrow> e = EOF \<and> k = length bs"
      by (elim exE conjE) (rule that)
    then show ?thesis using True by (intro exI [of _ err] exI [of _ s'] exI [of _ "Suc k"]) simp
  next
    case False
    obtain nw ew s1 where w: "wr b s = Inr ((nw, ew), s1)" "inv s1"
        "if ew = None then nw = length b \<and> content s1 = content s @ b else content s1 = content s"
      using write_ok [OF Cons.prems, of b] by (elim exE conjE) (rule that)
    show ?thesis
    proof (cases ew)
      case None
      from Cons.IH [OF w(2)] obtain err s' k where IH: "io_copy wr bs e s1 = Inr (err, s')" "inv s'"
          "content s' = content s1 @ concat (take k bs)" "err = None \<longrightarrow> e = EOF \<and> k = length bs"
        by (elim exE conjE) (rule that)
      then show ?thesis using False w None by (intro exI [of _ err] exI [of _ s'] exI [of _ "Suc k"]) simp
    next
      case (Some err)
      then show ?thesis using False w by (intro exI [of _ "Some err"] exI [of _ s1] exI [of _ 0]) simp
    qed
  qed
qed

end

section \<open>Invariant\<close>

text \<open>The channel is closed exactly when the connection has an error, and never holds more than its capacity.\<close>

definition conn_inv :: "connection \<Rightarrow> bool" where
  "conn_inv c \<longleftrightarrow> (c_closed c \<longleftrightarrow> c_err c \<noteq> None) \<and> length (c_buf c) \<le> 1024"

text \<open>The bytes that wait to be read.\<close>

definition stream :: "connection \<Rightarrow> byte list" where
  "stream c = c_readBuf c @ concat (c_buf c)"

definition close_err :: "terr option \<Rightarrow> connection \<Rightarrow> terr" where
  "close_err err c = (case c_err c of Some e \<Rightarrow> e | None \<Rightarrow> (case err of Some e \<Rightarrow> e | None \<Rightarrow> ClosedPipe))"

definition closed_with :: "terr option \<Rightarrow> connection \<Rightarrow> connection" where
  "closed_with err c = c\<lparr>c_err := Some (close_err err c), c_closed := True\<rparr>"

lemma conn_inv_new [simp]: "conn_inv (newConnection i p a)"
  by (simp add: conn_inv_def newConnection_def)

lemma stream_new [simp]: "stream (newConnection i p a) = []"
  by (simp add: stream_def newConnection_def)

lemma doTunnelClose_eq:
  assumes "conn_inv c"
  shows "doTunnelClose err c = Inr (closed_with err c)"
proof (cases "c_err c")
  case None
  with assms show ?thesis
    by (cases err) (simp_all add: doTunnelClose_def closed_with_def close_err_def conn_inv_def Let_def)
next
  case (Some e)
  with assms have "closed_with err c = c" by (cases c) (simp add: closed_with_def close_err_def conn_inv_def)
  with Some show ?thesis by (simp add: doTunnelClose_def)
qed

lemma closed_with_simps [simp]:
  "conn_inv (closed_with err c) = (length (c_buf c) \<le> 1024)" "stream (closed_with err c) = stream c"
  "c_connID (closed_with err c) = c_connID c" "c_buf (closed_with err c) = c_buf c" "c_closed (closed_with err c)"
  "c_err (closed_with err c) = Some (close_err err c)" "c_proto (closed_with err c) = c_proto c"
  "c_address (closed_with err c) = c_address c" "c_readBuf (closed_with err c) = c_readBuf c"
  by (simp_all add: closed_with_def conn_inv_def stream_def)

lemma conn_inv_capacity: "conn_inv c \<Longrightarrow> length (c_buf c) \<le> 1024"
  by (simp add: conn_inv_def)

lemma chanWriter_Write_inv:
  assumes "conn_inv c"
  obtains (closed) e where "c_err c = Some e" "chanWriter_Write b c = Inr ((0, Some e), c)"
  | (full) "c_err c = None" "length (c_buf c) = 1024"
      "chanWriter_Write b c = Inr ((0, Some (TErr (str_bytes ''backed up reader''))), c)"
  | (sent) "c_err c = None" "length (c_buf c) < 1024"
      "chanWriter_Write b c = Inr ((length b, None), c\<lparr>c_buf := c_buf c @ [b]\<rparr>)"
  using assms by (cases "c_err c"; cases "length (c_buf c) < 1024") (auto simp: chanWriter_Write_def conn_inv_def)

lemma conn_inv_sent: "conn_inv c \<Longrightarrow> length (c_buf c) < 1024 \<Longrightarrow> conn_inv (c\<lparr>c_buf := c_buf c @ [b]\<rparr>)"
  by (simp add: conn_inv_def)

lemma stream_sent [simp]: "stream (c\<lparr>c_buf := c_buf c @ [b]\<rparr>) = stream c @ b"
  by (simp add: stream_def)

interpretation chan_writer: writer chanWriter_Write conn_inv stream
proof unfold_locales
  fix c b assume inv: "conn_inv c"
  then show "\<exists>nw ew c'. chanWriter_Write b c = Inr ((nw, ew), c') \<and> conn_inv c' \<and>
      (if ew = None then nw = length b \<and> stream c' = stream c @ b else stream c' = stream c)"
    by (cases rule: chanWriter_Write_inv [where b = b]) (auto simp: inv conn_inv_sent [OF inv])
qed

lemma connection_Read_inv: "conn_inv c \<Longrightarrow> conn_inv (snd (connection_Read n c))"
  by (auto simp: connection_Read_def copyData_def conn_inv_def split: list.splits)

lemma connection_Read_cases:
  obtains (blocks) "connection_Read n c = (Blocks, c)" "stream c = []" "\<not> c_closed c" "0 < n"
  | (ok) bs c' where "connection_Read n c = (ReadOk bs, c')" "stream c = bs @ stream c'" "length bs \<le> n"
      "c_err c' = c_err c" "c_closed c' = c_closed c"
  | (err) "connection_Read n c = (ReadErr (case c_err c of Some e \<Rightarrow> e | None \<Rightarrow> EOF), c)" "stream c = []" "c_closed c" "0 < n"
proof -
  have same: "c\<lparr>c_readBuf := []\<rparr> = c" if "c_readBuf c = []" using that by (cases c) simp
  show ?thesis
  proof (cases "n = 0 \<or> c_readBuf c \<noteq> []")
    case True
    then show ?thesis
      by (intro ok [of "take n (c_readBuf c)" "if n = 0 then c else c\<lparr>c_readBuf := drop n (c_readBuf c)\<rparr>"])
        (auto simp: connection_Read_def copyData_def stream_def)
  next
    case False
    show ?thesis
    proof (cases "c_buf c")
      case Nil
      show ?thesis using False Nil same by (cases "c_closed c") (auto simp: connection_Read_def copyData_def stream_def intro: blocks err)
    next
      case (Cons x xs)
      show ?thesis using False Cons
        by (intro ok [of "take n x" "c\<lparr>c_buf := xs, c_readBuf := drop n x\<rparr>"])
          (auto simp: connection_Read_def copyData_def stream_def)
    qed
  qed
qed

section \<open>Runs\<close>

text \<open>What can happen to a connection, and a run of such events with what each of them returned.\<close>

datatype conn_event = CWrite "byte list" | CRead nat | CClose "terr option"

datatype conn_outcome = Wrote nat "terr option" | Got read_result | ClosedIt

definition conn_step :: "conn_event \<Rightarrow> connection \<Rightarrow> tpanic + conn_outcome \<times> connection" where
  "conn_step ev c = (case ev of
     CWrite b \<Rightarrow> (case chanWriter_Write b c of Inl p \<Rightarrow> Inl p | Inr ((n, err), c) \<Rightarrow> Inr (Wrote n err, c))
   | CRead n \<Rightarrow> (case connection_Read n c of (r, c) \<Rightarrow> Inr (Got r, c))
   | CClose err \<Rightarrow> (case doTunnelClose err c of Inl p \<Rightarrow> Inl p | Inr c \<Rightarrow> Inr (ClosedIt, c)))"

fun conn_run :: "conn_event list \<Rightarrow> connection \<Rightarrow> tpanic + (conn_event \<times> conn_outcome) list \<times> connection" where
  "conn_run [] c = Inr ([], c)"
| "conn_run (ev # evs) c = (case conn_step ev c of Inl p \<Rightarrow> Inl p | Inr (out, c) \<Rightarrow>
     (case conn_run evs c of Inl p \<Rightarrow> Inl p | Inr (tr, c) \<Rightarrow> Inr ((ev, out) # tr, c)))"

text \<open>The bytes a run accepted and the bytes it gave out.\<close>

fun accepted_by :: "conn_event \<times> conn_outcome \<Rightarrow> byte list" where
  "accepted_by (CWrite b, Wrote n None) = b"
| "accepted_by _ = []"

fun delivered_by :: "conn_event \<times> conn_outcome \<Rightarrow> byte list" where
  "delivered_by (CRead n, Got (ReadOk bs)) = bs"
| "delivered_by _ = []"

definition accepted_bytes :: "(conn_event \<times> conn_outcome) list \<Rightarrow> byte list" where
  "accepted_bytes tr = concat (map accepted_by tr)"

definition delivered_bytes :: "(conn_event \<times> conn_outcome) list \<Rightarrow> byte list" where
  "delivered_bytes tr = concat (map delivered_by tr)"

definition reported :: "terr \<Rightarrow> conn_event \<times> conn_outcome \<Rightarrow> bool" where
  "reported e x \<longleftrightarrow> snd x = Got (ReadErr e)"

lemma trace_bytes_simps [simp]:
  "accepted_bytes [] = []" "accepted_bytes (x # tr) = accepted_by x @ accepted_bytes tr"
  "delivered_bytes [] = []" "delivered_bytes (x # tr) = delivered_by x @ delivered_bytes tr"
  by (simp_all add: accepted_bytes_def delivered_bytes_def)

text \<open>One event: nothing panics, nothing is lost, and an error is reported only when nothing is left.\<close>

lemma conn_step_ok:
  assumes inv: "conn_inv c"
  shows "\<exists>out c'. conn_step ev c = Inr (out, c') \<and> conn_inv c' \<and>
    stream c @ accepted_by (ev, out) = delivered_by (ev, out) @ stream c' \<and>
    (\<forall>e. c_err c = Some e \<longrightarrow> c_err c' = Some e \<and> accepted_by (ev, out) = []) \<and>
    (\<forall>e. reported e (ev, out) \<longrightarrow> c_err c = Some e \<and> stream c = [] \<and> c' = c)"
proof (cases ev)
  case (CWrite b)
  show ?thesis using inv
    by (cases rule: chanWriter_Write_inv [where b = b]) (simp_all add: CWrite conn_step_def inv conn_inv_sent reported_def)
next
  case (CRead n)
  show ?thesis
  proof (cases rule: connection_Read_cases [of n c])
    case (ok bs c')
    then show ?thesis using connection_Read_inv [OF inv, of n] by (simp add: CRead conn_step_def reported_def)
  next
    case err
    then show ?thesis using inv by (auto simp: CRead conn_step_def reported_def conn_inv_def)
  qed (simp add: CRead conn_step_def reported_def inv)
next
  case (CClose err)
  show ?thesis
    using inv conn_inv_capacity [OF inv] by (simp add: CClose conn_step_def doTunnelClose_eq reported_def close_err_def)
qed

lemma conn_run_ok:
  assumes "conn_inv c"
  shows "\<exists>tr c'. conn_run evs c = Inr (tr, c') \<and> conn_inv c' \<and>
    stream c @ accepted_bytes tr = delivered_bytes tr @ stream c' \<and>
    (\<forall>e. c_err c = Some e \<longrightarrow> c_err c' = Some e \<and> accepted_bytes tr = []) \<and>
    (\<forall>e. list_ex (reported e) tr \<longrightarrow> c_err c' = Some e \<and> stream c' = [])"
  using assms
proof (induction evs arbitrary: c)
  case (Cons ev evs)
  obtain out c1 where s: "conn_step ev c = Inr (out, c1)" "conn_inv c1"
      "stream c @ accepted_by (ev, out) = delivered_by (ev, out) @ stream c1"
      "\<forall>e. c_err c = Some e \<longrightarrow> c_err c1 = Some e \<and> accepted_by (ev, out) = []"
      "\<forall>e. reported e (ev, out) \<longrightarrow> c_err c = Some e \<and> stream c = [] \<and> c1 = c"
    using conn_step_ok [OF Cons.prems, of ev] by (elim exE conjE) (rule that)
  obtain tr c2 where r: "conn_run evs c1 = Inr (tr, c2)" "conn_inv c2"
      "stream c1 @ accepted_bytes tr = delivered_bytes tr @ stream c2"
      "\<forall>e. c_err c1 = Some e \<longrightarrow> c_err c2 = Some e \<and> accepted_bytes tr = []"
      "\<forall>e. list_ex (reported e) tr \<longrightarrow> c_err c2 = Some e \<and> stream c2 = []"
    using Cons.IH [OF s(2)] by (elim exE conjE) (rule that)
  have "stream c @ accepted_bytes ((ev, out) # tr) = delivered_bytes ((ev, out) # tr) @ stream c2"
    using s(3) r(3) by (metis append.assoc trace_bytes_simps(2,4))
  moreover have "c_err c2 = Some e \<and> accepted_bytes ((ev, out) # tr) = []" if "c_err c = Some e" for e
    using that s(4) r(4) by simp
  moreover have "c_err c2 = Some e \<and> stream c2 = []" if "list_ex (reported e) ((ev, out) # tr)" for e
  proof (cases "reported e (ev, out)")
    case True
    then have "c_err c1 = Some e" "stream c1 = []" using s(5) by auto
    then show ?thesis using r(3,4) by simp
  qed (use that r(5) in simp)
  ultimately show ?case using s(1) r(1,2) by auto
qed simp

text \<open>
  C5. A tunnelled connection is a queue of bytes: in every interleaving of the session's writes, the
  user's reads and closings, no operation panics, the bytes read are those accepted, in order and
  without loss, at most 1024 slices wait, and a read reports an error only after everything that
  was ever accepted has been delivered, and then the error the connection was closed with.
\<close>

theorem connection_fifo:
  "\<exists>tr c. conn_run evs (newConnection connID proto address) = Inr (tr, c) \<and>
    accepted_bytes tr = delivered_bytes tr @ stream c \<and> length (c_buf c) \<le> 1024 \<and>
    (\<forall>e. list_ex (reported e) tr \<longrightarrow> delivered_bytes tr = accepted_bytes tr \<and> c_err c = Some e)"
proof -
  obtain tr c where r: "conn_run evs (newConnection connID proto address) = Inr (tr, c)" "conn_inv c"
      "accepted_bytes tr = delivered_bytes tr @ stream c"
      "\<forall>e. list_ex (reported e) tr \<longrightarrow> c_err c = Some e \<and> stream c = []"
    using conn_run_ok [OF conn_inv_new [of connID proto address], of evs] by auto
  then show ?thesis using conn_inv_capacity [OF r(2)] by (intro exI [of _ tr] exI [of _ c]) auto
qed

theorem connection_fifo_witness:
  "\<exists>tr c. conn_run [CWrite [1, 2, 3], CRead 2, CClose (Some EOF), CWrite [4], CRead 2, CRead 2]
        (newConnection 2 (str_bytes ''tcp'') (str_bytes ''a'')) = Inr (tr, c) \<and>
     list_ex (reported EOF) tr \<and> delivered_bytes tr = [1, 2, 3] \<and> accepted_bytes tr = [1, 2, 3]"
proof -
  let ?run = "conn_run [CWrite [1, 2, 3], CRead 2, CClose (Some EOF), CWrite [4], CRead 2, CRead 2]
      (newConnection 2 (str_bytes ''tcp'') (str_bytes ''a''))"
  obtain tr c where r: "?run = Inr (tr, c)"
      "\<forall>e. list_ex (reported e) tr \<longrightarrow> delivered_bytes tr = accepted_bytes tr \<and> c_err c = Some e"
    using connection_fifo by blast
  have "list_ex (reported EOF) (fst (projr ?run)) \<and> accepted_bytes (fst (projr ?run)) = [1, 2, 3]" by code_simp
  then have "list_ex (reported EOF) tr" "accepted_bytes tr = [1, 2, 3]" by (simp_all only: r(1) sum.sel fst_conv)
  then show ?thesis using r by (intro exI [of _ tr] exI [of _ c]) auto
qed

section \<open>Draining\<close>

text \<open>A closed connection gives out what is left and then its error, within as many reads as there are bytes and slices.\<close>

definition pending :: "connection \<Rightarrow> nat" where
  "pending c = length (stream c) + length (c_buf c)"

lemma connection_Read_pending:
  assumes "0 < n" and "pending c \<noteq> 0"
  obtains bs c' where "connection_Read n c = (ReadOk bs, c')" "pending c' < pending c" "stream c = bs @ stream c'"
    "c_err c' = c_err c"
proof (cases "c_readBuf c = []")
  case True
  with assms(2) obtain x xs where "c_buf c = x # xs" by (cases "c_buf c") (auto simp: pending_def stream_def)
  with True assms(1) show ?thesis
    by (intro that [of "take n x" "c\<lparr>c_buf := xs, c_readBuf := drop n x\<rparr>"])
      (auto simp: connection_Read_def copyData_def pending_def stream_def)
next
  case False
  with assms(1) show ?thesis
    by (intro that [of "take n (c_readBuf c)" "c\<lparr>c_readBuf := drop n (c_readBuf c)\<rparr>"])
      (auto simp: connection_Read_def copyData_def pending_def stream_def)
qed

lemma connection_Read_drained:
  assumes "0 < n" and "pending c = 0" and "conn_inv c" and "c_err c = Some e"
  shows "connection_Read n c = (ReadErr e, c)"
  using assms by (cases rule: connection_Read_cases [of n c])
    (auto simp: connection_Read_def copyData_def pending_def stream_def conn_inv_def)

lemma conn_run_drains:
  assumes "0 < n" and "conn_inv c" and "c_err c = Some e" and "pending c \<le> k"
  shows "\<exists>tr c'. conn_run (replicate (Suc k) (CRead n)) c = Inr (tr, c') \<and> delivered_bytes tr = stream c \<and>
    list_ex (reported e) tr"
  using assms
proof (induction k arbitrary: c)
  case 0
  then show ?case by (simp add: conn_step_def connection_Read_drained reported_def pending_def)
next
  case (Suc k)
  show ?case
  proof (cases "pending c = 0")
    case True
    have step: "conn_step (CRead n) c = Inr (Got (ReadErr e), c)"
      by (simp add: conn_step_def connection_Read_drained [OF Suc.prems(1) True Suc.prems(2,3)])
    obtain tr c' where "conn_run (replicate (Suc k) (CRead n)) c = Inr (tr, c')" "delivered_bytes tr = stream c"
      using Suc.IH [OF Suc.prems(1-3)] True by auto
    then show ?thesis using step by (simp add: reported_def)
  next
    case False
    obtain bs c1 where r: "connection_Read n c = (ReadOk bs, c1)" "pending c1 < pending c" "stream c = bs @ stream c1"
        "c_err c1 = c_err c"
      by (rule connection_Read_pending [OF Suc.prems(1) False])
    have "conn_inv c1" using connection_Read_inv [OF Suc.prems(2), of n] r(1) by simp
    then obtain tr c' where "conn_run (replicate (Suc k) (CRead n)) c1 = Inr (tr, c')" "delivered_bytes tr = stream c1"
        "list_ex (reported e) tr"
      using Suc.IH [OF Suc.prems(1), of c1] Suc.prems(3,4) r(2,4) by auto
    then show ?thesis using r by (simp add: conn_step_def)
  qed
qed

text \<open>
  A reader of a closed connection is never left waiting: reading with a buffer of any positive
  size delivers everything that was still in the connection and then its error, after at most one
  more read than there are bytes and slices left.
\<close>

theorem connection_Read_drains:
  assumes "0 < n" and "conn_inv c" and "c_err c = Some e"
  shows "\<exists>tr c'. conn_run (replicate (length (stream c) + length (c_buf c) + 1) (CRead n)) c = Inr (tr, c') \<and>
    delivered_bytes tr = stream c \<and> list_ex (reported e) tr"
  using conn_run_drains [OF assms le_refl] by (simp only: pending_def Suc_eq_plus1)

theorem connection_Read_drains_witness:
  "let c = closed_with None ((newConnection 2 [] [])\<lparr>c_buf := [[1, 2], [3]]\<rparr>) in
   \<exists>tr c'. conn_run (replicate 6 (CRead 1)) c = Inr (tr, c') \<and> delivered_bytes tr = [1, 2, 3] \<and>
     list_ex (reported ClosedPipe) tr"
proof -
  define c where "c = closed_with None ((newConnection 2 [] [])\<lparr>c_buf := [[1, 2], [3]]\<rparr>)"
  have c: "conn_inv c" "c_err c = Some ClosedPipe" "stream c = [1, 2, 3]" "length (c_buf c) = 2"
    by (simp_all add: c_def newConnection_def close_err_def stream_def)
  have "length (stream c) + length (c_buf c) + 1 = 6" by (simp add: c(3,4))
  with connection_Read_drains [OF zero_less_one c(1,2)] show ?thesis
    by (simp only: c(3) c_def [symmetric] Let_def)
qed

end
