(* ===== verification/Go_Http.thy ===== *)
theory Go_Http
  imports Go_Prelude "HOL-Library.Word"
begin

text \<open>
  What the components use of \<open>time\<close>, \<open>net/http\<close>, \<open>strings\<close> and
  \<open>encoding/base64\<close>: durations at their width, headers of a request, trimming and the
  URL-safe base64 code.  An instant is a number of nanoseconds; a \<open>time.Duration\<close> is a signed
  number of 64 bits of them.
\<close>

section \<open>Time\<close>

text \<open>\<open>Time.Sub\<close> saturates at the ends of \<open>Duration\<close>.\<close>

definition time_sub :: "int \<Rightarrow> int \<Rightarrow> 64 word" where
  "time_sub t u = word_of_int (max (- (2 ^ 63)) (min (2 ^ 63 - 1) (t - u)))"

text \<open>\<open>time.Duration(n) * time.Millisecond\<close> wraps around.\<close>

definition millis :: "64 word \<Rightarrow> 64 word" where
  "millis n = n * 1000000"

lemma sint_word_of_int_small: "- (2 ^ 63) \<le> k \<Longrightarrow> k < 2 ^ 63 \<Longrightarrow> sint (word_of_int k :: 64 word) = k"
  by (simp add: sint_sbintrunc' signed_take_bit_int_eq_self)

lemma sint_time_sub: "sint (time_sub t u) = max (- (2 ^ 63)) (min (2 ^ 63 - 1) (t - u))"
  unfolding time_sub_def by (rule sint_word_of_int_small) auto

lemma sint_millis:
  assumes "\<bar>sint n * 1000000\<bar> < 2 ^ 63"
  shows "sint (millis n) = sint n * 1000000"
proof -
  have "millis n = word_of_int (sint n * 1000000)" by (simp add: millis_def)
  then show ?thesis using sint_word_of_int_small [of "sint n * 1000000"] assms by simp
qed

section \<open>Headers\<close>

text \<open>The keys of a header are in canonical form, as the server and the code have them.\<close>

type_synonym http_header = "(string, string list) gomap"

definition hdr_values :: "http_header \<Rightarrow> string \<Rightarrow> string list" where
  "hdr_values h k = (case map_of h k of None \<Rightarrow> [] | Some vs \<Rightarrow> vs)"

definition hdr_get :: "http_header \<Rightarrow> string \<Rightarrow> string" where
  "hdr_get h k = (case hdr_values h k of [] \<Rightarrow> [] | v # _ \<Rightarrow> v)"

definition hdr_set :: "string \<Rightarrow> string \<Rightarrow> http_header \<Rightarrow> http_header" where
  "hdr_set k v h = AList.update k [v] h"

definition hdr_del :: "string \<Rightarrow> http_header \<Rightarrow> http_header" where
  "hdr_del k h = AList.delete k h"

definition hdr_add :: "string \<Rightarrow> string \<Rightarrow> http_header \<Rightarrow> http_header" where
  "hdr_add k v h = AList.update k (hdr_values h k @ [v]) h"

lemma hdr_values_set [simp]: "hdr_values (hdr_set k v h) k' = (if k' = k then [v] else hdr_values h k')"
  by (simp add: hdr_values_def hdr_set_def AList.update_conv')

lemma hdr_values_del [simp]: "hdr_values (hdr_del k h) k' = (if k' = k then [] else hdr_values h k')"
  by (simp add: hdr_values_def hdr_del_def AList.delete_conv')

lemma hdr_values_add [simp]: "hdr_values (hdr_add k v h) k' = (if k' = k then hdr_values h k @ [v] else hdr_values h k')"
  by (simp add: hdr_values_def hdr_add_def AList.update_conv')

lemma hdr_values_fold_add: "hdr_values (fold (hdr_add k) vs h) k' = (if k' = k then hdr_values h k @ vs else hdr_values h k')"
  by (induction vs arbitrary: h) auto

lemma hdr_get_values: "hdr_values h k = [v] \<Longrightarrow> hdr_get h k = v"
  by (simp add: hdr_get_def)

section \<open>Strings\<close>

text \<open>\<open>strings.TrimSpace\<close> for ASCII text.\<close>

definition is_space :: "char \<Rightarrow> bool" where
  "is_space c \<longleftrightarrow> (of_char c :: nat) \<in> set [9, 10, 11, 12, 13, 32]"

definition trim_space :: "string \<Rightarrow> string" where
  "trim_space s = rev (dropWhile is_space (rev (dropWhile is_space s)))"

lemma trim_space_id:
  assumes "list_all (\<lambda>c. \<not> is_space c) s"
  shows "trim_space s = s"
proof -
  have "dropWhile is_space t = t" if "list_all (\<lambda>c. \<not> is_space c) t" for t
    using that by (cases t) auto
  then show ?thesis using assms by (simp add: trim_space_def)
qed

section \<open>Base64\<close>

definition b64_alphabet :: string where
  "b64_alphabet = ''ABCDEFGHIJKLMNOPQRSTUVWXYZabcdefghijklmnopqrstuvwxyz0123456789-_''"

definition b64_chr :: "nat \<Rightarrow> char" where
  "b64_chr n = b64_alphabet ! n"

fun index_of :: "'a \<Rightarrow> 'a list \<Rightarrow> nat option" where
  "index_of x [] = None"
| "index_of x (y # ys) = (if x = y then Some 0 else map_option Suc (index_of x ys))"

definition b64_val :: "char \<Rightarrow> nat option" where
  "b64_val c = index_of c b64_alphabet"

text \<open>
  \<open>base64.URLEncoding\<close>: groups of four characters, the last one padded.  Line breaks are
  skipped when decoding.
\<close>

fun b64_encode :: "string \<Rightarrow> string" where
  "b64_encode [] = []"
| "b64_encode [p] = (let p = of_char p in [b64_chr (p div 4), b64_chr (p mod 4 * 16), CHR ''='', CHR ''=''])"
| "b64_encode [p, q] = (let p = of_char p; q = of_char q in
     [b64_chr (p div 4), b64_chr (p mod 4 * 16 + q div 16), b64_chr (q mod 16 * 4), CHR ''=''])"
| "b64_encode (p # q # r # s) = (let p = of_char p; q = of_char q; r = of_char r in
     b64_chr (p div 4) # b64_chr (p mod 4 * 16 + q div 16) # b64_chr (q mod 16 * 4 + r div 64) # b64_chr (r mod 64) # b64_encode s)"

fun b64_quanta :: "string \<Rightarrow> string option" where
  "b64_quanta [] = Some []"
| "b64_quanta (a # b # c # d # rest) =
     (case (b64_val a, b64_val b) of
        (Some x, Some y) \<Rightarrow>
          if c = CHR ''='' then (if d = CHR ''='' \<and> rest = [] then Some [char_of (x * 4 + y div 16)] else None)
          else (case b64_val c of
              None \<Rightarrow> None
            | Some z \<Rightarrow>
                if d = CHR ''='' then
                  (if rest = [] then Some [char_of (x * 4 + y div 16), char_of (y mod 16 * 16 + z div 4)] else None)
                else (case (b64_val d, b64_quanta rest) of
                    (Some w, Some out) \<Rightarrow>
                      Some (char_of (x * 4 + y div 16) # char_of (y mod 16 * 16 + z div 4) # char_of (z mod 4 * 64 + w) # out)
                  | _ \<Rightarrow> None))
      | _ \<Rightarrow> None)"
| "b64_quanta _ = None"

definition b64_decode :: "string \<Rightarrow> string option" where
  "b64_decode s = b64_quanta (filter (\<lambda>c. c \<noteq> CHR 0x0A \<and> c \<noteq> CHR 0x0D) s)"

lemma b64_val_chr: "n < 64 \<Longrightarrow> b64_val (b64_chr n) = Some n \<and> b64_chr n \<noteq> CHR ''='' \<and> b64_chr n \<noteq> CHR 0x0A \<and> b64_chr n \<noteq> CHR 0x0D
    \<and> \<not> is_space (b64_chr n)"
proof -
  have "list_all (\<lambda>n. b64_val (b64_chr n) = Some n \<and> b64_chr n \<noteq> CHR ''='' \<and> b64_chr n \<noteq> CHR 0x0A \<and> b64_chr n \<noteq> CHR 0x0D
      \<and> \<not> is_space (b64_chr n)) [0..<64]"
    by code_simp
  then show "n < 64 \<Longrightarrow> ?thesis" by (simp add: list_all_iff)
qed

lemma of_char_less [simp]: "(of_char c :: nat) < 256"
  using of_char_mod_256 [of c, where 'a = nat] by (metis mod_less_divisor zero_less_numeral)

lemma b64_bounds:
  assumes "p < (256 :: nat)" "q < 256"
  shows "p div 4 < 64" "p mod 4 * 16 + q div 16 < 64" "p mod 16 * 4 + q div 64 < 64" "p mod 4 * 16 < 64" "p mod 16 * 4 < 64"
proof -
  have "q div 16 < 16" "q div 64 < 4" "p mod 4 < 4" "p mod 16 < 16" using assms by (simp_all add: div_less_iff_less_mult)
  then show "p mod 4 * 16 + q div 16 < 64" "p mod 16 * 4 + q div 64 < 64" "p mod 4 * 16 < 64" "p mod 16 * 4 < 64" by linarith+
  show "p div 4 < 64" using assms by (simp add: div_less_iff_less_mult)
qed

lemmas b64_char_bounds = b64_bounds [OF of_char_less of_char_less]

lemma b64_no_carry:
  "(of_char c :: nat) div 16 div 16 = 0" "(of_char c :: nat) div 64 div 4 = 0"
  "(of_char c :: nat) div 16 mod 16 = of_char c div 16" "(of_char c :: nat) div 64 mod 4 = of_char c div 64"
  by (simp_all add: div_eq_0_iff div_less_iff_less_mult)

lemma b64_quanta_encode: "b64_quanta (b64_encode s) = Some s"
  by (induction s rule: b64_encode.induct) (simp_all add: Let_def b64_val_chr b64_char_bounds b64_no_carry)

lemma is_space_pad [simp]: "\<not> is_space CHR ''=''"
  by (simp add: is_space_def)

lemma b64_encode_chars: "list_all (\<lambda>c. c \<noteq> CHR 0x0A \<and> c \<noteq> CHR 0x0D \<and> \<not> is_space c) (b64_encode s)"
  by (induction s rule: b64_encode.induct) (simp_all add: Let_def b64_val_chr b64_char_bounds)

lemma b64_decode_encode [simp]: "b64_decode (b64_encode s) = Some s"
proof -
  have "filter (\<lambda>c. c \<noteq> CHR 0x0A \<and> c \<noteq> CHR 0x0D) (b64_encode s) = b64_encode s"
    using b64_encode_chars [of s] by (simp add: list_all_iff filter_id_conv)
  then show ?thesis by (simp add: b64_decode_def b64_quanta_encode)
qed

lemma trim_space_b64 [simp]: "trim_space (b64_encode s) = b64_encode s"
  using b64_encode_chars [of s] by (intro trim_space_id) (simp add: list_all_iff)

end
