(* ===== verification/Tunnel_Session.thy ===== *)
theory Tunnel_Session
  imports Tunnel_Connection Go_Http
begin

text \<open>
  A session: one websocket and the connections carried over it
  (\<open>src/pkg/remotedialer/session.go\<close>, the methods of \<open>connection.go\<close> that use
  the session, and \<open>client_dialer.go\<close>).

  An end of the tunnel is its session, the connections it ever made in an explicit store (the
  table of the session and the threads hold addresses of it), the message counter, the websocket
  messages it has written and the dialling threads it has started.  What lies outside is the
  environment: the outcome of each websocket write, the slices in which a reader returns its
  bytes, the clock, and the order in which Go visits the keys of a map.  Logging and the ping
  timer are left out.
\<close>

record session =
  s_nextConnID :: "64 word"
  s_clientKey :: "byte list"
  s_sessionKey :: "64 word"
  s_conns :: "64 word \<Rightarrow> nat option"
  s_auth :: "(byte list \<Rightarrow> byte list \<Rightarrow> bool) option"
  s_client :: bool

record endpoint =
  ep_idCounter :: "64 word"
  ep_heap :: "connection list"
  ep_sess :: session
  ep_wire :: "byte list list"
  ep_dials :: "(nat \<times> message) list"

record tunnel_env =
  te_ws :: "byte list list \<Rightarrow> byte list \<Rightarrow> terr option"
  te_pieces :: "byte list \<Rightarrow> byte list list"
  te_now :: int
  te_range :: "(64 word \<Rightarrow> nat option) \<Rightarrow> 64 word list"

type_synonym 'a tun = "endpoint \<Rightarrow> tpanic + 'a \<times> endpoint"

definition newClientSession :: "(byte list \<Rightarrow> byte list \<Rightarrow> bool) option \<Rightarrow> session" where
  "newClientSession auth = \<lparr>s_nextConnID = 0, s_clientKey = str_bytes ''client'', s_sessionKey = 0,
     s_conns = (\<lambda>_. None), s_auth = auth, s_client = True\<rparr>"

definition newSession :: "64 word \<Rightarrow> byte list \<Rightarrow> session" where
  "newSession sessionKey clientKey = \<lparr>s_nextConnID = 1, s_clientKey = clientKey, s_sessionKey = sessionKey,
     s_conns = (\<lambda>_. None), s_auth = None, s_client = False\<rparr>"

definition new_endpoint :: "64 word \<Rightarrow> session \<Rightarrow> endpoint" where
  "new_endpoint idCounter s = \<lparr>ep_idCounter = idCounter, ep_heap = [], ep_sess = s, ep_wire = [], ep_dials = []\<rparr>"

section \<open>Combinators\<close>

definition tun_return :: "'a \<Rightarrow> 'a tun" where
  "tun_return x st = Inr (x, st)"

definition tun_bind :: "'a tun \<Rightarrow> ('a \<Rightarrow> 'b tun) \<Rightarrow> 'b tun" where
  "tun_bind m f st = (case m st of Inl p \<Rightarrow> Inl p | Inr (x, st) \<Rightarrow> f x st)"

definition tun_get :: "(endpoint \<Rightarrow> 'a) \<Rightarrow> 'a tun" where
  "tun_get f st = Inr (f st, st)"

text \<open>A locked operation on the connection at an address; a \<open>nil\<close> pointer panics.\<close>

definition with_conn :: "nat \<Rightarrow> (connection \<Rightarrow> tpanic + 'a \<times> connection) \<Rightarrow> 'a tun" where
  "with_conn a f st =
     (if a < length (ep_heap st) then
        (case f (ep_heap st ! a) of Inl p \<Rightarrow> Inl p | Inr (x, c) \<Rightarrow> Inr (x, st\<lparr>ep_heap := (ep_heap st)[a := c]\<rparr>))
      else Inl NilDereference)"

text \<open>Allocating a connection and entering it in the table.\<close>

definition insert_conn :: "64 word \<Rightarrow> connection \<Rightarrow> nat tun" where
  "insert_conn connID c st =
     (let a = length (ep_heap st) in
      Inr (a, st\<lparr>ep_heap := ep_heap st @ [c], ep_sess := (ep_sess st)\<lparr>s_conns := (s_conns (ep_sess st))(connID := Some a)\<rparr>\<rparr>))"

definition delete_conn :: "64 word \<Rightarrow> nat option tun" where
  "delete_conn connID st =
     Inr (s_conns (ep_sess st) connID, st\<lparr>ep_sess := (ep_sess st)\<lparr>s_conns := (s_conns (ep_sess st))(connID := None)\<rparr>\<rparr>)"

text \<open>Making a message takes an identifier; writing it may panic in the header or fail on the websocket.\<close>

definition make_message :: "(64 word \<Rightarrow> message \<times> 64 word) \<Rightarrow> message tun" where
  "make_message f st = (case f (ep_idCounter st) of (m, i) \<Rightarrow> Inr (m, st\<lparr>ep_idCounter := i\<rparr>))"

definition wsConn_WriteMessage :: "tunnel_env \<Rightarrow> byte list \<Rightarrow> terr option tun" where
  "wsConn_WriteMessage e data st = (case te_ws e (ep_wire st) data of
     Some err \<Rightarrow> Inr (Some err, st)
   | None \<Rightarrow> Inr (None, st\<lparr>ep_wire := ep_wire st @ [data]\<rparr>))"

definition message_WriteTo :: "tunnel_env \<Rightarrow> message \<Rightarrow> (nat \<times> terr option) tun" where
  "message_WriteTo e m st = (case message_Bytes m of
     Inl p \<Rightarrow> Inl p
   | Inr bs \<Rightarrow> tun_bind (wsConn_WriteMessage e bs) (\<lambda>err. tun_return (length (mg_bytes m), err)) st)"

definition writeMessage :: "tunnel_env \<Rightarrow> message \<Rightarrow> (nat \<times> terr option) tun" where
  "writeMessage e m = message_WriteTo e m"

section \<open>Connections of a session\<close>

definition connection_writeErr :: "tunnel_env \<Rightarrow> nat \<Rightarrow> terr option \<Rightarrow> unit tun" where
  "connection_writeErr e a err = (case err of
     None \<Rightarrow> tun_return ()
   | Some err \<Rightarrow>
       tun_bind (with_conn a (\<lambda>c. Inr (c_connID c, c))) (\<lambda>connID.
       tun_bind (make_message (newErrorMessage connID err)) (\<lambda>m.
       tun_bind (writeMessage e m) (\<lambda>_. tun_return ()))))"

definition do_close_at :: "nat \<Rightarrow> terr option \<Rightarrow> unit tun" where
  "do_close_at a err = with_conn a (\<lambda>c. case doTunnelClose err c of Inl p \<Rightarrow> Inl p | Inr c \<Rightarrow> Inr ((), c))"

definition tunnelClose :: "tunnel_env \<Rightarrow> nat \<Rightarrow> terr option \<Rightarrow> unit tun" where
  "tunnelClose e a err = tun_bind (connection_writeErr e a err) (\<lambda>_. do_close_at a err)"

definition closeConnection :: "tunnel_env \<Rightarrow> 64 word \<Rightarrow> terr option \<Rightarrow> unit tun" where
  "closeConnection e connID err = tun_bind (delete_conn connID) (\<lambda>conn.
     case conn of None \<Rightarrow> tun_return () | Some a \<Rightarrow> tunnelClose e a err)"

definition connection_Close :: "tunnel_env \<Rightarrow> nat \<Rightarrow> unit tun" where
  "connection_Close e a =
     tun_bind (with_conn a (\<lambda>c. Inr (c_connID c, c))) (\<lambda>connID. closeConnection e connID (Some EOF))"

definition connection_Write :: "tunnel_env \<Rightarrow> nat \<Rightarrow> byte list \<Rightarrow> (nat \<times> terr option) tun" where
  "connection_Write e a b = tun_bind (with_conn a (\<lambda>c. Inr (c, c))) (\<lambda>c.
     case c_err c of
       Some err \<Rightarrow> tun_return (0, Some err)
     | None \<Rightarrow>
         (let deadline = (case c_writeDeadline c of None \<Rightarrow> 0 | Some t \<Rightarrow> duration_millis (time_sub t (te_now e))) in
          tun_bind (make_message (newMessage (c_connID c) deadline b)) (writeMessage e)))"

section \<open>The session\<close>

definition clientConnect :: "message \<Rightarrow> unit tun" where
  "clientConnect m = tun_bind (insert_conn (mg_connID m) (newConnection (mg_connID m) (mg_proto m) (mg_address m))) (\<lambda>a st.
     Inr ((), st\<lparr>ep_dials := ep_dials st @ [(a, m)]\<rparr>))"

definition next_connID :: "64 word tun" where
  "next_connID st = (let i = s_nextConnID (ep_sess st) + 1 in Inr (i, st\<lparr>ep_sess := (ep_sess st)\<lparr>s_nextConnID := i\<rparr>\<rparr>))"

definition serverConnect :: "tunnel_env \<Rightarrow> 64 word \<Rightarrow> byte list \<Rightarrow> byte list \<Rightarrow> (terr + nat) tun" where
  "serverConnect e deadline proto address =
     tun_bind next_connID (\<lambda>connID.
     tun_bind (insert_conn connID (newConnection connID proto address)) (\<lambda>a.
     tun_bind (make_message (newConnect connID deadline proto address)) (\<lambda>m.
     tun_bind (writeMessage e m) (\<lambda>(n, err).
       case err of
         Some err \<Rightarrow> tun_bind (closeConnection e connID (Some err)) (\<lambda>_. tun_return (Inl err))
       | None \<Rightarrow> tun_return (Inr a)))))"

text \<open>Decimal text of an \<open>int64\<close>, as \<open>%d\<close> prints it.\<close>

fun dec_nat :: "nat \<Rightarrow> byte list" where
  "dec_nat n = (if n < 10 then [of_nat (48 + n)] else dec_nat (n div 10) @ [of_nat (48 + n mod 10)])"

declare dec_nat.simps [simp del]

definition dec_int :: "64 word \<Rightarrow> byte list" where
  "dec_int x = (if sint x < 0 then str_bytes ''-'' else []) @ dec_nat (nat \<bar>sint x\<bar>)"

definition not_found_err :: "session \<Rightarrow> 64 word \<Rightarrow> terr" where
  "not_found_err s connID = TErr (str_bytes ''connection not found '' @ s_clientKey s @ slash #
     dec_int (s_sessionKey s) @ slash # dec_int connID)"

text \<open>The slices the rest of a message is read in, and the error it ends with.\<close>

definition body_pieces :: "tunnel_env \<Rightarrow> message \<Rightarrow> byte list list \<times> terr" where
  "body_pieces e m = (case mg_body m of None \<Rightarrow> ([], EOF) | Some (bs, fin) \<Rightarrow> (te_pieces e bs, fin))"

definition copy_to_conn :: "tunnel_env \<Rightarrow> nat \<Rightarrow> message \<Rightarrow> terr option tun" where
  "copy_to_conn e a m = (case body_pieces e m of (bs, fin) \<Rightarrow> with_conn a (io_copy chanWriter_Write bs fin))"

definition serveMessage_conn :: "tunnel_env \<Rightarrow> nat \<Rightarrow> message \<Rightarrow> unit tun" where
  "serveMessage_conn e a m =
     (if mg_type m = Data then
        tun_bind (copy_to_conn e a m) (\<lambda>err.
          case err of None \<Rightarrow> tun_return () | Some err \<Rightarrow> closeConnection e (mg_connID m) (Some err))
      else if mg_type m = Error then
        (case message_Err m of Inl p \<Rightarrow> (\<lambda>_. Inl p) | Inr (err, m) \<Rightarrow> closeConnection e (mg_connID m) (Some err))
      else tun_return ())"

definition serveMessage :: "tunnel_env \<Rightarrow> reader \<Rightarrow> terr option tun" where
  "serveMessage e r = (case newServerMessage r of
     Inl err \<Rightarrow> tun_return (Some err)
   | Inr m \<Rightarrow>
       tun_bind (tun_get ep_sess) (\<lambda>s.
       if mg_type m = Connect then
         (if (case s_auth s of None \<Rightarrow> False | Some auth \<Rightarrow> \<not> auth (mg_proto m) (mg_address m))
          then tun_return (Some (TErr (str_bytes ''connect not allowed'')))
          else tun_bind (clientConnect m) (\<lambda>_. tun_return None))
       else (case s_conns s (mg_connID m) of
           None \<Rightarrow>
             if mg_type m = Data then
               tun_bind (make_message (newErrorMessage (mg_connID m) (not_found_err s (mg_connID m)))) (\<lambda>m'.
               tun_bind (message_WriteTo e m') (\<lambda>_. tun_return None))
             else tun_return None
         | Some a \<Rightarrow> tun_bind (serveMessage_conn e a m) (\<lambda>_. tun_return None))))"

text \<open>
  The loop over the websocket: the messages that arrive (\<open>None\<close> is one that is not binary)
  and the error the websocket ends with.  The result is the code and error of \<open>serve\<close>.
\<close>

definition errWrongMessageType :: terr where
  "errWrongMessageType = TErr (str_bytes ''wrong websocket message type'')"

fun session_serve :: "tunnel_env \<Rightarrow> reader option list \<Rightarrow> terr \<Rightarrow> (nat \<times> terr) tun" where
  "session_serve e [] err = tun_return (400, err)"
| "session_serve e (f # fs) err = (case f of
     None \<Rightarrow> tun_return (400, errWrongMessageType)
   | Some r \<Rightarrow> tun_bind (serveMessage e r) (\<lambda>res.
       case res of Some err' \<Rightarrow> tun_return (500, err') | None \<Rightarrow> session_serve e fs err))"

fun close_all :: "tunnel_env \<Rightarrow> 64 word list \<Rightarrow> unit tun" where
  "close_all e [] = tun_return ()"
| "close_all e (k # ks) = tun_bind (tun_get (\<lambda>st. s_conns (ep_sess st) k)) (\<lambda>conn.
     tun_bind (case conn of None \<Rightarrow> tun_return () | Some a \<Rightarrow> tunnelClose e a (Some (TErr (str_bytes ''tunnel disconnect'')))) (\<lambda>_.
     close_all e ks))"

definition session_Close :: "tunnel_env \<Rightarrow> unit tun" where
  "session_Close e = tun_bind (tun_get (\<lambda>st. te_range e (s_conns (ep_sess st)))) (\<lambda>ks.
     tun_bind (close_all e ks) (\<lambda>_ st.
       Inr ((), st\<lparr>ep_sess := (ep_sess st)\<lparr>s_conns := (\<lambda>_. None)\<rparr>\<rparr>)))"

section \<open>The dialling side\<close>

text \<open>
  \<open>clientDial\<close>: the network is a function from protocol, address and time-out to an error
  or a connection.  When dialling fails the thread closes the connection and is done.  Otherwise
  \<open>pipe\<close> copies both ways: the slices that come from the network are written to the tunnel
  until the network or the tunnel ends (\<open>pipe_upstream\<close>), the slices that come from the
  tunnel are read by a second thread (\<open>connection_Read\<close>), either thread closes with
  \<open>pipe_close\<close>, and when both are done \<open>pipe_finish\<close> tells the other end.
\<close>

definition dial_timeout :: "message \<Rightarrow> 64 word option" where
  "dial_timeout m = (if mg_deadline m = 0 then None else Some (mg_deadline m * 1000000))"

definition clientDial_failed :: "tunnel_env \<Rightarrow> nat \<Rightarrow> terr \<Rightarrow> unit tun" where
  "clientDial_failed e a err = tun_bind (tunnelClose e a (Some err)) (\<lambda>_. connection_Close e a)"

definition pipe_err :: "terr option \<Rightarrow> terr" where
  "pipe_err err = (case err of None \<Rightarrow> EOF | Some err \<Rightarrow> err)"

definition pipe_close :: "nat \<Rightarrow> terr option \<Rightarrow> terr tun" where
  "pipe_close a err = tun_bind (do_close_at a (Some (pipe_err err))) (\<lambda>_. tun_return (pipe_err err))"

definition pipe_upstream :: "tunnel_env \<Rightarrow> nat \<Rightarrow> byte list list \<Rightarrow> terr \<Rightarrow> terr tun" where
  "pipe_upstream e a bs fin = tun_bind (io_copy (connection_Write e a) bs fin) (pipe_close a)"

definition pipe_finish :: "tunnel_env \<Rightarrow> nat \<Rightarrow> terr \<Rightarrow> unit tun" where
  "pipe_finish e a err = tun_bind (connection_writeErr e a (Some err)) (\<lambda>_. connection_Close e a)"

text \<open>
  The thread of an agent for one connection: \<open>dial\<close> is the network, \<open>bs\<close> and
  \<open>fin\<close> what it sends and how it ends.  The steps of other threads may come between its own.
\<close>

definition clientDial :: "tunnel_env \<Rightarrow> (byte list \<Rightarrow> byte list \<Rightarrow> 64 word option \<Rightarrow> terr option) \<Rightarrow> byte list list \<Rightarrow> terr \<Rightarrow>
    nat \<Rightarrow> message \<Rightarrow> unit tun" where
  "clientDial e dial bs fin a m = (case dial (mg_proto m) (mg_address m) (dial_timeout m) of
     Some err \<Rightarrow> clientDial_failed e a err
   | None \<Rightarrow> tun_bind (pipe_upstream e a bs fin) (pipe_finish e a))"

end
