(* ===== verification/Tunnel_Safety.thy ===== *)
theory Tunnel_Safety
  imports Tunnel_Session
begin

text \<open>
  Interleavings of a session's threads.  \<open>tunnel_step\<close> has one rule for each action a thread
  performs under a lock or atomically; every operation of the session is shown to be a sequence of
  such steps, so what holds after any sequence of steps holds for any number of threads, however
  they are scheduled.  \<open>safe A m Q\<close> says that \<open>m\<close> does not panic when the connections
  at the addresses \<open>A\<close> exist, that it only takes such steps, and that its result gives the
  existing addresses \<open>Q\<close>.
\<close>

section \<open>Steps\<close>

inductive tunnel_step :: "endpoint \<Rightarrow> endpoint \<Rightarrow> bool" where
  insert: "insert_conn connID (newConnection connID proto address) st = Inr (a, st') \<Longrightarrow> tunnel_step st st'"
| delete: "delete_conn connID st = Inr (x, st') \<Longrightarrow> tunnel_step st st'"
| reset: "tunnel_step st (st\<lparr>ep_sess := (ep_sess st)\<lparr>s_conns := (\<lambda>_. None)\<rparr>\<rparr>)"
| close: "do_close_at a err st = Inr (x, st') \<Longrightarrow> tunnel_step st st'"
| fill: "with_conn a (chanWriter_Write b) st = Inr (x, st') \<Longrightarrow> tunnel_step st st'"
| read: "with_conn a (\<lambda>c. Inr (connection_Read n c)) st = Inr (x, st') \<Longrightarrow> tunnel_step st st'"
| deadline: "with_conn a (\<lambda>c. Inr ((), SetDeadline t c)) st = Inr (x, st') \<Longrightarrow> tunnel_step st st'"
| ident: "tunnel_step st (st\<lparr>ep_idCounter := i\<rparr>)"
| connid: "next_connID st = Inr (x, st') \<Longrightarrow> tunnel_step st st'"
| send: "wsConn_WriteMessage e data st = Inr (x, st') \<Longrightarrow> tunnel_step st st'"
| dial: "tunnel_step st (st\<lparr>ep_dials := ep_dials st @ [d]\<rparr>)"

abbreviation tunnel_steps :: "endpoint \<Rightarrow> endpoint \<Rightarrow> bool" where
  "tunnel_steps \<equiv> tunnel_step\<^sup>*\<^sup>*"

definition initial :: "endpoint \<Rightarrow> bool" where
  "initial st \<longleftrightarrow> (\<exists>i. (\<exists>auth. st = new_endpoint i (newClientSession auth)) \<or>
     (\<exists>sessionKey clientKey. st = new_endpoint i (newSession sessionKey clientKey)))"

definition tunnel_reachable :: "endpoint \<Rightarrow> bool" where
  "tunnel_reachable st \<longleftrightarrow> (\<exists>st0. initial st0 \<and> tunnel_steps st0 st)"

section \<open>Invariant\<close>

definition ep_inv :: "endpoint \<Rightarrow> bool" where
  "ep_inv st \<longleftrightarrow> list_all conn_inv (ep_heap st) \<and>
     (\<forall>k a. s_conns (ep_sess st) k = Some a \<longrightarrow> a < length (ep_heap st) \<and> c_connID (ep_heap st ! a) = k)"

lemma ep_inv_new [simp]: "s_conns s = (\<lambda>_. None) \<Longrightarrow> ep_inv (new_endpoint i s)"
  by (simp add: ep_inv_def new_endpoint_def)

lemma ep_inv_initial: "initial st \<Longrightarrow> ep_inv st"
  by (auto simp: initial_def newClientSession_def newSession_def)

lemma ep_inv_conn: "ep_inv st \<Longrightarrow> a < length (ep_heap st) \<Longrightarrow> conn_inv (ep_heap st ! a)"
  by (simp add: ep_inv_def list_all_length)

text \<open>A locked operation on one connection that keeps the invariant of the connection and its number.\<close>

lemma with_conn_InrE:
  assumes "with_conn a f st = Inr (x, st')"
  obtains c where "a < length (ep_heap st)" "f (ep_heap st ! a) = Inr (x, c)" "st' = st\<lparr>ep_heap := (ep_heap st)[a := c]\<rparr>"
  using assms by (auto simp: with_conn_def split: if_splits sum.splits)

lemma ep_inv_update:
  assumes "ep_inv st" and "a < length (ep_heap st)" and "conn_inv c" and "c_connID c = c_connID (ep_heap st ! a)"
  shows "ep_inv (st\<lparr>ep_heap := (ep_heap st)[a := c]\<rparr>)"
  using assms by (auto simp: ep_inv_def list_all_length nth_list_update)

lemma ep_inv_forget:
  assumes "ep_inv st" and "ep_heap st' = ep_heap st"
    and "\<And>k a. s_conns (ep_sess st') k = Some a \<Longrightarrow> s_conns (ep_sess st) k = Some a"
  shows "ep_inv st'"
  using assms by (auto simp: ep_inv_def)

lemma ep_inv_insert:
  assumes "insert_conn connID (newConnection connID proto address) st = Inr (a, st')" and "ep_inv st"
  shows "ep_inv st'"
  unfolding ep_inv_def
proof (intro conjI allI impI)
  show "list_all conn_inv (ep_heap st')" using assms by (auto simp: insert_conn_def Let_def ep_inv_def)
  fix k b assume k: "s_conns (ep_sess st') k = Some b"
  show "b < length (ep_heap st')"
    using assms k by (auto simp: insert_conn_def Let_def ep_inv_def less_SucI split: if_splits)
  show "c_connID (ep_heap st' ! b) = k"
    using assms k by (auto simp: insert_conn_def Let_def ep_inv_def nth_append newConnection_def split: if_splits)
qed

lemma ep_inv_with_conn:
  assumes "with_conn a f st = Inr (x, st')" and "ep_inv st"
    and "\<And>c c'. conn_inv c \<Longrightarrow> f c = Inr (x, c') \<Longrightarrow> conn_inv c' \<and> c_connID c' = c_connID c"
  shows "ep_inv st'"
proof -
  from assms(1) obtain c where c: "a < length (ep_heap st)" "f (ep_heap st ! a) = Inr (x, c)"
      "st' = st\<lparr>ep_heap := (ep_heap st)[a := c]\<rparr>"
    by (rule with_conn_InrE)
  show ?thesis unfolding c(3)
    using assms(3) [OF ep_inv_conn [OF assms(2) c(1)] c(2)] by (intro ep_inv_update [OF assms(2) c(1)]) simp_all
qed

lemma chanWriter_Write_keeps:
  "conn_inv c \<Longrightarrow> chanWriter_Write b c = Inr (x, c') \<Longrightarrow>
   conn_inv c' \<and> c_connID c' = c_connID c \<and> c_err c' = c_err c"
  by (auto simp: chanWriter_Write_def conn_inv_def split: option.splits if_splits)

lemma connection_Read_keeps:
  "conn_inv c \<Longrightarrow> connection_Read n c = (x, c') \<Longrightarrow> conn_inv c' \<and> c_connID c' = c_connID c"
  by (auto simp: connection_Read_def copyData_def conn_inv_def split: list.splits if_splits)

lemma ep_inv_step:
  assumes "tunnel_step st st'" and "ep_inv st"
  shows "ep_inv st' \<and> length (ep_heap st) \<le> length (ep_heap st')"
  using assms
proof cases
  case (insert connID proto address a)
  then show ?thesis using ep_inv_insert [OF _ assms(2)] by (auto simp: insert_conn_def Let_def)
next
  case (delete connID x)
  then have "ep_inv st'" by (intro ep_inv_forget [OF assms(2)]) (auto simp: delete_conn_def split: if_splits)
  then show ?thesis using delete by (auto simp: delete_conn_def)
next
  case (close a err x)
  have "ep_inv st'"
    by (rule ep_inv_with_conn [OF close [unfolded do_close_at_def] assms(2)])
      (auto simp: doTunnelClose_eq conn_inv_capacity)
  then show ?thesis using close by (auto simp: do_close_at_def elim!: with_conn_InrE)
next
  case (fill a b x)
  have "ep_inv st'" by (rule ep_inv_with_conn [OF fill assms(2)]) (auto dest: chanWriter_Write_keeps)
  then show ?thesis using fill by (auto elim!: with_conn_InrE)
next
  case (read a n x)
  have "ep_inv st'" by (rule ep_inv_with_conn [OF read assms(2)]) (auto dest: connection_Read_keeps)
  then show ?thesis using read by (auto elim!: with_conn_InrE)
next
  case (deadline a t x)
  have "ep_inv st'"
    by (rule ep_inv_with_conn [OF deadline assms(2)])
      (auto simp: SetDeadline_def SetWriteDeadline_def SetReadDeadline_def conn_inv_def)
  then show ?thesis using deadline by (auto elim!: with_conn_InrE)
next
  case (connid x)
  then show ?thesis using ep_inv_forget [OF assms(2), of st'] by (auto simp: next_connID_def Let_def)
next
  case (send e data x)
  then show ?thesis using ep_inv_forget [OF assms(2), of st'] by (auto simp: wsConn_WriteMessage_def split: option.splits)
qed (use ep_inv_forget [OF assms(2), of st'] in auto)

lemma ep_inv_steps:
  "tunnel_steps st st' \<Longrightarrow> ep_inv st \<Longrightarrow> ep_inv st' \<and> length (ep_heap st) \<le> length (ep_heap st')"
  by (induction rule: rtranclp_induct) (auto dest: ep_inv_step)

lemma ep_inv_reachable: "tunnel_reachable st \<Longrightarrow> ep_inv st"
  using ep_inv_initial ep_inv_steps by (auto simp: tunnel_reachable_def)

section \<open>Operations that cannot panic\<close>

definition safe :: "nat set \<Rightarrow> 'a tun \<Rightarrow> ('a \<Rightarrow> nat set) \<Rightarrow> bool" where
  "safe A m Q \<longleftrightarrow> (\<forall>st. ep_inv st \<longrightarrow> (\<forall>a\<in>A. a < length (ep_heap st)) \<longrightarrow>
     (\<exists>x st'. m st = Inr (x, st') \<and> tunnel_steps st st' \<and> (\<forall>a\<in>Q x. a < length (ep_heap st'))))"

lemma safeI:
  assumes "\<And>st. ep_inv st \<Longrightarrow> \<forall>a\<in>A. a < length (ep_heap st) \<Longrightarrow>
    \<exists>x st'. m st = Inr (x, st') \<and> tunnel_steps st st' \<and> (\<forall>a\<in>Q x. a < length (ep_heap st'))"
  shows "safe A m Q"
  using assms by (simp add: safe_def)

lemma safeE:
  assumes "safe A m Q" and "ep_inv st" and "\<forall>a\<in>A. a < length (ep_heap st)"
  obtains x st' where "m st = Inr (x, st')" "tunnel_steps st st'" "\<forall>a\<in>Q x. a < length (ep_heap st')"
  using assms unfolding safe_def by blast

lemma safe_weaken: "safe A m Q \<Longrightarrow> A \<subseteq> B \<Longrightarrow> (\<And>x. R x \<subseteq> Q x) \<Longrightarrow> safe B m R"
  unfolding safe_def by (meson subsetD)

lemma safe_return: "safe A (tun_return x) (\<lambda>_. {})"
  by (rule safeI) (simp add: tun_return_def)

lemma safe_get: "safe A (tun_get f) (\<lambda>_. {})"
  by (rule safeI) (simp add: tun_get_def)

lemma safe_bind:
  assumes m: "safe A m Q" and f: "\<And>x. safe (A \<union> Q x) (f x) R"
  shows "safe A (tun_bind m f) R"
proof (rule safeI)
  fix st assume inv: "ep_inv st" and A: "\<forall>a\<in>A. a < length (ep_heap st)"
  obtain x st1 where 1: "m st = Inr (x, st1)" "tunnel_steps st st1" "\<forall>a\<in>Q x. a < length (ep_heap st1)"
    using m inv A by (rule safeE)
  have inv1: "ep_inv st1" "length (ep_heap st) \<le> length (ep_heap st1)" using ep_inv_steps [OF 1(2) inv] by auto
  obtain y st2 where 2: "f x st1 = Inr (y, st2)" "tunnel_steps st1 st2" "\<forall>a\<in>R y. a < length (ep_heap st2)"
    using f inv1(1) by (rule safeE) (use A inv1(2) 1(3) in auto)
  show "\<exists>x st'. tun_bind m f st = Inr (x, st') \<and> tunnel_steps st st' \<and> (\<forall>a\<in>R x. a < length (ep_heap st'))"
    using 1(1,2) 2 by (auto simp: tun_bind_def intro: rtranclp_trans)
qed

text \<open>An operation that is one step.\<close>

lemma safe_step:
  assumes run: "\<And>st. ep_inv st \<Longrightarrow> \<forall>a\<in>A. a < length (ep_heap st) \<Longrightarrow>
      \<exists>x st'. m st = Inr (x, st') \<and> (\<forall>a\<in>Q x. a < length (ep_heap st'))"
    and step: "\<And>st x st'. m st = Inr (x, st') \<Longrightarrow> tunnel_step st st'"
  shows "safe A m Q"
proof (rule safeI)
  fix st assume "ep_inv st" "\<forall>a\<in>A. a < length (ep_heap st)"
  then obtain x st' where r: "m st = Inr (x, st')" "\<forall>a\<in>Q x. a < length (ep_heap st')" using run by blast
  then show "\<exists>x st'. m st = Inr (x, st') \<and> tunnel_steps st st' \<and> (\<forall>a\<in>Q x. a < length (ep_heap st'))"
    using step [OF r(1)] by blast
qed

lemma safe_insert: "safe A (insert_conn connID (newConnection connID p a)) (\<lambda>x. {x})"
  by (rule safe_step) (simp add: insert_conn_def Let_def, rule tunnel_step.insert)

lemma safe_delete: "safe A (delete_conn connID) set_option"
  by (rule safe_step) (force simp: delete_conn_def ep_inv_def, rule tunnel_step.delete)

lemma safe_close:
  assumes "a \<in> A"
  shows "safe A (do_close_at a err) (\<lambda>_. {})"
proof (rule safe_step)
  fix st assume "ep_inv st" "\<forall>a\<in>A. a < length (ep_heap st)"
  with assms have "a < length (ep_heap st)" "conn_inv (ep_heap st ! a)" by (auto intro: ep_inv_conn)
  then show "\<exists>x st'. do_close_at a err st = Inr (x, st') \<and> (\<forall>a\<in>{}. a < length (ep_heap st'))"
    by (simp add: do_close_at_def with_conn_def doTunnelClose_eq)
qed (rule tunnel_step.close)

lemma safe_look: "a \<in> A \<Longrightarrow> safe A (with_conn a (\<lambda>c. Inr (f c, c))) (\<lambda>_. {})"
  by (rule safeI) (auto simp: with_conn_def)

lemma safe_next_connID: "safe A next_connID (\<lambda>_. {})"
  by (rule safe_step) (simp add: next_connID_def Let_def, rule tunnel_step.connid)

lemma safe_dial: "safe A (\<lambda>st. Inr ((), st\<lparr>ep_dials := ep_dials st @ [d]\<rparr>)) (\<lambda>_. {})"
  by (rule safe_step) (simp, use tunnel_step.dial in blast)

lemma safe_reset: "safe A (\<lambda>st. Inr ((), st\<lparr>ep_sess := (ep_sess st)\<lparr>s_conns := (\<lambda>_. None)\<rparr>\<rparr>)) (\<lambda>_. {})"
  by (rule safe_step) (simp, use tunnel_step.reset in blast)

lemma safe_ws: "safe A (wsConn_WriteMessage e data) (\<lambda>_. {})"
  by (rule safe_step) (simp add: wsConn_WriteMessage_def split: option.split, rule tunnel_step.send)

text \<open>Making a message whose header fits, and writing it.\<close>

lemma message_WriteTo_eq:
  assumes "message_header m = Inr h"
  shows "message_WriteTo e m st =
    tun_bind (wsConn_WriteMessage e (h @ mg_bytes m)) (\<lambda>err. tun_return (length (mg_bytes m), err)) st"
  unfolding message_WriteTo_def message_Bytes_def assms sum.case ..

lemma safe_write:
  assumes "message_header m = Inr h"
  shows "safe A (message_WriteTo e m) (\<lambda>_. {})"
proof -
  have "safe A (tun_bind (wsConn_WriteMessage e (h @ mg_bytes m)) (\<lambda>err. tun_return (length (mg_bytes m), err))) (\<lambda>_. {})"
    by (rule safe_bind, rule safe_ws, rule safe_return)
  then show ?thesis unfolding safe_def message_WriteTo_eq [OF assms] .
qed

lemma safe_make:
  assumes "\<And>i. safe A (k (fst (f i))) R"
  shows "safe A (tun_bind (make_message f) k) R"
proof (rule safeI)
  fix st assume inv: "ep_inv st" and A: "\<forall>a\<in>A. a < length (ep_heap st)"
  let ?st1 = "st\<lparr>ep_idCounter := snd (f (ep_idCounter st))\<rparr>"
  have step: "tunnel_step st ?st1" by (rule tunnel_step.ident)
  then have inv1: "ep_inv ?st1" using ep_inv_step inv by blast
  have "tun_bind (make_message f) k st = k (fst (f (ep_idCounter st))) ?st1"
    by (simp add: tun_bind_def make_message_def split_beta)
  moreover obtain x st2 where "k (fst (f (ep_idCounter st))) ?st1 = Inr (x, st2)" "tunnel_steps ?st1 st2"
      "\<forall>a\<in>R x. a < length (ep_heap st2)"
    using assms inv1 by (rule safeE) (use A in simp)
  moreover have "tunnel_steps st st2" if "tunnel_steps ?st1 st2"
    using step that by (rule converse_rtranclp_into_rtranclp)
  ultimately show "\<exists>x st'. tun_bind (make_message f) k st = Inr (x, st') \<and> tunnel_steps st st' \<and> (\<forall>a\<in>R x. a < length (ep_heap st'))"
    by (intro exI [of _ x] exI [of _ st2]) simp
qed

lemma safe_send:
  assumes "\<And>i. \<exists>h. message_header (fst (f i)) = Inr h" and "\<And>x. safe A (g x) R"
  shows "safe A (tun_bind (make_message f) (\<lambda>m. tun_bind (message_WriteTo e m) g)) R"
proof (rule safe_make)
  fix i
  obtain h where "message_header (fst (f i)) = Inr h" using assms(1) by blast
  then show "safe A (tun_bind (message_WriteTo e (fst (f i))) g) R"
    by (rule safe_bind [OF safe_write]) (simp add: assms(2))
qed

lemma safe_writeErr: "a \<in> A \<Longrightarrow> safe A (connection_writeErr e a err) (\<lambda>_. {})"
proof (cases err)
  case None
  then show ?thesis by (simp add: connection_writeErr_def safe_return)
next
  case (Some er)
  assume "a \<in> A"
  then have "safe A (tun_bind (with_conn a (\<lambda>c. Inr (c_connID c, c))) (\<lambda>connID.
      tun_bind (make_message (newErrorMessage connID er)) (\<lambda>m. tun_bind (message_WriteTo e m) (\<lambda>_. tun_return ())))) (\<lambda>_. {})"
    using newErrorMessage_header by (intro safe_bind [OF safe_look] safe_send safe_return) auto
  with Some show ?thesis by (simp add: connection_writeErr_def writeMessage_def)
qed

lemma safe_tunnelClose: "a \<in> A \<Longrightarrow> safe A (tunnelClose e a err) (\<lambda>_. {})"
  unfolding tunnelClose_def by (rule safe_bind [OF safe_writeErr]) (simp_all add: safe_close)

lemma safe_closeConnection: "safe A (closeConnection e connID err) (\<lambda>_. {})"
  unfolding closeConnection_def
  by (rule safe_bind [OF safe_delete]) (auto split: option.split intro: safe_return safe_tunnelClose)

lemma safe_connection_Close: "a \<in> A \<Longrightarrow> safe A (connection_Close e a) (\<lambda>_. {})"
  unfolding connection_Close_def by (rule safe_bind [OF safe_look]) (simp_all add: safe_closeConnection)

lemma safe_clientDial_failed: "a \<in> A \<Longrightarrow> safe A (clientDial_failed e a err) (\<lambda>_. {})"
  unfolding clientDial_failed_def by (rule safe_bind [OF safe_tunnelClose]) (simp_all add: safe_connection_Close)

lemma safe_pipe_close: "a \<in> A \<Longrightarrow> safe A (pipe_close a err) (\<lambda>_. {})"
  unfolding pipe_close_def by (rule safe_bind [OF safe_close]) (simp_all add: safe_return)

lemma safe_pipe_finish: "a \<in> A \<Longrightarrow> safe A (pipe_finish e a err) (\<lambda>_. {})"
  unfolding pipe_finish_def by (rule safe_bind [OF safe_writeErr]) (simp_all add: safe_connection_Close)

lemma safe_clientConnect: "safe A (clientConnect m) (\<lambda>_. {})"
  unfolding clientConnect_def by (rule safe_bind [OF safe_insert]) (rule safe_dial)

text \<open>Copying a message into a connection is a sequence of writes to its channel.\<close>

lemma with_conn_io_copy:
  assumes "0 < length b"
  shows "with_conn a (io_copy chanWriter_Write (b # bs) fin) =
    tun_bind (with_conn a (chanWriter_Write b)) (\<lambda>(nw, ew).
      case ew of Some err \<Rightarrow> tun_return (Some err)
      | None \<Rightarrow> if length b \<noteq> nw then tun_return (Some ShortWrite) else with_conn a (io_copy chanWriter_Write bs fin))"
  using assms by (intro ext) (auto simp: with_conn_def tun_bind_def tun_return_def split: sum.splits prod.splits option.splits)

lemma safe_fill: "a \<in> A \<Longrightarrow> safe A (with_conn a (chanWriter_Write b)) (\<lambda>_. {})"
proof (rule safe_step)
  fix st assume "a \<in> A" "ep_inv st" "\<forall>a\<in>A. a < length (ep_heap st)"
  then have a: "a < length (ep_heap st)" "conn_inv (ep_heap st ! a)" by (auto intro: ep_inv_conn)
  obtain x c where "chanWriter_Write b (ep_heap st ! a) = Inr (x, c)"
    using a(2) by (cases rule: chanWriter_Write_inv [where b = b]) auto
  with a(1) show "\<exists>x st'. with_conn a (chanWriter_Write b) st = Inr (x, st') \<and> (\<forall>a\<in>{}. a < length (ep_heap st'))"
    by (simp add: with_conn_def)
qed (rule tunnel_step.fill)

lemma safe_io_copy: "a \<in> A \<Longrightarrow> safe A (with_conn a (io_copy chanWriter_Write bs fin)) (\<lambda>_. {})"
proof (induction bs)
  case Nil
  have "io_copy chanWriter_Write [] fin = (\<lambda>c. Inr (if fin \<noteq> EOF then Some fin else None, c))" by (intro ext) simp
  then show ?case using safe_look [OF Nil, of "\<lambda>_. if fin \<noteq> EOF then Some fin else None"] by (simp only:)
next
  case (Cons b bs)
  show ?case
  proof (cases "b = []")
    case True
    then have "io_copy chanWriter_Write (b # bs) fin = io_copy chanWriter_Write bs fin" by (intro ext) simp
    then show ?thesis using Cons by (simp only:)
  next
    case False
    then have b: "0 < length b" by simp
    show ?thesis unfolding with_conn_io_copy [OF b]
      using Cons by (intro safe_bind [OF safe_fill]) (auto split: option.split intro: safe_return)
  qed
qed

section \<open>Serving\<close>

lemma safe_get_sess: "safe A (tun_get ep_sess) (\<lambda>s. ran (s_conns s))"
  by (rule safeI) (auto simp: tun_get_def ran_def ep_inv_def)

lemma safe_get_conn: "safe A (tun_get (\<lambda>st. s_conns (ep_sess st) k)) set_option"
  by (rule safeI) (auto simp: tun_get_def ep_inv_def)

lemma newServerMessage_body: "newServerMessage r = Inr m \<Longrightarrow> mg_body m \<noteq> None"
  by (auto simp: newServerMessage_def newServerMessage_connect_def Let_def split: prod.splits sum.splits if_splits)

lemma message_Err_total: "mg_body m \<noteq> None \<Longrightarrow> \<exists>err m'. message_Err m = Inr (err, m')"
  by (cases "mg_err m") (auto simp: message_Err_def Let_def split: prod.splits sum.splits)

lemma safe_serveMessage_conn:
  assumes "a \<in> A" and "mg_body m \<noteq> None"
  shows "safe A (serveMessage_conn e a m) (\<lambda>_. {})"
proof -
  have "safe A (copy_to_conn e a m) (\<lambda>_. {})"
    using safe_io_copy [OF assms(1)] by (simp add: copy_to_conn_def split: prod.split)
  then have "safe A (tun_bind (copy_to_conn e a m) (\<lambda>err. case err of None \<Rightarrow> tun_return ()
      | Some err \<Rightarrow> closeConnection e (mg_connID m) (Some err))) (\<lambda>_. {})"
    by (rule safe_bind) (simp add: safe_return safe_closeConnection split: option.split)
  moreover obtain err m' where "message_Err m = Inr (err, m')" using message_Err_total [OF assms(2)] by blast
  ultimately show ?thesis by (simp add: serveMessage_conn_def safe_return safe_closeConnection)
qed

lemma safe_serve_unknown:
  "safe A (tun_bind (make_message (newErrorMessage connID err)) (\<lambda>m'. tun_bind (message_WriteTo e m') (\<lambda>_. tun_return x))) (\<lambda>_. {})"
  using newErrorMessage_header by (intro safe_send safe_return) blast

lemma safe_serveMessage: "safe A (serveMessage e r) (\<lambda>_. {})"
proof (cases "newServerMessage r")
  case (Inl err)
  then show ?thesis by (simp add: serveMessage_def safe_return)
next
  case (Inr m)
  have known: "safe B (tun_bind (serveMessage_conn e a m) (\<lambda>_. tun_return None)) (\<lambda>_. {})" if "a \<in> B" for a B
    by (rule safe_bind [OF safe_serveMessage_conn [OF that newServerMessage_body [OF Inr]] safe_return])
  have connect: "safe B (tun_bind (clientConnect m) (\<lambda>_. tun_return None)) (\<lambda>_. {})" for B
    by (rule safe_bind [OF safe_clientConnect safe_return])
  show ?thesis unfolding serveMessage_def Inr sum.case
    by (rule safe_bind [OF safe_get_sess])
      (auto simp: safe_return connect known safe_serve_unknown ranI split: option.split)
qed

lemma safe_session_serve: "safe A (session_serve e fs fin) (\<lambda>_. {})"
proof (induction fs arbitrary: A)
  case Nil
  show ?case by (simp add: safe_return)
next
  case (Cons f fs)
  show ?case
  proof (cases f)
    case None
    then show ?thesis by (simp add: safe_return)
  next
    case (Some r)
    show ?thesis unfolding Some session_serve.simps option.case
      by (rule safe_bind [OF safe_serveMessage]) (simp add: safe_return Cons split: option.split)
  qed
qed

lemma safe_close_all: "safe A (close_all e ks) (\<lambda>_. {})"
proof (induction ks arbitrary: A)
  case (Cons k ks)
  have "safe (A \<union> set_option conn) (case conn of None \<Rightarrow> tun_return () | Some a \<Rightarrow> tunnelClose e a err) (\<lambda>_. {})" for conn err
    by (simp add: safe_return safe_tunnelClose split: option.split)
  then show ?case unfolding close_all.simps
    by (intro safe_bind [OF safe_get_conn] safe_bind [OF _ Cons])
qed (simp add: safe_return)

lemma safe_session_Close: "safe A (session_Close e) (\<lambda>_. {})"
  unfolding session_Close_def by (rule safe_bind [OF safe_get], rule safe_bind [OF safe_close_all], rule safe_reset)

lemma safe_reachable:
  assumes "safe {} m Q" and "tunnel_reachable st"
  shows "\<exists>x st'. m st = Inr (x, st') \<and> tunnel_reachable st'"
proof -
  obtain x st' where "m st = Inr (x, st')" "tunnel_steps st st'"
    using assms(1) ep_inv_reachable [OF assms(2)] by (rule safeE) simp
  with assms(2) show ?thesis unfolding tunnel_reachable_def by (blast intro: rtranclp_trans)
qed

text \<open>
  C3. No input crashes an end of the tunnel: from every state that any interleaving of its threads
  can reach, serving any sequence of websocket messages, well formed or hostile, returns a code and
  an error without a panic, and again in such a state, in which every channel is closed exactly
  when its connection has an error, holds at most 1024 slices, and the table maps each number to an
  existing connection of that number.
\<close>

theorem session_serve_safe:
  assumes "tunnel_reachable st"
  shows "\<exists>code err st'. session_serve e frames fin st = Inr ((code, err), st') \<and> tunnel_reachable st' \<and>
    list_all (\<lambda>c. (c_closed c \<longleftrightarrow> c_err c \<noteq> None) \<and> length (c_buf c) \<le> 1024) (ep_heap st') \<and>
    (\<forall>k a. s_conns (ep_sess st') k = Some a \<longrightarrow> a < length (ep_heap st') \<and> c_connID (ep_heap st' ! a) = k)"
proof -
  obtain x st' where x: "session_serve e frames fin st = Inr (x, st')" "tunnel_reachable st'"
    using safe_reachable [OF safe_session_serve assms] by blast
  have "ep_inv st'" using x(2) by (rule ep_inv_reachable)
  with x show ?thesis by (cases x) (simp add: ep_inv_def list_all_length conn_inv_def)
qed

section \<open>Operations that may panic in a header\<close>

text \<open>
  Opening a connection and writing to one can panic only in the header of their message (its
  bounds are in the theory of messages); when they return they have only taken steps.
\<close>

definition only_steps :: "'a tun \<Rightarrow> bool" where
  "only_steps m \<longleftrightarrow> (\<forall>st x st'. m st = Inr (x, st') \<longrightarrow> tunnel_steps st st')"

lemma only_steps_bind: "only_steps m \<Longrightarrow> (\<And>x. only_steps (f x)) \<Longrightarrow> only_steps (tun_bind m f)"
  unfolding only_steps_def tun_bind_def by (fastforce split: sum.splits intro: rtranclp_trans)

lemma only_steps_return: "only_steps (tun_return x)"
  by (simp add: only_steps_def tun_return_def)

lemma only_steps_step: "(\<And>st x st'. m st = Inr (x, st') \<Longrightarrow> tunnel_step st st') \<Longrightarrow> only_steps m"
  unfolding only_steps_def by blast

lemma only_steps_look: "only_steps (with_conn a (\<lambda>c. Inr (f c, c)))"
  unfolding only_steps_def by (auto elim!: with_conn_InrE)

lemma only_steps_connID: "only_steps next_connID"
  by (rule only_steps_step) (rule tunnel_step.connid)

lemma only_steps_insert: "only_steps (insert_conn k (newConnection k p a))"
  by (rule only_steps_step) (rule tunnel_step.insert)

lemma only_steps_close: "only_steps (do_close_at a err)"
  by (rule only_steps_step) (rule tunnel_step.close)

lemma only_steps_make: "only_steps (make_message f)"
  by (rule only_steps_step) (auto simp: make_message_def intro: tunnel_step.ident split: prod.splits)

lemma only_steps_write: "only_steps (message_WriteTo e m)"
proof (cases "message_header m")
  case (Inl p)
  then show ?thesis by (simp add: only_steps_def message_WriteTo_def message_Bytes_def)
next
  case (Inr h)
  have "only_steps (tun_bind (wsConn_WriteMessage e (h @ mg_bytes m)) (\<lambda>err. tun_return (length (mg_bytes m), err)))"
    by (rule only_steps_bind [OF only_steps_step [OF tunnel_step.send] only_steps_return])
  then show ?thesis unfolding only_steps_def message_WriteTo_eq [OF Inr] .
qed

lemma only_steps_error: "only_steps (connection_writeErr e a err)"
  by (auto simp: connection_writeErr_def writeMessage_def split: option.split
      intro: only_steps_return only_steps_bind [OF only_steps_look] only_steps_bind [OF only_steps_make]
        only_steps_bind [OF only_steps_write])

lemma only_steps_closeConnection: "only_steps (closeConnection e k err)"
  unfolding closeConnection_def tunnelClose_def
  by (rule only_steps_bind [OF only_steps_step [OF tunnel_step.delete]])
    (auto split: option.split intro: only_steps_return only_steps_bind [OF only_steps_error only_steps_close])

lemma only_steps_connection_Write: "only_steps (connection_Write e a b)"
  unfolding connection_Write_def writeMessage_def
  by (rule only_steps_bind [OF only_steps_look])
    (auto simp: Let_def split: option.split intro: only_steps_return only_steps_bind [OF only_steps_make] only_steps_write)

lemma only_steps_serverConnect: "only_steps (serverConnect e d proto address)"
  unfolding serverConnect_def writeMessage_def
proof (intro only_steps_bind [OF only_steps_connID] only_steps_bind [OF only_steps_insert]
    only_steps_bind [OF only_steps_make] only_steps_bind [OF only_steps_write])
  fix k a m and x :: "nat \<times> terr option"
  show "only_steps (case x of (n, err) \<Rightarrow> case err of
      Some err \<Rightarrow> tun_bind (closeConnection e k (Some err)) (\<lambda>_. tun_return (Inl err)) | None \<Rightarrow> tun_return (Inr a))"
    by (auto split: prod.split option.split intro: only_steps_return only_steps_bind [OF only_steps_closeConnection])
qed

lemma only_steps_io_copy: "(\<And>b. only_steps (wr b)) \<Longrightarrow> only_steps (io_copy wr bs fin)"
proof (induction bs)
  case Nil
  show ?case by (simp add: only_steps_def)
next
  case (Cons b bs)
  then have IH: "only_steps (io_copy wr bs fin)" by simp
  show ?case
    using Cons.prems [of b] IH unfolding only_steps_def
    by (fastforce split: sum.splits prod.splits option.splits if_splits intro: rtranclp_trans)
qed

lemma only_steps_pipe_upstream: "only_steps (pipe_upstream e a bs fin)"
  unfolding pipe_upstream_def pipe_close_def
  by (intro only_steps_bind only_steps_io_copy only_steps_connection_Write only_steps_return only_steps_close)

lemma only_steps_connection_Close: "only_steps (connection_Close e a)"
  unfolding connection_Close_def by (rule only_steps_bind [OF only_steps_look only_steps_closeConnection])

lemma only_steps_clientDial: "only_steps (clientDial e dial bs fin a m)"
  unfolding clientDial_def clientDial_failed_def tunnelClose_def pipe_finish_def
  by (auto split: option.split intro!: only_steps_bind only_steps_pipe_upstream only_steps_error only_steps_connection_Close
      only_steps_close)

end
