(* ===== verification/Tunnel_EndToEnd.thy ===== *)
theory Tunnel_EndToEnd
  imports Tunnel_Safety
begin

text \<open>
  The two ends together: what one end writes on the websocket is given to \<open>serveMessage\<close> of
  the other.  A connection is opened, data is carried over it, and it is closed, with the same
  number, address, bytes and error on both sides.
\<close>

section \<open>Effects of the operations\<close>

text \<open>A websocket that accepts every message, and a reader that loses nothing.\<close>

definition ws_up :: "tunnel_env \<Rightarrow> bool" where
  "ws_up e \<longleftrightarrow> (\<forall>sent data. te_ws e sent data = None)"

definition pieces_ok :: "tunnel_env \<Rightarrow> bool" where
  "pieces_ok e \<longleftrightarrow> (\<forall>bs. concat (te_pieces e bs) = bs)"

definition wire_bytes :: "message \<Rightarrow> byte list" where
  "wire_bytes m = header_encoding m @ mg_bytes m"

definition sent_error :: "endpoint \<Rightarrow> 64 word \<Rightarrow> terr \<Rightarrow> message" where
  "sent_error st connID err = fst (newErrorMessage connID err (ep_idCounter st))"

lemma message_WriteTo_up:
  assumes "message_header m = Inr h" and "ws_up e"
  shows "message_WriteTo e m st = Inr ((length (mg_bytes m), None), st\<lparr>ep_wire := ep_wire st @ [wire_bytes m]\<rparr>)"
proof -
  have "h = header_encoding m" using assms(1) by (simp add: message_header_eq split: if_splits)
  then show ?thesis using assms(2)
    by (simp add: message_WriteTo_eq [OF assms(1)] tun_bind_def wsConn_WriteMessage_def ws_up_def tun_return_def wire_bytes_def)
qed

lemma message_WriteTo_keeps:
  assumes "message_header m = Inr h"
  shows "\<exists>x w. message_WriteTo e m st = Inr (x, st\<lparr>ep_wire := w\<rparr>)"
proof (cases "te_ws e (ep_wire st) (h @ mg_bytes m)")
  case None
  then show ?thesis by (auto simp: message_WriteTo_eq [OF assms] tun_bind_def wsConn_WriteMessage_def tun_return_def)
next
  case (Some err)
  then have "message_WriteTo e m st = Inr ((length (mg_bytes m), Some err), st\<lparr>ep_wire := ep_wire st\<rparr>)"
    by (simp add: message_WriteTo_eq [OF assms] tun_bind_def wsConn_WriteMessage_def tun_return_def)
  then show ?thesis by blast
qed

lemma writeErr_effect:
  assumes "a < length (ep_heap st)"
  shows "\<exists>i w. connection_writeErr e a err st = Inr ((), st\<lparr>ep_idCounter := i, ep_wire := w\<rparr>)"
proof (cases err)
  case None
  then have "connection_writeErr e a err st = Inr ((), st\<lparr>ep_idCounter := ep_idCounter st, ep_wire := ep_wire st\<rparr>)"
    by (simp add: connection_writeErr_def tun_return_def)
  then show ?thesis by blast
next
  case (Some er)
  let ?m = "sent_error st (c_connID (ep_heap st ! a)) er" and ?i = "ep_idCounter st + 1"
  obtain x w where "message_WriteTo e ?m (st\<lparr>ep_idCounter := ?i\<rparr>) = Inr (x, st\<lparr>ep_idCounter := ?i, ep_wire := w\<rparr>)"
    using message_WriteTo_keeps [OF newErrorMessage_header, of e "c_connID (ep_heap st ! a)" er "ep_idCounter st" "st\<lparr>ep_idCounter := ?i\<rparr>"]
    by (auto simp: sent_error_def)
  then have "connection_writeErr e a err st = Inr ((), st\<lparr>ep_idCounter := ?i, ep_wire := w\<rparr>)"
    using assms by (simp add: Some connection_writeErr_def tun_bind_def with_conn_def make_message_def writeMessage_def
        sent_error_def newErrorMessage_def nextid_def tun_return_def)
  then show ?thesis by blast
qed

lemma writeErr_up:
  assumes "a < length (ep_heap st)" and "ws_up e"
  shows "connection_writeErr e a (Some err) st = Inr ((), st\<lparr>ep_idCounter := ep_idCounter st + 1,
    ep_wire := ep_wire st @ [wire_bytes (sent_error st (c_connID (ep_heap st ! a)) err)]\<rparr>)"
  using assms(1) message_WriteTo_up [OF newErrorMessage_header assms(2), of "c_connID (ep_heap st ! a)" err "ep_idCounter st"]
  by (simp add: connection_writeErr_def tun_bind_def with_conn_def make_message_def writeMessage_def
      sent_error_def newErrorMessage_def nextid_def tun_return_def)

lemma do_close_at_effect:
  "ep_inv st \<Longrightarrow> a < length (ep_heap st) \<Longrightarrow>
   do_close_at a err st = Inr ((), st\<lparr>ep_heap := (ep_heap st)[a := closed_with err (ep_heap st ! a)]\<rparr>)"
  by (simp add: do_close_at_def with_conn_def doTunnelClose_eq ep_inv_conn)

lemma tunnelClose_effect:
  assumes "ep_inv st" and "a < length (ep_heap st)"
  shows "\<exists>i w. tunnelClose e a err st =
    Inr ((), st\<lparr>ep_idCounter := i, ep_wire := w, ep_heap := (ep_heap st)[a := closed_with err (ep_heap st ! a)]\<rparr>)"
proof -
  obtain i w where w: "connection_writeErr e a err st = Inr ((), st\<lparr>ep_idCounter := i, ep_wire := w\<rparr>)"
    using writeErr_effect [OF assms(2)] by blast
  have "ep_inv (st\<lparr>ep_idCounter := i, ep_wire := w\<rparr>)" by (rule ep_inv_forget [OF assms(1)]) simp_all
  then have "do_close_at a err (st\<lparr>ep_idCounter := i, ep_wire := w\<rparr>) =
      Inr ((), st\<lparr>ep_idCounter := i, ep_wire := w, ep_heap := (ep_heap st)[a := closed_with err (ep_heap st ! a)]\<rparr>)"
    using do_close_at_effect [of "st\<lparr>ep_idCounter := i, ep_wire := w\<rparr>" a err] assms(2) by simp
  with w show ?thesis by (auto simp: tunnelClose_def tun_bind_def)
qed

lemma closeConnection_up:
  assumes "ep_inv st" and "ws_up e" and "s_conns (ep_sess st) k = Some a"
  shows "closeConnection e k (Some err) st = Inr ((), st\<lparr>ep_idCounter := ep_idCounter st + 1,
    ep_heap := (ep_heap st)[a := closed_with (Some err) (ep_heap st ! a)],
    ep_sess := (ep_sess st)\<lparr>s_conns := (s_conns (ep_sess st))(k := None)\<rparr>,
    ep_wire := ep_wire st @ [wire_bytes (sent_error st k err)]\<rparr>)"
proof -
  let ?st1 = "st\<lparr>ep_sess := (ep_sess st)\<lparr>s_conns := (s_conns (ep_sess st))(k := None)\<rparr>\<rparr>"
  let ?st2 = "?st1\<lparr>ep_idCounter := ep_idCounter st + 1, ep_wire := ep_wire st @ [wire_bytes (sent_error st k err)]\<rparr>"
  have a: "a < length (ep_heap st)" "c_connID (ep_heap st ! a) = k" using assms(1,3) by (auto simp: ep_inv_def)
  have "connection_writeErr e a (Some err) ?st1 = Inr ((), ?st2)"
    using writeErr_up [of a ?st1 e err] a assms(2) by (simp add: sent_error_def)
  moreover have "ep_inv ?st2" by (rule ep_inv_forget [OF assms(1)]) (auto split: if_splits)
  then have "do_close_at a (Some err) ?st2 = Inr ((), ?st2\<lparr>ep_heap := (ep_heap st)[a := closed_with (Some err) (ep_heap st ! a)]\<rparr>)"
    using do_close_at_effect [of ?st2 a "Some err"] a(1) by simp
  ultimately show ?thesis
    by (simp add: closeConnection_def tun_bind_def delete_conn_def assms(3) tunnelClose_def)
qed

lemma closeConnection_effect:
  assumes "ep_inv st" and "s_conns (ep_sess st) k = Some a"
  shows "\<exists>i w. closeConnection e k err st = Inr ((), st\<lparr>
    ep_sess := (ep_sess st)\<lparr>s_conns := (s_conns (ep_sess st))(k := None)\<rparr>, ep_idCounter := i, ep_wire := w,
    ep_heap := (ep_heap st)[a := closed_with err (ep_heap st ! a)]\<rparr>)"
proof -
  let ?st1 = "st\<lparr>ep_sess := (ep_sess st)\<lparr>s_conns := (s_conns (ep_sess st))(k := None)\<rparr>\<rparr>"
  have "ep_inv ?st1" by (rule ep_inv_forget [OF assms(1)]) (auto split: if_splits)
  moreover have "a < length (ep_heap ?st1)" using assms by (auto simp: ep_inv_def)
  ultimately obtain i w where "tunnelClose e a err ?st1 =
      Inr ((), ?st1\<lparr>ep_idCounter := i, ep_wire := w, ep_heap := (ep_heap ?st1)[a := closed_with err (ep_heap ?st1 ! a)]\<rparr>)"
    using tunnelClose_effect by blast
  then show ?thesis using assms(2) by (auto simp: closeConnection_def tun_bind_def delete_conn_def)
qed

lemma newServerMessage_wire:
  assumes "message_header m = Inr h" and "mg_type m = Connect \<Longrightarrow> wf_connect m"
  shows "newServerMessage (wire_bytes m, EOF) = Inr (received m)"
proof -
  have "message_Bytes m = Inr (wire_bytes m)"
    using assms(1) by (auto simp: message_Bytes_def wire_bytes_def message_header_eq split: if_splits)
  then show ?thesis by (rule newServerMessage_Bytes) (rule assms(2))
qed

lemma types_distinct [simp]: "Data \<noteq> Connect" "Connect \<noteq> Data" "Error \<noteq> Connect" "Connect \<noteq> Error" "Error \<noteq> Data" "Data \<noteq> Error"
  by (simp_all add: Data_def Connect_def Error_def)

lemma sent_error_simps [simp]: "mg_type (sent_error st k err) = Error" "mg_connID (sent_error st k err) = k"
  by (simp_all add: sent_error_def newErrorMessage_def nextid_def)

lemma received_simps [simp]: "mg_type (received m) = mg_type m" "mg_connID (received m) = mg_connID m"
  by (simp_all add: received_def)

lemma newServerMessage_error: "newServerMessage (wire_bytes (sent_error st k err), EOF) = Inr (received (sent_error st k err))"
  using newServerMessage_wire [OF newErrorMessage_header, of k err "ep_idCounter st"] sent_error_simps(1) [of st k err]
  by (simp add: sent_error_def)

text \<open>Serving an error message: the connection is closed with what the text says, or there is none and nothing happens.\<close>

lemma serveMessage_error_known:
  assumes "s_conns (ep_sess st) k = Some a"
  shows "serveMessage e (wire_bytes (sent_error st0 k err), EOF) st =
    tun_bind (closeConnection e k (Some (wire_err err))) (\<lambda>_. tun_return None) st"
proof -
  obtain m' where "message_Err (received (sent_error st0 k err)) = Inr (wire_err err, m')" "mg_connID m' = k"
    using message_Err_received unfolding sent_error_def by blast
  then show ?thesis using assms
    by (simp add: serveMessage_def newServerMessage_error serveMessage_conn_def tun_bind_def tun_get_def)
qed

lemma serveMessage_error_unknown:
  "s_conns (ep_sess st) k = None \<Longrightarrow> serveMessage e (wire_bytes (sent_error st0 k err), EOF) st = Inr (None, st)"
  by (simp add: serveMessage_def newServerMessage_error tun_bind_def tun_get_def tun_return_def)

section \<open>Closing\<close>

text \<open>
  C24. Closing a connection at one end closes it at the other with the same error (its text cut at
  100 bytes): both tables forget it, the bytes that had arrived can still be read, and the exchange
  stops there: the other end's own notice, on its arrival, changes nothing and is not answered.
\<close>

theorem closeConnection_propagates:
  assumes "tunnel_reachable st1" and "tunnel_reachable st2" and "ws_up e1" and "ws_up e2"
    and "s_conns (ep_sess st1) k = Some a1" and "s_conns (ep_sess st2) k = Some a2"
    and "c_err (ep_heap st2 ! a2) = None"
  shows "\<exists>st1' st2' data reply. closeConnection e1 k (Some err) st1 = Inr ((), st1') \<and>
    ep_wire st1' = ep_wire st1 @ [data] \<and> serveMessage e2 (data, EOF) st2 = Inr (None, st2') \<and>
    ep_wire st2' = ep_wire st2 @ [reply] \<and> serveMessage e1 (reply, EOF) st1' = Inr (None, st1') \<and>
    s_conns (ep_sess st1') k = None \<and> s_conns (ep_sess st2') k = None \<and>
    c_err (ep_heap st2' ! a2) = Some (wire_err err) \<and> stream (ep_heap st2' ! a2) = stream (ep_heap st2 ! a2)"
proof -
  have inv: "ep_inv st1" "ep_inv st2" using assms(1,2) by (simp_all add: ep_inv_reachable)
  have a2: "a2 < length (ep_heap st2)" using inv(2) assms(6) by (simp add: ep_inv_def)
  note c1 = closeConnection_up [OF inv(1) assms(3,5), of err] and c2 = closeConnection_up [OF inv(2) assms(4,6), of "wire_err err"]
  let ?data = "wire_bytes (sent_error st1 k err)" and ?reply = "wire_bytes (sent_error st2 k (wire_err err))"
  obtain st1' where 1: "closeConnection e1 k (Some err) st1 = Inr ((), st1')" "ep_wire st1' = ep_wire st1 @ [?data]"
      "s_conns (ep_sess st1') k = None"
    using c1 by simp
  obtain st2' where 2: "closeConnection e2 k (Some (wire_err err)) st2 = Inr ((), st2')" "ep_wire st2' = ep_wire st2 @ [?reply]"
      "s_conns (ep_sess st2') k = None" "ep_heap st2' = (ep_heap st2)[a2 := closed_with (Some (wire_err err)) (ep_heap st2 ! a2)]"
    using c2 by simp
  have "serveMessage e2 (?data, EOF) st2 = Inr (None, st2')"
    using 2(1) by (simp add: serveMessage_error_known [OF assms(6)] tun_bind_def tun_return_def)
  moreover have "serveMessage e1 (?reply, EOF) st1' = Inr (None, st1')" using 1(3) by (rule serveMessage_error_unknown)
  ultimately show ?thesis
    using 1 2 a2 assms(7) by (intro exI [of _ st1'] exI [of _ st2'] exI [of _ ?data] exI [of _ ?reply]) (simp add: close_err_def)
qed

section \<open>Data\<close>

lemma io_copy_keeps:
  "conn_inv c \<Longrightarrow> io_copy chanWriter_Write bs fin c = Inr (x, c') \<Longrightarrow>
   conn_inv c' \<and> c_connID c' = c_connID c \<and> c_err c' = c_err c"
proof (induction bs arbitrary: c)
  case (Cons b bs)
  show ?case
  proof (cases "b = []")
    case False
    with Cons.prems obtain y c1 where w: "chanWriter_Write b c = Inr (y, c1)"
      by (auto split: sum.splits prod.splits)
    have "conn_inv c1 \<and> c_connID c1 = c_connID c \<and> c_err c1 = c_err c" by (rule chanWriter_Write_keeps [OF Cons.prems(1) w])
    moreover have "c1 = c' \<or> io_copy chanWriter_Write bs fin c1 = Inr (x, c')"
      using Cons.prems(2) False w by (auto split: prod.splits option.splits if_splits)
    ultimately show ?thesis using Cons.IH by auto
  qed (use Cons in simp)
qed simp

lemma io_copy_room:
  assumes "conn_inv c" and "c_err c = None" and "length (c_buf c) + length bs \<le> 1024"
  shows "\<exists>c'. io_copy chanWriter_Write bs EOF c = Inr (None, c') \<and> c_err c' = None"
  using assms
proof (induction bs arbitrary: c)
  case (Cons b bs)
  show ?case
  proof (cases "b = []")
    case False
    have "chanWriter_Write b c = Inr ((length b, None), c\<lparr>c_buf := c_buf c @ [b]\<rparr>)"
      using Cons.prems by (simp add: chanWriter_Write_def conn_inv_def)
    moreover have "\<exists>c'. io_copy chanWriter_Write bs EOF (c\<lparr>c_buf := c_buf c @ [b]\<rparr>) = Inr (None, c') \<and> c_err c' = None"
      using Cons.prems by (intro Cons.IH conn_inv_sent) simp_all
    ultimately show ?thesis using False by simp
  qed (use Cons in simp)
qed simp

text \<open>A write that the websocket takes.\<close>

definition sent_data :: "tunnel_env \<Rightarrow> endpoint \<Rightarrow> nat \<Rightarrow> byte list \<Rightarrow> message" where
  "sent_data e st a b = (let c = ep_heap st ! a in
     fst (newMessage (c_connID c) (case c_writeDeadline c of None \<Rightarrow> 0 | Some t \<Rightarrow> duration_millis (time_sub t (te_now e))) b (ep_idCounter st)))"

definition small_connID :: "64 word \<Rightarrow> bool" where
  "small_connID k \<longleftrightarrow> - (2 ^ 41) \<le> sint k \<and> sint k < 2 ^ 41"

lemma sent_data_header:
  assumes "c_writeDeadline (ep_heap st ! a) = None \<or> small_connID (c_connID (ep_heap st ! a))"
  shows "message_header (sent_data e st a b) = Inr (header_encoding (sent_data e st a b))"
proof (cases "c_writeDeadline (ep_heap st ! a)")
  case None
  then show ?thesis by (simp add: sent_data_def Let_def newMessage_header_0)
next
  case (Some t)
  with assms show ?thesis by (simp add: sent_data_def Let_def newMessage_header small_connID_def)
qed

lemma connection_Write_up:
  assumes "a < length (ep_heap st)" and "c_err (ep_heap st ! a) = None" and "ws_up e"
    and "c_writeDeadline (ep_heap st ! a) = None \<or> small_connID (c_connID (ep_heap st ! a))"
  shows "connection_Write e a b st = Inr ((length b, None), st\<lparr>ep_idCounter := ep_idCounter st + 1,
    ep_wire := ep_wire st @ [wire_bytes (sent_data e st a b)]\<rparr>)"
  using assms(1,2) message_WriteTo_up [OF sent_data_header [OF assms(4)] assms(3), of e b]
  by (simp add: connection_Write_def tun_bind_def with_conn_def make_message_def writeMessage_def sent_data_def newMessage_def
      nextid_def Let_def)

lemma sent_data_simps:
  "mg_type (sent_data e st a b) = Data" "mg_connID (sent_data e st a b) = c_connID (ep_heap st ! a)"
  "mg_body (received (sent_data e st a b)) = Some (b, EOF)"
  by (simp_all add: sent_data_def Let_def newMessage_def nextid_def received_def)

text \<open>Serving a data message for a connection in the table.\<close>

lemma serveMessage_data:
  assumes "newServerMessage (data, EOF) = Inr m" and "mg_type m = Data" and "mg_body m = Some (b, EOF)"
    and "ep_inv st" and "s_conns (ep_sess st) (mg_connID m) = Some a" and "c_err (ep_heap st ! a) = None"
  shows "\<exists>st'. serveMessage e (data, EOF) st = Inr (None, st') \<and>
    (\<forall>i. i \<noteq> a \<longrightarrow> ep_heap st' ! i = ep_heap st ! i) \<and>
    (\<exists>n. stream (ep_heap st' ! a) = stream (ep_heap st ! a) @ concat (take n (te_pieces e b)) \<and>
      (if c_err (ep_heap st' ! a) = None then n = length (te_pieces e b) \<and> s_conns (ep_sess st') = s_conns (ep_sess st)
       else s_conns (ep_sess st') (mg_connID m) = None)) \<and>
    (length (c_buf (ep_heap st ! a)) + length (te_pieces e b) \<le> 1024 \<longrightarrow> c_err (ep_heap st' ! a) = None)"
proof -
  have a: "a < length (ep_heap st)" "conn_inv (ep_heap st ! a)"
    using assms(4,5) ep_inv_conn [OF assms(4)] by (auto simp: ep_inv_def)
  obtain err c n where c: "io_copy chanWriter_Write (te_pieces e b) EOF (ep_heap st ! a) = Inr (err, c)"
      "stream c = stream (ep_heap st ! a) @ concat (take n (te_pieces e b))" "err = None \<longrightarrow> n = length (te_pieces e b)"
    using chan_writer.copy_total [OF a(2), of "te_pieces e b" EOF] by blast
  have keeps: "conn_inv c" "c_connID c = c_connID (ep_heap st ! a)" "c_err c = None"
    using assms(6) io_copy_keeps [OF a(2) c(1)] by auto
  let ?st1 = "st\<lparr>ep_heap := (ep_heap st)[a := c]\<rparr>"
  have inv1: "ep_inv ?st1" by (rule ep_inv_update [OF assms(4) a(1) keeps(1,2)])
  have serve: "serveMessage e (data, EOF) st = (case err of None \<Rightarrow> Inr (None, ?st1)
      | Some er \<Rightarrow> tun_bind (closeConnection e (mg_connID m) (Some er)) (\<lambda>_. tun_return None) ?st1)"
    using assms a(1) c(1) by (auto simp: serveMessage_def tun_bind_def tun_get_def serveMessage_conn_def copy_to_conn_def
        body_pieces_def with_conn_def tun_return_def split: option.split)
  show ?thesis
  proof (cases err)
    case None
    with serve keeps(3) c a(1) show ?thesis by (intro exI [of _ ?st1]) auto
  next
    case (Some er)
    obtain i w where "closeConnection e (mg_connID m) (Some er) ?st1 = Inr ((), ?st1\<lparr>
        ep_sess := (ep_sess st)\<lparr>s_conns := (s_conns (ep_sess st))(mg_connID m := None)\<rparr>,
        ep_idCounter := i, ep_wire := w, ep_heap := (ep_heap st)[a := closed_with (Some er) c]\<rparr>)"
      using closeConnection_effect [OF inv1, of "mg_connID m" a e "Some er"] assms(5) a(1) by auto
    moreover have "\<not> length (c_buf (ep_heap st ! a)) + length (te_pieces e b) \<le> 1024"
      using io_copy_room [OF a(2) assms(6), of "te_pieces e b"] c(1) Some by auto
    ultimately show ?thesis using serve Some c(2) a(1) by (auto simp: tun_bind_def tun_return_def)
  qed
qed

text \<open>
  C8. Bytes written at one end arrive at the other: the peer's connection of the same number gets
  exactly these bytes behind those it already holds, in order, no other connection changes, and
  nothing is sent back.  When the peer's reader lags behind by more than 1024 slices a prefix
  arrives and the connection is closed with an error and forgotten, never silently cut; while there
  is room this does not happen.
\<close>

theorem connection_Write_delivers:
  assumes "a1 < length (ep_heap st1)" and "c_err (ep_heap st1 ! a1) = None" and "ws_up e1"
    and "c_writeDeadline (ep_heap st1 ! a1) = None \<or> small_connID (c_connID (ep_heap st1 ! a1))"
    and "tunnel_reachable st2" and "s_conns (ep_sess st2) (c_connID (ep_heap st1 ! a1)) = Some a2"
    and "c_err (ep_heap st2 ! a2) = None" and "pieces_ok e2"
  shows "\<exists>st1' st2' data n. connection_Write e1 a1 b st1 = Inr ((length b, None), st1') \<and>
    ep_wire st1' = ep_wire st1 @ [data] \<and> serveMessage e2 (data, EOF) st2 = Inr (None, st2') \<and>
    (\<forall>i. i \<noteq> a2 \<longrightarrow> ep_heap st2' ! i = ep_heap st2 ! i) \<and>
    stream (ep_heap st2' ! a2) = stream (ep_heap st2 ! a2) @ take n b \<and>
    (if c_err (ep_heap st2' ! a2) = None then n = length b
     else s_conns (ep_sess st2') (c_connID (ep_heap st1 ! a1)) = None) \<and>
    (length (c_buf (ep_heap st2 ! a2)) + length (te_pieces e2 b) \<le> 1024 \<longrightarrow> c_err (ep_heap st2' ! a2) = None)"
proof -
  let ?m = "sent_data e1 st1 a1 b"
  have data: "newServerMessage (wire_bytes ?m, EOF) = Inr (received ?m)"
    by (rule newServerMessage_wire [OF sent_data_header [OF assms(4)]]) (simp add: sent_data_simps)
  have pieces: "concat (te_pieces e2 b) = b" using assms(8) by (simp add: pieces_ok_def)
  obtain st2' n where 2: "serveMessage e2 (wire_bytes ?m, EOF) st2 = Inr (None, st2')"
      "\<forall>i. i \<noteq> a2 \<longrightarrow> ep_heap st2' ! i = ep_heap st2 ! i"
      "stream (ep_heap st2' ! a2) = stream (ep_heap st2 ! a2) @ concat (take n (te_pieces e2 b))"
      "if c_err (ep_heap st2' ! a2) = None then n = length (te_pieces e2 b) \<and> s_conns (ep_sess st2') = s_conns (ep_sess st2)
       else s_conns (ep_sess st2') (mg_connID (received ?m)) = None"
      "length (c_buf (ep_heap st2 ! a2)) + length (te_pieces e2 b) \<le> 1024 \<longrightarrow> c_err (ep_heap st2' ! a2) = None"
    using serveMessage_data [OF data, of b st2 a2 e2] assms(6,7) ep_inv_reachable [OF assms(5)]
    by (auto simp: sent_data_simps)
  have "concat (take n (te_pieces e2 b)) @ concat (drop n (te_pieces e2 b)) = b"
    by (metis append_take_drop_id concat_append pieces)
  then have prefix: "concat (take n (te_pieces e2 b)) = take (length (concat (take n (te_pieces e2 b)))) b"
    by (metis append_eq_conv_conj)
  show ?thesis
    using connection_Write_up [OF assms(1-4), of b] 2 pieces
    by (intro exI [of _ "st1\<lparr>ep_idCounter := ep_idCounter st1 + 1, ep_wire := ep_wire st1 @ [wire_bytes ?m]\<rparr>"] exI [of _ st2']
        exI [of _ "wire_bytes ?m"] exI [of _ "length (concat (take n (te_pieces e2 b)))"])
      (auto simp: prefix [symmetric] sent_data_simps)
qed

section \<open>Opening\<close>

text \<open>
  Opening a connection: the server's end and the agent's end get a connection of the same
  number, protocol and address in their tables, open and empty, and the agent starts dialling that
  address with the caller's deadline in milliseconds; nothing else changes in the agent's table.
\<close>

theorem serverConnect_opens:
  assumes "ws_up e1" and "small_connID (s_nextConnID (ep_sess st1) + 1)" and "slash \<notin> set proto"
    and "length proto + length address < 100"
    and "case s_auth (ep_sess st2) of None \<Rightarrow> True | Some auth \<Rightarrow> auth proto address"
  defines "k \<equiv> s_nextConnID (ep_sess st1) + 1" and "a1 \<equiv> length (ep_heap st1)" and "a2 \<equiv> length (ep_heap st2)"
  shows "\<exists>st1' st2' data m. serverConnect e1 d proto address st1 = Inr (Inr a1, st1') \<and>
    ep_wire st1' = ep_wire st1 @ [data] \<and> serveMessage e2 (data, EOF) st2 = Inr (None, st2') \<and>
    s_conns (ep_sess st1') = (s_conns (ep_sess st1))(k \<mapsto> a1) \<and> ep_heap st1' = ep_heap st1 @ [newConnection k proto address] \<and>
    s_conns (ep_sess st2') = (s_conns (ep_sess st2))(k \<mapsto> a2) \<and> ep_heap st2' = ep_heap st2 @ [newConnection k proto address] \<and>
    ep_dials st2' = ep_dials st2 @ [(a2, m)] \<and> mg_proto m = proto \<and> mg_address m = address \<and>
    mg_deadline m = duration_millis d"
proof -
  let ?m = "fst (newConnect k d proto address (ep_idCounter st1))"
  have head: "message_header ?m = Inr (header_encoding ?m)"
    using assms(2) by (intro newConnect_header) (simp_all add: small_connID_def k_def)
  have wf: "wf_connect ?m" "mg_type ?m = Connect" "mg_connID ?m = k" "mg_proto ?m = proto" "mg_address ?m = address"
      "mg_deadline ?m = duration_millis d"
    using assms(3,4) by (simp_all add: wf_connect_def newConnect_def nextid_def)
  have rec: "newServerMessage (wire_bytes ?m, EOF) = Inr (received ?m)" by (rule newServerMessage_wire [OF head wf(1)])
  have fields: "mg_proto (received ?m) = proto" "mg_address (received ?m) = address" "mg_deadline (received ?m) = duration_millis d"
    using wf by (simp_all add: received_def has_deadline_def)
  have serve: "\<exists>st2'. serveMessage e2 (wire_bytes ?m, EOF) st2 = Inr (None, st2') \<and>
      s_conns (ep_sess st2') = (s_conns (ep_sess st2))(k \<mapsto> a2) \<and> ep_heap st2' = ep_heap st2 @ [newConnection k proto address] \<and>
      ep_dials st2' = ep_dials st2 @ [(a2, received ?m)]"
    using assms(5) by (auto simp: serveMessage_def rec tun_bind_def tun_get_def wf fields clientConnect_def insert_conn_def
        tun_return_def a2_def Let_def split: option.splits)
  have "\<exists>st1'. serverConnect e1 d proto address st1 = Inr (Inr a1, st1') \<and> ep_wire st1' = ep_wire st1 @ [wire_bytes ?m] \<and>
      s_conns (ep_sess st1') = (s_conns (ep_sess st1))(k \<mapsto> a1) \<and> ep_heap st1' = ep_heap st1 @ [newConnection k proto address]"
    using message_WriteTo_up [OF head assms(1)]
    by (simp add: serverConnect_def tun_bind_def next_connID_def insert_conn_def make_message_def writeMessage_def k_def a1_def
        tun_return_def Let_def split_beta)
  then show ?thesis using serve fields by blast
qed

section \<open>Examples\<close>

definition tunnel_env_ex :: tunnel_env where
  "tunnel_env_ex = \<lparr>te_ws = (\<lambda>_ _. None), te_pieces = (\<lambda>bs. [bs]), te_now = 0, te_range = (\<lambda>t. sorted_list_of_set (dom t))\<rparr>"

definition conn_ex :: connection where
  "conn_ex = newConnection 2 (str_bytes ''tcp'') (str_bytes ''10.0.0.1:443'')"

text \<open>An end of either kind with connection 2 open.\<close>

definition end_ex :: "session \<Rightarrow> endpoint" where
  "end_ex s = (new_endpoint 0 s)\<lparr>ep_heap := [conn_ex], ep_sess := s\<lparr>s_conns := (s_conns s)(2 \<mapsto> 0)\<rparr>\<rparr>"

abbreviation server_ex :: endpoint where
  "server_ex \<equiv> end_ex (newSession 7 (str_bytes ''c-1''))"

abbreviation agent_ex :: endpoint where
  "agent_ex \<equiv> end_ex (newClientSession None)"

lemma initial_ex: "initial (new_endpoint 0 (newSession 7 (str_bytes ''c-1'')))" "initial (new_endpoint 0 (newClientSession None))"
  by (auto simp: initial_def)

lemma end_ex_reachable: "initial (new_endpoint 0 s) \<Longrightarrow> tunnel_reachable (end_ex s)"
proof -
  assume init: "initial (new_endpoint 0 s)"
  have "tunnel_step (new_endpoint 0 s) (end_ex s)"
    by (rule tunnel_step.insert [of 2 "str_bytes ''tcp''" "str_bytes ''10.0.0.1:443''" _ 0])
      (simp add: insert_conn_def new_endpoint_def end_ex_def conn_ex_def Let_def)
  with init show ?thesis unfolding tunnel_reachable_def by blast
qed

lemma tunnel_env_ex_ok: "ws_up tunnel_env_ex" "pieces_ok tunnel_env_ex"
  by (simp_all add: tunnel_env_ex_def ws_up_def pieces_ok_def)

lemma end_ex_simps:
  "s_conns (ep_sess (end_ex s)) 2 = Some 0" "ep_heap (end_ex s) = [conn_ex]" "c_err conn_ex = None"
  "c_writeDeadline conn_ex = None" "c_connID conn_ex = 2" "stream conn_ex = []" "c_buf conn_ex = []"
  by (simp_all add: end_ex_def conn_ex_def) (simp_all add: newConnection_def)

theorem session_serve_safe_witness:
  "\<exists>code err st'. session_serve tunnel_env_ex [Some ([4, 2, 1, 0], EOF), Some ([255, 255], EOF)] EOF server_ex = Inr ((code, err), st') \<and>
     tunnel_reachable st'"
  using session_serve_safe [OF end_ex_reachable [OF initial_ex(1)], of tunnel_env_ex "[Some ([4, 2, 1, 0], EOF), Some ([255, 255], EOF)]" EOF]
  by blast

theorem closeConnection_propagates_witness:
  "\<exists>st1' st2' data. closeConnection tunnel_env_ex 2 (Some EOF) server_ex = Inr ((), st1') \<and> ep_wire st1' = [data] \<and>
     serveMessage tunnel_env_ex (data, EOF) agent_ex = Inr (None, st2') \<and> c_err (ep_heap st2' ! 0) = Some EOF"
  using closeConnection_propagates [OF end_ex_reachable [OF initial_ex(1)] end_ex_reachable [OF initial_ex(2)]
      tunnel_env_ex_ok(1,1) end_ex_simps(1,1), of EOF]
  by (auto simp: end_ex_simps) (auto simp: end_ex_def new_endpoint_def)

theorem connection_Write_delivers_witness:
  "\<exists>st1' st2' data. connection_Write tunnel_env_ex 0 [1, 2, 3] server_ex = Inr ((3, None), st1') \<and> ep_wire st1' = [data] \<and>
     serveMessage tunnel_env_ex (data, EOF) agent_ex = Inr (None, st2') \<and> stream (ep_heap st2' ! 0) = [1, 2, 3] \<and>
     c_err (ep_heap st2' ! 0) = None"
proof -
  have wire: "ep_wire server_ex = []" by (simp add: end_ex_def new_endpoint_def)
  have pre: "0 < length (ep_heap server_ex)" "c_err (ep_heap server_ex ! 0) = None"
      "c_writeDeadline (ep_heap server_ex ! 0) = None \<or> small_connID (c_connID (ep_heap server_ex ! 0))"
      "s_conns (ep_sess agent_ex) (c_connID (ep_heap server_ex ! 0)) = Some 0" "c_err (ep_heap agent_ex ! 0) = None"
      "length (c_buf (ep_heap agent_ex ! 0)) + length (te_pieces tunnel_env_ex [1, 2, 3]) \<le> 1024"
      "stream (ep_heap agent_ex ! 0) = []"
    by (simp_all add: end_ex_simps) (simp add: tunnel_env_ex_def)
  from connection_Write_delivers [OF pre(1,2) tunnel_env_ex_ok(1) pre(3) end_ex_reachable [OF initial_ex(2)] pre(4,5)
      tunnel_env_ex_ok(2), of "[1, 2, 3]"]
  show ?thesis using pre(6,7) wire by auto
qed

theorem serverConnect_opens_witness:
  "\<exists>st1' st2' data m. serverConnect tunnel_env_ex 5000000000 (str_bytes ''tcp'') (str_bytes ''b:80'') server_ex = Inr (Inr 1, st1') \<and>
     serveMessage tunnel_env_ex (data, EOF) agent_ex = Inr (None, st2') \<and> s_conns (ep_sess st2') 2 = Some 1 \<and>
     ep_dials st2' = [(1, m)] \<and> mg_address m = str_bytes ''b:80''"
proof -
  have "small_connID (s_nextConnID (ep_sess server_ex) + 1)" "s_nextConnID (ep_sess server_ex) + 1 = 2"
    by (simp_all add: end_ex_def newSession_def small_connID_def)
  moreover have "case s_auth (ep_sess agent_ex) of None \<Rightarrow> True | Some auth \<Rightarrow> auth (str_bytes ''tcp'') (str_bytes ''b:80'')"
    by (simp add: end_ex_def newClientSession_def)
  moreover have "slash \<notin> set (str_bytes ''tcp'')" by (simp add: str_bytes_def slash_def)
  moreover have "length (str_bytes ''tcp'') + length (str_bytes ''b:80'') < 100" by (simp add: str_bytes_def)
  moreover have "ep_dials agent_ex = []" by (simp add: end_ex_def new_endpoint_def)
  ultimately show ?thesis
    using serverConnect_opens [OF tunnel_env_ex_ok(1), of server_ex "str_bytes ''tcp''" "str_bytes ''b:80''" agent_ex 5000000000 tunnel_env_ex]
    by (auto simp: end_ex_simps)
qed

end
