(* ===== verification/Tunnel_Server.thy ===== *)
theory Tunnel_Server
  imports Tunnel_EndToEnd
begin

text \<open>
  The server of the tunnel: the sessions of each client
  (\<open>src/pkg/remotedialer/session_manager.go\<close>), dialling through a client
  (\<open>dialer.go\<close>) and the handler that admits agents (\<open>server.go\<close>).  Sessions live
  in a store, the table of clients holds addresses of it, and the message counter is shared.  The
  readiness of the server, the answer of the authorizer, the outcome of the websocket handshake
  and the random session key are arguments.
\<close>

record tunnel_server =
  sv_clients :: "byte list \<Rightarrow> nat list option"
  sv_ends :: "endpoint list"
  sv_idCounter :: "64 word"

definition newSessionManager :: "64 word \<Rightarrow> tunnel_server" where
  "newSessionManager idCounter = \<lparr>sv_clients = (\<lambda>_. None), sv_ends = [], sv_idCounter = idCounter\<rparr>"

section \<open>Sessions of a client\<close>

definition client_sessions :: "tunnel_server \<Rightarrow> byte list \<Rightarrow> nat list" where
  "client_sessions sv clientKey = (case sv_clients sv clientKey of None \<Rightarrow> [] | Some ss \<Rightarrow> ss)"

definition getByClient :: "byte list \<Rightarrow> tunnel_server \<Rightarrow> terr + nat" where
  "getByClient clientKey sv = (case client_sessions sv clientKey of
     s # _ \<Rightarrow> Inr s
   | [] \<Rightarrow> Inl (TErr (str_bytes ''failed to find session for client '' @ clientKey)))"

definition sm_add :: "byte list \<Rightarrow> 64 word \<Rightarrow> tunnel_server \<Rightarrow> nat \<times> tunnel_server" where
  "sm_add clientKey sessionKey sv = (let s = length (sv_ends sv) in
     (s, sv\<lparr>sv_ends := sv_ends sv @ [new_endpoint (sv_idCounter sv) (newSession sessionKey clientKey)],
           sv_clients := (sv_clients sv)(clientKey := Some (client_sessions sv clientKey @ [s]))\<rparr>))"

text \<open>Running an operation of one session.\<close>

definition on_session :: "nat \<Rightarrow> 'a tun \<Rightarrow> tunnel_server \<Rightarrow> tpanic + 'a \<times> tunnel_server" where
  "on_session s m sv =
     (if s < length (sv_ends sv) then
        (case m ((sv_ends sv ! s)\<lparr>ep_idCounter := sv_idCounter sv\<rparr>) of
           Inl p \<Rightarrow> Inl p
         | Inr (x, st) \<Rightarrow> Inr (x, sv\<lparr>sv_ends := (sv_ends sv)[s := st], sv_idCounter := ep_idCounter st\<rparr>))
      else Inl NilDereference)"

definition session_key_at :: "tunnel_server \<Rightarrow> nat \<Rightarrow> 64 word" where
  "session_key_at sv s = s_sessionKey (ep_sess (sv_ends sv ! s))"

definition sm_remove :: "tunnel_env \<Rightarrow> nat \<Rightarrow> tunnel_server \<Rightarrow> tpanic + unit \<times> tunnel_server" where
  "sm_remove e s sv =
     (let clientKey = s_clientKey (ep_sess (sv_ends sv ! s));
          newSessions = filter (\<lambda>v. session_key_at sv v \<noteq> session_key_at sv s) (client_sessions sv clientKey) in
      on_session s (session_Close e)
        (sv\<lparr>sv_clients := (sv_clients sv)(clientKey := (if newSessions = [] then None else Some newSessions))\<rparr>))"

section \<open>The server\<close>

definition HasSession :: "byte list \<Rightarrow> tunnel_server \<Rightarrow> bool" where
  "HasSession clientKey sv = (case getByClient clientKey sv of Inl _ \<Rightarrow> False | Inr _ \<Rightarrow> True)"

definition Server_Dial :: "tunnel_env \<Rightarrow> byte list \<Rightarrow> 64 word \<Rightarrow> byte list \<Rightarrow> byte list \<Rightarrow> tunnel_server \<Rightarrow>
    tpanic + (terr + nat) \<times> tunnel_server" where
  "Server_Dial e clientKey deadline proto address sv = (case getByClient clientKey sv of
     Inl err \<Rightarrow> Inr (Inl err, sv)
   | Inr s \<Rightarrow> on_session s (serverConnect e deadline proto address) sv)"

definition errFailedAuth :: terr where
  "errFailedAuth = TErr (str_bytes ''failed authentication'')"

text \<open>What the requester sees: an error answer, or the end of a served session.\<close>

datatype http_result = HttpError nat terr | Served nat terr

definition ServeHTTP :: "tunnel_env \<Rightarrow> bool \<Rightarrow> terr + byte list \<times> bool \<Rightarrow> terr option \<Rightarrow> 64 word \<Rightarrow> reader option list \<Rightarrow> terr \<Rightarrow>
    tunnel_server \<Rightarrow> tpanic + http_result \<times> tunnel_server" where
  "ServeHTTP e ready auth upgrade sessionKey frames fin sv =
     (if \<not> ready then Inr (HttpError 503 (TErr (str_bytes ''tunnel server not active'')), sv)
      else (case auth of
          Inl err \<Rightarrow> Inr (HttpError 400 err, sv)
        | Inr (clientKey, authed) \<Rightarrow>
            if \<not> authed then Inr (HttpError 401 errFailedAuth, sv)
            else (case upgrade of
                Some err \<Rightarrow> Inr (HttpError 400 (TErr (str_bytes ''Error during upgrade for host ['' @ clientKey @
                    str_bytes '']: '' @ terr_text err)), sv)
              | None \<Rightarrow>
                  (case sm_add clientKey sessionKey sv of (s, sv) \<Rightarrow>
                  (case on_session s (session_serve e frames fin) sv of
                     Inl p \<Rightarrow> Inl p
                   | Inr ((code, err), sv) \<Rightarrow>
                       (case sm_remove e s sv of Inl p \<Rightarrow> Inl p | Inr (_, sv) \<Rightarrow> Inr (Served code err, sv)))))))"

text \<open>
  The other side, \<open>client.go\<close>: an agent that has dialled the server (\<open>dialed\<close>) and
  run its hook (\<open>onConnect\<close>) serves the session and closes it.
\<close>

definition connectToProxy :: "tunnel_env \<Rightarrow> terr option \<Rightarrow> terr option \<Rightarrow> (byte list \<Rightarrow> byte list \<Rightarrow> bool) option \<Rightarrow>
    reader option list \<Rightarrow> terr \<Rightarrow> 64 word \<Rightarrow> tpanic + terr \<times> endpoint option" where
  "connectToProxy e dialed onConnect auth frames fin idCounter = (case dialed of
     Some err \<Rightarrow> Inr (err, None)
   | None \<Rightarrow> (case onConnect of
       Some err \<Rightarrow> Inr (err, None)
     | None \<Rightarrow> (case session_serve e frames fin (new_endpoint idCounter (newClientSession auth)) of
           Inl p \<Rightarrow> Inl p
         | Inr ((code, err), st) \<Rightarrow> (case session_Close e st of Inl p \<Rightarrow> Inl p | Inr (_, st) \<Rightarrow> Inr (err, Some st)))))"

section \<open>Closing a session\<close>

text \<open>Ranging over a map visits each of its keys.\<close>

definition range_ok :: "tunnel_env \<Rightarrow> bool" where
  "range_ok e \<longleftrightarrow> (\<forall>t. set (te_range e t) = dom t)"

lemma closed_with_idem [simp]: "closed_with err (closed_with err c) = closed_with err c"
  by (simp add: closed_with_def close_err_def)

lemma close_all_effect:
  assumes "ep_inv st"
  shows "\<exists>i w h. close_all e ks st = Inr ((), st\<lparr>ep_idCounter := i, ep_wire := w, ep_heap := h\<rparr>) \<and>
    length h = length (ep_heap st) \<and>
    (\<forall>a < length h. stream (h ! a) = stream (ep_heap st ! a) \<and> (c_err (ep_heap st ! a) \<noteq> None \<longrightarrow> c_err (h ! a) \<noteq> None)) \<and>
    (\<forall>k a. k \<in> set ks \<longrightarrow> s_conns (ep_sess st) k = Some a \<longrightarrow> c_err (h ! a) \<noteq> None)"
  using assms
proof (induction ks arbitrary: st)
  case Nil
  have "st = st\<lparr>ep_idCounter := ep_idCounter st, ep_wire := ep_wire st, ep_heap := ep_heap st\<rparr>" by simp
  then show ?case by (intro exI [of _ "ep_idCounter st"] exI [of _ "ep_wire st"] exI [of _ "ep_heap st"]) (simp add: tun_return_def)
next
  case (Cons k ks)
  show ?case
  proof (cases "s_conns (ep_sess st) k")
    case None
    obtain i w h where IH: "close_all e ks st = Inr ((), st\<lparr>ep_idCounter := i, ep_wire := w, ep_heap := h\<rparr>)" "length h = length (ep_heap st)"
        "\<forall>a < length h. stream (h ! a) = stream (ep_heap st ! a) \<and> (c_err (ep_heap st ! a) \<noteq> None \<longrightarrow> c_err (h ! a) \<noteq> None)"
        "\<forall>k a. k \<in> set ks \<longrightarrow> s_conns (ep_sess st) k = Some a \<longrightarrow> c_err (h ! a) \<noteq> None"
      using Cons.IH [OF Cons.prems] by (elim exE conjE) (rule that)
    then show ?thesis using None
      by (intro exI [of _ i] exI [of _ w] exI [of _ h]) (auto simp: tun_bind_def tun_get_def tun_return_def)
  next
    case (Some b)
    then have b: "b < length (ep_heap st)" using Cons.prems by (simp add: ep_inv_def)
    let ?err = "Some (TErr (str_bytes ''tunnel disconnect''))"
    let ?h = "(ep_heap st)[b := closed_with ?err (ep_heap st ! b)]"
    obtain i w where close: "tunnelClose e b ?err st = Inr ((), st\<lparr>ep_idCounter := i, ep_wire := w, ep_heap := ?h\<rparr>)"
      using tunnelClose_effect [OF Cons.prems b] by blast
    have "ep_inv (st\<lparr>ep_idCounter := i, ep_wire := w, ep_heap := ?h\<rparr>)"
      by (rule ep_inv_forget [OF ep_inv_update [OF Cons.prems b, of "closed_with ?err (ep_heap st ! b)"]])
        (use ep_inv_conn [OF Cons.prems b] in \<open>simp_all add: conn_inv_capacity\<close>)
    from Cons.IH [OF this] obtain i' w' h where IH:
        "close_all e ks (st\<lparr>ep_idCounter := i, ep_wire := w, ep_heap := ?h\<rparr>) = Inr ((), st\<lparr>ep_idCounter := i', ep_wire := w', ep_heap := h\<rparr>)"
        "length h = length (ep_heap st)"
        "\<forall>a < length h. stream (h ! a) = stream (?h ! a) \<and> (c_err (?h ! a) \<noteq> None \<longrightarrow> c_err (h ! a) \<noteq> None)"
        "\<forall>k a. k \<in> set ks \<longrightarrow> s_conns (ep_sess st) k = Some a \<longrightarrow> c_err (h ! a) \<noteq> None"
      by auto
    have "c_err (h ! b) \<noteq> None" using IH(2,3) b by simp
    moreover have "stream (h ! a) = stream (ep_heap st ! a) \<and> (c_err (ep_heap st ! a) \<noteq> None \<longrightarrow> c_err (h ! a) \<noteq> None)"
      if "a < length h" for a
      using IH(2,3) that by (cases "a = b") simp_all
    ultimately show ?thesis
      using IH(1,2,4) Some close
      by (intro exI [of _ i'] exI [of _ w'] exI [of _ h]) (auto simp: tun_bind_def tun_get_def)
  qed
qed

lemma session_Close_effect:
  assumes "ep_inv st" and "range_ok e"
  shows "\<exists>st'. session_Close e st = Inr ((), st') \<and> s_conns (ep_sess st') = (\<lambda>_. None) \<and>
    (\<forall>k a. s_conns (ep_sess st) k = Some a \<longrightarrow> c_err (ep_heap st' ! a) \<noteq> None \<and> stream (ep_heap st' ! a) = stream (ep_heap st ! a))"
proof -
  let ?ks = "te_range e (s_conns (ep_sess st))"
  obtain i w h where c: "close_all e ?ks st = Inr ((), st\<lparr>ep_idCounter := i, ep_wire := w, ep_heap := h\<rparr>)" "length h = length (ep_heap st)"
      "\<forall>a < length h. stream (h ! a) = stream (ep_heap st ! a) \<and> (c_err (ep_heap st ! a) \<noteq> None \<longrightarrow> c_err (h ! a) \<noteq> None)"
      "\<forall>k a. k \<in> set ?ks \<longrightarrow> s_conns (ep_sess st) k = Some a \<longrightarrow> c_err (h ! a) \<noteq> None"
    using close_all_effect [OF assms(1), of e ?ks] by (elim exE conjE) (rule that)
  have "c_err (h ! a) \<noteq> None \<and> stream (h ! a) = stream (ep_heap st ! a)" if "s_conns (ep_sess st) k = Some a" for k a
    using that c(2-4) assms by (auto simp: range_ok_def ep_inv_def)
  then show ?thesis using c(1) by (auto simp: session_Close_def tun_bind_def tun_get_def)
qed

section \<open>The life of a session\<close>

text \<open>What identifies a session never changes.\<close>

abbreviation session_ident :: "endpoint \<Rightarrow> byte list \<times> 64 word" where
  "session_ident st \<equiv> (s_clientKey (ep_sess st), s_sessionKey (ep_sess st))"

lemma with_conn_sess: "with_conn a f st = Inr (x, st') \<Longrightarrow> ep_sess st' = ep_sess st"
  by (auto elim!: with_conn_InrE)

lemma tunnel_step_ident: "tunnel_step st st' \<Longrightarrow> session_ident st' = session_ident st"
  by (erule tunnel_step.cases)
    (auto simp: insert_conn_def delete_conn_def do_close_at_def next_connID_def wsConn_WriteMessage_def Let_def
      dest: with_conn_sess split: option.splits)

lemma tunnel_steps_ident: "tunnel_steps st st' \<Longrightarrow> session_ident st' = session_ident st"
  by (induction rule: rtranclp_induct) (auto dest: tunnel_step_ident)

lemma session_serve_new:
  "\<exists>code err st1. session_serve e frames fin (new_endpoint i (newSession sessionKey clientKey)) = Inr ((code, err), st1) \<and>
     ep_inv st1 \<and> session_ident st1 = (clientKey, sessionKey)"
proof -
  let ?st = "new_endpoint i (newSession sessionKey clientKey)"
  have "ep_inv ?st" by (simp add: newSession_def)
  then obtain x st1 where "session_serve e frames fin ?st = Inr (x, st1)" "tunnel_steps ?st st1"
    by (rule safeE [OF safe_session_serve [of "{}"]]) auto
  with \<open>ep_inv ?st\<close> show ?thesis
    using ep_inv_steps tunnel_steps_ident [of ?st st1] by (cases x) (auto simp: new_endpoint_def newSession_def)
qed

lemma filter_key_fresh:
  assumes "\<forall>v\<in>set ss. v < length xs \<and> f (xs ! v) \<noteq> f x"
  shows "filter (\<lambda>v. f ((xs @ [x]) ! v) \<noteq> f ((xs @ [x]) ! length xs)) (ss @ [length xs]) = ss"
  using assms by (auto simp: nth_append filter_id_conv)

lemma sm_remove_last:
  assumes ends: "sv_ends sv = xs @ [st1]" and clients: "sv_clients sv = t(s_clientKey (ep_sess st1) := Some (ss @ [length xs]))"
    and t: "t (s_clientKey (ep_sess st1)) = (if ss = [] then None else Some ss)"
    and fresh: "\<forall>v\<in>set ss. v < length xs \<and> s_sessionKey (ep_sess (xs ! v)) \<noteq> s_sessionKey (ep_sess st1)"
    and id: "sv_idCounter sv = ep_idCounter st1" and close: "session_Close e st1 = Inr ((), st2)"
  shows "\<exists>sv'. sm_remove e (length xs) sv = Inr ((), sv') \<and> sv_clients sv' = t \<and> sv_ends sv' = xs @ [st2]"
proof -
  have "filter (\<lambda>v. session_key_at sv v \<noteq> session_key_at sv (length xs)) (client_sessions sv (s_clientKey (ep_sess st1))) = ss"
    using filter_key_fresh [of ss xs "\<lambda>st. s_sessionKey (ep_sess st)" st1] fresh
    by (simp only: session_key_at_def ends clients client_sessions_def fun_upd_same option.case)
  then have "sm_remove e (length xs) sv = on_session (length xs) (session_Close e) (sv\<lparr>sv_clients := t\<rparr>)"
    using t by (auto simp: sm_remove_def Let_def ends clients fun_upd_idem)
  moreover have "st1\<lparr>ep_idCounter := ep_idCounter st1\<rparr> = st1" by simp
  ultimately show ?thesis using close by (simp add: on_session_def ends id)
qed



section \<open>Admission\<close>

text \<open>A request that is not ready, not authorized or not upgraded is answered with an error and leaves no trace.\<close>

lemma ServeHTTP_rejects:
  assumes "\<not> ready \<or> isl auth \<or> \<not> snd (projr auth) \<or> upgrade \<noteq> None"
  shows "\<exists>code err. ServeHTTP e ready auth upgrade sessionKey frames fin sv = Inr (HttpError code err, sv)"
  using assms by (cases auth; cases upgrade) (auto simp: ServeHTTP_def)

text \<open>
  A session of the server has no authorizer, and no authorizer means that everything is allowed: a
  connect message that comes from an agent makes the server itself dial the address it names.
\<close>

lemma server_session_dials:
  assumes "newServerMessage r = Inr m" and "mg_type m = Connect" and "ep_sess st = newSession sessionKey clientKey"
  shows "\<exists>st'. serveMessage e r st = Inr (None, st') \<and> ep_dials st' = ep_dials st @ [(length (ep_heap st), m)]"
  using assms by (simp add: serveMessage_def tun_bind_def tun_get_def newSession_def clientConnect_def insert_conn_def tun_return_def Let_def)

text \<open>Dialling through a client: the oldest of its sessions is used, and without one nothing happens.\<close>

lemma getByClient_oldest: "HasSession clientKey sv \<Longrightarrow> getByClient clientKey (snd (sm_add clientKey k sv)) = getByClient clientKey sv"
  by (auto simp: HasSession_def getByClient_def sm_add_def client_sessions_def Let_def split: option.splits list.splits)

lemma HasSession_add: "HasSession clientKey (snd (sm_add clientKey k sv))"
  by (auto simp: HasSession_def getByClient_def sm_add_def client_sessions_def Let_def split: option.splits list.splits)

lemma Server_Dial_no_session:
  "\<not> HasSession clientKey sv \<Longrightarrow> \<exists>err. Server_Dial e clientKey d proto address sv = Inr (Inl err, sv)"
  by (auto simp: HasSession_def Server_Dial_def split: sum.splits)

text \<open>An agent, too, never panics on what the server sends, and leaves no connection behind in its table.\<close>

lemma connectToProxy_returns:
  "\<exists>err. connectToProxy e dialed onConnect auth frames fin i = Inr (err, None) \<or>
     (\<exists>st. connectToProxy e dialed onConnect auth frames fin i = Inr (err, Some st) \<and> s_conns (ep_sess st) = (\<lambda>_. None))"
proof (cases "dialed = None \<and> onConnect = None")
  case False
  then show ?thesis by (auto simp: connectToProxy_def split: option.splits)
next
  case True
  let ?st = "new_endpoint i (newClientSession auth)"
  have inv: "ep_inv ?st" by (simp add: newClientSession_def)
  obtain x st1 where 1: "session_serve e frames fin ?st = Inr (x, st1)" "tunnel_steps ?st st1"
    using inv by (rule safeE [OF safe_session_serve [of "{}"]]) auto
  obtain i w h where c: "close_all e (te_range e (s_conns (ep_sess st1))) st1 = Inr ((), st1\<lparr>ep_idCounter := i, ep_wire := w, ep_heap := h\<rparr>)"
    using close_all_effect [OF conjunct1 [OF ep_inv_steps [OF 1(2) inv]]] by blast
  then have "\<exists>st2. session_Close e st1 = Inr ((), st2) \<and> s_conns (ep_sess st2) = (\<lambda>_. None)"
    by (simp add: session_Close_def tun_bind_def tun_get_def)
  then show ?thesis using True 1(1) by (cases x) (auto simp: connectToProxy_def)
qed

end
