(* ===== verification/Auth_Tokens.thy ===== *)
theory Auth_Tokens
  imports Authn_Types Go_Http
begin

text \<open>
  Authentication by tokens: \<open>src/pkg/auth/tokens\<close> (making, listing and deleting tokens, the
  purge of expired ones), \<open>src/pkg/auth/requests\<close> (the filter that turns a token into the
  impersonation headers the access control reads) and the controller that dates tokens
  (\<open>src/pkg/controllers/management/auth/token.go\<close>).

  The API server is a store of tokens; each request to it may fail, and the cache of the informer
  may lag behind.  The clock, the random key and the name the server generates are fields of the
  state.  \<open>Duration.Seconds\<close> is taken as exact.
\<close>

section \<open>State and requests\<close>

datatype token_call = TokGet string | TokCreate | TokUpdate string | TokDelete string | TokList

record token_server =
  ts_store :: "token list"
  ts_cache :: "token list"
  ts_fail :: "token_call \<Rightarrow> api_error option"
  ts_now :: int
  ts_random :: "string result"
  ts_newName :: string

record http_request =
  rq_header :: http_header
  rq_cookies :: "(string \<times> string) list"
  rq_https :: bool

definition CookieName :: string where "CookieName = ''R_SESS''"
definition AuthHeaderName :: string where "AuthHeaderName = ''Authorization''"
definition AuthValuePrefix :: string where "AuthValuePrefix = ''Bearer''"
definition BasicAuthPrefix :: string where "BasicAuthPrefix = ''Basic''"
definition UserIDLabel :: string where "UserIDLabel = ''authn.management.cattle.io/token-userId''"
definition tokenKeyIndex :: string where "tokenKeyIndex = ''authn.management.cattle.io/token-key-index''"

definition principal0 :: principal where
  "principal0 = \<lparr>prin_name = [], prin_displayName = [], prin_loginName = [], prin_principalType = [], prin_provider = [],
     prin_me = False, prin_memberOf = False\<rparr>"

definition token0 :: token where
  "token0 = \<lparr>tk_meta = meta0, tk_creationTimestamp = 0, tk_token = [], tk_userPrincipal = principal0, tk_groupPrincipals = [],
     tk_providerInfo = [], tk_userID = [], tk_authProvider = [], tk_ttlMillis = 0, tk_lastUpdateTime = [], tk_isDerived = False,
     tk_description = [], tk_expired = False, tk_expiresAt = []\<rparr>"

text \<open>The client of the API server.\<close>

definition tokens_Get :: "token_server \<Rightarrow> string \<Rightarrow> token result" where
  "tokens_Get s name = (case ts_fail s (TokGet name) of
     Some e \<Rightarrow> Inl (Api e)
   | None \<Rightarrow> (case find (\<lambda>t. tk_name t = name) (ts_store s) of None \<Rightarrow> Inl (Api NotFound) | Some t \<Rightarrow> Inr t))"

definition tokens_Create :: "token \<Rightarrow> token_server \<Rightarrow> token result \<times> token_server" where
  "tokens_Create t s = (case ts_fail s TokCreate of
     Some e \<Rightarrow> (Inl (Api e), s)
   | None \<Rightarrow>
       (let t = t\<lparr>tk_meta := (tk_meta t)\<lparr>om_name := om_generateName (tk_meta t) @ ts_newName s\<rparr>, tk_creationTimestamp := ts_now s\<rparr> in
        (Inr t, s\<lparr>ts_store := ts_store s @ [t]\<rparr>)))"

definition tokens_Update :: "token \<Rightarrow> token_server \<Rightarrow> token result \<times> token_server" where
  "tokens_Update t s = (case ts_fail s (TokUpdate (tk_name t)) of
     Some e \<Rightarrow> (Inl (Api e), s)
   | None \<Rightarrow>
       if list_ex (\<lambda>u. tk_name u = tk_name t) (ts_store s)
       then (Inr t, s\<lparr>ts_store := map (\<lambda>u. if tk_name u = tk_name t then t else u) (ts_store s)\<rparr>)
       else (Inl (Api NotFound), s))"

definition tokens_Delete :: "string \<Rightarrow> token_server \<Rightarrow> unit result \<times> token_server" where
  "tokens_Delete name s = (case ts_fail s (TokDelete name) of
     Some e \<Rightarrow> (Inl (Api e), s)
   | None \<Rightarrow>
       if list_ex (\<lambda>u. tk_name u = name) (ts_store s)
       then (Inr (), s\<lparr>ts_store := filter (\<lambda>u. tk_name u \<noteq> name) (ts_store s)\<rparr>)
       else (Inl (Api NotFound), s))"

definition tokens_List :: "token_server \<Rightarrow> string \<times> string \<Rightarrow> token list result" where
  "tokens_List s sel = (case ts_fail s TokList of
     Some e \<Rightarrow> Inl (Api e)
   | None \<Rightarrow> Inr (filter (\<lambda>t. map_of (om_labels (tk_meta t)) (fst sel) = Some (snd sel)) (ts_store s)))"

section \<open>Token values\<close>

definition colon_slashes :: string where "colon_slashes = ''://''"

text \<open>\<open>strings.Split(s, "://")[0]\<close>.\<close>

fun before :: "string \<Rightarrow> string \<Rightarrow> string" where
  "before sep [] = []"
| "before sep (c # cs) = (if prefix sep (c # cs) then [] else c # before sep cs)"

definition getAuthProviderName :: "string \<Rightarrow> string" where
  "getAuthProviderName principalID = split_all CHR ''_'' (before colon_slashes principalID) ! 0"

definition SplitTokenParts :: "string \<Rightarrow> string \<times> string" where
  "SplitTokenParts tokenID = (let parts = split_all CHR '':'' tokenID in
     if length parts \<noteq> 2 then (parts ! 0, []) else (parts ! 0, parts ! 1))"

definition SetTokenExpiresAt :: "(int \<Rightarrow> string) \<Rightarrow> token \<Rightarrow> token" where
  "SetTokenExpiresAt rfc3339 t = (if tk_ttlMillis t \<noteq> 0
     then t\<lparr>tk_expiresAt := rfc3339 (tk_creationTimestamp t + sint (millis (tk_ttlMillis t)))\<rparr> else t)"

definition IsExpired :: "int \<Rightarrow> token \<Rightarrow> bool" where
  "IsExpired now t = (if tk_ttlMillis t = 0 then False
     else sint (time_sub now (tk_creationTimestamp t)) \<ge> sint (millis (tk_ttlMillis t)))"

definition GetTokenAuthFromRequest :: "http_request \<Rightarrow> string" where
  "GetTokenAuthFromRequest req =
     (let authHeader = trim_space (hdr_get (rq_header req) AuthHeaderName) in
      if authHeader \<noteq> [] then
        (let parts = splitn2 CHR '' '' authHeader in
         if equal_fold (parts ! 0) AuthValuePrefix then
           (if length parts > 1 then trim_space (parts ! 1) else [])
         else if equal_fold (parts ! 0) BasicAuthPrefix then
           (if length parts > 1 then
              (case b64_decode (trim_space (parts ! 1)) of None \<Rightarrow> [] | Some data \<Rightarrow> data)
            else [])
         else [])
      else (case map_of (rq_cookies req) CookieName of None \<Rightarrow> [] | Some v \<Rightarrow> v))"

section \<open>The token server\<close>

definition tokenKeyIndexer :: "token \<Rightarrow> string list" where
  "tokenKeyIndexer t = [tk_token t]"

definition token_ByIndex :: "token_server \<Rightarrow> string \<Rightarrow> string \<Rightarrow> token list result" where
  "token_ByIndex s = by_index [(tokenKeyIndex, tokenKeyIndexer)] (ts_cache s)"

definition createK8sTokenCR :: "token \<Rightarrow> token_server \<Rightarrow> token result \<times> token_server" where
  "createK8sTokenCR k8sToken s = (case ts_random s of
     Inl err \<Rightarrow> (Inl (Err ''failed to generate token key''), s)
   | Inr key \<Rightarrow>
       tokens_Create (k8sToken\<lparr>tk_token := key,
         tk_meta := meta0\<lparr>om_generateName := ''token-'', om_labels := [(UserIDLabel, tk_userID k8sToken)],
           om_apiVersion := ''management.cattle.io/v3'', om_kind := ''Token''\<rparr>\<rparr>) s)"

definition updateK8sTokenCR :: "token \<Rightarrow> token_server \<Rightarrow> token result \<times> token_server" where
  "updateK8sTokenCR t s = tokens_Update t s"

text \<open>
  \<open>getK8sTokenCR\<close>: the token, or a status and an error, with the token itself when it is the
  right one but has expired.
\<close>

definition check_token :: "token_server \<Rightarrow> string \<Rightarrow> string \<Rightarrow> token \<Rightarrow> (token option \<times> nat \<times> go_error) + token" where
  "check_token s tokenName tokenKey storedToken =
     (if tk_token storedToken \<noteq> tokenKey \<or> tk_name storedToken \<noteq> tokenName
      then Inl (None, 0, Err ''Invalid auth token value'')
      else if IsExpired (ts_now s) storedToken then Inl (Some storedToken, 410, Err ''Auth Token has expired'')
      else Inr storedToken)"

definition getK8sTokenCR :: "token_server \<Rightarrow> string \<Rightarrow> (token option \<times> nat \<times> go_error) + token" where
  "getK8sTokenCR s tokenAuthValue = (case SplitTokenParts tokenAuthValue of (tokenName, tokenKey) \<Rightarrow>
     (let client = (case tokens_Get s tokenName of
            Inl err \<Rightarrow> Inl (None, 404, Wrap ''failed to retrieve auth token'' err)
          | Inr t \<Rightarrow> check_token s tokenName tokenKey t) in
      (case token_ByIndex s tokenKeyIndex tokenKey of
         Inl err \<Rightarrow> if is_not_found err then client
                    else Inl (None, 0, Wrap ''failed to retrieve auth token from cache'' err)
       | Inr [] \<Rightarrow> client
       | Inr (t # _) \<Rightarrow> check_token s tokenName tokenKey t)))"

definition createDerivedToken :: "token \<Rightarrow> string \<Rightarrow> token_server \<Rightarrow> ((nat \<times> go_error) + token) \<times> token_server" where
  "createDerivedToken jsonInput tokenAuthValue s = (case getK8sTokenCR s tokenAuthValue of
     Inl (_, _, err) \<Rightarrow> (Inl (401, err), s)
   | Inr t \<Rightarrow>
       (case createK8sTokenCR (token0\<lparr>tk_userPrincipal := tk_userPrincipal t, tk_groupPrincipals := tk_groupPrincipals t,
          tk_isDerived := True, tk_ttlMillis := tk_ttlMillis jsonInput, tk_userID := tk_userID t,
          tk_authProvider := tk_authProvider t, tk_providerInfo := tk_providerInfo t,
          tk_description := tk_description jsonInput\<rparr>) s of
          (Inl err, s) \<Rightarrow> (Inl (0, err), s)
        | (Inr rToken, s) \<Rightarrow> (Inr rToken, s)))"

definition mark_expired :: "token_server \<Rightarrow> token \<Rightarrow> token" where
  "mark_expired s t = (if IsExpired (ts_now s) t then t\<lparr>tk_expired := True\<rparr> else t)"

definition getTokens :: "token_server \<Rightarrow> string \<Rightarrow> (nat \<times> go_error) + token list" where
  "getTokens s tokenAuthValue = (case getK8sTokenCR s tokenAuthValue of
     Inl (_, _, err) \<Rightarrow> Inl (401, err)
   | Inr storedToken \<Rightarrow>
       (case tokens_List s (UserIDLabel, tk_userID storedToken) of
          Inl err \<Rightarrow> Inl (0, Wrap ''error getting tokens for user'' err)
        | Inr items \<Rightarrow> Inr (map (mark_expired s) items)))"

definition deleteTokenByName :: "string \<Rightarrow> token_server \<Rightarrow> (nat \<times> go_error) option \<times> token_server" where
  "deleteTokenByName tokenName s = (case tokens_Delete tokenName s of
     (Inl err, s) \<Rightarrow> (if is_not_found err then None else Some (500, Err ''failed to delete token''), s)
   | (Inr _, s) \<Rightarrow> (None, s))"

definition deleteToken :: "string \<Rightarrow> token_server \<Rightarrow> (nat \<times> go_error) option \<times> token_server" where
  "deleteToken tokenAuthValue s = (case getK8sTokenCR s tokenAuthValue of
     Inl (storedToken, status, err) \<Rightarrow>
       if status = 404 then (None, s)
       else if status \<noteq> 410 then (Some (401, err), s)
       else (case storedToken of
           None \<Rightarrow> (Some (0, Panic ''nil dereference''), s)
         | Some t \<Rightarrow> deleteTokenByName (tk_name t) s)
   | Inr t \<Rightarrow> deleteTokenByName (tk_name t) s)"

definition getTokenByID :: "token_server \<Rightarrow> string \<Rightarrow> string \<Rightarrow> (nat \<times> go_error) + token" where
  "getTokenByID s tokenAuthValue tokenID = (case getK8sTokenCR s tokenAuthValue of
     Inl (_, _, err) \<Rightarrow> Inl (401, err)
   | Inr storedToken \<Rightarrow>
       (case tokens_Get s tokenID of
          Inl err \<Rightarrow> Inl (404, err)
        | Inr t \<Rightarrow>
            if tk_userID t \<noteq> tk_userID storedToken then Inl (404, Err (tokenID @ '' not found''))
            else Inr (mark_expired s t)))"

section \<open>Login tokens\<close>

definition NewLoginToken :: "string \<Rightarrow> principal \<Rightarrow> principal list \<Rightarrow> (string, string) gomap \<Rightarrow> 64 word \<Rightarrow> string \<Rightarrow>
    token_server \<Rightarrow> token result \<times> token_server" where
  "NewLoginToken userID userPrincipal groupPrincipals providerInfo ttl description s =
     createK8sTokenCR (token0\<lparr>tk_userPrincipal := userPrincipal, tk_groupPrincipals := groupPrincipals, tk_isDerived := False,
       tk_ttlMillis := ttl, tk_userID := userID, tk_authProvider := getAuthProviderName (prin_name userPrincipal),
       tk_providerInfo := providerInfo, tk_description := description\<rparr>) s"

definition UpateLoginToken :: "token \<Rightarrow> token_server \<Rightarrow> token result \<times> token_server" where
  "UpateLoginToken t s = updateK8sTokenCR t s"

definition token_value :: "token \<Rightarrow> string" where
  "token_value t = tk_name t @ '':'' @ tk_token t"

text \<open>The cookie it sets: value and whether it is secure.\<close>

definition CreateTokenAndSetCookie :: "string \<Rightarrow> principal \<Rightarrow> principal list \<Rightarrow> (string, string) gomap \<Rightarrow> 64 word \<Rightarrow> string \<Rightarrow>
    http_request \<Rightarrow> token_server \<Rightarrow> ((nat \<times> go_error) + string \<times> bool) \<times> token_server" where
  "CreateTokenAndSetCookie userID userPrincipal groupPrincipals providerInfo ttl description request s =
     (case NewLoginToken userID userPrincipal groupPrincipals providerInfo 0 description s of
        (Inl err, s) \<Rightarrow> (Inl (500, Wrap ''Failed creating token with error'' err), s)
      | (Inr t, s) \<Rightarrow> (Inr (token_value t, rq_https request), s))"

section \<open>The purge\<close>

fun purge_loop :: "token list \<Rightarrow> token_server \<Rightarrow> token_server" where
  "purge_loop [] s = s"
| "purge_loop (t # ts) s =
     (if IsExpired (ts_now s) t then purge_loop ts (snd (tokens_Delete (tk_name t) s)) else purge_loop ts s)"

definition purge :: "token_server \<Rightarrow> token_server" where
  "purge s = purge_loop (ts_cache s) s"

section \<open>Authenticating a request\<close>

definition must_authenticate :: go_error where
  "must_authenticate = Err ''must authenticate''"

definition TokenFromRequest :: "token_server \<Rightarrow> http_request \<Rightarrow> token result" where
  "TokenFromRequest s req =
     (let tokenAuthValue = GetTokenAuthFromRequest req in
      if tokenAuthValue = [] then Inl must_authenticate
      else (case SplitTokenParts tokenAuthValue of (tokenName, tokenKey) \<Rightarrow>
        if tokenName = [] \<or> tokenKey = [] then Inl must_authenticate
        else (let check = (\<lambda>storedToken.
                if tk_token storedToken \<noteq> tokenKey \<or> tk_name storedToken \<noteq> tokenName then Inl must_authenticate
                else if IsExpired (ts_now s) storedToken then Inl must_authenticate
                else Inr storedToken);
              client = (case tokens_Get s tokenName of
                Inl err \<Rightarrow> if is_not_found err then Inl must_authenticate
                           else Inl (Wrap ''failed to retrieve auth token'' err)
              | Inr t \<Rightarrow> check t) in
          (case token_ByIndex s tokenKeyIndex tokenKey of
             Inl err \<Rightarrow> if is_not_found err then client
                        else Inl (Wrap ''failed to retrieve auth token from cache'' err)
           | Inr [] \<Rightarrow> client
           | Inr (t # _) \<Rightarrow> check t))))"

definition Authenticate :: "token_server \<Rightarrow> http_request \<Rightarrow> (bool \<times> string \<times> string list) result" where
  "Authenticate s req = (case TokenFromRequest s req of
     Inl err \<Rightarrow> Inl err
   | Inr t \<Rightarrow> Inr (True, tk_userID t, map (\<lambda>p. trim_prefix (prin_name p) ''local://'') (tk_groupPrincipals t)))"

text \<open>The filter: an answer with status 401, or the request that goes on to the next handler.\<close>

definition authHeaderHandler_ServeHTTP :: "token_server \<Rightarrow> http_request \<Rightarrow> (nat \<times> go_error) + http_request" where
  "authHeaderHandler_ServeHTTP s req = (case Authenticate s req of
     Inl err \<Rightarrow> Inl (401, err)
   | Inr (authed, user, groups) \<Rightarrow>
       if \<not> authed then Inl (401, Panic ''nil error'')
       else (let h = hdr_set ''Impersonate-User'' user (rq_header req);
                 h = hdr_del ''Impersonate-Group'' h;
                 h = fold (hdr_add ''Impersonate-Group'') groups h in
             Inr (req\<lparr>rq_header := h\<rparr>)))"

section \<open>Handlers of the API\<close>

text \<open>
  What a handler does: it writes a response, or it returns an error of the API with its status and
  code, or any other error.  \<open>conv\<close> is the mapper of the schema, which turns a token into
  what is shown.
\<close>

datatype 'd answer = Written nat 'd | ApiFailure nat string go_error | Failure go_error

definition GetHTTPErrorCode :: "nat \<Rightarrow> string" where
  "GetHTTPErrorCode httpStatus = (if httpStatus = 401 then ''Unauthorized'' else if httpStatus = 404 then ''NotFound''
     else if httpStatus = 403 then ''PermissionDenied'' else ''ServerError'')"

definition api_failure :: "nat \<Rightarrow> go_error \<Rightarrow> 'd answer" where
  "api_failure status err = (let status = (if status = 0 then 500 else status) in ApiFailure status (GetHTTPErrorCode status) err)"

definition no_token :: "'d answer" where
  "no_token = ApiFailure 401 (GetHTTPErrorCode 401) (Err ''No valid token cookie or auth header'')"

definition deriveToken :: "(token \<Rightarrow> 'd result) \<Rightarrow> http_request \<Rightarrow> token \<Rightarrow> token_server \<Rightarrow> ('d \<times> string) answer \<times> token_server" where
  "deriveToken conv r jsonInput s =
     (let tokenAuthValue = GetTokenAuthFromRequest r in
      if tokenAuthValue = [] then (no_token, s)
      else (case createDerivedToken jsonInput tokenAuthValue s of
          (Inl (status, err), s) \<Rightarrow> (api_failure status err, s)
        | (Inr t, s) \<Rightarrow> (case conv t of Inl err \<Rightarrow> Failure err | Inr tokenData \<Rightarrow> Written 201 (tokenData, token_value t), s)))"

text \<open>
  The list it answers with starts as \<open>make([]map[string]interface{}, len(tokens))\<close>: as many
  \<open>nil\<close> entries as there are tokens.
\<close>

fun convert_all :: "(token \<Rightarrow> 'd result) \<Rightarrow> token list \<Rightarrow> 'd option list \<Rightarrow> 'd option list result" where
  "convert_all conv [] out = Inr out"
| "convert_all conv (t # ts) out = (case conv t of Inl err \<Rightarrow> Inl err | Inr d \<Rightarrow> convert_all conv ts (out @ [Some d]))"

definition listTokens :: "(token \<Rightarrow> 'd result) \<Rightarrow> http_request \<Rightarrow> token_server \<Rightarrow> 'd option list answer" where
  "listTokens conv r s =
     (let tokenAuthValue = GetTokenAuthFromRequest r in
      if tokenAuthValue = [] then no_token
      else (case getTokens s tokenAuthValue of
          Inl (status, err) \<Rightarrow> api_failure status err
        | Inr tokens \<Rightarrow>
            (case convert_all conv tokens (replicate (length tokens) None) of
               Inl err \<Rightarrow> Failure err
             | Inr tokensFromStore \<Rightarrow> Written 200 tokensFromStore)))"

definition logout :: "http_request \<Rightarrow> token_server \<Rightarrow> unit answer \<times> token_server" where
  "logout r s =
     (let tokenAuthValue = GetTokenAuthFromRequest r in
      if tokenAuthValue = [] then (no_token, s)
      else (case deleteToken tokenAuthValue s of
          (Some (status, err), s) \<Rightarrow> (api_failure status err, s)
        | (None, s) \<Rightarrow> (Written 200 (), s)))"

definition getToken :: "(token \<Rightarrow> 'd result) \<Rightarrow> http_request \<Rightarrow> string \<Rightarrow> token_server \<Rightarrow> 'd answer" where
  "getToken conv r tokenID s =
     (let tokenAuthValue = GetTokenAuthFromRequest r in
      if tokenAuthValue = [] then no_token
      else (case getTokenByID s tokenAuthValue tokenID of
          Inl (status, err) \<Rightarrow> api_failure (if status = 410 then 404 else status) err
        | Inr t \<Rightarrow> (case conv t of Inl err \<Rightarrow> Failure err | Inr tokenData \<Rightarrow> Written 200 tokenData)))"

definition removeToken_found :: "string \<Rightarrow> token \<Rightarrow> token_server \<Rightarrow> unit answer \<times> token_server" where
  "removeToken_found tokenAuthValue t s = (case getK8sTokenCR s tokenAuthValue of
     Inl (_, _, err) \<Rightarrow> (Failure err, s)
   | Inr currentAuthToken \<Rightarrow>
       if tk_name currentAuthToken = tk_name t \<and> \<not> tk_isDerived currentAuthToken
       then (ApiFailure 400 (GetHTTPErrorCode 400) (Err ''Cannot delete token for current session. Use logout instead''), s)
       else (case deleteTokenByName (tk_name t) s of
           (Some (_, err), s) \<Rightarrow> (Failure err, s)
         | (None, s) \<Rightarrow> (Written 204 (), s)))"

definition removeToken :: "http_request \<Rightarrow> string \<Rightarrow> token_server \<Rightarrow> unit answer \<times> token_server" where
  "removeToken r tokenID s =
     (let tokenAuthValue = GetTokenAuthFromRequest r in
      if tokenAuthValue = [] then (no_token, s)
      else (case getTokenByID s tokenAuthValue tokenID of
          Inl (status, err) \<Rightarrow> if status \<noteq> 410 then (api_failure status err, s) else removeToken_found tokenAuthValue token0 s
        | Inr t \<Rightarrow> removeToken_found tokenAuthValue t s))"

definition tokenListHandler :: "(token \<Rightarrow> 'd result) \<Rightarrow> http_request \<Rightarrow> string \<Rightarrow> token_server \<Rightarrow> 'd answer + 'd option list answer" where
  "tokenListHandler conv r tokenID s = (if tokenID \<noteq> [] then Inl (getToken conv r tokenID s) else Inr (listTokens conv r s))"

definition tokenActionHandler :: "string \<Rightarrow> http_request \<Rightarrow> token_server \<Rightarrow> unit answer \<times> token_server" where
  "tokenActionHandler actionName r s = (if actionName = ''logout'' then logout r s
     else (ApiFailure 404 ''ActionNotAvailable'' (Err []), s))"

section \<open>The token controller\<close>

definition TokenController_sync :: "(int \<Rightarrow> string) \<Rightarrow> token option \<Rightarrow> token_server \<Rightarrow> go_error option \<times> token_server" where
  "TokenController_sync rfc3339 obj s = (case obj of
     None \<Rightarrow> (None, s)
   | Some t \<Rightarrow>
       if om_deleting (tk_meta t) then (None, s)
       else if tk_ttlMillis t \<noteq> 0 \<and> tk_expiresAt t = [] then
         (case tokens_Update (SetTokenExpiresAt rfc3339 t) s of (Inl err, s) \<Rightarrow> (Some err, s) | (Inr _, s) \<Rightarrow> (None, s))
       else (None, s))"

end
