(* ===== verification/Auth_Props.thy ===== *)
theory Auth_Props
  imports Auth_Tokens
begin

text \<open>
  What authentication by tokens guarantees: which requests pass the filter and as whom, that a
  token that was issued works, when a token expires, and whose tokens a user can reach.
\<close>

section \<open>Token values\<close>

lemma split_all_two: "split_all c s = [a, b] \<Longrightarrow> s = a @ c # b \<and> c \<notin> set a \<and> c \<notin> set b"
proof (induction s arbitrary: a)
  case (Cons x s)
  show ?case
  proof (cases "x = c")
    case True
    with Cons.prems have "a = []" "split_all c s = [b]" by auto
    moreover have "split_all c t = [u] \<Longrightarrow> t = u \<and> c \<notin> set u" for t u
      by (induction t arbitrary: u) (auto split: if_splits list.splits)
    ultimately show ?thesis using True by auto
  next
    case False
    with Cons.prems obtain a' where "split_all c s = [a', b]" "a = x # a'"
      by (cases "split_all c s") auto
    with Cons.IH False show ?thesis by auto
  qed
qed simp

lemma SplitTokenParts_value: "SplitTokenParts v = (name, key) \<Longrightarrow> key \<noteq> [] \<Longrightarrow> v = name @ '':'' @ key"
proof -
  assume s: "SplitTokenParts v = (name, key)" and k: "key \<noteq> []"
  then have "length (split_all CHR '':'' v) = 2" by (auto simp: SplitTokenParts_def Let_def split: if_splits)
  then obtain a b where ab: "split_all CHR '':'' v = [a, b]" by (auto simp: numeral_2_eq_2 length_Suc_conv)
  with s have "a = name" "b = key" by (auto simp: SplitTokenParts_def)
  with split_all_two [OF ab] show ?thesis by simp
qed

lemma SplitTokenParts_token_value:
  assumes "CHR '':'' \<notin> set (tk_name t)" and "CHR '':'' \<notin> set (tk_token t)"
  shows "SplitTokenParts (token_value t) = (tk_name t, tk_token t)"
  using assms by (simp add: SplitTokenParts_def token_value_def split_all_append_sep split_all_no_sep)

lemma token_ByIndex_key: "token_ByIndex s tokenKeyIndex key = Inr (filter (\<lambda>t. tk_token t = key) (ts_cache s))"
  by (simp add: token_ByIndex_def by_index_def tokenKeyIndexer_def eq_commute)

lemma tokens_Get_store: "tokens_Get s name = Inr t \<Longrightarrow> t \<in> set (ts_store s) \<and> tk_name t = name"
  by (auto simp: tokens_Get_def find_Some_iff split: option.splits)

section \<open>Who passes the filter\<close>

text \<open>A token the server knows, from its cache or from the API server.\<close>

definition known_token :: "token_server \<Rightarrow> token \<Rightarrow> bool" where
  "known_token s t \<longleftrightarrow> t \<in> set (ts_cache s) \<or> t \<in> set (ts_store s)"

lemma TokenFromRequest_sound:
  assumes "TokenFromRequest s req = Inr t"
  shows "known_token s t \<and> GetTokenAuthFromRequest req = token_value t \<and> tk_name t \<noteq> [] \<and> tk_token t \<noteq> [] \<and>
    \<not> IsExpired (ts_now s) t"
proof -
  obtain name key where parts: "SplitTokenParts (GetTokenAuthFromRequest req) = (name, key)" by (rule prod.exhaust)
  with assms have ne: "name \<noteq> []" "key \<noteq> []" by (auto simp: TokenFromRequest_def Let_def split: if_splits)
  have "known_token s t \<and> tk_token t = key \<and> tk_name t = name \<and> \<not> IsExpired (ts_now s) t"
  proof (cases "filter (\<lambda>t. tk_token t = key) (ts_cache s)")
    case Nil
    then show ?thesis
      using assms parts ne by (auto simp: TokenFromRequest_def Let_def token_ByIndex_key known_token_def
          dest: tokens_Get_store split: if_splits sum.splits)
  next
    case (Cons u us)
    then have "u \<in> set (ts_cache s)" by (metis filter_is_subset list.set_intros(1) subsetD)
    with Cons show ?thesis
      using assms parts ne by (auto simp: TokenFromRequest_def Let_def token_ByIndex_key known_token_def split: if_splits)
  qed
  moreover from parts ne(2) have "GetTokenAuthFromRequest req = name @ '':'' @ key" by (rule SplitTokenParts_value)
  ultimately show ?thesis using ne by (auto simp: token_value_def)
qed

definition token_groups :: "token \<Rightarrow> string list" where
  "token_groups t = map (\<lambda>p. trim_prefix (prin_name p) ''local://'') (tk_groupPrincipals t)"

lemma authHeaderHandler_Inr:
  assumes "authHeaderHandler_ServeHTTP s req = Inr req'"
  obtains t where "TokenFromRequest s req = Inr t" "hdr_values (rq_header req') ''Impersonate-User'' = [tk_userID t]"
    "hdr_values (rq_header req') ''Impersonate-Group'' = token_groups t"
    "\<forall>k. k \<noteq> ''Impersonate-User'' \<longrightarrow> k \<noteq> ''Impersonate-Group'' \<longrightarrow> hdr_values (rq_header req') k = hdr_values (rq_header req) k"
  using assms by (auto simp: authHeaderHandler_ServeHTTP_def Authenticate_def Let_def hdr_values_fold_add token_groups_def
      split: sum.splits)

text \<open>
  C7. A request passes the authentication filter only with the name and the secret key of one and
  the same token that the server knows and that has not expired, and it goes on as exactly the
  user and the groups of that token: whatever impersonation headers the requester sent are
  replaced, and no other header changes.
\<close>

theorem authHeaderHandler_sound:
  assumes "authHeaderHandler_ServeHTTP s req = Inr req'"
  shows "\<exists>t. known_token s t \<and> GetTokenAuthFromRequest req = tk_name t @ '':'' @ tk_token t \<and> tk_token t \<noteq> [] \<and>
    \<not> IsExpired (ts_now s) t \<and> hdr_values (rq_header req') ''Impersonate-User'' = [tk_userID t] \<and>
    hdr_values (rq_header req') ''Impersonate-Group'' = token_groups t \<and>
    (\<forall>k. k \<noteq> ''Impersonate-User'' \<longrightarrow> k \<noteq> ''Impersonate-Group'' \<longrightarrow> hdr_values (rq_header req') k = hdr_values (rq_header req) k)"
proof -
  obtain t where t: "TokenFromRequest s req = Inr t" "hdr_values (rq_header req') ''Impersonate-User'' = [tk_userID t]"
      "hdr_values (rq_header req') ''Impersonate-Group'' = token_groups t"
      "\<forall>k. k \<noteq> ''Impersonate-User'' \<longrightarrow> k \<noteq> ''Impersonate-Group'' \<longrightarrow> hdr_values (rq_header req') k = hdr_values (rq_header req) k"
    using assms by (rule authHeaderHandler_Inr)
  with TokenFromRequest_sound [OF t(1)] show ?thesis unfolding token_value_def by blast
qed

section \<open>Tokens that were issued\<close>

text \<open>
  The keys of \<open>src/pkg/randomtoken\<close>: 54 characters, each chosen by a random number below
  the number of characters.  \<open>rand i\<close> is the answer of the \<open>i\<close>-th call to the
  source of random numbers.
\<close>

definition token_characters :: string where
  "token_characters = ''bcdfghjklmnpqrstvwxz2456789''"

definition tokenLength :: nat where
  "tokenLength = 54"

fun Generate_loop :: "(nat \<Rightarrow> nat result) \<Rightarrow> nat list \<Rightarrow> string \<Rightarrow> string result" where
  "Generate_loop rand [] token = Inr token"
| "Generate_loop rand (i # is) token = (case rand i of
     Inl err \<Rightarrow> Inl err
   | Inr r \<Rightarrow> Generate_loop rand is (token[i := token_characters ! r]))"

definition Generate :: "(nat \<Rightarrow> nat result) \<Rightarrow> string result" where
  "Generate rand = Generate_loop rand [0..<tokenLength] (replicate tokenLength (CHR 0x00))"

definition generated_key :: "string \<Rightarrow> bool" where
  "generated_key key \<longleftrightarrow> length key = tokenLength \<and> list_all (\<lambda>c. c \<in> set token_characters) key"

lemma Generate_loop_Inr:
  assumes "Generate_loop rand [i..<n] token = Inr key" and "\<forall>i r. rand i = Inr r \<longrightarrow> r < length token_characters"
    and "length token = n" and "\<forall>j<i. token ! j \<in> set token_characters" and "i \<le> n"
  shows "length key = n \<and> (\<forall>j<n. key ! j \<in> set token_characters)"
  using assms
proof (induction "n - i" arbitrary: i token)
  case (Suc k)
  then have up: "[i..<n] = i # [Suc i..<n]" by (simp add: upt_conv_Cons)
  then obtain r where r: "rand i = Inr r" and go: "Generate_loop rand [Suc i..<n] (token[i := token_characters ! r]) = Inr key"
    using Suc.prems(1) by (auto split: sum.splits)
  have c: "token_characters ! r \<in> set token_characters" using r Suc.prems(2) by simp
  have upd: "token[i := token_characters ! r] ! j \<in> set token_characters" if "j < Suc i" for j
    using that c Suc.prems(3,4,5) Suc.hyps(2) by (cases "j = i") (auto simp: nth_list_update)
  show ?case
    by (rule Suc.hyps(1) [OF _ go Suc.prems(2)]) (use Suc.hyps(2) Suc.prems(3) upd in auto)
qed auto

lemma Generate_key:
  assumes "Generate rand = Inr key" and "\<forall>i r. rand i = Inr r \<longrightarrow> r < length token_characters"
  shows "generated_key key"
  using Generate_loop_Inr [OF assms(1) [unfolded Generate_def] assms(2)]
  by (auto simp: generated_key_def list_all_length)

lemma generated_key_chars:
  assumes "generated_key key"
  shows "key \<noteq> []" "CHR '':'' \<notin> set key" "list_all (\<lambda>c. \<not> is_space c) key"
proof -
  have "list_all (\<lambda>c. c \<noteq> CHR '':'' \<and> \<not> is_space c) token_characters" by code_simp
  then show "CHR '':'' \<notin> set key" "list_all (\<lambda>c. \<not> is_space c) key"
    using assms unfolding generated_key_def list_all_iff by blast+
  show "key \<noteq> []" using assms by (auto simp: generated_key_def tokenLength_def)
qed

text \<open>The three ways to present a token.\<close>

definition present_cookie :: "string \<Rightarrow> http_request" where
  "present_cookie v = \<lparr>rq_header = [], rq_cookies = [(CookieName, v)], rq_https = True\<rparr>"

definition present_header :: "string \<Rightarrow> http_request" where
  "present_header v = \<lparr>rq_header = [(AuthHeaderName, [v])], rq_cookies = [], rq_https = True\<rparr>"

abbreviation no_space :: "string \<Rightarrow> bool" where
  "no_space v \<equiv> list_all (\<lambda>c. \<not> is_space c) v"

lemma trim_space_prefix:
  assumes "no_space p" and "p \<noteq> []" and "no_space v" and "v \<noteq> []"
  shows "trim_space (p @ '' '' @ v) = p @ '' '' @ v"
proof -
  obtain x xs where p: "p = x # xs" "\<not> is_space x" using assms(1,2) by (cases p) auto
  obtain y ys where v: "v = ys @ [y]" "\<not> is_space y" using assms(3,4) by (cases v rule: rev_cases) auto
  have "dropWhile is_space (p @ '' '' @ v) = p @ '' '' @ v" using p by simp
  moreover have "dropWhile is_space (rev (p @ '' '' @ v)) = rev (p @ '' '' @ v)" using v by simp
  ultimately show ?thesis unfolding trim_space_def by (simp only: rev_rev_ident)
qed

lemma Get_present_cookie: "GetTokenAuthFromRequest (present_cookie v) = v"
  by (simp add: GetTokenAuthFromRequest_def present_cookie_def hdr_get_def hdr_values_def trim_space_def Let_def)

lemma Get_present_header:
  assumes "no_space p" and "p \<noteq> []" and "no_space v" and "v \<noteq> []"
  shows "GetTokenAuthFromRequest (present_header (p @ '' '' @ v)) =
    (if equal_fold p AuthValuePrefix then v
     else if equal_fold p BasicAuthPrefix then (case b64_decode v of None \<Rightarrow> [] | Some data \<Rightarrow> data) else [])"
proof -
  have "CHR '' '' \<notin> set p" using assms(1) by (auto simp: list_all_iff is_space_def)
  then have "splitn2 CHR '' '' (p @ '' '' @ v) = [p, v]" using splitn2_append [of "CHR '' ''" p v] by simp
  moreover have "hdr_get (rq_header (present_header (p @ '' '' @ v))) AuthHeaderName = p @ '' '' @ v"
    by (simp add: present_header_def hdr_get_def hdr_values_def)
  ultimately show ?thesis
    unfolding GetTokenAuthFromRequest_def Let_def
    using trim_space_prefix [OF assms] trim_space_id [OF assms(3)] assms(2) by simp
qed

lemma Get_present_bearer: "no_space v \<Longrightarrow> v \<noteq> [] \<Longrightarrow> GetTokenAuthFromRequest (present_header (''Bearer'' @ '' '' @ v)) = v"
  by (subst Get_present_header) (simp_all add: AuthValuePrefix_def, simp add: is_space_def)

lemma b64_encode_Nil [simp]: "b64_encode v = [] \<longleftrightarrow> v = []"
  by (cases v rule: b64_encode.cases) (simp_all add: Let_def)

lemma b64_encode_no_space: "no_space (b64_encode v)"
  using b64_encode_chars [of v] by (simp add: list_all_iff)

lemma basic_not_bearer: "\<not> equal_fold ''Basic'' ''Bearer''"
  by code_simp

lemma Get_present_basic: "v \<noteq> [] \<Longrightarrow> GetTokenAuthFromRequest (present_header (''Basic'' @ '' '' @ b64_encode v)) = v"
  by (subst Get_present_header)
    (simp_all add: AuthValuePrefix_def BasicAuthPrefix_def basic_not_bearer b64_encode_no_space, simp add: is_space_def)

text \<open>Looking a token up when the cache has none with its key and the API server answers.\<close>

lemma TokenFromRequest_client:
  assumes "GetTokenAuthFromRequest req = token_value t" and "CHR '':'' \<notin> set (tk_name t)" and "CHR '':'' \<notin> set (tk_token t)"
    and "tk_name t \<noteq> []" and "tk_token t \<noteq> []" and "\<forall>u\<in>set (ts_cache s). tk_token u \<noteq> tk_token t"
    and "tokens_Get s (tk_name t) = Inr t" and "\<not> IsExpired (ts_now s) t"
  shows "TokenFromRequest s req = Inr t"
proof -
  have "filter (\<lambda>u. tk_token u = tk_token t) (ts_cache s) = []" using assms(6) by (simp add: filter_empty_conv)
  moreover have "token_value t \<noteq> []" by (simp add: token_value_def)
  ultimately show ?thesis
    using assms SplitTokenParts_token_value [OF assms(2,3)]
    by (simp add: TokenFromRequest_def Let_def token_ByIndex_key)
qed

lemma find_last: "\<forall>u\<in>set xs. \<not> P u \<Longrightarrow> P x \<Longrightarrow> find P (xs @ [x]) = Some x"
  by (induction xs) auto

lemma tokens_Create_Get:
  assumes "tokens_Create t0 s = (Inr t, s')" and "\<forall>u\<in>set (ts_store s). tk_name u \<noteq> tk_name t" and "ts_fail s (TokGet (tk_name t)) = None"
  shows "tokens_Get s' (tk_name t) = Inr t \<and> ts_cache s' = ts_cache s \<and> ts_now s' = ts_now s"
proof -
  have s': "s' = s\<lparr>ts_store := ts_store s @ [t]\<rparr>" using assms(1) by (auto simp: tokens_Create_def Let_def split: option.splits)
  have "find (\<lambda>u. tk_name u = tk_name t) (ts_store s @ [t]) = Some t"
    using assms(2) by (intro find_last) simp_all
  then show ?thesis using assms(3) by (simp add: s' tokens_Get_def)
qed

lemma createK8sTokenCR_Inr:
  assumes "createK8sTokenCR t0 s = (Inr t, s')"
  obtains key t1 where "ts_random s = Inr key" "tokens_Create t1 s = (Inr t, s')" "tk_token t = key"
    "tk_name t = ''token-'' @ ts_newName s" "tk_userID t = tk_userID t0" "tk_groupPrincipals t = tk_groupPrincipals t0"
    "tk_ttlMillis t = tk_ttlMillis t0" "tk_creationTimestamp t = ts_now s" "tk_isDerived t = tk_isDerived t0"
    "om_labels (tk_meta t) = [(UserIDLabel, tk_userID t0)]"
proof (cases "ts_random s")
  case (Inr key)
  have eq: "createK8sTokenCR t0 s = tokens_Create (t0\<lparr>tk_token := key,
      tk_meta := meta0\<lparr>om_generateName := ''token-'', om_labels := [(UserIDLabel, tk_userID t0)],
        om_apiVersion := ''management.cattle.io/v3'', om_kind := ''Token''\<rparr>\<rparr>) s" (is "_ = tokens_Create ?t1 s")
    by (simp add: createK8sTokenCR_def Inr)
  have "t = ?t1\<lparr>tk_meta := (tk_meta ?t1)\<lparr>om_name := om_generateName (tk_meta ?t1) @ ts_newName s\<rparr>, tk_creationTimestamp := ts_now s\<rparr>"
    using assms unfolding eq by (auto simp: tokens_Create_def Let_def split: option.splits)
  with assms Inr show ?thesis unfolding eq by (intro that [of key ?t1]) simp_all
qed (use assms in \<open>simp add: createK8sTokenCR_def\<close>)

text \<open>A token that the server has just made works at once, although the cache does not have it yet.\<close>

lemma created_token_works:
  assumes create: "createK8sTokenCR t0 s = (Inr t, s')"
    and key: "\<exists>key. ts_random s = Inr key \<and> generated_key key \<and> (\<forall>u\<in>set (ts_cache s). tk_token u \<noteq> key)"
    and name: "CHR '':'' \<notin> set (ts_newName s)" "\<forall>u\<in>set (ts_store s). tk_name u \<noteq> ''token-'' @ ts_newName s"
    and up: "ts_fail s (TokGet (''token-'' @ ts_newName s)) = None" and ttl: "tk_ttlMillis t0 = 0"
    and req: "GetTokenAuthFromRequest req = token_value t"
  shows "TokenFromRequest s' req = Inr t"
proof -
  obtain key t1 where t: "ts_random s = Inr key" "tokens_Create t1 s = (Inr t, s')" "tk_token t = key"
      "tk_name t = ''token-'' @ ts_newName s" "tk_ttlMillis t = tk_ttlMillis t0"
    using create by (rule createK8sTokenCR_Inr)
  have g: "generated_key key" "\<forall>u\<in>set (ts_cache s). tk_token u \<noteq> key" using key t(1) by auto
  have get: "tokens_Get s' (tk_name t) = Inr t" "ts_cache s' = ts_cache s" "ts_now s' = ts_now s"
    using tokens_Create_Get [OF t(2)] name(2) up t(4) by auto
  show ?thesis
    using g name(1) get t(3-5) ttl generated_key_chars [OF g(1)]
    by (intro TokenFromRequest_client [OF req]) (simp_all add: IsExpired_def)
qed

text \<open>
  C16. Logging in works: the cookie that is set when a token is made for a user authenticates the
  next request as that user, with the groups of the login, at once and although the server's cache
  does not have the token yet; and so do the two forms of the authorization header that carry the
  same value.
\<close>

theorem CreateTokenAndSetCookie_authenticates:
  assumes "CreateTokenAndSetCookie userID userPrincipal groupPrincipals providerInfo ttl description request s = (Inr (v, secure), s')"
    and "ts_random s = Generate rand" and "\<forall>i r. rand i = Inr r \<longrightarrow> r < length token_characters"
    and "\<forall>u\<in>set (ts_cache s). ts_random s \<noteq> Inr (tk_token u)"
    and "CHR '':'' \<notin> set (ts_newName s)" and "list_all (\<lambda>c. \<not> is_space c) (ts_newName s)"
    and "\<forall>u\<in>set (ts_store s). tk_name u \<noteq> ''token-'' @ ts_newName s"
    and "ts_fail s (TokGet (''token-'' @ ts_newName s)) = None"
    and "req \<in> set [present_cookie v, present_header (''Bearer'' @ '' '' @ v), present_header (''Basic'' @ '' '' @ b64_encode v)]"
  shows "Authenticate s' req = Inr (True, userID, map (\<lambda>p. trim_prefix (prin_name p) ''local://'') groupPrincipals)"
proof -
  obtain t0 t where t: "createK8sTokenCR t0 s = (Inr t, s')" "v = token_value t" "tk_userID t0 = userID"
      "tk_groupPrincipals t0 = groupPrincipals" "tk_ttlMillis t0 = 0"
    using assms(1) by (auto simp: CreateTokenAndSetCookie_def NewLoginToken_def split: prod.splits sum.splits)
  have key: "\<exists>key. ts_random s = Inr key \<and> generated_key key \<and> (\<forall>u\<in>set (ts_cache s). tk_token u \<noteq> key)"
  proof -
    obtain k where "ts_random s = Inr k" using t(1) by (rule createK8sTokenCR_Inr)
    then show ?thesis using assms(2,4) Generate_key [OF _ assms(3), of k] by auto
  qed
  obtain key where k: "tk_token t = key" "generated_key key" "tk_name t = ''token-'' @ ts_newName s"
      "tk_userID t = userID" "tk_groupPrincipals t = groupPrincipals"
    using t key by (auto elim: createK8sTokenCR_Inr)
  have v: "list_all (\<lambda>c. \<not> is_space c) v" "v \<noteq> []"
    using k(1-3) assms(6) generated_key_chars(3) [OF k(2)] by (simp_all add: t(2) token_value_def) (simp add: is_space_def)
  have "GetTokenAuthFromRequest req = v"
    using assms(9) Get_present_cookie Get_present_bearer [OF v] Get_present_basic [OF v(2)] by auto
  then have "TokenFromRequest s' req = Inr t"
    using created_token_works [OF t(1) key assms(5,7,8) t(5)] t(2) by simp
  then show ?thesis by (simp add: Authenticate_def k(4,5))
qed

section \<open>Expiry\<close>

text \<open>
  A token with a time to live between one and 9223372036854 milliseconds expires exactly that
  long after its creation, and one with none never does.  One millisecond more and the product in
  nanoseconds no longer fits 64 bits: such a token has expired when it is created.
\<close>

theorem IsExpired_bounds:
  assumes "0 < sint (tk_ttlMillis t)" and "sint (tk_ttlMillis t) \<le> 9223372036854"
    and "\<bar>now - tk_creationTimestamp t\<bar> < 2 ^ 63"
  shows "(IsExpired now t \<longleftrightarrow> tk_creationTimestamp t + sint (tk_ttlMillis t) * 1000000 \<le> now) \<and>
    \<not> IsExpired now (t\<lparr>tk_ttlMillis := 0\<rparr>) \<and>
    IsExpired (tk_creationTimestamp t) (t\<lparr>tk_ttlMillis := 9223372036855\<rparr>)"
proof -
  have ttl: "sint (millis (tk_ttlMillis t)) = sint (tk_ttlMillis t) * 1000000"
    using assms(1,2) by (intro sint_millis) simp
  have sub: "sint (time_sub now (tk_creationTimestamp t)) = now - tk_creationTimestamp t"
    using assms(3) by (simp add: sint_time_sub)
  have "tk_ttlMillis t \<noteq> 0" using assms(1) by auto
  then have "IsExpired now t \<longleftrightarrow> tk_creationTimestamp t + sint (tk_ttlMillis t) * 1000000 \<le> now"
    by (auto simp: IsExpired_def ttl sub)
  moreover have "sint (millis 9223372036855) \<le> 0" by (simp add: millis_def)
  then have "IsExpired (tk_creationTimestamp t) (t\<lparr>tk_ttlMillis := 9223372036855\<rparr>)"
    by (simp add: IsExpired_def sint_time_sub)
  ultimately show ?thesis by (simp add: IsExpired_def)
qed

lemma tokens_Delete_store:
  "ts_store (snd (tokens_Delete name s)) = (if ts_fail s (TokDelete name) = None then filter (\<lambda>u. tk_name u \<noteq> name) (ts_store s) else ts_store s)"
proof -
  have "filter (\<lambda>u. tk_name u \<noteq> name) (ts_store s) = ts_store s" if "\<not> list_ex (\<lambda>u. tk_name u = name) (ts_store s)"
    using that by (auto simp: list_ex_iff filter_id_conv)
  then show ?thesis by (auto simp: tokens_Delete_def split: option.splits)
qed

lemma tokens_Delete_same: "ts_now (snd (tokens_Delete name s)) = ts_now s" "ts_fail (snd (tokens_Delete name s)) = ts_fail s"
  by (auto simp: tokens_Delete_def split: option.splits)

text \<open>The purge removes the tokens that have expired in the cache, by name, and no others.\<close>

lemma purge_loop_store:
  assumes "\<And>name. ts_fail s (TokDelete name) = None"
  shows "ts_store (purge_loop ts s) =
    filter (\<lambda>u. \<not> list_ex (\<lambda>t. tk_name t = tk_name u \<and> IsExpired (ts_now s) t) ts) (ts_store s)"
  using assms
proof (induction ts arbitrary: s)
  case (Cons t ts)
  show ?case
  proof (cases "IsExpired (ts_now s) t")
    case True
    have "ts_store (purge_loop (t # ts) s) = filter (\<lambda>u. \<not> list_ex (\<lambda>t. tk_name t = tk_name u \<and> IsExpired (ts_now s) t) ts)
        (filter (\<lambda>u. tk_name u \<noteq> tk_name t) (ts_store s))"
      using True Cons.IH [of "snd (tokens_Delete (tk_name t) s)"] Cons.prems by (simp add: tokens_Delete_same tokens_Delete_store)
    with True show ?thesis by (simp add: filter_filter conj_commute eq_commute cong: conj_cong)
  next
    case False
    with Cons show ?thesis by simp
  qed
qed simp

section \<open>Whose tokens\<close>

lemma deleteTokenByName_store:
  "deleteTokenByName name s = (r, s') \<Longrightarrow> s' = s \<or> ts_store s' = filter (\<lambda>u. tk_name u \<noteq> name) (ts_store s)"
  by (auto simp: deleteTokenByName_def tokens_Delete_def split: option.splits sum.splits if_splits)

lemma getTokenByID_Inr:
  assumes "getTokenByID s v tokenID = Inr t"
  obtains cur t0 where "getK8sTokenCR s v = Inr cur" "t0 \<in> set (ts_store s)" "tk_name t0 = tokenID" "t = mark_expired s t0"
    "tk_userID t0 = tk_userID cur"
proof -
  from assms obtain cur t0 where "getK8sTokenCR s v = Inr cur" "tokens_Get s tokenID = Inr t0" "t = mark_expired s t0"
      "tk_userID t0 = tk_userID cur"
    by (auto simp: getTokenByID_def split: sum.splits if_splits)
  with tokens_Get_store [of s tokenID t0] show ?thesis by (intro that [of cur t0]) auto
qed

lemma mark_expired_simps [simp]:
  "tk_name (mark_expired s t) = tk_name t" "tk_userID (mark_expired s t) = tk_userID t" "tk_isDerived (mark_expired s t) = tk_isDerived t"
  by (simp_all add: mark_expired_def)

lemma getTokenByID_status: "getTokenByID s v tokenID = Inl (status, err) \<Longrightarrow> status \<noteq> 410"
  by (auto simp: getTokenByID_def split: sum.splits if_splits)

text \<open>
  C31. Through the API a user can delete only tokens of their own: if removing a token changes the
  store at all, the request carried a valid token, the token that is gone is the one that was
  named, it belongs to the user of the token presented, every other token is still there, and it
  is not the login token the request itself was made with.
\<close>

theorem removeToken_own_only:
  assumes "removeToken r tokenID s = (ans, s')" and "s' \<noteq> s"
  shows "\<exists>cur t. getK8sTokenCR s (GetTokenAuthFromRequest r) = Inr cur \<and> t \<in> set (ts_store s) \<and> tk_name t = tokenID \<and>
    tk_userID t = tk_userID cur \<and> ts_store s' = filter (\<lambda>u. tk_name u \<noteq> tokenID) (ts_store s) \<and>
    (tk_name cur = tokenID \<longrightarrow> tk_isDerived cur)"
proof -
  obtain t where t: "getTokenByID s (GetTokenAuthFromRequest r) tokenID = Inr t"
      "removeToken_found (GetTokenAuthFromRequest r) t s = (ans, s')"
    using assms getTokenByID_status by (auto simp: removeToken_def Let_def split: if_splits sum.splits)
  obtain cur t0 where c: "getK8sTokenCR s (GetTokenAuthFromRequest r) = Inr cur" "t0 \<in> set (ts_store s)" "tk_name t0 = tokenID"
      "t = mark_expired s t0" "tk_userID t0 = tk_userID cur"
    using t(1) by (rule getTokenByID_Inr)
  obtain d where d: "deleteTokenByName tokenID s = (d, s')" "tk_name cur = tokenID \<longrightarrow> tk_isDerived cur"
    using t(2) assms(2) c by (auto simp: removeToken_found_def split: if_splits prod.splits option.splits)
  with c assms(2) show ?thesis using deleteTokenByName_store [OF d(1)] by blast
qed

text \<open>
  The list of tokens the API answers with is twice as long as the list of tokens: it starts
  with one empty entry for each of them.
\<close>

theorem listTokens_empty_entries:
  assumes "listTokens conv r s = Written status l"
  shows "\<exists>ts ds. getTokens s (GetTokenAuthFromRequest r) = Inr ts \<and> length ds = length ts \<and>
    l = replicate (length ts) None @ map Some ds"
proof -
  have conv: "convert_all conv ts out = Inr l \<Longrightarrow> \<exists>ds. length ds = length ts \<and> l = out @ map Some ds" for ts out l
  proof (induction ts arbitrary: out)
    case (Cons t ts)
    then obtain d where "convert_all conv ts (out @ [Some d]) = Inr l" by (auto split: sum.splits)
    then obtain ds where "length ds = length ts" "l = (out @ [Some d]) @ map Some ds" using Cons.IH by blast
    then show ?case by (intro exI [of _ "d # ds"]) simp
  qed simp
  obtain ts where "getTokens s (GetTokenAuthFromRequest r) = Inr ts" "convert_all conv ts (replicate (length ts) None) = Inr l"
    using assms by (auto simp: listTokens_def Let_def no_token_def api_failure_def split: if_splits sum.splits)
  with conv show ?thesis by blast
qed

section \<open>Examples\<close>

definition key_ex :: string where
  "key_ex = replicate 54 CHR ''b''"

definition group_ex :: principal where
  "group_ex = principal0\<lparr>prin_name := ''local://g-1''\<rparr>"

definition token_ex :: token where
  "token_ex = token0\<lparr>tk_meta := meta0\<lparr>om_name := ''token-a''\<rparr>, tk_token := key_ex, tk_userID := ''u-1'',
     tk_groupPrincipals := [group_ex], tk_isDerived := True\<rparr>"

definition token_srv_ex :: token_server where
  "token_srv_ex = \<lparr>ts_store = [token_ex], ts_cache = [], ts_fail = (\<lambda>_. None), ts_now = 0, ts_random = Inr (replicate 54 CHR ''z''),
     ts_newName = ''xyz''\<rparr>"

definition forged_ex :: http_request where
  "forged_ex = \<lparr>rq_header = [(''Impersonate-User'', [''admin'']), (''Impersonate-Group'', [''system:masters''])],
     rq_cookies = [(CookieName, token_value token_ex)], rq_https = True\<rparr>"

theorem authHeaderHandler_sound_witness:
  "\<exists>req' t. authHeaderHandler_ServeHTTP token_srv_ex forged_ex = Inr req' \<and> known_token token_srv_ex t \<and>
     hdr_values (rq_header req') ''Impersonate-User'' = [tk_userID t] \<and> hdr_values (rq_header req') ''Impersonate-User'' = [''u-1''] \<and>
     hdr_values (rq_header req') ''Impersonate-Group'' = [''g-1'']"
proof -
  let ?r = "authHeaderHandler_ServeHTTP token_srv_ex forged_ex"
  have ev: "\<not> isl ?r \<and> hdr_values (rq_header (projr ?r)) ''Impersonate-User'' = [''u-1''] \<and>
      hdr_values (rq_header (projr ?r)) ''Impersonate-Group'' = [''g-1'']"
    by code_simp
  then obtain req' where r: "?r = Inr req'" by (cases ?r) auto
  from authHeaderHandler_sound [OF r] obtain t where "known_token token_srv_ex t"
      "hdr_values (rq_header req') ''Impersonate-User'' = [tk_userID t]"
    by blast
  with r ev show ?thesis by (intro exI [of _ req'] exI [of _ t]) simp
qed

theorem CreateTokenAndSetCookie_authenticates_witness:
  "\<exists>v secure s'. CreateTokenAndSetCookie ''u-1'' principal0 [group_ex] [] 5 [] forged_ex token_srv_ex = (Inr (v, secure), s') \<and>
     Authenticate s' (present_cookie v) = Inr (True, ''u-1'', [''g-1''])"
proof -
  let ?r = "CreateTokenAndSetCookie ''u-1'' principal0 [group_ex] [] 5 [] forged_ex token_srv_ex"
  have "\<not> isl (fst ?r)" by code_simp
  then obtain v secure s' where r: "?r = (Inr (v, secure), s')" by (cases ?r; cases "fst ?r") auto
  have "Generate (\<lambda>i. Inr 19) = Inr (replicate 54 CHR ''z'')" by code_simp
  then have key: "ts_random token_srv_ex = Generate (\<lambda>i. Inr 19)" by (simp add: token_srv_ex_def)
  have draws: "\<forall>i r. (\<lambda>i. Inr 19) i = Inr r \<longrightarrow> r < length token_characters" by (simp add: token_characters_def)
  have "\<forall>u\<in>set (ts_cache token_srv_ex). ts_random token_srv_ex \<noteq> Inr (tk_token u)" by (simp add: token_srv_ex_def)
  moreover
  have "CHR '':'' \<notin> set (ts_newName token_srv_ex) \<and> list_all (\<lambda>c. \<not> is_space c) (ts_newName token_srv_ex)" by code_simp
  moreover have "\<forall>u\<in>set (ts_store token_srv_ex). tk_name u \<noteq> ''token-'' @ ts_newName token_srv_ex" by code_simp
  moreover have "map (\<lambda>p. trim_prefix (prin_name p) ''local://'') [group_ex] = [''g-1'']" by code_simp
  moreover have "ts_fail token_srv_ex (TokGet (''token-'' @ ts_newName token_srv_ex)) = None" by (simp add: token_srv_ex_def)
  ultimately show ?thesis
    using CreateTokenAndSetCookie_authenticates [OF r key draws, of "present_cookie v"] r by auto
qed

theorem IsExpired_bounds_witness:
  "IsExpired 5000000 (token_ex\<lparr>tk_ttlMillis := 5\<rparr>) \<and> \<not> IsExpired 4999999 (token_ex\<lparr>tk_ttlMillis := 5\<rparr>) \<and>
   IsExpired 0 (token_ex\<lparr>tk_ttlMillis := 9223372036855\<rparr>)"
  using IsExpired_bounds [of "token_ex\<lparr>tk_ttlMillis := 5\<rparr>" 5000000] IsExpired_bounds [of "token_ex\<lparr>tk_ttlMillis := 5\<rparr>" 4999999]
  by (simp add: token_ex_def token0_def)

theorem removeToken_own_only_witness:
  "\<exists>ans s' t. removeToken (present_cookie (token_value token_ex)) ''token-a'' token_srv_ex = (ans, s') \<and> s' \<noteq> token_srv_ex \<and>
     t \<in> set (ts_store token_srv_ex) \<and> tk_userID t = ''u-1'' \<and> ts_store s' = []"
proof -
  let ?r = "removeToken (present_cookie (token_value token_ex)) ''token-a'' token_srv_ex"
  obtain ans s' where r: "?r = (ans, s')" by (rule prod.exhaust)
  have "ts_store (snd ?r) = []" by code_simp
  then have e: "ts_store s' = []" by (simp add: r)
  then have ne: "s' \<noteq> token_srv_ex" by (auto simp: token_srv_ex_def)
  have "tk_userID token_ex = ''u-1''" by (simp add: token_ex_def)
  with removeToken_own_only [OF r ne] r e ne show ?thesis by (auto simp: token_srv_ex_def)
qed

theorem listTokens_empty_entries_witness:
  "\<exists>l. listTokens (\<lambda>t. Inr (tk_name t)) (present_cookie (token_value token_ex))
        (token_srv_ex\<lparr>ts_store := [token_ex\<lparr>tk_meta := (tk_meta token_ex)\<lparr>om_labels := [(UserIDLabel, ''u-1'')]\<rparr>\<rparr>]\<rparr>) = Written 200 l \<and>
     l = [None, Some ''token-a'']"
proof -
  let ?s = "token_srv_ex\<lparr>ts_store := [token_ex\<lparr>tk_meta := (tk_meta token_ex)\<lparr>om_labels := [(UserIDLabel, ''u-1'')]\<rparr>\<rparr>]\<rparr>"
  let ?r = "listTokens (\<lambda>t. Inr (tk_name t)) (present_cookie (token_value token_ex)) ?s"
  have ev: "?r = Written 200 [None, Some ''token-a'']" by code_simp
  from listTokens_empty_entries [OF ev] have "hd [None, Some ''token-a''] = None" by (auto simp: Cons_eq_append_conv)
  with ev show ?thesis by blast
qed

end
