(* ===== verification/Role_Builder.thy ===== *)
theory Role_Builder
  imports Authn_Types Conditions
begin

text \<open>
  The default roles of a new installation: the builder of \<open>src/app/rolebuilder.go\<close>, the roles
  that \<open>src/app/role_data.go\<close> declares with it, and their reconciliation with what the server
  has.

  The builders form a doubly linked list; here they are a list, a builder's neighbours being its
  pointers, and a position in the list is a pointer to a builder.  The rule that a chain of calls
  fills in is the last rule of the builder it was added to.
\<close>

section \<open>The builder\<close>

record rule_builder =
  rub_verbs :: "string list"
  rub_resources :: "string list"
  rub_resourceNames :: "string list"
  rub_apiGroups :: "string list"
  rub_urls :: "string list"

record role_builder =
  rbd_name :: string
  rbd_displayName :: string
  rbd_context :: string
  rbd_builtin :: bool
  rbd_external :: bool
  rbd_hidden :: bool
  rbd_roleTemplateNames :: "string list"
  rbd_rules :: "rule_builder list"

definition ruleBuilder0 :: rule_builder where
  "ruleBuilder0 = \<lparr>rub_verbs = [], rub_resources = [], rub_resourceNames = [], rub_apiGroups = [], rub_urls = []\<rparr>"

definition roleBuilder0 :: role_builder where
  "roleBuilder0 = \<lparr>rbd_name = [], rbd_displayName = [], rbd_context = [], rbd_builtin = False, rbd_external = False,
     rbd_hidden = False, rbd_roleTemplateNames = [], rbd_rules = []\<rparr>"

text \<open>The builders of a list and the one that the chain of calls has reached.\<close>

type_synonym builders = "role_builder list \<times> nat"

definition newRoleBuilder :: builders where
  "newRoleBuilder = ([roleBuilder0], 0)"

text \<open>\<open>addRole\<close> called on the first builder of a list that is not empty.\<close>

fun addRole_next :: "string \<Rightarrow> string \<Rightarrow> role_builder list \<Rightarrow> builders" where
  "addRole_next display name [] = ([], 0)"
| "addRole_next display name (rb # rest) =
     (if rbd_name rb = [] then (rb\<lparr>rbd_name := name, rbd_displayName := display\<rparr> # rest, 0)
      else if rest \<noteq> [] then (case addRole_next display name rest of (rest, i) \<Rightarrow> (rb # rest, Suc i))
      else ([rb, roleBuilder0\<lparr>rbd_name := name, rbd_displayName := display\<rparr>], 1))"

text \<open>
  The statements of \<open>role_data.go\<close> start at the variable \<open>rb\<close>, the first builder, wherever
  the chain before has ended.  Those of \<open>ruleBuilder\<close> go on from its own role.
\<close>

definition addRole_from :: "nat \<Rightarrow> string \<Rightarrow> string \<Rightarrow> builders \<Rightarrow> builders" where
  "addRole_from i display name = (\<lambda>(roles, cur). case addRole_next display name (drop i roles) of
     (rest, j) \<Rightarrow> (take i roles @ rest, i + j))"

definition addRoleTemplate_from :: "nat \<Rightarrow> string \<Rightarrow> string \<Rightarrow> string \<Rightarrow> bool \<Rightarrow> bool \<Rightarrow> bool \<Rightarrow> builders \<Rightarrow> builders" where
  "addRoleTemplate_from i display name context builtin external hidden bs = (case addRole_from i display name bs of
     (roles, j) \<Rightarrow> (roles[j := (roles ! j)\<lparr>rbd_context := context, rbd_builtin := builtin, rbd_external := external,
        rbd_hidden := hidden\<rparr>], j))"

definition addRole :: "string \<Rightarrow> string \<Rightarrow> builders \<Rightarrow> builders" where
  "addRole display name = addRole_from 0 display name"

definition addRoleTemplate :: "string \<Rightarrow> string \<Rightarrow> string \<Rightarrow> bool \<Rightarrow> bool \<Rightarrow> bool \<Rightarrow> builders \<Rightarrow> builders" where
  "addRoleTemplate = addRoleTemplate_from 0"

definition rule_addRole :: "string \<Rightarrow> string \<Rightarrow> builders \<Rightarrow> builders" where
  "rule_addRole display name bs = addRole_from (snd bs) display name bs"

definition rule_addRoleTemplate :: "string \<Rightarrow> string \<Rightarrow> string \<Rightarrow> bool \<Rightarrow> bool \<Rightarrow> bool \<Rightarrow> builders \<Rightarrow> builders" where
  "rule_addRoleTemplate display name context builtin external hidden bs =
     addRoleTemplate_from (snd bs) display name context builtin external hidden bs"

definition on_role :: "(role_builder \<Rightarrow> role_builder) \<Rightarrow> builders \<Rightarrow> builders" where
  "on_role f = (\<lambda>(roles, cur). (roles[cur := f (roles ! cur)], cur))"

definition addRule :: "builders \<Rightarrow> builders" where
  "addRule = on_role (\<lambda>rb. rb\<lparr>rbd_rules := rbd_rules rb @ [ruleBuilder0]\<rparr>)"

definition setRoleTemplateNames :: "string list \<Rightarrow> builders \<Rightarrow> builders" where
  "setRoleTemplateNames names = on_role (\<lambda>rb. rb\<lparr>rbd_roleTemplateNames := names\<rparr>)"

fun update_last :: "('a \<Rightarrow> 'a) \<Rightarrow> 'a list \<Rightarrow> 'a list" where
  "update_last f [] = []"
| "update_last f [x] = [f x]"
| "update_last f (x # y # ys) = x # update_last f (y # ys)"

definition on_rule :: "(rule_builder \<Rightarrow> rule_builder) \<Rightarrow> builders \<Rightarrow> builders" where
  "on_rule f = on_role (\<lambda>rb. rb\<lparr>rbd_rules := update_last f (rbd_rules rb)\<rparr>)"

definition verbs :: "string list \<Rightarrow> builders \<Rightarrow> builders" where
  "verbs v = on_rule (\<lambda>r. r\<lparr>rub_verbs := rub_verbs r @ v\<rparr>)"

definition resources :: "string list \<Rightarrow> builders \<Rightarrow> builders" where
  "resources rc = on_rule (\<lambda>r. r\<lparr>rub_resources := rub_resources r @ rc\<rparr>)"

definition resourceNames :: "string list \<Rightarrow> builders \<Rightarrow> builders" where
  "resourceNames rn = on_rule (\<lambda>r. r\<lparr>rub_resourceNames := rub_resourceNames r @ rn\<rparr>)"

definition apiGroups :: "string list \<Rightarrow> builders \<Rightarrow> builders" where
  "apiGroups a = on_rule (\<lambda>r. r\<lparr>rub_apiGroups := rub_apiGroups r @ a\<rparr>)"

definition nonResourceURLs :: "string list \<Rightarrow> builders \<Rightarrow> builders" where
  "nonResourceURLs u = on_rule (\<lambda>r. r\<lparr>rub_urls := rub_urls r @ u\<rparr>)"

definition toPolicyRule :: "rule_builder \<Rightarrow> policy_rule" where
  "toPolicyRule r = \<lparr>pr_verbs = rub_verbs r, pr_apiGroups = rub_apiGroups r, pr_resources = rub_resources r,
     pr_resourceNames = rub_resourceNames r, pr_nonResourceURLs = rub_urls r\<rparr>"

definition policyRules :: "role_builder \<Rightarrow> policy_rule list" where
  "policyRules rb = map toPolicyRule (rbd_rules rb)"

text \<open>A sequence of calls.\<close>

definition calls :: "(builders \<Rightarrow> builders) list \<Rightarrow> builders \<Rightarrow> builders" where
  "calls fs bs = fold (\<lambda>f. f) fs bs"

section \<open>The default roles\<close>

text \<open>The statements that declare the global roles and the role templates, in their order.\<close>

definition global_role_statements :: "(builders \<Rightarrow> builders) list list" where
  "global_role_statements = [
     [addRole ''Create Clusters'' ''clusters-create'',
        addRule, apiGroups [''management.cattle.io''], resources [''clusters''], verbs [''create''],
        addRule, apiGroups [''management.cattle.io''], resources [''templates'', ''templateversions''],
        verbs [''get'', ''list'', ''watch''],
        addRule, apiGroups [''management.cattle.io''], resources [''nodedrivers''], verbs [''get'', ''list'', ''watch''],
        addRule, apiGroups [''management.cattle.io''], resources [''podsecuritypolicytemplates''],
        verbs [''get'', ''list'', ''watch''],
        addRule, apiGroups [''management.cattle.io''], resources [''nodetemplates''], verbs [''*'']],
     [addRole ''Manage Node Drivers'' ''nodedrivers-manage'',
        addRule, apiGroups [''management.cattle.io''], resources [''nodedrivers''], verbs [''*'']],
     [addRole ''Manage Catalogs'' ''catalogs-manage'',
        addRule, apiGroups [''management.cattle.io''], resources [''catalogs'', ''templates'', ''templateversions''], verbs [''*'']],
     [addRole ''Use Catalog Templates'' ''catalogs-use'',
        addRule, apiGroups [''management.cattle.io''], resources [''templates'', ''templateversions''],
        verbs [''get'', ''list'', ''watch'']],
     [addRole ''Manage Users'' ''users-manage'',
        addRule, apiGroups [''management.cattle.io''], resources [''users'', ''globalroles'', ''globalrolebindings''], verbs [''*'']],
     [addRole ''Manage Roles'' ''roles-manage'',
        addRule, apiGroups [''management.cattle.io''], resources [''roletemplates''], verbs [''*'']],
     [addRole ''Manage Authentication'' ''authn-manage'',
        addRule, apiGroups [''management.cattle.io''], resources [''authconfigs''], verbs [''get'', ''list'', ''watch'', ''update'']],
     [addRole ''Manage Settings'' ''settings-manage'',
        addRule, apiGroups [''management.cattle.io''], resources [''settings''], verbs [''*'']],
     [addRole ''Manage PodSecurityPolicy Templates'' ''podsecuritypolicytemplates-manage'',
        addRule, apiGroups [''management.cattle.io''], resources [''podsecuritypolicytemplates''], verbs [''*'']],
     [addRole ''Admin'' ''admin'',
        addRule, apiGroups [''*''], resources [''*''], verbs [''*''],
        addRule, apiGroups [], nonResourceURLs [''*''], verbs [''*'']],
     [addRole ''User'' ''user'',
        addRule, apiGroups [''management.cattle.io''], resources [''principals'', ''roletemplates''],
        verbs [''get'', ''list'', ''watch''],
        addRule, apiGroups [''management.cattle.io''], resources [''users''], verbs [''get'', ''list'', ''watch''],
        addRule, apiGroups [''management.cattle.io''], resources [''preferences''], verbs [''*''],
        addRule, apiGroups [''management.cattle.io''], resources [''settings''], verbs [''get'', ''list'', ''watch''],
        addRule, apiGroups [''management.cattle.io''], resources [''clusters''], verbs [''create''],
        addRule, apiGroups [''management.cattle.io''], resources [''templates'', ''templateversions''],
        verbs [''get'', ''list'', ''watch''],
        addRule, apiGroups [''management.cattle.io''], resources [''nodedrivers''], verbs [''get'', ''list'', ''watch''],
        addRule, apiGroups [''management.cattle.io''], resources [''podsecuritypolicytemplates''],
        verbs [''get'', ''list'', ''watch''],
        addRule, apiGroups [''management.cattle.io''], resources [''nodetemplates''], verbs [''*''],
        addRule, apiGroups [''management.cattle.io''], resources [''sourcecodecredentials''], verbs [''*''],
        addRule, apiGroups [''management.cattle.io''], resources [''sourcecoderepositories''], verbs [''*'']],
     [addRole ''User Base'' ''user-base'',
        addRule, apiGroups [''management.cattle.io''], resources [''principals'', ''roletemplates''],
        verbs [''get'', ''list'', ''watch''],
        addRule, apiGroups [''management.cattle.io''], resources [''users''], verbs [''get'', ''list'', ''watch''],
        addRule, apiGroups [''management.cattle.io''], resources [''preferences''], verbs [''*''],
        addRule, apiGroups [''management.cattle.io''], resources [''settings''], verbs [''get'', ''list'', ''watch'']]]"

definition cluster_template_statements :: "(builders \<Rightarrow> builders) list list" where
  "cluster_template_statements = [
     [addRoleTemplate ''Kubernetes cluster-admin'' ''cluster-admin'' ''cluster'' True True True],
     [addRoleTemplate ''Kubernetes admin'' ''admin'' ''project'' True True True],
     [addRoleTemplate ''Kubernetes edit'' ''edit'' ''project'' True True True],
     [addRoleTemplate ''Kubernetes view'' ''view'' ''project'' True True True],
     [addRoleTemplate ''Cluster Owner'' ''cluster-owner'' ''cluster'' True False False,
        addRule, apiGroups [''*''], resources [''*''], verbs [''*''],
        addRule, apiGroups [], nonResourceURLs [''*''], verbs [''*'']],
     [addRoleTemplate ''Cluster Member'' ''cluster-member'' ''cluster'' True False False,
        addRule, apiGroups [''management.cattle.io''], resources [''clusterroletemplatebindings''],
        verbs [''get'', ''list'', ''watch''],
        addRule, apiGroups [''management.cattle.io''], resources [''projects''], verbs [''create''],
        addRule, apiGroups [''management.cattle.io''], resources [''nodes'', ''nodepools''], verbs [''get'', ''list'', ''watch''],
        addRule, apiGroups [''*''], resources [''nodes''], verbs [''get'', ''list'', ''watch''],
        addRule, apiGroups [''*''], resources [''persistentvolumes''], verbs [''get'', ''list'', ''watch''],
        addRule, apiGroups [''*''], resources [''storageclasses''], verbs [''get'', ''list'', ''watch''],
        addRule, apiGroups [''management.cattle.io''], resources [''clusterevents''], verbs [''get'', ''list'', ''watch''],
        addRule, apiGroups [''management.cattle.io''], resources [''clusterpipelines''], verbs [''get'', ''list'', ''watch''],
        addRule, apiGroups [''management.cattle.io''], resources [''clusterloggings''], verbs [''get'', ''list'', ''watch''],
        addRule, apiGroups [''management.cattle.io''], resources [''clusteralerts''], verbs [''get'', ''list'', ''watch''],
        addRule, apiGroups [''management.cattle.io''], resources [''notifiers''], verbs [''get'', ''list'', ''watch'']],
     [addRoleTemplate ''Create Projects'' ''projects-create'' ''cluster'' True False False,
        addRule, apiGroups [''management.cattle.io''], resources [''projects''], verbs [''create'']],
     [addRoleTemplate ''View All Projects'' ''projects-view'' ''cluster'' True False False,
        addRule, apiGroups [''management.cattle.io''], resources [''projects''], verbs [''get'', ''list'', ''watch''],
        addRule, apiGroups [''management.cattle.io''], resources [''projectroletemplatebindings''],
        verbs [''get'', ''list'', ''watch''],
        addRule, apiGroups [''project.cattle.io''], resources [''apps''], verbs [''get'', ''list'', ''watch''],
        addRule, apiGroups [[]], resources [''namespaces''], verbs [''get'', ''list'', ''watch''],
        addRule, apiGroups [''*''], resources [''persistentvolumes''], verbs [''get'', ''list'', ''watch''],
        addRule, apiGroups [''*''], resources [''storageclasses''], verbs [''get'', ''list'', ''watch''],
        addRule, apiGroups [''*''], resources [''persistentvolumeclaims''], verbs [''get'', ''list'', ''watch''],
        addRule, apiGroups [''management.cattle.io''], resources [''clusterevents''], verbs [''get'', ''list'', ''watch''],
        setRoleTemplateNames [''view'']],
     [addRoleTemplate ''Manage Nodes'' ''nodes-manage'' ''cluster'' True False False,
        addRule, apiGroups [''management.cattle.io''], resources [''nodes'', ''nodepools''], verbs [''*''],
        addRule, apiGroups [''*''], resources [''nodes''], verbs [''*'']],
     [addRoleTemplate ''View Nodes'' ''nodes-view'' ''cluster'' True False False,
        addRule, apiGroups [''management.cattle.io''], resources [''nodes'', ''nodepools''], verbs [''get'', ''list'', ''watch''],
        addRule, apiGroups [''*''], resources [''nodes''], verbs [''get'', ''list'', ''watch'']],
     [addRoleTemplate ''Manage Storage'' ''storage-manage'' ''cluster'' True False False,
        addRule, apiGroups [''*''], resources [''persistentvolumes''], verbs [''*''],
        addRule, apiGroups [''*''], resources [''storageclasses''], verbs [''*''],
        addRule, apiGroups [''*''], resources [''persistentvolumeclaims''], verbs [''*'']],
     [addRoleTemplate ''Manage Cluster Members'' ''clusterroletemplatebindings-manage'' ''cluster'' True False False,
        addRule, apiGroups [''management.cattle.io''], resources [''clusterroletemplatebindings''], verbs [''*'']],
     [addRoleTemplate ''View Cluster Members'' ''clusterroletemplatebindings-view'' ''cluster'' True False False,
        addRule, apiGroups [''management.cattle.io''], resources [''clusterroletemplatebindings''],
        verbs [''get'', ''list'', ''watch'']]]"

definition project_template_statements :: "(builders \<Rightarrow> builders) list list" where
  "project_template_statements = [
     [addRoleTemplate ''Project Owner'' ''project-owner'' ''project'' True False False,
        addRule, apiGroups [''management.cattle.io''], resources [''projectroletemplatebindings''], verbs [''*''],
        addRule, apiGroups [''project.cattle.io''], resources [''apps''], verbs [''*''],
        addRule, apiGroups [[]], resources [''namespaces''], verbs [''create''],
        addRule, apiGroups [''*''], resources [''persistentvolumes''], verbs [''get'', ''list'', ''watch''],
        addRule, apiGroups [''*''], resources [''storageclasses''], verbs [''get'', ''list'', ''watch''],
        addRule, apiGroups [''*''], resources [''persistentvolumeclaims''], verbs [''*''],
        addRule, apiGroups [''management.cattle.io''], resources [''clusterevents''], verbs [''get'', ''list'', ''watch''],
        addRule, apiGroups [''management.cattle.io''], resources [''clusterpipelines''], verbs [''get'', ''list'', ''watch''],
        addRule, apiGroups [''management.cattle.io''], resources [''pipelines''], verbs [''*''],
        addRule, apiGroups [''management.cattle.io''], resources [''pipelineexecutions''], verbs [''*''],
        addRule, apiGroups [''management.cattle.io''], resources [''pipelineexecutionlogs''], verbs [''*''],
        addRule, apiGroups [''management.cattle.io''], resources [''notifiers''], verbs [''get'', ''list'', ''watch''],
        addRule, apiGroups [''management.cattle.io''], resources [''projectalerts''], verbs [''*''],
        addRule, apiGroups [''management.cattle.io''], resources [''projectloggings''], verbs [''*''],
        setRoleTemplateNames [''admin'']],
     [addRoleTemplate ''Project Member'' ''project-member'' ''project'' True False False,
        addRule, apiGroups [''management.cattle.io''], resources [''projectroletemplatebindings''],
        verbs [''get'', ''list'', ''watch''],
        addRule, apiGroups [''project.cattle.io''], resources [''apps''], verbs [''*''],
        addRule, apiGroups [[]], resources [''namespaces''], verbs [''create''],
        addRule, apiGroups [''*''], resources [''persistentvolumes''], verbs [''get'', ''list'', ''watch''],
        addRule, apiGroups [''*''], resources [''storageclasses''], verbs [''get'', ''list'', ''watch''],
        addRule, apiGroups [''*''], resources [''persistentvolumeclaims''], verbs [''*''],
        addRule, apiGroups [''management.cattle.io''], resources [''clusterevents''], verbs [''get'', ''list'', ''watch''],
        addRule, apiGroups [''management.cattle.io''], resources [''clusterpipelines''], verbs [''get'', ''list'', ''watch''],
        addRule, apiGroups [''management.cattle.io''], resources [''pipelines''], verbs [''*''],
        addRule, apiGroups [''management.cattle.io''], resources [''pipelineexecutions''], verbs [''*''],
        addRule, apiGroups [''management.cattle.io''], resources [''pipelineexecutionlogs''], verbs [''*''],
        addRule, apiGroups [''management.cattle.io''], resources [''notifiers''], verbs [''get'', ''list'', ''watch''],
        addRule, apiGroups [''management.cattle.io''], resources [''projectalerts''], verbs [''*''],
        addRule, apiGroups [''management.cattle.io''], resources [''projectloggings''], verbs [''get'', ''list'', ''watch''],
        setRoleTemplateNames [''edit'']],
     [addRoleTemplate ''Read-only'' ''read-only'' ''project'' True False False,
        addRule, apiGroups [''management.cattle.io''], resources [''projectroletemplatebindings''],
        verbs [''get'', ''list'', ''watch''],
        addRule, apiGroups [''project.cattle.io''], resources [''apps''], verbs [''get'', ''list'', ''watch''],
        addRule, apiGroups [''*''], resources [''persistentvolumes''], verbs [''get'', ''list'', ''watch''],
        addRule, apiGroups [''*''], resources [''storageclasses''], verbs [''get'', ''list'', ''watch''],
        addRule, apiGroups [''*''], resources [''persistentvolumeclaims''], verbs [''get'', ''list'', ''watch''],
        addRule, apiGroups [''management.cattle.io''], resources [''clusterevents''], verbs [''get'', ''list'', ''watch''],
        addRule, apiGroups [''management.cattle.io''], resources [''clusterpipelines''], verbs [''get'', ''list'', ''watch''],
        addRule, apiGroups [''management.cattle.io''], resources [''pipelines''], verbs [''get'', ''list'', ''watch''],
        addRule, apiGroups [''management.cattle.io''], resources [''pipelineexecutions''], verbs [''get'', ''list'', ''watch''],
        addRule, apiGroups [''management.cattle.io''], resources [''pipelineexecutionlogs''], verbs [''get'', ''list'', ''watch''],
        addRule, apiGroups [''management.cattle.io''], resources [''notifiers''], verbs [''get'', ''list'', ''watch''],
        addRule, apiGroups [''management.cattle.io''], resources [''projectalerts''], verbs [''get'', ''list'', ''watch''],
        addRule, apiGroups [''management.cattle.io''], resources [''projectloggings''], verbs [''get'', ''list'', ''watch''],
        setRoleTemplateNames [''view'']],
     [addRoleTemplate ''Create Namespaces'' ''create-ns'' ''project'' True False False,
        addRule, apiGroups [[]], resources [''namespaces''], verbs [''create'']],
     [addRoleTemplate ''Manage Workloads'' ''workloads-manage'' ''project'' True False False,
        addRule, apiGroups [''*''],
        resources [''pods'', ''pods/attach'', ''pods/exec'', ''pods/portforward'', ''pods/proxy'', ''replicationcontrollers'', ''replicationcontrollers/scale'', ''daemonsets'', ''deployments'', ''deployments/rollback'', ''deployments/scale'', ''replicasets'', ''replicasets/scale'', ''statefulsets'', ''cronjobs'', ''jobs'', ''daemonsets'', ''deployments'', ''deployments/rollback'', ''deployments/scale'', ''replicasets'', ''replicasets/scale'', ''replicationcontrollers/scale'', ''horizontalpodautoscalers''],
        verbs [''*''],
        addRule, apiGroups [''*''],
        resources [''limitranges'', ''pods/log'', ''pods/status'', ''replicationcontrollers/status'', ''resourcequotas'', ''resourcequotas/status'', ''bindings''],
        verbs [''get'', ''list'', ''watch''],
        addRule, apiGroups [''project.cattle.io''], resources [''apps''], verbs [''*'']],
     [addRoleTemplate ''View Workloads'' ''workloads-view'' ''project'' True False False,
        addRule, apiGroups [''*''],
        resources [''pods'', ''pods/attach'', ''pods/exec'', ''pods/portforward'', ''pods/proxy'', ''replicationcontrollers'', ''replicationcontrollers/scale'', ''daemonsets'', ''deployments'', ''deployments/rollback'', ''deployments/scale'', ''replicasets'', ''replicasets/scale'', ''statefulsets'', ''cronjobs'', ''jobs'', ''daemonsets'', ''deployments'', ''deployments/rollback'', ''deployments/scale'', ''replicasets'', ''replicasets/scale'', ''replicationcontrollers/scale'', ''horizontalpodautoscalers''],
        verbs [''get'', ''list'', ''watch''],
        addRule, apiGroups [''*''],
        resources [''limitranges'', ''pods/log'', ''pods/status'', ''replicationcontrollers/status'', ''resourcequotas'', ''resourcequotas/status'', ''bindings''],
        verbs [''get'', ''list'', ''watch''],
        addRule, apiGroups [''project.cattle.io''], resources [''apps''], verbs [''get'', ''list'', ''watch'']],
     [addRoleTemplate ''Manage Ingress'' ''ingress-manage'' ''project'' True False False,
        addRule, apiGroups [''*''], resources [''ingresses''], verbs [''*'']],
     [addRoleTemplate ''View Ingress'' ''ingress-view'' ''project'' True False False,
        addRule, apiGroups [''*''], resources [''ingresses''], verbs [''get'', ''list'', ''watch'']],
     [addRoleTemplate ''Manage Services'' ''services-manage'' ''project'' True False False,
        addRule, apiGroups [''*''], resources [''services'', ''endpoints''], verbs [''*'']],
     [addRoleTemplate ''View Services'' ''services-view'' ''project'' True False False,
        addRule, apiGroups [''*''], resources [''services'', ''endpoints''], verbs [''get'', ''list'', ''watch'']],
     [addRoleTemplate ''Manage Secrets'' ''secrets-manage'' ''project'' True False False,
        addRule, apiGroups [''*''], resources [''secrets''], verbs [''*'']],
     [addRoleTemplate ''View Secrets'' ''secrets-view'' ''project'' True False False,
        addRule, apiGroups [''*''], resources [''secrets''], verbs [''get'', ''list'', ''watch'']],
     [addRoleTemplate ''Manage Config Maps'' ''configmaps-manage'' ''project'' True False False,
        addRule, apiGroups [''*''], resources [''configmaps''], verbs [''*'']],
     [addRoleTemplate ''View Config Maps'' ''configmaps-view'' ''project'' True False False,
        addRule, apiGroups [''*''], resources [''configmaps''], verbs [''get'', ''list'', ''watch'']],
     [addRoleTemplate ''Manage Volumes'' ''persistentvolumeclaims-manage'' ''project'' True False False,
        addRule, apiGroups [''*''], resources [''persistentvolumes''], verbs [''get'', ''list'', ''watch''],
        addRule, apiGroups [''*''], resources [''storageclasses''], verbs [''get'', ''list'', ''watch''],
        addRule, apiGroups [''*''], resources [''persistentvolumeclaims''], verbs [''*'']],
     [addRoleTemplate ''View Volumes'' ''persistentvolumeclaims-view'' ''project'' True False False,
        addRule, apiGroups [''*''], resources [''persistentvolumes''], verbs [''get'', ''list'', ''watch''],
        addRule, apiGroups [''*''], resources [''storageclasses''], verbs [''get'', ''list'', ''watch''],
        addRule, apiGroups [''*''], resources [''persistentvolumeclaims''], verbs [''get'', ''list'', ''watch'']],
     [addRoleTemplate ''Manage Service Accounts'' ''serviceaccounts-manage'' ''project'' True False False,
        addRule, apiGroups [''*''], resources [''serviceaccounts''], verbs [''*'']],
     [addRoleTemplate ''View Service Accounts'' ''serviceaccounts-view'' ''project'' True False False,
        addRule, apiGroups [''*''], resources [''serviceaccounts''], verbs [''get'', ''list'', ''watch'']],
     [addRoleTemplate ''Manage Project Members'' ''projectroletemplatebindings-manage'' ''project'' True False False,
        addRule, apiGroups [''management.cattle.io''], resources [''projectroletemplatebindings''], verbs [''*'']],
     [addRoleTemplate ''View Project Members'' ''projectroletemplatebindings-view'' ''project'' True False False,
        addRule, apiGroups [''management.cattle.io''], resources [''projectroletemplatebindings''],
        verbs [''get'', ''list'', ''watch'']]]"

definition role_template_statements :: "(builders \<Rightarrow> builders) list list" where
  "role_template_statements = cluster_template_statements @ project_template_statements"

definition default_global_roles :: "role_builder list" where
  "default_global_roles = fst (calls (concat global_role_statements) newRoleBuilder)"

definition default_role_templates :: "role_builder list" where
  "default_role_templates = fst (calls (concat role_template_statements) newRoleBuilder)"

section \<open>Reconciling\<close>

text \<open>
  Requests about roles of one kind.  \<open>Update\<close> and \<open>Delete\<close> name the object.
\<close>

datatype 'o role_req = RoleDelete string | RoleUpdate string 'o | RoleCreate 'o

definition built_roles :: "(role_builder \<Rightarrow> string \<times> 'o) \<Rightarrow> role_builder list \<Rightarrow> (string, 'o) gomap" where
  "built_roles build rbs = fold (\<lambda>rb. AList.update (fst (build rb)) (snd (build rb))) rbs []"

definition reconcile_one :: "'r env \<Rightarrow> ('o role_req \<Rightarrow> 'r) \<Rightarrow> ('o \<Rightarrow> 'o \<Rightarrow> bool \<times> 'o) \<Rightarrow> (string, 'o) gomap \<Rightarrow> string \<times> 'o \<Rightarrow> ('r, unit) go" where
  "reconcile_one env req compareAndModify existing = (\<lambda>(name, gr). case map_of existing name of
     Some existingCR \<Rightarrow>
       (case compareAndModify existingCR gr of (eq, modified) \<Rightarrow>
          go_when (\<not> eq) (go_wrap (''couldn't update '' @ name) (go_call env (req (RoleUpdate name modified)))))
   | None \<Rightarrow> go_wrap (''couldn't create '' @ name) (go_call env (req (RoleCreate gr))))"

text \<open>\<open>req\<close> says of which kind the requests are; the comparison never fails on objects of one type.\<close>

definition reconcile :: "'r env \<Rightarrow> ('o role_req \<Rightarrow> 'r) \<Rightarrow> (role_builder \<Rightarrow> string \<times> 'o) \<Rightarrow> (string, 'o) gomap result \<Rightarrow>
    ('o \<Rightarrow> 'o \<Rightarrow> bool \<times> 'o) \<Rightarrow> role_builder list \<Rightarrow> ('r, unit) go" where
  "reconcile env req build gather compareAndModify rbs =
     (let builtRoles = built_roles build rbs in
      go_bind (go_lift gather) (\<lambda>existing.
      go_bind (go_for (map fst (range_map (env_rng env) existing)) (\<lambda>name.
        go_when (\<not> has_key builtRoles name)
          (go_wrap (''couldn't delete '' @ name) (go_call env (req (RoleDelete name)))))) (\<lambda>_.
      go_for (range_map (env_rng env) builtRoles)
        (reconcile_one env req compareAndModify (filter (\<lambda>(name, _). has_key builtRoles name) existing)))))"

definition gather_existing :: "('o \<Rightarrow> string) \<Rightarrow> string \<Rightarrow> 'o list result \<Rightarrow> (string, 'o) gomap result" where
  "gather_existing name msg items = (case items of
     Inl err \<Rightarrow> Inl (wrap_error msg err)
   | Inr items \<Rightarrow> Inr (fold (\<lambda>e. AList.update (name e) e) items []))"

definition defaultGRLabel :: selector where
  "defaultGRLabel = [(''authz.management.cattle.io/bootstrapping'', ''default-globalrole'')]"

definition defaultRTLabel :: selector where
  "defaultRTLabel = [(''authz.management.cattle.io/bootstrapping'', ''default-roletemplate'')]"

definition build_globalRole :: "role_builder \<Rightarrow> string \<times> global_role" where
  "build_globalRole rb = (rbd_name rb, \<lparr>gr_meta = meta0\<lparr>om_name := rbd_name rb, om_labels := defaultGRLabel\<rparr>,
     gr_displayName = rbd_displayName rb, gr_description = [], gr_rules = policyRules rb, gr_builtin = False\<rparr>)"

definition compare_globalRole :: "global_role \<Rightarrow> global_role \<Rightarrow> bool \<times> global_role" where
  "compare_globalRole have want = (gr_displayName have = gr_displayName want \<and> gr_rules have = gr_rules want,
     have\<lparr>gr_displayName := gr_displayName want, gr_rules := gr_rules want\<rparr>)"

text \<open>\<open>items\<close> is the server's answer to the list of objects with the label.\<close>

definition reconcileGlobalRoles :: "'r env \<Rightarrow> (global_role role_req \<Rightarrow> 'r) \<Rightarrow> global_role list result \<Rightarrow> role_builder list \<Rightarrow> ('r, unit) go" where
  "reconcileGlobalRoles env req items = reconcile env req build_globalRole
     (gather_existing gr_name ''couldn't list globalRoles'' items) compare_globalRole"

definition build_roleTemplate :: "role_builder \<Rightarrow> string \<times> role_template" where
  "build_roleTemplate rb = (rbd_name rb, \<lparr>rt_meta = meta0\<lparr>om_name := rbd_name rb, om_labels := defaultRTLabel\<rparr>,
     rt_displayName = rbd_displayName rb, rt_description = [], rt_rules = policyRules rb, rt_builtin = rbd_builtin rb,
     rt_external = rbd_external rb, rt_hidden = rbd_hidden rb, rt_context = rbd_context rb,
     rt_roleTemplateNames = rbd_roleTemplateNames rb\<rparr>)"

definition compare_roleTemplate :: "role_template \<Rightarrow> role_template \<Rightarrow> bool \<times> role_template" where
  "compare_roleTemplate have want =
     (rt_displayName have = rt_displayName want \<and> rt_rules have = rt_rules want \<and>
      rt_roleTemplateNames have = rt_roleTemplateNames want \<and> rt_builtin have \<noteq> rt_builtin want \<and>
      rt_external have = rt_external want \<and> rt_hidden have = rt_hidden want \<and> rt_context have = rt_context want,
      have\<lparr>rt_displayName := rt_displayName want, rt_rules := rt_rules want, rt_roleTemplateNames := rt_roleTemplateNames want,
        rt_builtin := rt_builtin want, rt_external := rt_external want, rt_hidden := rt_hidden want,
        rt_context := rt_context want\<rparr>)"

definition reconcileRoleTemplates :: "'r env \<Rightarrow> (role_template role_req \<Rightarrow> 'r) \<Rightarrow> role_template list result \<Rightarrow> role_builder list \<Rightarrow> ('r, unit) go" where
  "reconcileRoleTemplates env req items = reconcile env req build_roleTemplate
     (gather_existing rt_name ''couldn't list roleTemplate'' items) compare_roleTemplate"

section \<open>Bootstrapping\<close>

text \<open>
  \<open>addRoles\<close>: the roles, then a first administrator and the binding to the role of that name.
  The answers to the lists are fields of \<open>boot\<close>, and so are the hash of the password and the
  name that the server generates.  When the creation is answered with \<open>AlreadyExists\<close> the
  client returns an empty user.
\<close>

datatype boot_req = BootGR "global_role role_req" | BootRT "role_template role_req" | BootUser user | BootGRB global_role_binding

record boot =
  boot_globalRoles :: "global_role list result"
  boot_roleTemplates :: "role_template list result"
  boot_admins :: "user list result"
  boot_bindings :: "global_role_binding list result"
  boot_hash :: string
  boot_newName :: string

definition defaultAdminLabel :: selector where
  "defaultAdminLabel = [(''authz.management.cattle.io/bootstrapping'', ''admin-user'')]"

definition default_admin :: "string \<Rightarrow> user" where
  "default_admin hash = \<lparr>us_meta = meta0\<lparr>om_generateName := ''user-'', om_labels := defaultAdminLabel\<rparr>,
     us_displayName = ''Default Admin'', us_description = [], us_username = ''admin'', us_password = hash,
     us_mustChangePassword = True, us_principalIDs = []\<rparr>"

definition admin_binding :: "string \<Rightarrow> global_role_binding" where
  "admin_binding name = \<lparr>grb_meta = meta0\<lparr>om_generateName := ''globalrolebinding-'', om_labels := defaultAdminLabel\<rparr>,
     grb_userName = name, grb_globalRoleName = ''admin''\<rparr>"

definition ensure_admin :: "boot_req env \<Rightarrow> boot \<Rightarrow> user list \<Rightarrow> (boot_req, string) go" where
  "ensure_admin env b admins = (case admins of
     [] \<Rightarrow> go_bind (go_try (go_call env (BootUser (default_admin (boot_hash b))))) (\<lambda>r. case r of
         Inr _ \<Rightarrow> go_return (boot_newName b)
       | Inl err \<Rightarrow> if is_already_exists err then go_return []
                    else go_fail (wrap_error ''can not ensure admin user exists'' err))
   | admin # _ \<Rightarrow> go_return (us_name admin))"

definition addRoles :: "boot_req env \<Rightarrow> boot \<Rightarrow> (boot_req, string) go" where
  "addRoles env b =
     go_bind (go_wrap ''problem reconciling globl roles''
       (reconcileGlobalRoles env BootGR (boot_globalRoles b) default_global_roles)) (\<lambda>_.
     go_bind (go_wrap ''problem reconciling role templates''
       (reconcileRoleTemplates env BootRT (boot_roleTemplates b) default_role_templates)) (\<lambda>_.
     go_bind (go_lift (boot_admins b)) (\<lambda>admins.
     go_bind (ensure_admin env b admins) (\<lambda>admin.
     go_bind (go_lift (boot_bindings b)) (\<lambda>bindings.
     go_bind (if bindings = [] then go_try (go_call env (BootGRB (admin_binding admin))) else go_return (Inr ())) (\<lambda>_.
     go_return admin))))))"

end
