(* ===== verification/Default_Roles.thy ===== *)
theory Default_Roles
  imports Role_Builder Role_Templates
begin

text \<open>
  What the default roles are and what reconciling them does: the statements of
  \<open>role_data.go\<close> build one role each, the roles are well formed, and after a successful
  reconciliation the server has them.
\<close>

section \<open>Each statement builds one role\<close>

definition built :: "(builders \<Rightarrow> builders) list \<Rightarrow> role_builder" where
  "built s = hd (fst (calls s newRoleBuilder))"

abbreviation all_named :: "role_builder list \<Rightarrow> bool" where
  "all_named roles \<equiv> list_all (\<lambda>rb. rbd_name rb \<noteq> []) roles"

text \<open>A call that changes the role at hand and not its name, and a statement that declares one role.\<close>

definition local_call :: "(builders \<Rightarrow> builders) \<Rightarrow> bool" where
  "local_call f \<longleftrightarrow> (\<exists>g. f = on_role g \<and> (\<forall>rb. rbd_name (g rb) = rbd_name rb))"

definition declares :: "(builders \<Rightarrow> builders) list \<Rightarrow> bool" where
  "declares s \<longleftrightarrow> rbd_name (built s) \<noteq> [] \<and> calls s newRoleBuilder = ([built s], 0) \<and>
     (\<forall>roles c. roles \<noteq> [] \<longrightarrow> all_named roles \<longrightarrow> calls s (roles, c) = (roles @ [built s], length roles))"

lemma calls_simps [simp]: "calls [] bs = bs" "calls (f # fs) bs = calls fs (f bs)" "calls (fs @ gs) bs = calls gs (calls fs bs)"
  by (simp_all add: calls_def)

lemma local_call_simps [simp]:
  "local_call addRule" "local_call (verbs v)" "local_call (resources v)" "local_call (resourceNames v)"
  "local_call (apiGroups v)" "local_call (nonResourceURLs v)" "local_call (setRoleTemplateNames v)"
  unfolding local_call_def addRule_def verbs_def resources_def resourceNames_def apiGroups_def nonResourceURLs_def
    setRoleTemplateNames_def on_rule_def
  by (rule exI, rule conjI, rule refl, simp)+

lemma calls_local:
  assumes "list_all local_call fs"
  shows "\<exists>G. (\<forall>rb. rbd_name (G rb) = rbd_name rb) \<and>
    (\<forall>roles i. i < length roles \<longrightarrow> calls fs (roles, i) = (roles[i := G (roles ! i)], i))"
  using assms
proof (induction fs)
  case (Cons f fs)
  then obtain G g where "\<forall>rb. rbd_name (G rb) = rbd_name rb"
      "\<forall>roles i. i < length roles \<longrightarrow> calls fs (roles, i) = (roles[i := G (roles ! i)], i)"
      "f = on_role g" "\<forall>rb. rbd_name (g rb) = rbd_name rb"
    by (auto simp: local_call_def)
  then show ?case by (intro exI [of _ "\<lambda>rb. G (g rb)"]) (simp add: on_role_def)
qed (auto intro: exI [of _ "\<lambda>rb. rb"])

lemma addRole_next_named:
  "roles \<noteq> [] \<Longrightarrow> all_named roles \<Longrightarrow>
     addRole_next d n roles = (roles @ [roleBuilder0\<lparr>rbd_name := n, rbd_displayName := d\<rparr>], length roles)"
  by (induction roles) auto

lemma declaresI:
  assumes "\<And>rb. rbd_name (F rb) = rbd_name rb" and "n \<noteq> []" and "list_all local_call fs"
    and f: "\<And>roles c. f (roles, c) = (case addRole_next d n roles of (rs, j) \<Rightarrow> (rs[j := F (rs ! j)], j))"
  shows "declares (f # fs)"
proof -
  obtain G where G: "\<forall>rb. rbd_name (G rb) = rbd_name rb"
      "\<forall>roles i. i < length roles \<longrightarrow> calls fs (roles, i) = (roles[i := G (roles ! i)], i)"
    using calls_local [OF assms(3)] by blast
  let ?rb = "G (F (roleBuilder0\<lparr>rbd_name := n, rbd_displayName := d\<rparr>))"
  have fresh: "calls (f # fs) newRoleBuilder = ([?rb], 0)"
    by (simp add: newRoleBuilder_def f roleBuilder0_def G(2))
  then have "built (f # fs) = ?rb" by (simp add: built_def)
  moreover have "calls (f # fs) (roles, c) = (roles @ [?rb], length roles)" if "roles \<noteq> []" "all_named roles" for roles c
    using that by (simp add: f addRole_next_named G(2) nth_append)
  ultimately show ?thesis using fresh assms(1,2) G(1) by (simp add: declares_def)
qed

lemma declares_addRole [simp]: "n \<noteq> [] \<Longrightarrow> list_all local_call fs \<Longrightarrow> declares (addRole d n # fs)"
  by (rule declaresI [where F = "\<lambda>rb. rb"]) (auto simp: addRole_def addRole_from_def split: prod.splits)

lemma declares_addRoleTemplate [simp]:
  "n \<noteq> [] \<Longrightarrow> list_all local_call fs \<Longrightarrow> declares (addRoleTemplate d n c b e h # fs)"
  by (rule declaresI [where F = "\<lambda>rb. rb\<lparr>rbd_context := c, rbd_builtin := b, rbd_external := e, rbd_hidden := h\<rparr>"])
    (auto simp: addRoleTemplate_def addRoleTemplate_from_def addRole_from_def split: prod.splits)

lemma calls_statements:
  assumes "list_all declares ss" and "ss \<noteq> []"
  shows "fst (calls (concat ss) newRoleBuilder) = map built ss"
proof -
  have more: "list_all declares ss \<Longrightarrow> roles \<noteq> [] \<Longrightarrow> all_named roles \<Longrightarrow>
      fst (calls (concat ss) (roles, c)) = roles @ map built ss" for ss roles c
    by (induction ss arbitrary: roles c) (auto simp: declares_def)
  obtain s ss' where "ss = s # ss'" using assms(2) by (cases ss) auto
  with assms(1) more [of ss' "[built s]" 0] show ?thesis by (simp add: declares_def)
qed

lemma global_role_statements_declare: "list_all declares global_role_statements"
  by (simp add: global_role_statements_def)

lemma cluster_template_statements_declare: "list_all declares cluster_template_statements"
  by (simp add: cluster_template_statements_def)

lemma project_template_statements_declare: "list_all declares project_template_statements"
  by (simp add: project_template_statements_def)

lemma default_global_roles_built: "default_global_roles = map built global_role_statements"
  unfolding default_global_roles_def
  by (rule calls_statements [OF global_role_statements_declare]) (simp add: global_role_statements_def)

lemma default_role_templates_built:
  "default_role_templates = map built cluster_template_statements @ map built project_template_statements"
proof -
  have "list_all declares role_template_statements"
    using cluster_template_statements_declare project_template_statements_declare by (simp add: role_template_statements_def)
  moreover have "role_template_statements \<noteq> []" by (simp add: role_template_statements_def cluster_template_statements_def)
  ultimately have "default_role_templates = map built role_template_statements"
    unfolding default_role_templates_def by (rule calls_statements)
  then show ?thesis by (simp add: role_template_statements_def)
qed

section \<open>The default roles are well formed\<close>

definition wf_rule :: "policy_rule \<Rightarrow> bool" where
  "wf_rule r \<longleftrightarrow> pr_verbs r \<noteq> [] \<and>
     (if pr_nonResourceURLs r = [] then pr_resources r \<noteq> [] \<and> pr_apiGroups r \<noteq> [] else pr_resources r = [])"

definition wf_role :: "role_builder \<Rightarrow> bool" where
  "wf_role rb \<longleftrightarrow> rbd_displayName rb \<noteq> [] \<and> list_all wf_rule (policyRules rb) \<and> (rbd_external rb \<longleftrightarrow> policyRules rb = [])"

definition wf_template :: "string list \<Rightarrow> role_builder \<Rightarrow> bool" where
  "wf_template externals rb \<longleftrightarrow> wf_role rb \<and> rbd_builtin rb \<and> (rbd_context rb = ''cluster'' \<or> rbd_context rb = ''project'') \<and>
     (rbd_external rb \<longleftrightarrow> rbd_name rb \<in> set externals) \<and>
     (if rbd_external rb then rbd_roleTemplateNames rb = []
      else list_all (\<lambda>n. n \<in> set externals) (rbd_roleTemplateNames rb))"

abbreviation k8s_templates :: "string list" where
  "k8s_templates \<equiv> [''cluster-admin'', ''admin'', ''edit'', ''view'']"

lemma wf_global_role_statements: "list_all (\<lambda>s. wf_role (built s)) global_role_statements"
  by code_simp

lemma wf_cluster_template_statements: "list_all (\<lambda>s. wf_template k8s_templates (built s)) cluster_template_statements"
  by code_simp

lemma wf_project_template_statements: "list_all (\<lambda>s. wf_template k8s_templates (built s)) project_template_statements"
  by code_simp

lemma global_role_names:
  "map (\<lambda>s. rbd_name (built s)) global_role_statements = [''clusters-create'', ''nodedrivers-manage'', ''catalogs-manage'',
     ''catalogs-use'', ''users-manage'', ''roles-manage'', ''authn-manage'', ''settings-manage'',
     ''podsecuritypolicytemplates-manage'', ''admin'', ''user'', ''user-base'']"
  by code_simp

lemma cluster_template_names:
  "map (\<lambda>s. rbd_name (built s)) cluster_template_statements = [''cluster-admin'', ''admin'', ''edit'', ''view'', ''cluster-owner'',
     ''cluster-member'', ''projects-create'', ''projects-view'', ''nodes-manage'', ''nodes-view'', ''storage-manage'',
     ''clusterroletemplatebindings-manage'', ''clusterroletemplatebindings-view'']"
  by code_simp

lemma project_template_names:
  "map (\<lambda>s. rbd_name (built s)) project_template_statements = [''project-owner'', ''project-member'', ''read-only'', ''create-ns'',
     ''workloads-manage'', ''workloads-view'', ''ingress-manage'', ''ingress-view'', ''services-manage'', ''services-view'',
     ''secrets-manage'', ''secrets-view'', ''configmaps-manage'', ''configmaps-view'', ''persistentvolumeclaims-manage'',
     ''persistentvolumeclaims-view'', ''serviceaccounts-manage'', ''serviceaccounts-view'',
     ''projectroletemplatebindings-manage'', ''projectroletemplatebindings-view'']"
  by code_simp

lemma distinct_global_role_names: "distinct (map rbd_name default_global_roles)"
  unfolding default_global_roles_built map_map comp_def global_role_names by code_simp

lemma distinct_template_names: "distinct (map rbd_name default_role_templates)"
  unfolding default_role_templates_built map_append map_map comp_def cluster_template_names project_template_names by code_simp

lemma wf_default_role_templates: "list_all (wf_template k8s_templates) default_role_templates"
  using wf_cluster_template_statements wf_project_template_statements
  by (simp add: default_role_templates_built list.pred_map comp_def)

definition default_templates :: "role_template list" where
  "default_templates = map (\<lambda>rb. snd (build_roleTemplate rb)) default_role_templates"

lemma default_templates_names: "map rt_name default_templates = map rbd_name default_role_templates"
  by (simp add: default_templates_def build_roleTemplate_def comp_def)

lemma k8s_templates_resolvable:
  assumes "n \<in> set k8s_templates" shows "resolvable (lister_get rt_name default_templates) n"
proof -
  have "set k8s_templates \<subseteq> set (map rt_name default_templates)"
    unfolding default_templates_names default_role_templates_built map_append map_map comp_def cluster_template_names by simp
  with assms obtain rt where rt: "lister_get rt_name default_templates n = Inr rt"
    using lister_get_error by (cases "lister_get rt_name default_templates n") (fastforce, blast)
  then obtain rb where rb: "rb \<in> set default_role_templates" "rt = snd (build_roleTemplate rb)" "rbd_name rb = n"
    using lister_get_name [OF rt] by (auto simp: default_templates_def build_roleTemplate_def)
  then have "wf_template k8s_templates rb" using wf_default_role_templates by (simp add: list_all_iff)
  with rb assms have "rt_roleTemplateNames rt = []" unfolding wf_template_def by (auto simp: build_roleTemplate_def)
  with rt show ?thesis by (auto intro: resolvableI)
qed

text \<open>
  C25. The roles a new installation starts with are well formed.  Their names are distinct; every
  role has a display name, and rules unless Kubernetes has them already; every rule has verbs and
  either resources with API groups or URLs; every template belongs to clusters or to projects and
  inherits only from the four templates of Kubernetes, so that collecting what a template stands
  for always returns.
\<close>

theorem default_roles_wellformed:
  "distinct (map rbd_name default_global_roles) \<and> list_all wf_role default_global_roles \<and>
   distinct (map rbd_name default_role_templates) \<and> list_all (wf_template k8s_templates) default_role_templates \<and>
   list_all (\<lambda>rt. \<exists>m. gatherRoles (lister_get rt_name default_templates) rt [] = Some (Inr m)) default_templates"
proof (intro conjI)
  show "list_all wf_role default_global_roles"
    using wf_global_role_statements by (simp add: default_global_roles_built list.pred_map comp_def)
  show "list_all (\<lambda>rt. \<exists>m. gatherRoles (lister_get rt_name default_templates) rt [] = Some (Inr m)) default_templates"
    unfolding list_all_iff
  proof
    fix rt assume "rt \<in> set default_templates"
    then obtain rb where rb: "rb \<in> set default_role_templates" "rt = snd (build_roleTemplate rb)"
      by (auto simp: default_templates_def)
    then have "wf_template k8s_templates rb" using wf_default_role_templates by (simp add: list_all_iff)
    then have sub: "set (rt_roleTemplateNames rt) \<subseteq> set k8s_templates"
      unfolding wf_template_def by (auto simp: rb(2) build_roleTemplate_def list_all_iff split: if_splits)
    have names: "rt_name rt' = n" if "lister_get rt_name default_templates n = Inr rt'" for n rt'
      using lister_get_name [OF that] by simp
    have res: "resolvable (lister_get rt_name default_templates) n" if "n \<in> set (rt_roleTemplateNames rt)" for n
      using that sub by (intro k8s_templates_resolvable) (rule subsetD)
    show "\<exists>m. gatherRoles (lister_get rt_name default_templates) rt [] = Some (Inr m)"
      by (rule gatherRoles_returns) (erule names, erule res)
  qed
qed (fact distinct_global_role_names distinct_template_names wf_default_role_templates)+

section \<open>Particular roles\<close>

lemma admin_role:
  obtains rb where "rb \<in> set default_global_roles" and "rbd_name rb = ''admin''"
    and "\<exists>r \<in> set (policyRules rb). pr_apiGroups r = [''*''] \<and> pr_resources r = [''*''] \<and> pr_resourceNames r = [] \<and> pr_verbs r = [''*'']"
proof -
  have "list_ex (\<lambda>s. rbd_name (built s) = ''admin'' \<and> list_ex (\<lambda>r. pr_apiGroups r = [''*''] \<and> pr_resources r = [''*''] \<and>
      pr_resourceNames r = [] \<and> pr_verbs r = [''*'']) (policyRules (built s))) global_role_statements"
    by code_simp
  then show thesis using that by (auto simp: list_ex_iff default_global_roles_built)
qed

text \<open>The templates that only show things.\<close>

definition view_templates :: "string list" where
  "view_templates = [''projects-view'', ''nodes-view'', ''clusterroletemplatebindings-view'', ''read-only'', ''workloads-view'',
     ''ingress-view'', ''services-view'', ''secrets-view'', ''configmaps-view'', ''persistentvolumeclaims-view'',
     ''serviceaccounts-view'', ''projectroletemplatebindings-view'']"

definition view_only :: "policy_rule \<Rightarrow> bool" where
  "view_only r \<longleftrightarrow> pr_verbs r = [''get'', ''list'', ''watch'']"

lemma view_templates_view_only:
  assumes "rt \<in> set default_templates" and "rt_name rt \<in> set view_templates"
  shows "list_all view_only (rt_rules rt)"
proof -
  have c: "list_all (\<lambda>s. rbd_name (built s) \<in> set view_templates \<longrightarrow> list_all view_only (policyRules (built s))) cluster_template_statements"
    by code_simp
  have p: "list_all (\<lambda>s. rbd_name (built s) \<in> set view_templates \<longrightarrow> list_all view_only (policyRules (built s))) project_template_statements"
    by code_simp
  have "\<forall>rb \<in> set default_role_templates. rbd_name rb \<in> set view_templates \<longrightarrow> list_all view_only (policyRules rb)"
    using c p by (simp add: default_role_templates_built list_all_iff ball_Un)
  with assms show ?thesis by (auto simp: default_templates_def build_roleTemplate_def)
qed

end
