(* ===== verification/Role_Reconcile.thy ===== *)
theory Role_Reconcile
  imports Role_Builder
begin

text \<open>
  Reconciling the default roles with the server: which requests it sends, and what the server has
  afterwards.  Global roles and role templates share the loop; what it relies on is how objects of
  the kind are built and compared.
\<close>

section \<open>What the requests do to the server's objects\<close>

fun apply_role :: "('o \<Rightarrow> string) \<Rightarrow> 'o role_req \<Rightarrow> (string \<Rightarrow> 'o option) \<Rightarrow> string \<Rightarrow> 'o option" where
  "apply_role nm (RoleDelete n) st = st(n := None)"
| "apply_role nm (RoleUpdate n g) st = st(n := Some g)"
| "apply_role nm (RoleCreate g) st = st(nm g := Some g)"

text \<open>The server's answer to the list of labelled objects.\<close>

definition lists_labelled :: "('o \<Rightarrow> string) \<Rightarrow> ('o \<Rightarrow> bool) \<Rightarrow> (string \<Rightarrow> 'o option) \<Rightarrow> 'o list \<Rightarrow> bool" where
  "lists_labelled nm labelled st items \<longleftrightarrow> distinct (map nm items) \<and>
     (\<forall>g. g \<in> set items \<longleftrightarrow> st (nm g) = Some g \<and> labelled g)"

section \<open>The plan\<close>

definition one_plan :: "('o \<Rightarrow> 'o \<Rightarrow> bool \<times> 'o) \<Rightarrow> (string, 'o) gomap \<Rightarrow> string \<times> 'o \<Rightarrow> 'o role_req list" where
  "one_plan cmp existing = (\<lambda>(name, gr). case map_of existing name of
     Some g \<Rightarrow> if fst (cmp g gr) then [] else [RoleUpdate name (snd (cmp g gr))]
   | None \<Rightarrow> [RoleCreate gr])"

definition reconcile_plan :: "(string list \<Rightarrow> string list) \<Rightarrow> ('o \<Rightarrow> 'o \<Rightarrow> bool \<times> 'o) \<Rightarrow> (string, 'o) gomap \<Rightarrow> (string, 'o) gomap \<Rightarrow>
    'o role_req list" where
  "reconcile_plan rng cmp existing wanted =
     map RoleDelete (filter (\<lambda>n. \<not> has_key wanted n) (rng (map fst existing))) @
     concat (map (one_plan cmp existing) (range_map rng wanted))"

lemma map_of_filter_key: "P k \<Longrightarrow> map_of (filter (\<lambda>(k, _). P k) m) k = map_of m k"
  by (induction m) auto

lemma reconcile_one_plan:
  "follows_plan T (reconcile_one env req cmp existing p) (map req (one_plan cmp existing p))"
  by (cases p) (auto simp: reconcile_one_def one_plan_def follows_plan_return split: option.splits prod.splits
      intro!: follows_plan_wrap follows_plan_call)

lemma reconcile_follows_plan:
  assumes "valid_rng (env_rng env)"
  shows "follows_plan (\<lambda>_. False) (reconcile env req build (Inr existing) cmp rbs)
    (map req (reconcile_plan (env_rng env) cmp existing (built_roles build rbs)))"
proof -
  let ?built = "built_roles build rbs"
  have del: "follows_plan (\<lambda>_. False) (go_for (map fst (range_map (env_rng env) existing)) (\<lambda>name.
      go_when (\<not> has_key ?built name) (go_wrap (''couldn't delete '' @ name) (go_call env (req (RoleDelete name))))))
      (map (\<lambda>n. req (RoleDelete n)) (filter (\<lambda>n. \<not> has_key ?built n) (env_rng env (map fst existing))))"
    unfolding go_for_filter [symmetric] map_fst_range_map
    by (rule follows_plan_for_single) (intro follows_plan_wrap follows_plan_call)
  have one: "one_plan cmp (filter (\<lambda>(name, _). has_key ?built name) existing) p = one_plan cmp existing p"
    if "p \<in> set (range_map (env_rng env) ?built)" for p
  proof -
    have "fst p \<in> set (env_rng env (map fst ?built))" using that by (auto simp: range_map_def)
    then have "has_key ?built (fst p)" using assms by (simp add: has_key_iff)
    then show ?thesis by (cases p) (simp add: one_plan_def map_of_filter_key)
  qed
  have "follows_plan (\<lambda>_. False) (go_for (range_map (env_rng env) ?built)
      (reconcile_one env req cmp (filter (\<lambda>(name, _). has_key ?built name) existing)))
      (concat (map (\<lambda>p. map req (one_plan cmp existing p)) (range_map (env_rng env) ?built)))"
    by (rule follows_plan_for) (metis reconcile_one_plan one)
  from follows_plan_bind [OF del this]
  show ?thesis by (simp add: reconcile_def reconcile_plan_def Let_def map_concat comp_def)
qed

lemma fold_RoleDelete: "fold (apply_role nm) (map RoleDelete ns) st n = (if n \<in> set ns then None else st n)"
  by (induction ns arbitrary: st) auto

lemma fold_one_plans:
  assumes "distinct (map fst ps)" and "\<forall>(n, g) \<in> set ps. nm g = n"
  shows "fold (apply_role nm) (concat (map (one_plan cmp existing) ps)) st n =
    (case map_of ps n of None \<Rightarrow> st n
     | Some gr \<Rightarrow> (case map_of existing n of None \<Rightarrow> Some gr
                  | Some g \<Rightarrow> if fst (cmp g gr) then st n else Some (snd (cmp g gr))))"
  using assms
proof (induction ps arbitrary: st)
  case (Cons p ps)
  obtain k gr where p: "p = (k, gr)" by fastforce
  have "map_of ps k = None" using Cons.prems(1) p by (simp add: map_of_eq_None_iff)
  moreover have "nm gr = k" using Cons.prems(2) p by simp
  ultimately show ?case
    using Cons.IH Cons.prems by (auto simp: p one_plan_def split: option.splits)
qed simp

lemma reconcile_succeeds: "accepting env \<Longrightarrow> succeeds (reconcile env req build (Inr existing) cmp rbs)"
  unfolding reconcile_def Let_def
  by (auto simp: reconcile_one_def go_when_def split: option.splits prod.splits intro!: succeeds_bind succeeds_for)

text \<open>With an empty server the plan creates everything.\<close>

lemma reconcile_plan_Nil: "reconcile_plan rng cmp [] wanted = map RoleCreate (map snd (range_map rng wanted))" if "valid_rng rng"
proof -
  have "rng [] = []" using valid_rng_length [OF that, of "[]"] by simp
  moreover have "one_plan cmp [] = (\<lambda>p. [RoleCreate (snd p)])" by (simp add: one_plan_def case_prod_beta fun_eq_iff)
  ultimately show ?thesis by (simp add: reconcile_plan_def concat_map_singleton comp_def)
qed

section \<open>Kinds of roles\<close>

text \<open>
  What the loop relies on: an object is built under the name of its builder and with the label;
  comparing leaves name and label alone, makes the object agree with the wanted one, and finds
  objects equal only when they agree.
\<close>

locale role_kind =
  fixes nm :: "'o \<Rightarrow> string" and build :: "role_builder \<Rightarrow> string \<times> 'o" and cmp :: "'o \<Rightarrow> 'o \<Rightarrow> bool \<times> 'o"
    and labelled :: "'o \<Rightarrow> bool" and agrees :: "'o \<Rightarrow> 'o \<Rightarrow> bool"
  assumes build_name: "fst (build rb) = rbd_name rb" "nm (snd (build rb)) = rbd_name rb"
    and build_labelled: "labelled (snd (build rb))"
    and agrees_refl: "agrees g g"
    and cmp_name: "nm (snd (cmp g w)) = nm g"
    and cmp_labelled: "labelled (snd (cmp g w)) = labelled g"
    and cmp_agrees: "agrees (snd (cmp g w)) w"
    and cmp_equal: "fst (cmp g w) \<Longrightarrow> agrees g w"
begin

lemma built_roles_facts:
  "wf_map (built_roles build rbs)" "fst ` set (built_roles build rbs) = rbd_name ` set rbs"
  "(n, g) \<in> set (built_roles build rbs) \<Longrightarrow> nm g = n \<and> (\<exists>rb\<in>set rbs. g = snd (build rb))"
proof -
  show "wf_map (built_roles build rbs)" by (simp add: built_roles_def wf_fold_update)
  show "fst ` set (built_roles build rbs) = rbd_name ` set rbs" by (simp add: built_roles_def keys_fold_update build_name)
  assume "(n, g) \<in> set (built_roles build rbs)"
  then have "(n, g) \<in> set (fold (\<lambda>rb. AList.update (fst (build rb)) (snd (build rb))) rbs [])" by (simp add: built_roles_def)
  from fold_update_inv [OF _ _ this, of "\<lambda>n g. nm g = n \<and> (\<exists>rb\<in>set rbs. g = snd (build rb))"]
  show "nm g = n \<and> (\<exists>rb\<in>set rbs. g = snd (build rb))" by (auto simp: build_name)
qed

lemma map_of_built_roles:
  assumes "distinct (map rbd_name rbs)" and "rb \<in> set rbs"
  shows "map_of (built_roles build rbs) (rbd_name rb) = Some (snd (build rb))"
proof -
  have "rbd_name rb \<in> fst ` set (built_roles build rbs)" using assms(2) by (simp add: built_roles_facts)
  then obtain g where g: "(rbd_name rb, g) \<in> set (built_roles build rbs)" by auto
  then obtain rb' where "rb' \<in> set rbs" "g = snd (build rb')" "nm g = rbd_name rb"
    using built_roles_facts(3) by blast
  moreover from this have "rb' = rb" using assms by (auto simp: build_name distinct_map dest: inj_onD)
  ultimately show ?thesis using g built_roles_facts(1) by (simp add: wf_map_def)
qed

lemma creates_all:
  assumes "distinct (map rbd_name rbs)" and "valid_rng rng"
  shows "set (reconcile_plan rng cmp [] (built_roles build rbs)) = (\<lambda>rb. RoleCreate (snd (build rb))) ` set rbs"
    and "length (reconcile_plan rng cmp [] (built_roles build rbs)) = length rbs"
proof -
  have "g \<in> snd ` set (built_roles build rbs) \<longleftrightarrow> g \<in> (\<lambda>rb. snd (build rb)) ` set rbs" for g
  proof
    assume "g \<in> snd ` set (built_roles build rbs)"
    then obtain n where "(n, g) \<in> set (built_roles build rbs)" by auto
    then show "g \<in> (\<lambda>rb. snd (build rb)) ` set rbs" using built_roles_facts(3) [of n g rbs] by blast
  next
    assume "g \<in> (\<lambda>rb. snd (build rb)) ` set rbs"
    then obtain rb where "rb \<in> set rbs" "g = snd (build rb)" by blast
    then show "g \<in> snd ` set (built_roles build rbs)"
      using map_of_SomeD [OF map_of_built_roles [OF assms(1), of rb]] by (metis rev_image_eqI snd_conv)
  qed
  then have "set (map snd (range_map rng (built_roles build rbs))) = (\<lambda>rb. snd (build rb)) ` set rbs"
    unfolding set_map set_range_map [OF assms(2) built_roles_facts(1)] by blast
  then show "set (reconcile_plan rng cmp [] (built_roles build rbs)) = (\<lambda>rb. RoleCreate (snd (build rb))) ` set rbs"
    unfolding reconcile_plan_Nil [OF assms(2)] by (simp only: set_map image_image)
  have "length (range_map rng (built_roles build rbs)) = length (map fst (built_roles build rbs))"
    using assms(2) by (simp add: range_map_def)
  also have "\<dots> = card (rbd_name ` set rbs)"
    using built_roles_facts(1) [of rbs] by (metis built_roles_facts(2) distinct_card set_map wf_map_def)
  also have "\<dots> = length rbs" using assms(1) by (metis distinct_card length_map set_map)
  finally show "length (reconcile_plan rng cmp [] (built_roles build rbs)) = length rbs"
    by (simp add: reconcile_plan_Nil [OF assms(2)])
qed

lemma gathered:
  assumes "lists_labelled nm labelled st items" and "gather_existing nm msg (Inr items) = Inr existing"
  shows "wf_map existing" and "map_of existing n = Some g \<longleftrightarrow> st n = Some g \<and> nm g = n \<and> labelled g"
proof -
  have ex: "existing = fold (\<lambda>e. AList.update (nm e) e) items []" using assms(2) by (simp add: gather_existing_def)
  show wf: "wf_map existing" unfolding ex by (rule wf_fold_update) simp
  have sound: "g \<in> set items \<and> nm g = n" if "(n, g) \<in> set existing" for n g
    using fold_update_inv [OF _ _ that [unfolded ex], of "\<lambda>n g. g \<in> set items \<and> nm g = n"] by auto
  have complete: "(nm g, g) \<in> set existing" if "g \<in> set items" for g
  proof -
    have "nm g \<in> fst ` set existing" using that by (simp add: ex keys_fold_update)
    then obtain g' where g': "(nm g, g') \<in> set existing" by auto
    then have "g' = g"
      using sound [OF g'] that assms(1) by (auto simp: lists_labelled_def distinct_map dest: inj_onD)
    with g' show ?thesis by simp
  qed
  have "map_of existing n = Some g \<longleftrightarrow> (n, g) \<in> set existing" using wf by (simp add: wf_map_def)
  also have "\<dots> \<longleftrightarrow> g \<in> set items \<and> nm g = n" using sound complete by blast
  also have "\<dots> \<longleftrightarrow> st n = Some g \<and> nm g = n \<and> labelled g" using assms(1) by (auto simp: lists_labelled_def)
  finally show "map_of existing n = Some g \<longleftrightarrow> st n = Some g \<and> nm g = n \<and> labelled g" .
qed

text \<open>What the server has after a successful run.\<close>

lemma reconciled:
  assumes run: "reconcile env req build (gather_existing nm msg (Inr items)) cmp rbs h = (Inr (), d)"
    and rng: "valid_rng (env_rng env)" and dist: "distinct (map rbd_name rbs)"
    and st: "lists_labelled nm labelled st items" "\<forall>n g. st n = Some g \<longrightarrow> nm g = n"
  obtains rs where "map fst d = map req rs" and "accepted (\<lambda>_. False) d"
    and "\<forall>rb \<in> set rbs. \<exists>g. fold (apply_role nm) rs st (rbd_name rb) = Some g \<and> nm g = rbd_name rb \<and> labelled g \<and> agrees g (snd (build rb))"
    and "\<forall>n. n \<notin> rbd_name ` set rbs \<longrightarrow> fold (apply_role nm) rs st n =
      (case st n of None \<Rightarrow> None | Some g \<Rightarrow> if labelled g then None else Some g)"
proof -
  obtain existing where ex: "gather_existing nm msg (Inr items) = Inr existing" by (simp add: gather_existing_def)
  note g = gathered [OF st(1) ex]
  let ?built = "built_roles build rbs"
  let ?rs = "reconcile_plan (env_rng env) cmp existing ?built"
  let ?ps = "range_map (env_rng env) ?built"
  have ps: "distinct (map fst ?ps)" "set ?ps = set ?built" "map_of ?ps = map_of ?built"
  proof -
    show "distinct (map fst ?ps)" using rng built_roles_facts(1) by (simp add: wf_map_def)
    show "set ?ps = set ?built" by (rule set_range_map [OF rng built_roles_facts(1)])
    then show "map_of ?ps = map_of ?built"
      using built_roles_facts(1) rng by (intro map_of_inject_set [THEN iffD2]) (simp_all add: wf_map_def)
  qed
  have after: "fold (apply_role nm) ?rs st n = (case map_of ?built n of
      None \<Rightarrow> if n \<in> fst ` set existing then None else st n
    | Some gr \<Rightarrow> (case map_of existing n of None \<Rightarrow> Some gr | Some g \<Rightarrow> if fst (cmp g gr) then Some g else Some (snd (cmp g gr))))" for n
  proof -
    have nm: "\<forall>(n, g)\<in>set ?ps. nm g = n" using built_roles_facts(3) ps(2) by auto
    have key: "has_key ?built n \<longleftrightarrow> map_of ?built n \<noteq> None" for n by (simp add: has_key_def)
    show ?thesis
      using fold_one_plans [OF ps(1) nm, of cmp existing] rng g(2) [of n "the (map_of existing n)"]
      by (auto simp: reconcile_plan_def fold_RoleDelete ps(3) key split: option.splits)
  qed
  show thesis
  proof (rule that [of ?rs])
    show "map fst d = map req ?rs" "accepted (\<lambda>_. False) d"
      using follows_plan_success [OF reconcile_follows_plan [OF rng] run [unfolded ex]] by auto
    show "\<forall>rb \<in> set rbs. \<exists>g. fold (apply_role nm) ?rs st (rbd_name rb) = Some g \<and> nm g = rbd_name rb \<and> labelled g \<and>
        agrees g (snd (build rb))"
    proof
      fix rb assume "rb \<in> set rbs"
      then show "\<exists>g. fold (apply_role nm) ?rs st (rbd_name rb) = Some g \<and> nm g = rbd_name rb \<and> labelled g \<and> agrees g (snd (build rb))"
        using g(2) [of "rbd_name rb"] cmp_agrees cmp_equal agrees_refl
        by (auto simp: after map_of_built_roles [OF dist] build_name build_labelled cmp_name cmp_labelled split: option.splits)
    qed
    show "\<forall>n. n \<notin> rbd_name ` set rbs \<longrightarrow> fold (apply_role nm) ?rs st n =
        (case st n of None \<Rightarrow> None | Some g \<Rightarrow> if labelled g then None else Some g)"
    proof (intro allI impI)
      fix n assume "n \<notin> rbd_name ` set rbs"
      then have none: "map_of ?built n = None" by (simp add: map_of_eq_None_iff built_roles_facts(2))
      have key: "n \<in> fst ` set existing \<longleftrightarrow> (\<exists>g. st n = Some g \<and> labelled g)"
        using g(2) [of n] st(2) map_of_eq_None_iff [of existing n] by (metis not_Some_eq)
      then show "fold (apply_role nm) ?rs st n = (case st n of None \<Rightarrow> None | Some g \<Rightarrow> if labelled g then None else Some g)"
        unfolding after none by (simp split: option.splits)
    qed
  qed
qed

text \<open>Nothing is sent when everything that is wanted is found equal and nothing else has the label.\<close>

lemma reconcile_quiet:
  assumes rng: "valid_rng (env_rng env)" and dist: "distinct (map rbd_name rbs)"
    and items: "lists_labelled nm labelled st items"
    and have_all: "\<forall>rb \<in> set rbs. \<exists>g. st (rbd_name rb) = Some g \<and> nm g = rbd_name rb \<and> labelled g \<and> fst (cmp g (snd (build rb)))"
    and only: "\<forall>n g. st n = Some g \<and> labelled g \<longrightarrow> n \<in> rbd_name ` set rbs"
  shows "reconcile env req build (gather_existing nm msg (Inr items)) cmp rbs h = (Inr (), [])"
proof -
  obtain existing where ex: "gather_existing nm msg (Inr items) = Inr existing" by (simp add: gather_existing_def)
  note g = gathered [OF items ex]
  let ?built = "built_roles build rbs"
  have "has_key ?built n" if "n \<in> fst ` set existing" for n
  proof -
    obtain g0 where "map_of existing n = Some g0" using \<open>n \<in> fst ` set existing\<close> by (metis map_of_eq_None_iff not_Some_eq)
    then have "n \<in> rbd_name ` set rbs" using g(2) only by metis
    then show ?thesis by (simp add: has_key_iff built_roles_facts(2))
  qed
  then have dels: "go_for (map fst (range_map (env_rng env) existing)) (\<lambda>name. go_when (\<not> has_key ?built name) (m name)) = go_return ()" for m
    using rng by (intro go_for_return) auto
  have one: "reconcile_one env req cmp (filter (\<lambda>(name, _). has_key ?built name) existing) p = go_return ()"
    if p: "p \<in> set (range_map (env_rng env) ?built)" for p
  proof -
    obtain n w where nw: "p = (n, w)" by (rule prod.exhaust)
    have "(n, w) \<in> set ?built" using p unfolding nw set_range_map [OF rng built_roles_facts(1)] .
    then obtain rb where rb: "rb \<in> set rbs" "w = snd (build rb)" "n = rbd_name rb"
      using built_roles_facts(3) [of n w rbs] by (auto simp: build_name)
    then obtain g0 where "map_of existing n = Some g0" "fst (cmp g0 w)" using have_all g(2) by metis
    moreover have "has_key ?built n" using rb by (simp add: has_key_iff built_roles_facts(2))
    ultimately show ?thesis
      by (cases "cmp g0 w") (simp add: nw reconcile_one_def map_of_filter_key)
  qed
  show ?thesis by (simp add: reconcile_def Let_def ex dels [unfolded map_fst_range_map] go_for_return one) (simp add: go_return_def)
qed

end

text \<open>When agreeing objects are also found equal, reconciling again sends nothing.\<close>

locale settling_role_kind = role_kind +
  assumes agrees_equal: "agrees g w \<Longrightarrow> fst (cmp g w)"
begin

lemma reconcile_settled:
  assumes "valid_rng (env_rng env)" and "distinct (map rbd_name rbs)" and "lists_labelled nm labelled st items"
    and have_all: "\<forall>rb \<in> set rbs. \<exists>g. st (rbd_name rb) = Some g \<and> nm g = rbd_name rb \<and> labelled g \<and> agrees g (snd (build rb))"
    and only: "\<forall>n g. st n = Some g \<and> labelled g \<longrightarrow> n \<in> rbd_name ` set rbs"
  shows "reconcile env req build (gather_existing nm msg (Inr items)) cmp rbs h = (Inr (), [])"
  using have_all agrees_equal by (intro reconcile_quiet [OF assms(1-3) _ only]) metis

end

section \<open>Global roles\<close>

definition agrees_globalRole :: "global_role \<Rightarrow> global_role \<Rightarrow> bool" where
  "agrees_globalRole g w \<longleftrightarrow> gr_displayName g = gr_displayName w \<and> gr_rules g = gr_rules w"

definition labelled_globalRole :: "global_role \<Rightarrow> bool" where
  "labelled_globalRole g \<longleftrightarrow> selects defaultGRLabel (om_labels (gr_meta g))"

interpretation grk: settling_role_kind gr_name build_globalRole compare_globalRole labelled_globalRole agrees_globalRole
  by unfold_locales
    (auto simp: build_globalRole_def compare_globalRole_def labelled_globalRole_def agrees_globalRole_def defaultGRLabel_def)

text \<open>
  C15. A successful reconciliation leaves the server with every built global role under its name,
  with its display name and exactly its rules.  Of the other objects it has deleted those that
  carry the label of the defaults and left the rest alone; and reconciling again sends nothing.
\<close>

theorem reconcileGlobalRoles_establishes:
  assumes "reconcileGlobalRoles env req (Inr items) rbs h = (Inr (), d)" and "valid_rng (env_rng env)"
    and "distinct (map rbd_name rbs)" and "lists_labelled gr_name labelled_globalRole st items"
    and "\<forall>n g. st n = Some g \<longrightarrow> gr_name g = n"
  shows "\<exists>rs st'. map fst d = map req rs \<and> st' = fold (apply_role gr_name) rs st \<and>
    (\<forall>rb \<in> set rbs. \<exists>g. st' (rbd_name rb) = Some g \<and> gr_displayName g = rbd_displayName rb \<and> gr_rules g = policyRules rb) \<and>
    (\<forall>n. n \<notin> rbd_name ` set rbs \<longrightarrow> st' n = (case st n of None \<Rightarrow> None | Some g \<Rightarrow> if labelled_globalRole g then None else Some g)) \<and>
    (\<forall>items' h'. lists_labelled gr_name labelled_globalRole st' items' \<longrightarrow>
       reconcileGlobalRoles env req (Inr items') rbs h' = (Inr (), []))"
proof -
  obtain rs where rs: "map fst d = map req rs"
      "\<forall>rb \<in> set rbs. \<exists>g. fold (apply_role gr_name) rs st (rbd_name rb) = Some g \<and> gr_name g = rbd_name rb \<and>
         labelled_globalRole g \<and> agrees_globalRole g (snd (build_globalRole rb))"
      "\<forall>n. n \<notin> rbd_name ` set rbs \<longrightarrow> fold (apply_role gr_name) rs st n =
         (case st n of None \<Rightarrow> None | Some g \<Rightarrow> if labelled_globalRole g then None else Some g)"
    by (rule grk.reconciled [OF assms(1) [unfolded reconcileGlobalRoles_def] assms(2-5)])
  let ?st = "fold (apply_role gr_name) rs st"
  have "\<forall>n g. ?st n = Some g \<and> labelled_globalRole g \<longrightarrow> n \<in> rbd_name ` set rbs"
  proof (intro allI impI, rule ccontr)
    fix n g assume g: "?st n = Some g \<and> labelled_globalRole g" and "n \<notin> rbd_name ` set rbs"
    then have "?st n = (case st n of None \<Rightarrow> None | Some g \<Rightarrow> if labelled_globalRole g then None else Some g)" using rs(3) by blast
    with g show False by (simp split: option.splits if_splits)
  qed
  then have "reconcileGlobalRoles env req (Inr items') rbs h' = (Inr (), [])"
    if "lists_labelled gr_name labelled_globalRole ?st items'" for items' h'
    unfolding reconcileGlobalRoles_def by (rule grk.reconcile_settled [OF assms(2,3) that rs(2)])
  moreover have "\<exists>g. ?st (rbd_name rb) = Some g \<and> gr_displayName g = rbd_displayName rb \<and> gr_rules g = policyRules rb"
    if "rb \<in> set rbs" for rb
    using rs(2) that by (auto simp: agrees_globalRole_def build_globalRole_def)
  ultimately show ?thesis using rs(1,3) by blast
qed

section \<open>Role templates\<close>

text \<open>
  The comparison of role templates finds two of them equal only when their builtin flags differ.
  What it does establish is everything but that flag.
\<close>

definition agrees_roleTemplate :: "role_template \<Rightarrow> role_template \<Rightarrow> bool" where
  "agrees_roleTemplate g w \<longleftrightarrow> rt_displayName g = rt_displayName w \<and> rt_rules g = rt_rules w \<and>
     rt_roleTemplateNames g = rt_roleTemplateNames w \<and> rt_external g = rt_external w \<and> rt_hidden g = rt_hidden w \<and>
     rt_context g = rt_context w"

definition labelled_roleTemplate :: "role_template \<Rightarrow> bool" where
  "labelled_roleTemplate g \<longleftrightarrow> selects defaultRTLabel (om_labels (rt_meta g))"

interpretation rtk: role_kind rt_name build_roleTemplate compare_roleTemplate labelled_roleTemplate agrees_roleTemplate
  by unfold_locales
    (auto simp: build_roleTemplate_def compare_roleTemplate_def labelled_roleTemplate_def agrees_roleTemplate_def defaultRTLabel_def)

lemma lists_labelled_items:
  assumes "distinct (map nm items)" and "\<forall>g \<in> set items. labelled g"
  shows "lists_labelled nm labelled (\<lambda>n. find (\<lambda>g. nm g = n) items) items"
proof -
  have "g \<in> set items \<longleftrightarrow> find (\<lambda>x. nm x = nm g) items = Some g" for g
    using assms(1)
    by (induction items) (auto simp: find_Some_iff image_iff dest: nth_mem)
  then show ?thesis using assms by (auto simp: lists_labelled_def)
qed

lemma find_rbd_name:
  assumes "distinct (map rbd_name rbs)" and "rb \<in> set rbs" and "\<And>rb. nm (f rb) = rbd_name rb"
  shows "find (\<lambda>g. nm g = rbd_name rb) (map f rbs) = Some (f rb)"
  using assms(1,2) by (induction rbs) (auto simp: assms(3) image_iff)

text \<open>
  The comparison of role templates has the builtin flag the wrong way round.  When the server
  has exactly the wanted templates, reconciling them updates every one of them, at every start; and
  when it has them all with the wrong flag and nothing else to change, reconciling sends nothing.
\<close>

theorem reconcileRoleTemplates_inverted:
  assumes rng: "valid_rng (env_rng env)" and dist: "distinct (map rbd_name rbs)"
    and run: "reconcileRoleTemplates env req (Inr (map (\<lambda>rb. snd (build_roleTemplate rb)) rbs)) rbs h = (Inr (), d)"
  shows "set (map fst d) = (\<lambda>rb. req (RoleUpdate (rbd_name rb) (snd (build_roleTemplate rb)))) ` set rbs \<and>
    reconcileRoleTemplates env req (Inr (map (\<lambda>rb. (snd (build_roleTemplate rb))\<lparr>rt_builtin := \<not> rbd_builtin rb\<rparr>) rbs)) rbs h'
      = (Inr (), [])"
proof
  let ?b = "\<lambda>rb. snd (build_roleTemplate rb)" and ?built = "built_roles build_roleTemplate rbs"
  let ?st = "\<lambda>n. find (\<lambda>g. rt_name g = n) (map ?b rbs)"
  have items: "lists_labelled rt_name labelled_roleTemplate ?st (map ?b rbs)"
    by (rule lists_labelled_items) (use dist rtk.build_labelled rtk.build_name in \<open>auto simp: comp_def\<close>)
  obtain existing where ex: "gather_existing rt_name ''couldn't list roleTemplate'' (Inr (map ?b rbs)) = Inr existing"
    by (simp add: gather_existing_def)
  have cmp: "compare_roleTemplate (?b rb) (?b rb) = (False, ?b rb)" for rb by (simp add: compare_roleTemplate_def)
  have have_all: "map_of existing (rbd_name rb) = Some (?b rb)" if "rb \<in> set rbs" for rb
    using find_rbd_name [OF dist that, of rt_name ?b] rtk.build_name(2) rtk.build_labelled
    by (simp add: rtk.gathered(2) [OF items ex])
  have "existing = fold (\<lambda>e. AList.update (rt_name e) e) (map ?b rbs) []" using ex by (simp add: gather_existing_def)
  then have "fst ` set existing = rbd_name ` set rbs" by (simp only: keys_fold_update) (simp add: image_image rtk.build_name)
  then have dels: "filter (\<lambda>n. \<not> has_key ?built n) (env_rng env (map fst existing)) = []"
    using rng by (auto simp: filter_empty_conv has_key_iff rtk.built_roles_facts(2))
  have elem: "(n, w) \<in> set ?built \<longleftrightarrow> (\<exists>rb \<in> set rbs. n = rbd_name rb \<and> w = ?b rb)" for n w
    using rtk.built_roles_facts(1,3) rtk.map_of_built_roles [OF dist] rtk.build_name(2)
    by (metis map_of_SomeD)
  have "map fst d = map req (concat (map (one_plan compare_roleTemplate existing) (range_map (env_rng env) ?built)))"
    using follows_plan_success [OF reconcile_follows_plan [OF rng] run [unfolded reconcileRoleTemplates_def ex]]
    by (simp add: reconcile_plan_def dels)
  then have "set (map fst d) = req ` (\<Union>p \<in> set ?built. set (one_plan compare_roleTemplate existing p))"
    by (simp add: set_range_map [OF rng rtk.built_roles_facts(1)] image_UN)
  also have "\<dots> = (\<lambda>rb. req (RoleUpdate (rbd_name rb) (?b rb))) ` set rbs"
    using elem by (force simp: one_plan_def have_all cmp)
  finally show "set (map fst d) = (\<lambda>rb. req (RoleUpdate (rbd_name rb) (?b rb))) ` set rbs" .
  let ?f = "\<lambda>rb. (?b rb)\<lparr>rt_builtin := \<not> rbd_builtin rb\<rparr>"
  let ?st' = "\<lambda>n. find (\<lambda>g. rt_name g = n) (map ?f rbs)"
  have lab: "labelled_roleTemplate (?f rb)" for rb using rtk.build_labelled [of rb] by (simp add: labelled_roleTemplate_def)
  have "lists_labelled rt_name labelled_roleTemplate ?st' (map ?f rbs)"
    by (rule lists_labelled_items) (use dist lab rtk.build_name in \<open>auto simp: comp_def\<close>)
  then show "reconcileRoleTemplates env req (Inr (map ?f rbs)) rbs h' = (Inr (), [])"
    unfolding reconcileRoleTemplates_def
  proof (rule rtk.reconcile_quiet [OF rng dist])
    show "\<forall>rb \<in> set rbs. \<exists>g. ?st' (rbd_name rb) = Some g \<and> rt_name g = rbd_name rb \<and> labelled_roleTemplate g \<and>
        fst (compare_roleTemplate g (?b rb))"
      using find_rbd_name [OF dist, of _ rt_name ?f] lab rtk.build_name(2)
      by (simp add: compare_roleTemplate_def build_roleTemplate_def)
    show "\<forall>n g. ?st' n = Some g \<and> labelled_roleTemplate g \<longrightarrow> n \<in> rbd_name ` set rbs"
      by (auto simp: find_Some_iff rtk.build_name)
  qed
qed

section \<open>Examples\<close>

definition builders_ex :: "role_builder list" where
  "builders_ex = [roleBuilder0\<lparr>rbd_name := ''a'', rbd_displayName := ''A''\<rparr>, roleBuilder0\<lparr>rbd_name := ''b'', rbd_builtin := True\<rparr>]"

definition stale_ex :: global_role where
  "stale_ex = (snd (build_globalRole (roleBuilder0\<lparr>rbd_name := ''old''\<rparr>)))"

definition st_ex :: "string \<Rightarrow> global_role option" where
  "st_ex = (\<lambda>n. find (\<lambda>g. gr_name g = n) [stale_ex])"

theorem reconcileGlobalRoles_establishes_witness:
  "\<exists>d rs. reconcileGlobalRoles accept_all id (Inr [stale_ex]) builders_ex [] = (Inr (), d) \<and> map fst d = rs \<and>
     fold (apply_role gr_name) rs st_ex ''old'' = None \<and> (\<exists>g. fold (apply_role gr_name) rs st_ex ''a'' = Some g \<and> gr_displayName g = ''A'')"
proof -
  let ?r = "reconcileGlobalRoles accept_all id (Inr [stale_ex]) builders_ex []"
  have "\<not> isl (fst ?r)" by code_simp
  then obtain d where r: "?r = (Inr (), d)" by (cases ?r; cases "fst ?r") auto
  have st: "lists_labelled gr_name labelled_globalRole st_ex [stale_ex]"
    unfolding st_ex_def by (rule lists_labelled_items) (simp_all add: stale_ex_def grk.build_labelled)
  have nm: "\<forall>n g. st_ex n = Some g \<longrightarrow> gr_name g = n" by (auto simp: st_ex_def split: if_splits)
  have ab: "distinct (map rbd_name builders_ex)" "''old'' \<notin> rbd_name ` set builders_ex"
      "roleBuilder0\<lparr>rbd_name := ''a'', rbd_displayName := ''A''\<rparr> \<in> set builders_ex"
    by (simp_all add: builders_ex_def roleBuilder0_def)
  have old: "st_ex ''old'' = Some stale_ex" "labelled_globalRole stale_ex"
    by (simp_all add: st_ex_def stale_ex_def grk.build_labelled grk.build_name)
  from reconcileGlobalRoles_establishes [OF r _ ab(1) st nm] ab(2,3) old show ?thesis
    using r by (fastforce simp: roleBuilder0_def)
qed

theorem reconcileRoleTemplates_inverted_witness:
  "\<exists>d. reconcileRoleTemplates accept_all id (Inr (map (\<lambda>rb. snd (build_roleTemplate rb)) builders_ex)) builders_ex [] = (Inr (), d) \<and>
     RoleUpdate ''b'' (snd (build_roleTemplate (roleBuilder0\<lparr>rbd_name := ''b'', rbd_builtin := True\<rparr>))) \<in> fst ` set d"
proof -
  let ?r = "reconcileRoleTemplates accept_all id (Inr (map (\<lambda>rb. snd (build_roleTemplate rb)) builders_ex)) builders_ex []"
  have "\<not> isl (fst ?r)" by code_simp
  then obtain d where r: "?r = (Inr (), d)" by (cases ?r; cases "fst ?r") auto
  have "distinct (map rbd_name builders_ex)" by (simp add: builders_ex_def roleBuilder0_def)
  from reconcileRoleTemplates_inverted [OF _ this r] r show ?thesis by (simp add: builders_ex_def roleBuilder0_def)
qed

end
