(* ===== verification/Go_Strconv.thy ===== *)
theory Go_Strconv
  imports Go_Prelude "HOL-Library.Word"
begin

text \<open>
  Decimal numbers as the Go packages \<open>strconv\<close> and \<open>fmt\<close> write and read them, on signed
  numbers of 64 bits.
\<close>

section \<open>Digits\<close>

definition digit :: "nat \<Rightarrow> char" where
  "digit n = char_of (48 + n)"

definition is_digit :: "char \<Rightarrow> bool" where
  "is_digit c \<longleftrightarrow> 48 \<le> (of_char c :: nat) \<and> (of_char c :: nat) \<le> 57"

definition digit_value :: "char \<Rightarrow> nat" where
  "digit_value c = of_char c - 48"

fun dec :: "nat \<Rightarrow> string" where
  "dec n = (if n < 10 then [digit n] else dec (n div 10) @ [digit (n mod 10)])"

declare dec.simps [simp del]

lemma dec_small: "n < 10 \<Longrightarrow> dec n = [digit n]"
  by (subst dec.simps) simp

text \<open>The number a string of digits stands for.\<close>

definition dec_value :: "string \<Rightarrow> nat" where
  "dec_value s = foldl (\<lambda>v c. 10 * v + digit_value c) 0 s"

lemma of_char_digit: "n < 10 \<Longrightarrow> (of_char (digit n) :: nat) = 48 + n"
  by (simp add: digit_def of_char_of)

lemma digit_simps [simp]: "n < 10 \<Longrightarrow> is_digit (digit n)" "n < 10 \<Longrightarrow> digit_value (digit n) = n"
  by (simp_all add: is_digit_def digit_value_def of_char_digit)

lemma dec_value_append: "dec_value (s @ [c]) = 10 * dec_value s + digit_value c"
  by (simp add: dec_value_def)

lemma dec_value_dec [simp]: "dec_value (dec n) = n"
  by (induction n rule: dec.induct) (subst dec.simps, simp add: dec_value_append, simp add: dec_value_def)

lemma dec_digits: "list_all is_digit (dec n)"
  by (induction n rule: dec.induct) (subst dec.simps, simp)

lemma dec_not_Nil [simp]: "dec n \<noteq> []"
  by (subst dec.simps) simp

lemma dec_value_zeros [simp]: "dec_value (replicate k CHR ''0'' @ s) = dec_value s"
proof -
  have "foldl (\<lambda>v c. 10 * v + digit_value c) 0 (replicate k CHR ''0'') = 0" by (induction k) (simp_all add: digit_value_def)
  then show ?thesis by (simp add: dec_value_def)
qed

lemma minus_not_digit [simp]: "\<not> is_digit CHR ''-''"
  by (simp add: is_digit_def)

text \<open>Writing a number and padding it gives back any string of digits that is as long as the padding says.\<close>

lemma dec_value_less: "list_all is_digit s \<Longrightarrow> dec_value s < 10 ^ length s"
proof (induction s rule: rev_induct)
  case (snoc c s)
  then have "dec_value s < 10 ^ length s" "digit_value c < 10" by (auto simp: is_digit_def digit_value_def)
  then show ?case by (simp add: dec_value_append)
qed (simp add: dec_value_def)

lemma digit_digit_value [simp]: "is_digit c \<Longrightarrow> digit (digit_value c) = c"
  by (simp add: digit_def digit_value_def is_digit_def)

lemma dec_pad:
  "list_all is_digit s \<Longrightarrow> s \<noteq> [] \<Longrightarrow>
     length (dec (dec_value s)) \<le> length s \<and> replicate (length s - length (dec (dec_value s))) CHR ''0'' @ dec (dec_value s) = s"
proof (induction s rule: rev_induct)
  case (snoc c s)
  then have c: "is_digit c" "digit_value c < 10" by (auto simp: is_digit_def digit_value_def)
  have d0: "digit 0 = CHR ''0''" by code_simp
  show ?case
  proof (cases "s = []")
    case True
    then show ?thesis using c by (simp add: dec_value_def dec_small)
  next
    case False
    then have IH: "length (dec (dec_value s)) \<le> length s"
        "replicate (length s - length (dec (dec_value s))) CHR ''0'' @ dec (dec_value s) = s"
      using snoc by auto
    show ?thesis
    proof (cases "dec_value s = 0")
      case True
      then have "dec (dec_value s) = [CHR ''0'']" by (simp add: dec_small d0)
      with IH have "s = replicate (length s - 1) CHR ''0'' @ [CHR ''0'']" by simp
      then have "s = replicate (length s) CHR ''0''"
        using False by (metis Suc_pred' length_greater_0_conv replicate_Suc replicate_append_same)
      moreover have "dec (dec_value (s @ [c])) = [c]" using c True by (simp add: dec_value_append dec_small)
      ultimately show ?thesis by simp
    next
      case False
      then have "\<not> 10 * dec_value s + digit_value c < 10" by simp
      then have "dec (dec_value (s @ [c])) = dec (dec_value s) @ [c]"
        using c by (subst dec.simps) (simp add: dec_value_append)
      with IH show ?thesis by simp
    qed
  qed
qed simp

section \<open>\<open>strconv.Itoa\<close>, \<open>strconv.Atoi\<close> and \<open>%0wd\<close>\<close>

definition Itoa :: "64 word \<Rightarrow> string" where
  "Itoa i = (if sint i < 0 then ''-'' @ dec (nat (- sint i)) else dec (nat (sint i)))"

text \<open>\<open>Atoi\<close> of a string of digits: a number that does not fit is cut to the largest one.\<close>

definition Atoi_digits :: "string \<Rightarrow> 64 word" where
  "Atoi_digits s = (if dec_value s \<le> 2 ^ 63 - 1 then of_nat (dec_value s) else 2 ^ 63 - 1)"

text \<open>The width of \<open>%0wd\<close> counts the sign, which comes before the zeros.\<close>

definition pad_decimal :: "nat \<Rightarrow> 64 word \<Rightarrow> string" where
  "pad_decimal w i = (if sint i < 0
     then ''-'' @ replicate (w - length (Itoa i)) CHR ''0'' @ dec (nat (- sint i))
     else replicate (w - length (Itoa i)) CHR ''0'' @ dec (nat (sint i)))"

definition signed_value :: "string \<Rightarrow> int" where
  "signed_value s = (case s of c # cs \<Rightarrow> if c = CHR ''-'' then - int (dec_value cs) else int (dec_value s) | [] \<Rightarrow> 0)"

lemma signed_value_pos: "list_all is_digit s \<Longrightarrow> signed_value s = int (dec_value s)"
  by (auto simp: signed_value_def dec_value_def split: list.splits)

lemma signed_value_pad [simp]: "signed_value (pad_decimal w i) = sint i"
proof (cases "sint i < 0")
  case True
  then show ?thesis by (simp add: pad_decimal_def signed_value_def)
next
  case False
  have "is_digit CHR ''0''" by code_simp
  then have "list_all is_digit (replicate k CHR ''0'')" for k by (simp add: list_all_iff)
  then have "list_all is_digit (replicate k CHR ''0'' @ dec n)" for k n by (simp add: dec_digits)
  then show ?thesis using False by (simp add: pad_decimal_def signed_value_pos)
qed

lemma pad_decimal_inj: "pad_decimal w i = pad_decimal w j \<Longrightarrow> i = j"
  by (metis signed_value_pad signed_word_eqI)

lemma pad_decimal_Itoa: "w \<le> length (Itoa i) \<Longrightarrow> pad_decimal w i = Itoa i"
  by (simp add: pad_decimal_def Itoa_def split: if_splits)

lemma sint_Atoi_digits: "sint (Atoi_digits s) = int (min (dec_value s) (2 ^ 63 - 1))"
proof (cases "dec_value s \<le> 2 ^ 63 - 1")
  case True
  then have "sint (of_nat (dec_value s) :: 64 word) = int (dec_value s)"
    by (simp add: signed_of_nat signed_take_bit_int_eq_self)
  with True show ?thesis by (simp add: Atoi_digits_def)
qed (simp add: Atoi_digits_def)

end
