(* ===== verification/Node_Pools.thy ===== *)
theory Node_Pools
  imports Conditions Go_Strconv "HOL-Library.Char_ord" "HOL-Library.List_Lexorder"
begin

text \<open>
  Node pools: \<open>src/pkg/controllers/management/nodepool/nodepool.go\<close> keeps as many nodes as a pool
  asks for, with host names that are numbered from the pool's prefix on; and the references of
  \<open>src/pkg/ref\<close>.

  The cache and the server's list of nodes are fields of the controller, and so is the order
  \<open>sort.Slice\<close> leaves equal host names in.  A node that the server creates has the host name
  it was asked for.
\<close>

section \<open>References\<close>

definition FromStrings :: "string \<Rightarrow> string \<Rightarrow> string" where
  "FromStrings namespace name = namespace @ '':'' @ name"

definition Ref :: "object_meta \<Rightarrow> string" where
  "Ref om = (if om_namespace om = [] then om_name om else FromStrings (om_namespace om) (om_name om))"

definition Parse :: "string \<Rightarrow> string \<times> string" where
  "Parse ref = (let parts = splitn2 CHR '':'' ref in
     if length parts = 1 then ([], parts ! 0) else (parts ! 0, parts ! 1))"

section \<open>State\<close>

record node =
  nd_meta :: object_meta
  nd_etcd :: bool
  nd_controlPlane :: bool
  nd_worker :: bool
  nd_nodeTemplateName :: string
  nd_nodePoolName :: string
  nd_requestedHostname :: string
  nd_conditions :: "condition list"

record node_pool =
  np_meta :: object_meta
  np_etcd :: bool
  np_controlPlane :: bool
  np_worker :: bool
  np_nodeTemplateName :: string
  np_hostnamePrefix :: string
  np_quantity :: int
  np_conditions :: "condition list"

datatype nreq = NCreate node | NDelete string string | NDeleteAfter string string | NEnqueue string string

record pool_controller =
  npc_poolLister :: "node_pool list result"
  npc_nodeLister :: "string \<Rightarrow> node list result"
  npc_nodes :: "node list result"
  npc_sort :: "node list \<Rightarrow> node list"

definition pool_Create :: "node_pool \<Rightarrow> node_pool" where
  "pool_Create nodePool = nodePool"

section \<open>Host names\<close>

text \<open>
  \<open>nameRegexp\<close> is \<open>^(.*?)([0-9]+)$\<close>: the shortest beginning without a line break
  such that the rest consists of digits.
\<close>

definition trailing_digits :: "string \<Rightarrow> string" where
  "trailing_digits s = rev (takeWhile is_digit (rev s))"

definition nameRegexp :: "string \<Rightarrow> (string \<times> string) option" where
  "nameRegexp s = (let digits = trailing_digits s; pre = take (length s - length digits) s in
     if digits = [] \<or> CHR ''\<newline>'' \<in> set pre then None else Some (pre, digits))"

definition parsePrefix :: "string \<Rightarrow> string \<times> nat \<times> 64 word" where
  "parsePrefix fullPrefix = (case nameRegexp fullPrefix of
     None \<Rightarrow> (fullPrefix, 1, 1)
   | Some (pre, digits) \<Rightarrow> (pre, length digits, Atoi_digits digits))"

definition node_hostname :: "string \<Rightarrow> nat \<Rightarrow> 64 word \<Rightarrow> string" where
  "node_hostname pre minLength i = (let ia = Itoa i in
     if length ia < minLength then pre @ pad_decimal minLength i else pre @ ia)"

section \<open>Operations\<close>

definition new_node :: "string \<Rightarrow> node_pool \<Rightarrow> node" where
  "new_node name nodePool = \<lparr>nd_meta = meta0\<lparr>om_generateName := ''m-'', om_namespace := om_namespace (np_meta nodePool),
       om_labels := om_labels (np_meta nodePool), om_annotations := om_annotations (np_meta nodePool)\<rparr>,
     nd_etcd = np_etcd nodePool, nd_controlPlane = np_controlPlane nodePool, nd_worker = np_worker nodePool,
     nd_nodeTemplateName = np_nodeTemplateName nodePool, nd_nodePoolName = Ref (np_meta nodePool),
     nd_requestedHostname = name, nd_conditions = []\<rparr>"

definition createNode :: "nreq env \<Rightarrow> string \<Rightarrow> node_pool \<Rightarrow> bool \<Rightarrow> (nreq, node) go" where
  "createNode env name nodePool simulate =
     (if simulate then go_return (new_node name nodePool)
      else go_bind (go_call env (NCreate (new_node name nodePool))) (\<lambda>_. go_return (new_node name nodePool)))"

text \<open>With a delay the deletion is left to a goroutine and nothing waits for its answer.\<close>

definition deleteNode :: "nreq env \<Rightarrow> node \<Rightarrow> bool \<Rightarrow> (nreq, unit) go" where
  "deleteNode env n later = (if later then go_emit (NDeleteAfter (om_namespace (nd_meta n)) (om_name (nd_meta n)))
     else go_call env (NDelete (om_namespace (nd_meta n)) (om_name (nd_meta n))))"

definition pool_nodes :: "pool_controller \<Rightarrow> node_pool \<Rightarrow> bool \<Rightarrow> node list result" where
  "pool_nodes c nodePool simulate = (if simulate then npc_nodeLister c (om_namespace (np_meta nodePool))
     else (case npc_nodes c of Inl err \<Rightarrow> Inl err
       | Inr items \<Rightarrow> Inr (filter (\<lambda>n. om_namespace (nd_meta n) = om_namespace (np_meta nodePool)) items)))"

definition of_pool :: "node_pool \<Rightarrow> node \<Rightarrow> bool" where
  "of_pool nodePool n \<longleftrightarrow> snd (Parse (nd_nodePoolName n)) = om_name (np_meta nodePool)"

definition pool_Remove :: "nreq env \<Rightarrow> pool_controller \<Rightarrow> node_pool \<Rightarrow> (nreq, node_pool) go" where
  "pool_Remove env c nodePool =
     go_bind (go_lift (pool_nodes c nodePool False)) (\<lambda>allNodes.
     go_bind (go_for allNodes (\<lambda>n. go_when (of_pool nodePool n) (deleteNode env n False))) (\<lambda>_.
     go_return nodePool))"

definition machineChanged :: "pool_controller \<Rightarrow> node option \<Rightarrow> (nreq, unit) go" where
  "machineChanged c machine = (case machine of
     None \<Rightarrow> go_bind (go_lift (npc_poolLister c)) (\<lambda>nps.
       go_for nps (\<lambda>np. go_emit (NEnqueue (om_namespace (np_meta np)) (om_name (np_meta np)))))
   | Some m \<Rightarrow> go_when (nd_nodePoolName m \<noteq> []) (case Parse (nd_nodePoolName m) of (ns, name) \<Rightarrow> go_emit (NEnqueue ns name)))"

definition node_failed :: "node \<Rightarrow> bool" where
  "node_failed n \<longleftrightarrow> condIsFalse ''Provisioned'' (nd_conditions n) \<or> condIsFalse ''Initialized'' (nd_conditions n) \<or>
     condIsFalse ''Saved'' (nd_conditions n)"

text \<open>The first loop: names in use, whether something has to change, and the nodes of the pool.\<close>

definition scan_node :: "nreq env \<Rightarrow> node_pool \<Rightarrow> bool \<Rightarrow> node \<Rightarrow> string list \<times> bool \<times> node list \<Rightarrow>
    (nreq, string list \<times> bool \<times> node list) go" where
  "scan_node env nodePool simulate n = (\<lambda>(byName, changed, nodes).
     (let byName = set_add (nd_requestedHostname n) byName in
      if \<not> of_pool nodePool n then go_return (byName, changed, nodes)
      else if node_failed n
        then go_bind (go_when (\<not> simulate) (deleteNode env n True)) (\<lambda>_. go_return (byName, True, nodes @ [n]))
        else go_return (byName, changed, nodes @ [n])))"

text \<open>
  The loop that creates nodes counts with a 64-bit number and skips the names in use.  Its fuel is
  one more than the names that can be in use.
\<close>

fun create_loop :: "nat \<Rightarrow> nreq env \<Rightarrow> node_pool \<Rightarrow> bool \<Rightarrow> string \<Rightarrow> nat \<Rightarrow> int \<Rightarrow> 64 word \<Rightarrow>
    string list \<times> bool \<times> node list \<Rightarrow> (nreq, string list \<times> bool \<times> node list) go" where
  "create_loop 0 env nodePool simulate pre minLength quantity i st = go_fail (Panic ''out of fuel'')"
| "create_loop (Suc fuel) env nodePool simulate pre minLength quantity i (byName, changed, nodes) =
     (if int (length nodes) < quantity then
        (let name = node_hostname pre minLength i in
         if name \<in> set byName
         then create_loop fuel env nodePool simulate pre minLength quantity (i + 1) (byName, changed, nodes)
         else go_bind (createNode env name nodePool simulate) (\<lambda>newNode.
           create_loop fuel env nodePool simulate pre minLength quantity (i + 1)
             (set_add (nd_requestedHostname newNode) byName, True, nodes @ [newNode])))
      else go_return (byName, changed, nodes))"

text \<open>
  The loop that deletes nodes sorts them by host name and takes the last.  The error of a deletion
  is dropped, and so is the map of names, which nothing reads any more.  The quantity is never
  negative here, so the loop never reaches an empty list.
\<close>

function delete_loop :: "nreq env \<Rightarrow> (node list \<Rightarrow> node list) \<Rightarrow> bool \<Rightarrow> int \<Rightarrow> bool \<times> node list \<Rightarrow> (nreq, bool \<times> node list) go" where
  "delete_loop env srt simulate quantity (changed, nodes) =
     (if quantity < int (length nodes) \<and> nodes \<noteq> [] then
        (let sorted = srt nodes; toDelete = sorted ! (length nodes - 1) in
         go_bind (if simulate then go_return (Inr ()) else go_try (deleteNode env toDelete False)) (\<lambda>_.
           delete_loop env srt simulate quantity (True, take (length nodes - 1) sorted)))
      else go_return (changed, nodes))"
  by pat_completeness auto
termination
  by (relation "measure (\<lambda>(env, srt, simulate, quantity, changed, nodes). length nodes)") (auto simp: min_less_iff_disj)

declare delete_loop.simps [simp del]

definition createOrCheckNodes :: "nreq env \<Rightarrow> pool_controller \<Rightarrow> node_pool \<Rightarrow> bool \<Rightarrow> (nreq, bool) go" where
  "createOrCheckNodes env c nodePool simulate =
     go_bind (go_lift (pool_nodes c nodePool simulate)) (\<lambda>allNodes.
     go_bind (go_fold (scan_node env nodePool simulate) allNodes ([], False, [])) (\<lambda>(byName, changed, nodes).
     (let quantity = (if np_quantity nodePool < 0 then 0 else np_quantity nodePool) in
      case parsePrefix (np_hostnamePrefix nodePool) of (pre, minLength, start) \<Rightarrow>
        go_bind (create_loop (length byName + nat quantity + 1) env nodePool simulate pre minLength quantity start
          (byName, changed, nodes)) (\<lambda>(byName, changed, nodes).
        go_bind (delete_loop env (npc_sort c) simulate quantity (changed, nodes)) (\<lambda>(changed, nodes).
        go_return changed)))))"

definition createNodes :: "nreq env \<Rightarrow> pool_controller \<Rightarrow> node_pool \<Rightarrow> (nreq, unit) go" where
  "createNodes env c nodePool =
     go_bind (createOrCheckNodes env c nodePool True) (\<lambda>changed.
     if changed then go_bind (createOrCheckNodes env c nodePool False) (\<lambda>_. go_return ()) else go_return ())"

definition pool_Updated :: "(go_error \<Rightarrow> string) \<Rightarrow> string \<Rightarrow> nreq env \<Rightarrow> pool_controller \<Rightarrow> node_pool \<Rightarrow> (nreq, node_pool \<times> go_error option) go" where
  "pool_Updated msg now env c nodePool =
     condDo msg now np_conditions np_conditions_update ''Updated'' nodePool (\<lambda>marked.
       go_bind (go_try (createNodes env c marked)) (\<lambda>r. go_return (Some marked, case r of Inl e \<Rightarrow> Some e | Inr _ \<Rightarrow> None)))"

end
