(* ===== verification/Node_Pool_Props.thy ===== *)
theory Node_Pool_Props
  imports Node_Pools
begin

text \<open>
  What the node pool controller does: host names are numbered without repetition, a run reaches the
  quantity that was asked for, and the simulated run announces exactly whether the real one changes
  anything.
\<close>

section \<open>References and host names\<close>

lemma Parse_Ref: "CHR '':'' \<notin> set (om_namespace om) \<Longrightarrow> CHR '':'' \<notin> set (om_name om) \<Longrightarrow> Parse (Ref om) = (om_namespace om, om_name om)"
  by (simp add: Ref_def Parse_def FromStrings_def splitn2_append Let_def) (simp add: splitn2_def)

lemma of_pool_new_node:
  "CHR '':'' \<notin> set (om_namespace (np_meta np)) \<Longrightarrow> CHR '':'' \<notin> set (om_name (np_meta np)) \<Longrightarrow> of_pool np (new_node name np)"
  by (simp add: of_pool_def new_node_def Parse_Ref)

lemma node_hostname_eq: "node_hostname pre w i = pre @ pad_decimal w i"
  by (auto simp: node_hostname_def Let_def pad_decimal_Itoa)

lemma node_hostname_inj: "node_hostname pre w i = node_hostname pre w j \<Longrightarrow> i = j"
  by (simp add: node_hostname_eq) (rule pad_decimal_inj)

text \<open>The names the loop tries: \<open>k\<close> of them, from \<open>i\<close> on.\<close>

definition tried :: "string \<Rightarrow> nat \<Rightarrow> 64 word \<Rightarrow> nat \<Rightarrow> string list" where
  "tried pre w i k = map (\<lambda>j. node_hostname pre w (i + of_nat j)) [0..<k]"

lemma tried_simps [simp]: "tried pre w i 0 = []" "tried pre w i (Suc k) = node_hostname pre w i # tried pre w (i + 1) k"
proof -
  have "map (\<lambda>j. node_hostname pre w (i + of_nat j)) [0..<Suc k] =
      node_hostname pre w i # map (\<lambda>j. node_hostname pre w (i + of_nat (Suc j))) [0..<k]"
    by (subst upt_conv_Cons) (simp_all add: map_Suc_upt [symmetric] comp_def del: upt_Suc)
  then show "tried pre w i (Suc k) = node_hostname pre w i # tried pre w (i + 1) k" by (simp add: tried_def add_ac)
qed (simp add: tried_def)

lemma distinct_tried: "k \<le> 2 ^ 64 \<Longrightarrow> distinct (tried pre w i k)"
proof -
  assume k: "k \<le> 2 ^ 64"
  have "inj_on (\<lambda>j. node_hostname pre w (i + of_nat j)) {0..<k}"
  proof (rule inj_onI)
    fix x y assume xy: "x \<in> {0..<k}" "y \<in> {0..<k}" "node_hostname pre w (i + of_nat x) = node_hostname pre w (i + of_nat y)"
    then have "(of_nat x :: 64 word) = of_nat y" using node_hostname_inj by fastforce
    then have "x mod 2 ^ 64 = y mod 2 ^ 64" by (simp add: of_nat_eq_iff word_of_nat_eq_iff take_bit_eq_mod)
    with xy k show "x = y" by simp
  qed
  then show "distinct (tried pre w i k)" by (simp add: tried_def distinct_map)
qed

section \<open>The loops\<close>

definition create_step :: "nreq env \<Rightarrow> node_pool \<Rightarrow> bool \<Rightarrow> string \<Rightarrow> (nreq, unit) go" where
  "create_step env np simulate name = (if simulate then go_return () else go_call env (NCreate (new_node name np)))"

lemma createNode_step: "createNode env name np simulate = go_bind (create_step env np simulate name) (\<lambda>_. go_return (new_node name np))"
  by (simp add: createNode_def create_step_def)

text \<open>
  The creating loop takes the first names that are not in use, as many as are missing, if there are
  enough of them among those its fuel lets it try.
\<close>

lemma create_loop_run:
  fixes nodes :: "node list" and byName :: "string list" and k :: nat and quantity :: int and pre w i
  defines "need \<equiv> nat (quantity - int (length nodes))" and "fresh \<equiv> filter (\<lambda>n. n \<notin> set byName) (tried pre w i k)"
  assumes "k < fuel" and "distinct (tried pre w i k)" and "need \<le> length fresh"
  shows "create_loop fuel env np simulate pre w quantity i (byName, changed, nodes) =
    go_bind (go_for (take need fresh) (create_step env np simulate)) (\<lambda>_.
      go_return (fold set_add (take need fresh) byName, changed \<or> need \<noteq> 0, nodes @ map (\<lambda>n. new_node n np) (take need fresh)))"
  using assms(3-5) unfolding need_def fresh_def
proof (induction k arbitrary: fuel i byName changed nodes)
  case 0
  then obtain f where "fuel = Suc f" by (cases fuel) auto
  with 0 show ?case by auto
next
  case (Suc k)
  obtain f where f: "fuel = Suc f" "k < f" using Suc.prems(1) by (cases fuel) auto
  let ?need = "nat (quantity - int (length nodes))" and ?name = "node_hostname pre w i"
  have dist: "distinct (tried pre w (i + 1) k)" "?name \<notin> set (tried pre w (i + 1) k)" using Suc.prems(2) by auto
  show ?case
  proof (cases "int (length nodes) < quantity")
    case False
    then show ?thesis by (simp add: f(1))
  next
    case less: True
    show ?thesis
    proof (cases "?name \<in> set byName")
      case True
      then show ?thesis using less Suc.IH [OF f(2) dist(1)] Suc.prems(3) by (simp add: f(1) Let_def)
    next
      case False
      let ?by = "set_add ?name byName" and ?nodes = "nodes @ [new_node ?name np]"
      have same: "filter (\<lambda>n. n \<notin> set ?by) (tried pre w (i + 1) k) = filter (\<lambda>n. n \<notin> set byName) (tried pre w (i + 1) k)"
        using dist(2) by (intro filter_cong) auto
      have need: "?need = Suc (nat (quantity - int (length ?nodes)))" using less by simp
      have enough: "nat (quantity - int (length ?nodes)) \<le> length (filter (\<lambda>n. n \<notin> set ?by) (tried pre w (i + 1) k))"
        using Suc.prems(3) False unfolding same need by simp
      have host: "nd_requestedHostname (new_node ?name np) = ?name" by (simp add: new_node_def)
      show ?thesis
        using False less Suc.IH [OF f(2) dist(1) enough, of True] unfolding same need
        by (simp add: f(1) Let_def createNode_step go_bind_assoc host)
    qed
  qed
qed

lemma enough_fresh:
  assumes "length byName + q \<le> 2 ^ 64" and "q \<ge> need"
  shows "need \<le> length (filter (\<lambda>n. n \<notin> set byName) (tried pre w i (length byName + q)))"
proof -
  let ?t = "tried pre w i (length byName + q)"
  have "length (filter (\<lambda>n. n \<in> set byName) ?t) \<le> length byName"
  proof -
    have "length (filter (\<lambda>n. n \<in> set byName) ?t) = card (set ?t \<inter> set byName)"
      using distinct_tried [OF assms(1)] by (subst distinct_card [symmetric]) (auto intro: arg_cong [where f = card])
    also have "\<dots> \<le> card (set byName)" by (rule card_mono) auto
    also have "\<dots> \<le> length byName" by (rule card_length)
    finally show ?thesis .
  qed
  moreover have "length (filter (\<lambda>n. n \<in> set byName) ?t) + length (filter (\<lambda>n. n \<notin> set byName) ?t) = length byName + q"
    using sum_length_filter_compl [of "\<lambda>n. n \<in> set byName" ?t] by (simp add: tried_def)
  ultimately show ?thesis using assms(2) by linarith
qed

lemma scan_run:
  "go_fold (scan_node env np simulate) ns (byName, changed, nodes) h =
     (Inr (fold set_add (map nd_requestedHostname ns) byName, changed \<or> list_ex (\<lambda>n. of_pool np n \<and> node_failed n) ns,
        nodes @ filter (of_pool np) ns),
      if simulate then [] else map (\<lambda>n. (NDeleteAfter (om_namespace (nd_meta n)) (om_name (nd_meta n)), None))
        (filter (\<lambda>n. of_pool np n \<and> node_failed n) ns))"
  by (induction ns arbitrary: byName changed nodes h)
    (auto simp: scan_node_def Let_def go_bind_def go_return_def deleteNode_def go_emit_def go_when_def)

definition valid_sort :: "(node list \<Rightarrow> node list) \<Rightarrow> bool" where
  "valid_sort srt \<longleftrightarrow> (\<forall>ns. mset (srt ns) = mset ns \<and> sorted (map nd_requestedHostname (srt ns)))"

abbreviation delete_req :: "node \<Rightarrow> nreq" where
  "delete_req n \<equiv> NDelete (om_namespace (nd_meta n)) (om_name (nd_meta n))"

lemma delete_loop_run:
  assumes "valid_sort srt" and "0 \<le> quantity"
  shows "\<exists>ds rest d. delete_loop env srt simulate quantity (changed, nodes) h = (Inr (changed \<or> ds \<noteq> [], rest), d) \<and>
    map fst d = (if simulate then [] else map delete_req ds) \<and> mset nodes = mset ds + mset rest \<and>
    length ds = length nodes - nat quantity \<and> (\<forall>x \<in> set ds. \<forall>y \<in> set rest. nd_requestedHostname y \<le> nd_requestedHostname x)"
proof (induction "length nodes" arbitrary: changed nodes h rule: less_induct)
  case less
  show ?case
  proof (cases "quantity < int (length nodes) \<and> nodes \<noteq> []")
    case False
    then have "\<not> quantity < int (length nodes)" using assms(2) by auto
    then show ?thesis by (intro exI [of _ "[]"] exI [of _ nodes]) (simp add: delete_loop.simps go_return_def)
  next
    case True
    let ?s = "srt nodes" and ?n = "length nodes - 1"
    have srt: "mset ?s = mset nodes" "sorted (map nd_requestedHostname ?s)" using assms(1) by (auto simp: valid_sort_def)
    have len: "length ?s = length nodes" using srt(1) by (metis size_mset)
    then have split: "?s = take ?n ?s @ [?s ! ?n]"
      using True by (metis Suc_pred' length_greater_0_conv lessI take_Suc_conv_app_nth take_all_iff order_refl)
    have shorter: "length (take ?n ?s) < length nodes" using True len by auto
    let ?step = "if simulate then go_return (Inr ()) else go_try (deleteNode env (?s ! ?n) False)"
    obtain r d1 where step: "?step h = (Inr r, d1)" "map fst d1 = (if simulate then [] else [delete_req (?s ! ?n)])"
      by (cases simulate) (auto simp: go_return_def deleteNode_def go_try_call)
    obtain ds rest d2 where ih: "delete_loop env srt simulate quantity (True, take ?n ?s) (h @ d1) = (Inr (True \<or> ds \<noteq> [], rest), d2)"
        "map fst d2 = (if simulate then [] else map delete_req ds)" "mset (take ?n ?s) = mset ds + mset rest"
        "length ds = length (take ?n ?s) - nat quantity"
        "\<forall>x \<in> set ds. \<forall>y \<in> set rest. nd_requestedHostname y \<le> nd_requestedHostname x"
      using less [OF shorter, of True "h @ d1"] by blast
    have rest: "set rest \<subseteq> set (take ?n ?s)" using ih(3) by (metis mset_subset_eq_add_right set_mset_mono set_mset_mset)
    have "sorted (map nd_requestedHostname (take ?n ?s @ [?s ! ?n]))" using srt(2) split by metis
    then have last: "\<forall>y \<in> set (take ?n ?s). nd_requestedHostname y \<le> nd_requestedHostname (?s ! ?n)"
      by (auto simp: sorted_append)
    have ms: "mset nodes = mset ((?s ! ?n) # ds) + mset rest"
    proof -
      have "mset nodes = mset (take ?n ?s @ [?s ! ?n])" using srt(1) split by metis
      then show ?thesis using ih(3) by simp
    qed
    have run: "delete_loop env srt simulate quantity (changed, nodes) h = (Inr (True, rest), d1 @ d2)"
      using ih(1) by (subst delete_loop.simps) (simp only: True simp_thms if_True Let_def go_bind_run [of ?step h r d1, OF step(1)] prod.case)
    have "length ((?s ! ?n) # ds) = length nodes - nat quantity" using ih(4) len True assms(2) by auto
    with run ms step(2) ih(2,5) rest last show ?thesis
      by (intro exI [of _ "(?s ! ?n) # ds"] exI [of _ rest] exI [of _ "d1 @ d2"]) auto
  qed
qed

section \<open>A run of the controller\<close>

abbreviation own_nodes :: "node_pool \<Rightarrow> node list \<Rightarrow> node list" where
  "own_nodes np ns \<equiv> filter (of_pool np) ns"

abbreviation failed_nodes :: "node_pool \<Rightarrow> node list \<Rightarrow> node list" where
  "failed_nodes np ns \<equiv> filter (\<lambda>n. of_pool np n \<and> node_failed n) ns"

definition pool_quantity :: "node_pool \<Rightarrow> nat" where
  "pool_quantity np = nat (np_quantity np)"

text \<open>The names the controller creates nodes with.\<close>

definition new_names :: "node_pool \<Rightarrow> node list \<Rightarrow> string list" where
  "new_names np ns = (case parsePrefix (np_hostnamePrefix np) of (pre, w, i) \<Rightarrow>
     (let byName = fold set_add (map nd_requestedHostname ns) [] in
      take (pool_quantity np - length (own_nodes np ns))
        (filter (\<lambda>n. n \<notin> set byName) (tried pre w i (length byName + pool_quantity np)))))"

lemma length_fold_set_add: "length (fold set_add xs acc) \<le> length acc + length xs"
proof (induction xs arbitrary: acc)
  case (Cons x xs)
  have "length (set_add x acc) \<le> Suc (length acc)" by (simp add: set_add_def)
  with Cons [of "set_add x acc"] show ?case by simp
qed simp

lemma new_names_facts:
  assumes "length ns + pool_quantity np \<le> 2 ^ 64"
  shows "distinct (new_names np ns)" and "length (new_names np ns) = pool_quantity np - length (own_nodes np ns)"
    and "set (new_names np ns) \<inter> nd_requestedHostname ` set ns = {}"
proof -
  obtain pre w i where p: "parsePrefix (np_hostnamePrefix np) = (pre, w, i)" by (metis prod.exhaust)
  let ?by = "fold set_add (map nd_requestedHostname ns) []"
  have len: "length ?by + pool_quantity np \<le> 2 ^ 64"
    using assms length_fold_set_add [of "map nd_requestedHostname ns" "[]"] by simp
  show "distinct (new_names np ns)" using distinct_tried [OF len] by (simp add: new_names_def p Let_def)
  show "length (new_names np ns) = pool_quantity np - length (own_nodes np ns)"
    using enough_fresh [OF len, of "pool_quantity np - length (own_nodes np ns)" pre w i] by (simp add: new_names_def p Let_def)
  show "set (new_names np ns) \<inter> nd_requestedHostname ` set ns = {}"
    by (auto simp: new_names_def p Let_def dest: in_set_takeD)
qed

text \<open>The controller as one sequence: the scan, the creations and the deletions.\<close>

lemma createOrCheckNodes_eq:
  assumes nodes: "pool_nodes c np simulate = Inr ns" and len: "length ns + pool_quantity np \<le> 2 ^ 64"
  shows "createOrCheckNodes env c np simulate =
    go_bind (go_fold (scan_node env np simulate) ns ([], False, [])) (\<lambda>_.
    go_bind (go_for (new_names np ns) (create_step env np simulate)) (\<lambda>_.
    go_bind (delete_loop env (npc_sort c) simulate (int (pool_quantity np))
      (failed_nodes np ns \<noteq> [] \<or> new_names np ns \<noteq> [], own_nodes np ns @ map (\<lambda>n. new_node n np) (new_names np ns))) (\<lambda>(changed, _).
    go_return changed)))" (is "_ = ?rhs")
proof
  fix h
  obtain pre w i where p: "parsePrefix (np_hostnamePrefix np) = (pre, w, i)" by (metis prod.exhaust)
  let ?by = "fold set_add (map nd_requestedHostname ns) []" and ?q = "pool_quantity np" and ?own = "own_nodes np ns"
  have q: "(if np_quantity np < 0 then 0 else np_quantity np) = int ?q" by (simp add: pool_quantity_def)
  have by_len: "length ?by + ?q \<le> 2 ^ 64" using len length_fold_set_add [of "map nd_requestedHostname ns" "[]"] by simp
  have need: "nat (int ?q - int (length ?own)) = ?q - length ?own" by simp
  have loop: "create_loop (Suc (length ?by + ?q)) env np simulate pre w (int ?q) i (?by, changed, ?own) =
      go_bind (go_for (new_names np ns) (create_step env np simulate)) (\<lambda>_. go_return (fold set_add (new_names np ns) ?by,
        changed \<or> ?q - length ?own \<noteq> 0, ?own @ map (\<lambda>n. new_node n np) (new_names np ns)))" for changed
    using create_loop_run [of "length ?by + ?q" "Suc (length ?by + ?q)" pre w i "int ?q" ?own ?by env np simulate changed]
      distinct_tried [OF by_len, of pre w i] enough_fresh [OF by_len, of "?q - length ?own" pre w i]
    by (simp add: need new_names_def p Let_def del: create_loop.simps)
  have some: "new_names np ns \<noteq> [] \<longleftrightarrow> ?q - length ?own \<noteq> 0"
    using new_names_facts(2) [OF len] by (metis length_0_conv)
  have failed: "list_ex (\<lambda>n. of_pool np n \<and> node_failed n) ns \<longleftrightarrow> failed_nodes np ns \<noteq> []"
    by (auto simp: list_ex_iff filter_empty_conv)
  show "createOrCheckNodes env c np simulate h = ?rhs h"
    unfolding createOrCheckNodes_def nodes
    by (simp add: Let_def p q loop some failed go_bind_assoc go_bind_def [of "go_fold _ _ _"] scan_run case_prod_beta del: create_loop.simps)
qed

lemma create_steps_run:
  assumes "simulate \<or> accepting env"
  shows "\<exists>d. go_for names (create_step env np simulate) h = (Inr (), d) \<and>
    map fst d = (if simulate then [] else map (\<lambda>n. NCreate (new_node n np)) names)"
proof (cases simulate)
  case True
  then have "go_for names (create_step env np simulate) = go_return ()" by (intro go_for_return) (simp add: create_step_def)
  with True show ?thesis by (simp add: go_return_def)
next
  case False
  then have "create_step env np simulate = (\<lambda>n. go_call env (NCreate (new_node n np)))" by (simp add: create_step_def fun_eq_iff)
  moreover have "\<exists>x d. go_for names (\<lambda>n. go_call env (NCreate (new_node n np))) h = (Inr x, d) \<and>
      map fst d = map (\<lambda>n. NCreate (new_node n np)) names"
    using assms False by (intro succeeds_plan succeeds_for follows_plan_for_single) (auto intro: plan_intros)
  ultimately show ?thesis using False by auto
qed

text \<open>What one run sends and returns when no creation is refused.\<close>

lemma createOrCheckNodes_run:
  assumes nodes: "pool_nodes c np simulate = Inr ns" and len: "length ns + pool_quantity np \<le> 2 ^ 64"
    and srt: "valid_sort (npc_sort c)" and acc: "simulate \<or> accepting env"
  shows "\<exists>d ds rest. createOrCheckNodes env c np simulate h =
      (Inr (failed_nodes np ns \<noteq> [] \<or> length (own_nodes np ns) \<noteq> pool_quantity np), d) \<and>
    map fst d = (if simulate then [] else
      map (\<lambda>n. NDeleteAfter (om_namespace (nd_meta n)) (om_name (nd_meta n))) (failed_nodes np ns) @
      map (\<lambda>n. NCreate (new_node n np)) (new_names np ns) @ map delete_req ds) \<and>
    mset (own_nodes np ns) + mset (map (\<lambda>n. new_node n np) (new_names np ns)) = mset ds + mset rest \<and>
    length ds = length (own_nodes np ns) - pool_quantity np \<and>
    (\<forall>x \<in> set ds. \<forall>y \<in> set rest. nd_requestedHostname y \<le> nd_requestedHostname x)"
proof -
  let ?q = "pool_quantity np" and ?own = "own_nodes np ns" and ?names = "new_names np ns"
  let ?all = "?own @ map (\<lambda>n. new_node n np) ?names"
  obtain d1 st where scan: "go_fold (scan_node env np simulate) ns ([], False, []) h = (Inr st, d1)"
      "map fst d1 = (if simulate then [] else map (\<lambda>n. NDeleteAfter (om_namespace (nd_meta n)) (om_name (nd_meta n))) (failed_nodes np ns))"
    by (auto simp: scan_run comp_def)
  obtain d2 where d2: "go_for ?names (create_step env np simulate) (h @ d1) = (Inr (), d2)"
      "map fst d2 = (if simulate then [] else map (\<lambda>n. NCreate (new_node n np)) ?names)"
    using create_steps_run [OF acc] by metis
  obtain ds rest d3 where del: "delete_loop env (npc_sort c) simulate (int ?q) (failed_nodes np ns \<noteq> [] \<or> ?names \<noteq> [], ?all) ((h @ d1) @ d2) =
        (Inr ((failed_nodes np ns \<noteq> [] \<or> ?names \<noteq> []) \<or> ds \<noteq> [], rest), d3)"
      "map fst d3 = (if simulate then [] else map delete_req ds)" "mset ?all = mset ds + mset rest"
      "length ds = length ?all - ?q" "\<forall>x \<in> set ds. \<forall>y \<in> set rest. nd_requestedHostname y \<le> nd_requestedHostname x"
    using delete_loop_run [OF srt, of "int ?q" env simulate "failed_nodes np ns \<noteq> [] \<or> ?names \<noteq> []" ?all "(h @ d1) @ d2"] by auto
  have lens: "length ?names = ?q - length ?own" by (rule new_names_facts(2) [OF len])
  then have ds: "length ds = length ?own - ?q" using del(4) by simp
  have "?names \<noteq> [] \<or> ds \<noteq> [] \<longleftrightarrow> length ?own \<noteq> ?q"
  proof -
    have "?names = [] \<longleftrightarrow> ?q - length ?own = 0" "ds = [] \<longleftrightarrow> length ?own - ?q = 0"
      using lens ds by (metis length_0_conv)+
    then show ?thesis by auto
  qed
  then have changed: "(failed_nodes np ns \<noteq> [] \<or> ?names \<noteq> []) \<or> ds \<noteq> [] \<longleftrightarrow> failed_nodes np ns \<noteq> [] \<or> length ?own \<noteq> ?q" by blast
  have "createOrCheckNodes env c np simulate h = (Inr (failed_nodes np ns \<noteq> [] \<or> length ?own \<noteq> ?q), d1 @ d2 @ d3)"
    unfolding createOrCheckNodes_eq [OF nodes len]
    by (subst go_bind_run [where m = "go_fold _ _ _", OF scan(1)], subst go_bind_run [where m = "go_for _ _", OF d2(1)],
        subst go_bind_run [where m = "delete_loop _ _ _ _ _", OF del(1) [unfolded changed]]) (simp add: go_return_def)
  moreover have "map fst (d1 @ d2 @ d3) = (if simulate then [] else
      map (\<lambda>n. NDeleteAfter (om_namespace (nd_meta n)) (om_name (nd_meta n))) (failed_nodes np ns) @
      map (\<lambda>n. NCreate (new_node n np)) ?names @ map delete_req ds)"
    using scan(2) d2(2) del(2) by simp
  ultimately show ?thesis using del(3,5) ds by (intro exI [of _ "d1 @ d2 @ d3"] exI [of _ ds] exI [of _ rest]) simp
qed

section \<open>Properties\<close>

text \<open>
  C10. A run of the controller reaches the quantity, and it always ends: with a server that accepts,
  the pool has afterwards exactly as many nodes as it asks for.  The nodes it creates have host
  names that are distinct and that no node of the namespace has; it deletes only when there are too
  many, and then the nodes whose names come last.  Failed nodes are deleted later.
\<close>

theorem createOrCheckNodes_reaches_quantity:
  assumes "pool_nodes c np False = Inr ns" and "length ns + pool_quantity np \<le> 2 ^ 64"
    and "valid_sort (npc_sort c)" and "accepting env"
  shows "\<exists>changed d names ds rest. createOrCheckNodes env c np False h = (Inr changed, d) \<and>
    map fst d = map (\<lambda>n. NDeleteAfter (om_namespace (nd_meta n)) (om_name (nd_meta n))) (failed_nodes np ns) @
      map (\<lambda>n. NCreate (new_node n np)) names @ map delete_req ds \<and>
    distinct names \<and> set names \<inter> nd_requestedHostname ` set ns = {} \<and>
    mset (own_nodes np ns) + mset (map (\<lambda>n. new_node n np) names) = mset ds + mset rest \<and> length rest = pool_quantity np \<and>
    length ds = length (own_nodes np ns) - pool_quantity np \<and>
    (\<forall>x \<in> set ds. \<forall>y \<in> set rest. nd_requestedHostname y \<le> nd_requestedHostname x)"
proof -
  note names = new_names_facts [OF assms(2)]
  obtain d ds rest where r: "createOrCheckNodes env c np False h =
        (Inr (failed_nodes np ns \<noteq> [] \<or> length (own_nodes np ns) \<noteq> pool_quantity np), d)"
      "map fst d = map (\<lambda>n. NDeleteAfter (om_namespace (nd_meta n)) (om_name (nd_meta n))) (failed_nodes np ns) @
        map (\<lambda>n. NCreate (new_node n np)) (new_names np ns) @ map delete_req ds"
      "mset (own_nodes np ns) + mset (map (\<lambda>n. new_node n np) (new_names np ns)) = mset ds + mset rest"
      "length ds = length (own_nodes np ns) - pool_quantity np"
      "\<forall>x \<in> set ds. \<forall>y \<in> set rest. nd_requestedHostname y \<le> nd_requestedHostname x"
    using createOrCheckNodes_run [OF assms(1-3), of env h] assms(4) by auto
  have "length (own_nodes np ns) + length (new_names np ns) = length ds + length rest"
    using arg_cong [OF r(3), of size] by (simp only: size_union size_mset length_map)
  then have "length rest = pool_quantity np" using r(4) names(2) by linarith
  with r names(1,3) show ?thesis
    by (intro exI [of _ d] exI [of _ "new_names np ns"] exI [of _ ds] exI [of _ rest] exI
        [of _ "failed_nodes np ns \<noteq> [] \<or> length (own_nodes np ns) \<noteq> pool_quantity np"] conjI) assumption+
qed

text \<open>
  The simulated pass is faithful: it sends nothing, and when the cache has what the server has,
  updating a pool does nothing at all if no node has failed and the number of nodes is right, and
  otherwise exactly what the real pass does.
\<close>

theorem createNodes_simulates:
  assumes "npc_nodeLister c (om_namespace (np_meta np)) = Inr ns" and "pool_nodes c np False = Inr ns"
    and "length ns + pool_quantity np \<le> 2 ^ 64" and "valid_sort (npc_sort c)"
  shows "createNodes env c np h =
    (if failed_nodes np ns = [] \<and> length (own_nodes np ns) = pool_quantity np then (Inr (), [])
     else go_bind (createOrCheckNodes env c np False) (\<lambda>_. go_return ()) h)"
proof -
  have "pool_nodes c np True = Inr ns" using assms(1) by (simp add: pool_nodes_def)
  then obtain d where r: "createOrCheckNodes env c np True h =
      (Inr (failed_nodes np ns \<noteq> [] \<or> length (own_nodes np ns) \<noteq> pool_quantity np), d)" "map fst d = []"
    using createOrCheckNodes_run [OF _ assms(3,4), of True env h] by auto
  then have "d = []" by simp
  then show ?thesis
    unfolding createNodes_def by (subst go_bind_run [where m = "createOrCheckNodes _ _ _ _", OF r(1)]) (auto simp: go_return_def)
qed

lemma nameRegexp_Some: "nameRegexp p = Some (pre, digits) \<Longrightarrow> p = pre @ digits \<and> digits \<noteq> [] \<and> list_all is_digit digits"
proof -
  assume r: "nameRegexp p = Some (pre, digits)"
  have split: "p = take (length p - length (trailing_digits p)) p @ trailing_digits p"
  proof -
    have "rev p = takeWhile is_digit (rev p) @ dropWhile is_digit (rev p)" by simp
    then have "p = rev (dropWhile is_digit (rev p)) @ trailing_digits p" unfolding trailing_digits_def by (metis rev_append rev_rev_ident)
    then show ?thesis by (metis append_eq_conv_conj length_append add_diff_cancel_right')
  qed
  moreover have "list_all is_digit (trailing_digits p)"
    by (auto simp: trailing_digits_def list_all_iff dest: set_takeWhileD)
  ultimately show "p = pre @ digits \<and> digits \<noteq> [] \<and> list_all is_digit digits"
    using r by (auto simp: nameRegexp_def Let_def split: if_splits)
qed

text \<open>
  A host name prefix that ends in digits is itself the first name of the pool, leading zeros
  included, as long as the digits stand for a number of 63 bits; a longer number is cut to the
  largest, and the name after it has a minus sign.  A prefix without digits is numbered from 1.
\<close>

theorem parsePrefix_first_name:
  assumes "parsePrefix p = (pre, w, i)"
  shows "(\<forall>digits. nameRegexp p = Some (pre, digits) \<longrightarrow>
      (dec_value digits < 2 ^ 63 \<longrightarrow> node_hostname pre w i = p) \<and>
      (2 ^ 63 \<le> dec_value digits \<longrightarrow> i = 2 ^ 63 - 1 \<and> sint (i + 1) < 0 \<and> prefix (pre @ ''-'') (node_hostname pre w (i + 1)))) \<and>
    (nameRegexp p = None \<longrightarrow> node_hostname pre w i = p @ ''1'')"
proof (intro conjI allI impI)
  fix digits assume r: "nameRegexp p = Some (pre, digits)"
  then have i: "i = Atoi_digits digits" "w = length digits" using assms by (auto simp: parsePrefix_def)
  note d = nameRegexp_Some [OF r]
  {
    assume "dec_value digits < 2 ^ 63"
    then have s: "sint i = int (dec_value digits)" by (simp add: i sint_Atoi_digits)
    then have "pad_decimal w i = replicate (length digits - length (dec (dec_value digits))) CHR ''0'' @ dec (dec_value digits)"
      by (simp add: pad_decimal_def i(2) Itoa_def)
    then show "node_hostname pre w i = p" using d dec_pad [of digits] by (simp add: node_hostname_eq)
  }
  assume big: "2 ^ 63 \<le> dec_value digits"
  then have "\<not> dec_value digits \<le> 2 ^ 63 - 1" by simp
  then show e: "i = 2 ^ 63 - 1" unfolding i Atoi_digits_def by (simp only: if_False)
  show n: "sint (i + 1) < 0" unfolding e by simp
  then show "prefix (pre @ ''-'') (node_hostname pre w (i + 1))" by (simp add: node_hostname_eq pad_decimal_def)
next
  assume "nameRegexp p = None"
  then have "pre = p" "w = 1" "i = 1" using assms by (auto simp: parsePrefix_def)
  moreover have "node_hostname p 1 1 = p @ ''1''"
  proof -
    have "digit 1 = CHR ''1''" by code_simp
    then show ?thesis by (simp add: node_hostname_def Itoa_def dec_small Let_def)
  qed
  ultimately show "node_hostname pre w i = p @ ''1''" by simp
qed

section \<open>Examples\<close>

definition pool_ex :: node_pool where
  "pool_ex = \<lparr>np_meta = meta0\<lparr>om_name := ''np'', om_namespace := ''c''\<rparr>, np_etcd = True, np_controlPlane = False, np_worker = True,
     np_nodeTemplateName = ''t'', np_hostnamePrefix = ''n08'', np_quantity = 3, np_conditions = []\<rparr>"

definition node_ex :: node where
  "node_ex = (new_node ''n09'' pool_ex)\<lparr>nd_meta := meta0\<lparr>om_name := ''m-1'', om_namespace := ''c''\<rparr>\<rparr>"

definition pools_ex :: pool_controller where
  "pools_ex = \<lparr>npc_poolLister = Inr [pool_ex], npc_nodeLister = (\<lambda>_. Inr [node_ex]), npc_nodes = Inr [node_ex],
     npc_sort = sort_key nd_requestedHostname\<rparr>"

lemma pools_ex_simps:
  "pool_nodes pools_ex pool_ex False = Inr [node_ex]" "valid_sort (npc_sort pools_ex)" "pool_quantity pool_ex = 3"
  "npc_nodeLister pools_ex ns = Inr [node_ex]"
  by (simp_all add: pools_ex_def pool_nodes_def node_ex_def pool_ex_def valid_sort_def pool_quantity_def)

lemma own_ex: "own_nodes pool_ex [node_ex] = [node_ex]" "failed_nodes pool_ex [node_ex] = []"
  by code_simp+

text \<open>The pool asks for three nodes and has one: two more are made, with the next free names.\<close>

theorem createOrCheckNodes_reaches_quantity_witness:
  "\<exists>changed d names. createOrCheckNodes accept_all pools_ex pool_ex False [] = (Inr changed, d) \<and> distinct names \<and>
     ''n09'' \<notin> set names \<and> length names = 2 \<and> map fst d = map (\<lambda>n. NCreate (new_node n pool_ex)) names"
proof -
  have len: "length [node_ex] + pool_quantity pool_ex \<le> 2 ^ 64" by (simp add: pools_ex_simps)
  obtain changed d names ds rest where r: "createOrCheckNodes accept_all pools_ex pool_ex False [] = (Inr changed, d)"
      "map fst d = map (\<lambda>n. NCreate (new_node n pool_ex)) names @ map delete_req ds"
      "distinct names" "set names \<inter> nd_requestedHostname ` set [node_ex] = {}" "ds = []" "length rest = 3"
      "mset [node_ex] + mset (map (\<lambda>n. new_node n pool_ex) names) = mset ds + mset rest"
    using createOrCheckNodes_reaches_quantity [OF pools_ex_simps(1) len pools_ex_simps(2), of accept_all "[]"]
    unfolding own_ex pools_ex_simps(3) by auto
  have "length names = 2" using arg_cong [OF r(7), of size] r(5,6) by simp
  moreover have "nd_requestedHostname node_ex = ''n09''" by (simp add: node_ex_def new_node_def)
  ultimately show ?thesis using r by auto
qed

theorem createNodes_simulates_witness:
  "createNodes accept_all pools_ex (pool_ex\<lparr>np_quantity := 1\<rparr>) [] = (Inr (), []) \<and>
   createNodes accept_all pools_ex pool_ex [] = go_bind (createOrCheckNodes accept_all pools_ex pool_ex False) (\<lambda>_. go_return ()) []"
proof
  have one: "pool_nodes pools_ex (pool_ex\<lparr>np_quantity := 1\<rparr>) False = Inr [node_ex]" "pool_quantity (pool_ex\<lparr>np_quantity := 1\<rparr>) = 1"
    by (simp_all add: pools_ex_def pool_nodes_def node_ex_def pool_ex_def pool_quantity_def)
  have own: "own_nodes (pool_ex\<lparr>np_quantity := 1\<rparr>) [node_ex] = [node_ex]" "failed_nodes (pool_ex\<lparr>np_quantity := 1\<rparr>) [node_ex] = []"
    by code_simp+
  show "createNodes accept_all pools_ex (pool_ex\<lparr>np_quantity := 1\<rparr>) [] = (Inr (), [])"
    using createNodes_simulates [OF pools_ex_simps(4) one(1) _ pools_ex_simps(2), of accept_all "[]"] own one(2) by simp
  have "length [node_ex] + pool_quantity pool_ex \<le> 2 ^ 64" by (simp add: pools_ex_simps)
  from createNodes_simulates [OF pools_ex_simps(4,1) this pools_ex_simps(2), of accept_all "[]"] own_ex pools_ex_simps(3)
  show "createNodes accept_all pools_ex pool_ex [] = go_bind (createOrCheckNodes accept_all pools_ex pool_ex False) (\<lambda>_. go_return ()) []"
    by simp
qed

theorem parsePrefix_first_name_witness:
  "\<exists>pre w i. parsePrefix ''n08'' = (pre, w, i) \<and> node_hostname pre w i = ''n08'' \<and>
     (\<exists>pre w j. parsePrefix ''n99999999999999999999'' = (pre, w, j) \<and> j = 2 ^ 63 - 1 \<and> prefix (pre @ ''-'') (node_hostname pre w (j + 1)))"
proof -
  have r: "nameRegexp ''n08'' = Some (''n'', ''08'')" "nameRegexp ''n99999999999999999999'' = Some (''n'', ''99999999999999999999'')"
    by code_simp+
  have v: "dec_value ''08'' < 2 ^ 63" "2 ^ 63 \<le> dec_value ''99999999999999999999''"
    by (simp_all add: dec_value_def digit_value_def)
  note e1 = r(1) v(1) and e2 = r(2) v(2)
  obtain w i where p1: "parsePrefix ''n08'' = (''n'', w, i)" by (simp add: parsePrefix_def e1)
  obtain w' j where p2: "parsePrefix ''n99999999999999999999'' = (''n'', w', j)" by (simp add: parsePrefix_def e2)
  have "node_hostname ''n'' w i = ''n08''" using parsePrefix_first_name [OF p1] e1 by blast
  moreover have "j = 2 ^ 63 - 1 \<and> prefix (''n'' @ ''-'') (node_hostname ''n'' w' (j + 1))"
    using parsePrefix_first_name [OF p2] e2 by blast
  ultimately show ?thesis using p1 p2 by blast
qed

end
