(* ===== verification/User_Manager.thy ===== *)
theory User_Manager
  imports Auth_Tokens Conditions
begin

text \<open>
  The user manager, \<open>src/pkg/auth/providers/common/usermanager.go\<close>: who a principal of an
  authentication provider is, whether they may log in, and their tokens.

  The caches with their indexes, the answers to live requests, the random key and the name that the
  server generates are fields of the manager.
\<close>

section \<open>Base 32\<close>

text \<open>\<open>base32.HexEncoding.WithPadding(NoPadding)\<close>: five bits to a character, the last ones filled with zeros.\<close>

definition bits8 :: "char \<Rightarrow> bool list" where
  "bits8 c = map (\<lambda>i. odd ((of_char c :: nat) div 2 ^ i)) [7, 6, 5, 4, 3, 2, 1, 0]"

fun chunks5 :: "bool list \<Rightarrow> bool list list" where
  "chunks5 [] = []"
| "chunks5 [a] = [[a, False, False, False, False]]"
| "chunks5 [a, b] = [[a, b, False, False, False]]"
| "chunks5 [a, b, c] = [[a, b, c, False, False]]"
| "chunks5 [a, b, c, d] = [[a, b, c, d, False]]"
| "chunks5 (a # b # c # d # e # r) = [a, b, c, d, e] # chunks5 r"

definition hex_alphabet :: string where
  "hex_alphabet = ''0123456789ABCDEFGHIJKLMNOPQRSTUV''"

definition b32_char :: "bool list \<Rightarrow> char" where
  "b32_char bs = hex_alphabet ! foldl (\<lambda>v b. 2 * v + (if b then 1 else 0)) 0 bs"

definition b32_encode :: "string \<Rightarrow> string" where
  "b32_encode s = map b32_char (chunks5 (concat (map bits8 s)))"

section \<open>The manager\<close>

datatype umreq = UUpdateUser user | UCreateUser user | UCreateGRB global_role_binding | UCreateToken token

record principal_manager =
  um_userGet :: "string \<Rightarrow> user result"
  um_userList :: "selector \<Rightarrow> user list result"
  um_userIndexer :: "string \<Rightarrow> string \<Rightarrow> user list result"
  um_crtbIndexer :: "string \<Rightarrow> string \<Rightarrow> rtb list result"
  um_prtbIndexer :: "string \<Rightarrow> string \<Rightarrow> rtb list result"
  um_tokenLister :: "string \<Rightarrow> token result"
  um_random :: "string result"
  um_newName :: string

definition userByPrincipalIndex :: string where
  "userByPrincipalIndex = ''auth.management.cattle.io/userByPrincipal''"

definition crtbsByPrincipalIndex :: string where
  "crtbsByPrincipalIndex = ''auth.management.cattle.io/crtbByPrincipal''"

definition prtbsByPrincipalIndex :: string where
  "prtbsByPrincipalIndex = ''auth.management.cattle.io/prtbByPrincipal''"

definition userByPrincipal :: "user \<Rightarrow> string list" where
  "userByPrincipal u = us_principalIDs u"

definition rtb_principals :: "rtb \<Rightarrow> string list" where
  "rtb_principals b = (if rtb_groupPrincipalName b \<noteq> [] then [rtb_groupPrincipalName b] else []) @
     (if rtb_userPrincipalName b \<noteq> [] then [rtb_userPrincipalName b] else [])"

definition crtbsByPrincipals :: "rtb \<Rightarrow> string list" where
  "crtbsByPrincipals b = (if rtb_kind b \<noteq> CRTB then [] else rtb_principals b)"

definition prtbsByPrincipals :: "rtb \<Rightarrow> string list" where
  "prtbsByPrincipals b = (if rtb_kind b \<noteq> PRTB then [] else rtb_principals b)"

record um_caches =
  umc_users :: "user list"
  umc_crtbs :: "rtb list"
  umc_prtbs :: "rtb list"
  umc_tokens :: "token list"

definition NewUserManager :: "um_caches \<Rightarrow> (string \<Rightarrow> user result) \<Rightarrow> (selector \<Rightarrow> user list result) \<Rightarrow> string result \<Rightarrow> string \<Rightarrow> principal_manager" where
  "NewUserManager c userGet userList random newName =
     \<lparr>um_userGet = userGet, um_userList = userList,
      um_userIndexer = by_index [(userByPrincipalIndex, userByPrincipal)] (umc_users c),
      um_crtbIndexer = by_index [(crtbsByPrincipalIndex, crtbsByPrincipals)] (umc_crtbs c),
      um_prtbIndexer = by_index [(prtbsByPrincipalIndex, prtbsByPrincipals)] (umc_prtbs c),
      um_tokenLister = lister_get tk_name (umc_tokens c), um_random = random, um_newName = newName\<rparr>"

definition GetUser :: "http_request \<Rightarrow> string" where
  "GetUser req = hdr_get (rq_header req) ''Impersonate-User''"

text \<open>\<open>strings.Contains\<close>.\<close>

definition str_contains :: "string \<Rightarrow> string \<Rightarrow> bool" where
  "str_contains s sub \<longleftrightarrow> sublist sub s"

definition providerExists :: "string list \<Rightarrow> string \<Rightarrow> bool" where
  "providerExists principalIDs provider = list_ex (\<lambda>id. str_contains (split_all CHR '':'' id ! 0) provider) principalIDs"

definition SetPrincipalOnCurrentUser :: "umreq env \<Rightarrow> principal_manager \<Rightarrow> http_request \<Rightarrow> principal \<Rightarrow> (umreq, user) go" where
  "SetPrincipalOnCurrentUser env m req princ =
     (let userID = GetUser req in
      if userID = [] then go_fail (Err ''user not provided'')
      else go_bind (go_lift (um_userGet m userID)) (\<lambda>user.
        (let user = (if providerExists (us_principalIDs user) (prin_provider princ)
               then user\<lparr>us_principalIDs := filter (\<lambda>id. \<not> str_contains id (prin_provider princ)) (us_principalIDs user)\<rparr>
               else user) in
         if prin_name princ \<notin> set (us_principalIDs user)
         then (let user = user\<lparr>us_principalIDs := us_principalIDs user @ [prin_name princ]\<rparr> in
               go_bind (go_call env (UUpdateUser user)) (\<lambda>_. go_return user))
         else go_return user)))"

definition checkCache :: "principal_manager \<Rightarrow> string \<Rightarrow> user option result" where
  "checkCache m principalName = (case um_userIndexer m userByPrincipalIndex principalName of
     Inl err \<Rightarrow> Inl err
   | Inr users \<Rightarrow>
       if length users > 1 then Inl (Err (''can't find unique user for principal '' @ principalName))
       else if length users = 1 then Inr (Some (users ! 0)) else Inr None)"

fun atLeastOnePrincipalInProjectOrCluster :: "principal_manager \<Rightarrow> string list \<Rightarrow> bool result" where
  "atLeastOnePrincipalInProjectOrCluster m [] = Inr False"
| "atLeastOnePrincipalInProjectOrCluster m (p # ps) = (case um_crtbIndexer m crtbsByPrincipalIndex p of
     Inl err \<Rightarrow> Inl err
   | Inr crtbs \<Rightarrow>
       if length crtbs > 0 then Inr True
       else (case um_prtbIndexer m prtbsByPrincipalIndex p of
           Inl err \<Rightarrow> Inl err
         | Inr prtbs \<Rightarrow> if length prtbs > 0 then Inr True else atLeastOnePrincipalInProjectOrCluster m ps))"

definition CheckAccess :: "principal_manager \<Rightarrow> string \<Rightarrow> string list \<Rightarrow> principal \<Rightarrow> principal list \<Rightarrow> bool result" where
  "CheckAccess m accessMode allowedPrincipalIDs userPrinc groups =
     (if accessMode = ''unrestricted'' \<or> accessMode = [] then Inr True
      else if accessMode = ''required'' \<or> accessMode = ''restricted'' then
        (case checkCache m (prin_name userPrinc) of
           Inl err \<Rightarrow> Inl err
         | Inr user \<Rightarrow>
             (let userPrincipals = prin_name userPrinc # (case user of None \<Rightarrow> [] | Some u \<Rightarrow> us_principalIDs u) in
              if list_ex (\<lambda>p. p \<in> set allowedPrincipalIDs) userPrincipals then Inr True
              else if list_ex (\<lambda>g. prin_name g \<in> set allowedPrincipalIDs) groups then Inr True
              else if accessMode = ''restricted'' then
                atLeastOnePrincipalInProjectOrCluster m (map prin_name groups @ (if user \<noteq> None then userPrincipals else []))
              else Inr False))
      else Inl (Err (''Unsupported accessMode: '' @ accessMode)))"

definition EnsureToken :: "umreq env \<Rightarrow> principal_manager \<Rightarrow> string \<Rightarrow> string \<Rightarrow> string \<Rightarrow> (umreq, string) go" where
  "EnsureToken env m tokenName description userName =
     (if prefix ''token-'' tokenName then go_fail (Err ''token names can't start with token-'')
      else case um_tokenLister m tokenName of
        Inr t \<Rightarrow> go_return (token_value t)
      | Inl err \<Rightarrow>
          if \<not> is_not_found err then go_fail err
          else (case um_random m of
              Inl _ \<Rightarrow> go_fail (Err ''failed to generate token key'')
            | Inr key \<Rightarrow>
                (let t = token0\<lparr>tk_meta := meta0\<lparr>om_name := tokenName, om_labels := [(UserIDLabel, userName)]\<rparr>,
                       tk_description := description, tk_userID := userName, tk_authProvider := ''local'', tk_isDerived := True,
                       tk_token := key\<rparr> in
                 go_bind (go_call env (UCreateToken t)) (\<lambda>_. go_return (token_value t)))))"

definition principal_label :: "string \<Rightarrow> string" where
  "principal_label principalName = (let encodedPrincipalID = b32_encode principalName in
     if length encodedPrincipalID > 63 then take 63 encodedPrincipalID else encodedPrincipalID)"

text \<open>
  \<open>match = &u\<close> takes the address of the loop variable, of which there is one for the whole
  loop: when the loop has ended, \<open>match\<close> points to the user that was visited last.  So the loop
  only decides whether there is a match.
\<close>

fun match_loop :: "string \<Rightarrow> user list \<Rightarrow> bool \<Rightarrow> bool result" where
  "match_loop principalName [] found = Inr found"
| "match_loop principalName (u # us) found =
     (if principalName \<in> set (us_principalIDs u)
      then (if found then Inl (Err (''can't find unique user for principal '' @ principalName)) else match_loop principalName us True)
      else match_loop principalName us found)"

definition checkLabels :: "principal_manager \<Rightarrow> string \<Rightarrow> (user option \<times> selector) result" where
  "checkLabels m principalName =
     (let lset = [(principal_label principalName, ''hashed-principal-name'')] in
      case um_userList m lset of
        Inl err \<Rightarrow> Inl err
      | Inr items \<Rightarrow>
          if items = [] then Inr (None, lset)
          else (case match_loop principalName items False of
              Inl err \<Rightarrow> Inl err
            | Inr found \<Rightarrow> Inr (if found then Some (last items) else None, lset)))"

definition user0 :: user where
  "user0 = \<lparr>us_meta = meta0, us_displayName = [], us_description = [], us_username = [], us_password = [], us_mustChangePassword = False,
     us_principalIDs = []\<rparr>"

definition EnsureUser :: "umreq env \<Rightarrow> principal_manager \<Rightarrow> string \<Rightarrow> string \<Rightarrow> (umreq, user) go" where
  "EnsureUser env m principalName displayName =
     go_bind (go_lift (checkCache m principalName)) (\<lambda>u. case u of
       Some u \<Rightarrow> go_return u
     | None \<Rightarrow>
         go_bind (go_lift (checkLabels m principalName)) (\<lambda>(u, labelSet). case u of
           Some u \<Rightarrow> go_return u
         | None \<Rightarrow>
             (let user = user0\<lparr>us_meta := meta0\<lparr>om_generateName := ''user-'', om_labels := labelSet\<rparr>,
                    us_displayName := displayName, us_principalIDs := [principalName]\<rparr>;
                  created = user\<lparr>us_meta := (us_meta user)\<lparr>om_name := um_newName m\<rparr>\<rparr> in
              go_bind (go_call env (UCreateUser user)) (\<lambda>_.
              go_bind (go_call env (UCreateGRB \<lparr>grb_meta = meta0\<lparr>om_generateName := ''globalrolebinding-''\<rparr>,
                grb_userName = us_name created, grb_globalRoleName = ''user''\<rparr>)) (\<lambda>_.
              go_return created)))))"

section \<open>Labels\<close>

lemma chunks5_append: "length xs mod 5 = 0 \<Longrightarrow> chunks5 (xs @ ys) = chunks5 xs @ chunks5 ys"
  by (induction xs rule: chunks5.induct) auto

lemma length_bits: "length (concat (map bits8 s)) = 8 * length s"
  by (induction s) (simp_all add: bits8_def)

lemma length_chunks5: "length xs mod 5 = 0 \<Longrightarrow> length (chunks5 xs) = length xs div 5"
  by (induction xs rule: chunks5.induct) auto

lemma b32_encode_append:
  assumes "length s mod 5 = 0"
  shows "b32_encode (s @ t) = b32_encode s @ b32_encode t" and "length (b32_encode s) = 8 * (length s div 5)"
proof -
  have "length (concat (map bits8 s)) mod 5 = 0" using assms unfolding length_bits by (metis mod_mult_right_eq mult_0_right mod_0)
  then show "b32_encode (s @ t) = b32_encode s @ b32_encode t"  by (simp add: b32_encode_def chunks5_append)
  have "length s = 5 * (length s div 5)" using assms by (metis add.right_neutral mult_div_mod_eq)
  moreover have "length (b32_encode s) = 8 * length s div 5"
    using length_chunks5 \<open>length (concat (map bits8 s)) mod 5 = 0\<close> by (simp add: b32_encode_def length_bits)
  ultimately show "length (b32_encode s) = 8 * (length s div 5)" by (metis div_mult_self1_is_m mult.left_commute zero_less_numeral)
qed

text \<open>Principals that agree on their first 40 bytes have the same label.\<close>

lemma principal_label_collides:
  assumes "take 40 p = take 40 q" and "40 \<le> length p" and "40 \<le> length q"
  shows "principal_label p = principal_label q"
proof -
  have "principal_label s = take 63 (b32_encode (take 40 s))" if "40 \<le> length s" for s
  proof -
    have "length (take 40 s) = 40" using that by simp
    then have enc: "b32_encode s = b32_encode (take 40 s) @ b32_encode (drop 40 s)" "length (b32_encode (take 40 s)) = 64"
      using b32_encode_append(1) [of "take 40 s" "drop 40 s"] b32_encode_append(2) [of "take 40 s"] by simp_all
    then show ?thesis by (simp add: principal_label_def Let_def)
  qed
  with assms show ?thesis by simp
qed

end
