(* ===== verification/User_Manager_Props.thy ===== *)
theory User_Manager_Props
  imports User_Manager Auth_Props
begin

text \<open>
  Who may log in and who a principal is: access modes decide as specified, a principal becomes the
  user that carries it when labels are unique, and not otherwise.
\<close>

section \<open>Access modes\<close>

definition bound_principal :: "um_caches \<Rightarrow> string \<Rightarrow> bool" where
  "bound_principal c p \<longleftrightarrow> list_ex (\<lambda>b. rtb_kind b = CRTB \<and> p \<in> set (rtb_principals b)) (umc_crtbs c) \<or>
     list_ex (\<lambda>b. rtb_kind b = PRTB \<and> p \<in> set (rtb_principals b)) (umc_prtbs c)"

abbreviation users_with :: "um_caches \<Rightarrow> string \<Rightarrow> user list" where
  "users_with c p \<equiv> filter (\<lambda>u. p \<in> set (us_principalIDs u)) (umc_users c)"

lemma checkCache_eq:
  "checkCache (NewUserManager c g l r n) p = (case users_with c p of
     [] \<Rightarrow> Inr None | [u] \<Rightarrow> Inr (Some u) | _ \<Rightarrow> Inl (Err (''can't find unique user for principal '' @ p)))"
  by (auto simp: checkCache_def NewUserManager_def by_index_def userByPrincipal_def split: list.splits)

lemma atLeastOne_eq:
  "atLeastOnePrincipalInProjectOrCluster (NewUserManager c g l r n) ps = Inr (list_ex (bound_principal c) ps)"
proof (induction ps)
  case (Cons p ps)
  have "length (filter P xs) > 0 \<longleftrightarrow> list_ex P xs" for P and xs :: "rtb list" by (induction xs) auto
  with Cons show ?case
    by (auto simp: NewUserManager_def by_index_def crtbsByPrincipals_def prtbsByPrincipals_def bound_principal_def list_ex_iff)
qed simp

text \<open>
  C29. Whether a principal may log in is decided by the access mode.  Unrestricted, everybody may.
  Required, those may who are on the list of allowed principals themselves, through another
  principal of their user, or through a group; restricted, also those with a group or a user that is
  bound to a project or cluster.  A principal that belongs to more than one user and an unknown mode
  are errors.
\<close>

theorem CheckAccess_correct:
  "CheckAccess (NewUserManager c userGet userList random newName) accessMode allowed userPrinc groups =
     (if accessMode = [] \<or> accessMode = ''unrestricted'' then Inr True
      else if accessMode \<noteq> ''required'' \<and> accessMode \<noteq> ''restricted'' then Inl (Err (''Unsupported accessMode: '' @ accessMode))
      else if length (users_with c (prin_name userPrinc)) > 1
        then Inl (Err (''can't find unique user for principal '' @ prin_name userPrinc))
      else (let ids = concat (map us_principalIDs (users_with c (prin_name userPrinc)));
                known = (users_with c (prin_name userPrinc) \<noteq> []) in
        Inr (list_ex (\<lambda>p. p \<in> set allowed) (prin_name userPrinc # ids @ map prin_name groups) \<or>
          accessMode = ''restricted'' \<and> (list_ex (bound_principal c) (map prin_name groups) \<or>
            known \<and> list_ex (bound_principal c) (prin_name userPrinc # ids)))))"
proof -
  have "users_with c (prin_name userPrinc) = [] \<or> (\<exists>u. users_with c (prin_name userPrinc) = [u]) \<or>
      (\<exists>u v us. users_with c (prin_name userPrinc) = u # v # us)"
    by (metis list.exhaust)
  then show ?thesis
    by (elim disjE exE) (auto simp: CheckAccess_def checkCache_eq atLeastOne_eq Let_def list_ex_iff)
qed

section \<open>Users of principals\<close>

lemma NewUserManager_sel:
  "um_userGet (NewUserManager c g l r n) = g" "um_userList (NewUserManager c g l r n) = l" "um_newName (NewUserManager c g l r n) = n"
  by (simp_all add: NewUserManager_def)

definition create_user :: "umreq env \<Rightarrow> string \<Rightarrow> selector \<Rightarrow> string \<Rightarrow> string \<Rightarrow> (umreq, user) go" where
  "create_user env newName labelSet p display =
     (let user = user0\<lparr>us_meta := meta0\<lparr>om_generateName := ''user-'', om_labels := labelSet\<rparr>, us_displayName := display, us_principalIDs := [p]\<rparr>;
          created = user\<lparr>us_meta := (us_meta user)\<lparr>om_name := newName\<rparr>\<rparr> in
      go_bind (go_call env (UCreateUser user)) (\<lambda>_.
      go_bind (go_call env (UCreateGRB \<lparr>grb_meta = meta0\<lparr>om_generateName := ''globalrolebinding-''\<rparr>,
        grb_userName = us_name created, grb_globalRoleName = ''user''\<rparr>)) (\<lambda>_. go_return created)))"

lemma EnsureUser_cases:
  "EnsureUser env (NewUserManager c g l r n) p display h = (case users_with c p of
     [] \<Rightarrow> (case checkLabels (NewUserManager c g l r n) p of
        Inl e \<Rightarrow> (Inl e, [])
      | Inr (Some u, _) \<Rightarrow> (Inr u, [])
      | Inr (None, labelSet) \<Rightarrow> create_user env n labelSet p display h)
   | [u] \<Rightarrow> (Inr u, [])
   | _ \<Rightarrow> (Inl (Err (''can't find unique user for principal '' @ p)), []))"
  by (auto simp: EnsureUser_def checkCache_eq NewUserManager_sel create_user_def go_bind_def go_lift_def go_return_def Let_def
      split: list.splits sum.splits option.splits prod.splits)

lemma match_loop_found:
  "match_loop p us found = Inr b \<Longrightarrow> b = (found \<or> (\<exists>u \<in> set us. p \<in> set (us_principalIDs u)))"
  by (induction us arbitrary: found) (auto split: if_splits)

lemma match_loop_unique:
  "match_loop p us False = Inr True \<longleftrightarrow> length (filter (\<lambda>u. p \<in> set (us_principalIDs u)) us) = 1"
proof -
  have t: "match_loop p us True = Inr True \<longleftrightarrow> filter (\<lambda>u. p \<in> set (us_principalIDs u)) us = []" for us
    by (induction us) auto
  show ?thesis by (induction us) (auto simp: t)
qed

text \<open>
  C30. A principal becomes a user that carries it.  As long as at most one user has the label of the
  principal, the user that is returned has the principal among its own: it was in the cache, or on
  the server, or was created with it and bound to the global role \<open>user\<close>; and then
  nothing else was sent.
\<close>

theorem EnsureUser_identifies:
  assumes "EnsureUser env (NewUserManager c userGet userList random newName) p display h = (Inr u, d)"
    and "\<forall>items. userList [(principal_label p, ''hashed-principal-name'')] = Inr items \<longrightarrow> length items \<le> 1"
  shows "p \<in> set (us_principalIDs u) \<and>
    (d = [] \<and> (u \<in> set (umc_users c) \<or> userList [(principal_label p, ''hashed-principal-name'')] = Inr [u]) \<or>
     us_name u = newName \<and> (\<exists>v b. map fst d = [UCreateUser v, UCreateGRB b] \<and> us_principalIDs v = [p] \<and> grb_userName b = newName \<and>
       grb_globalRoleName b = ''user'') \<and> accepted (\<lambda>_. False) d)"
proof -
  let ?m = "NewUserManager c userGet userList random newName"
  let ?l = "[(principal_label p, ''hashed-principal-name'')]"
  consider (cache) v where "users_with c p = [v]" | (none) "users_with c p = []"
    using assms(1) by (auto simp: EnsureUser_cases split: list.splits)
  then show ?thesis
  proof cases
    case cache
    then have "u = v" "d = []" using assms(1) by (simp_all add: EnsureUser_cases)
    moreover have "v \<in> set (users_with c p)" using cache by simp
    ultimately show ?thesis by simp
  next
    case none
    with assms(1) obtain items r where items: "userList ?l = Inr items" "checkLabels ?m p = Inr (r, ?l)"
      by (auto simp: EnsureUser_cases checkLabels_def Let_def NewUserManager_sel split: sum.splits if_splits)
    show ?thesis
    proof (cases r)
      case (Some v)
      then have "u = v" "d = []" using assms(1) none items(2) by (simp_all add: EnsureUser_cases)
      moreover have "items = [v] \<and> p \<in> set (us_principalIDs v)"
        using items Some assms(2) match_loop_found [of p items False True]
        by (cases items) (auto simp: checkLabels_def Let_def NewUserManager_sel split: sum.splits if_splits)
      ultimately show ?thesis using items(1) by simp
    next
      case None
      then have "create_user env newName ?l p display h = (Inr u, d)" using assms(1) none items(2) by (simp add: EnsureUser_cases)
      then show ?thesis
        by (auto simp: create_user_def Let_def go_bind_def go_call_def go_return_def user0_def split: option.splits prod.splits sum.splits)
    qed
  qed
qed

text \<open>
  C35. When several users have the label, the wrong one may be returned.  Principals that agree on
  their first 40 bytes have the same label; and if the server lists users with it of which exactly
  one carries the principal, but not the last, then the principal becomes the last user of the list,
  who does not carry it.
\<close>

theorem EnsureUser_wrong_user:
  assumes "users_with c p = []" and "userList [(principal_label p, ''hashed-principal-name'')] = Inr items"
    and "length (filter (\<lambda>u. p \<in> set (us_principalIDs u)) items) = 1" and "p \<notin> set (us_principalIDs (last items))"
    and "take 40 q = take 40 p" and "40 \<le> length q" and "40 \<le> length p"
  shows "EnsureUser env (NewUserManager c userGet userList random newName) p display h = (Inr (last items), []) \<and>
    principal_label q = principal_label p"
proof
  have "items \<noteq> []" using assms(3) by auto
  moreover have "match_loop p items False = Inr True" using assms(3) by (simp add: match_loop_unique)
  ultimately have "checkLabels (NewUserManager c userGet userList random newName) p =
      Inr (Some (last items), [(principal_label p, ''hashed-principal-name'')])"
    using assms(2) by (simp add: checkLabels_def NewUserManager_sel)
  then show "EnsureUser env (NewUserManager c userGet userList random newName) p display h = (Inr (last items), [])"
    using assms(1) by (simp add: EnsureUser_cases)
  show "principal_label q = principal_label p" by (rule principal_label_collides [OF assms(5-7)])
qed

section \<open>Examples\<close>

definition ldap_alice :: string where
  "ldap_alice = ''activedirectory_user://CN=Users,DC=corp,DC=example,CN=alice''"

definition ldap_bob :: string where
  "ldap_bob = ''activedirectory_user://CN=Users,DC=corp,DC=example,CN=bob''"

definition alice_ex :: user where
  "alice_ex = user0\<lparr>us_meta := meta0\<lparr>om_name := ''u-alice''\<rparr>, us_principalIDs := [ldap_alice]\<rparr>"

definition bob_ex :: user where
  "bob_ex = user0\<lparr>us_meta := meta0\<lparr>om_name := ''u-bob''\<rparr>, us_principalIDs := [ldap_bob]\<rparr>"

definition um_ex :: um_caches where
  "um_ex = \<lparr>umc_users = [], umc_crtbs = [], umc_prtbs = [], umc_tokens = []\<rparr>"

theorem EnsureUser_identifies_witness:
  "\<exists>u d. EnsureUser accept_all (NewUserManager um_ex (\<lambda>_. Inl (Api NotFound)) (\<lambda>_. Inr []) (Inr key_ex) ''user-1'') ldap_alice ''Alice'' [] = (Inr u, d) \<and>
     ldap_alice \<in> set (us_principalIDs u) \<and> us_name u = ''user-1'' \<and> length d = 2"
proof -
  let ?r = "EnsureUser accept_all (NewUserManager um_ex (\<lambda>_. Inl (Api NotFound)) (\<lambda>_. Inr []) (Inr key_ex) ''user-1'') ldap_alice ''Alice'' []"
  obtain u d where r: "?r = (Inr u, d)" "us_name u = ''user-1''" "length d = 2"
    by (auto simp: EnsureUser_cases um_ex_def checkLabels_def NewUserManager_sel Let_def create_user_def go_bind_def go_return_def
        go_call_def accept_all_def user0_def)
  with EnsureUser_identifies [OF r(1)] show ?thesis by auto
qed

theorem EnsureUser_wrong_user_witness:
  "EnsureUser accept_all (NewUserManager um_ex (\<lambda>_. Inl (Api NotFound)) (\<lambda>_. Inr [alice_ex, bob_ex]) (Inr key_ex) ''user-1'') ldap_alice ''Alice'' []
     = (Inr bob_ex, []) \<and> principal_label ldap_bob = principal_label ldap_alice"
proof -
  have "take 40 ldap_bob = take 40 ldap_alice" "40 \<le> length ldap_bob" "40 \<le> length ldap_alice" "ldap_alice \<noteq> ldap_bob"
    by code_simp+
  then show ?thesis
    using EnsureUser_wrong_user [of ldap_alice um_ex "\<lambda>_. Inr [alice_ex, bob_ex]" "[alice_ex, bob_ex]" ldap_bob accept_all]
    by (simp add: um_ex_def alice_ex_def bob_ex_def)
qed

end
