(* ===== verification/Object_Store.thy ===== *)
theory Object_Store
  imports Handlers
begin

text \<open>
  An API server that keeps objects: creating one that exists, and updating or deleting one that
  does not, are refused.  Handlers that run against it are reasoned about with triples: from every
  state in which the precondition holds the run succeeds and ends in the postcondition.
\<close>

section \<open>Server\<close>

datatype ('k, 'o) op = OpCreate 'k 'o | OpUpdate 'k 'o | OpDelete 'k

fun op_answer :: "('k \<Rightarrow> 'o option) \<Rightarrow> ('k, 'o) op \<Rightarrow> api_error option" where
  "op_answer s (OpCreate k v) = (if s k = None then None else Some AlreadyExists)"
| "op_answer s (OpUpdate k v) = (if s k = None then Some NotFound else None)"
| "op_answer s (OpDelete k) = (if s k = None then Some NotFound else None)"

fun op_effect :: "('k, 'o) op \<Rightarrow> ('k \<Rightarrow> 'o option) \<Rightarrow> ('k \<Rightarrow> 'o option)" where
  "op_effect (OpCreate k v) s = s(k := Some v)"
| "op_effect (OpUpdate k v) s = s(k := Some v)"
| "op_effect (OpDelete k) s = s(k := None)"

text \<open>The operation behind a request is an argument; other requests are accepted and change nothing.\<close>

definition after_request :: "('r \<Rightarrow> ('k, 'o) op option) \<Rightarrow> 'r \<times> api_error option \<Rightarrow> ('k \<Rightarrow> 'o option) \<Rightarrow> ('k \<Rightarrow> 'o option)" where
  "after_request act = (\<lambda>(r, a) s. case (act r, a) of (Some p, None) \<Rightarrow> op_effect p s | _ \<Rightarrow> s)"

definition store_after :: "('r \<Rightarrow> ('k, 'o) op option) \<Rightarrow> ('k \<Rightarrow> 'o option) \<Rightarrow> 'r trace \<Rightarrow> ('k \<Rightarrow> 'o option)" where
  "store_after act s h = fold (after_request act) h s"

definition store_env :: "('r \<Rightarrow> ('k, 'o) op option) \<Rightarrow> ('k \<Rightarrow> 'o option) \<Rightarrow> (string list \<Rightarrow> string list) \<Rightarrow> 'r env" where
  "store_env act s rng = \<lparr>env_api = (\<lambda>h r. case act r of None \<Rightarrow> None | Some p \<Rightarrow> op_answer (store_after act s h) p), env_rng = rng\<rparr>"

lemma store_after_Nil [simp]: "store_after act s [] = s"
  and store_after_append: "store_after act s (h @ d) = store_after act (store_after act s h) d"
  and store_after_snoc [simp]: "store_after act s (h @ [x]) = after_request act x (store_after act s h)"
  and store_after_Cons: "store_after act s (x # d) = store_after act (after_request act x s) d"
  by (simp_all add: store_after_def)

section \<open>Triples\<close>

named_theorems triple_intros \<open>rules for handlers that run against a server with objects\<close>

definition triple :: "('r trace \<Rightarrow> 's) \<Rightarrow> ('s \<Rightarrow> bool) \<Rightarrow> ('r, 'a) go \<Rightarrow> ('a \<Rightarrow> 's \<Rightarrow> bool) \<Rightarrow> bool" where
  "triple st P m Q \<longleftrightarrow> (\<forall>h. P (st h) \<longrightarrow> (\<exists>x d. m h = (Inr x, d) \<and> Q x (st (h @ d))))"

lemma tripleD:
  assumes "triple st P m Q" "P (st h)"
  obtains x d where "m h = (Inr x, d)" "Q x (st (h @ d))"
  using assms unfolding triple_def by blast

lemma triple_from_start:
  "triple st (\<lambda>t. t = s) m (\<lambda>_ t. t = s') \<Longrightarrow> st [] = s \<Longrightarrow> \<exists>d. m [] = (Inr (), d) \<and> st d = s'"
  unfolding triple_def by fastforce

lemma triple_weaken: "triple st P' m Q' \<Longrightarrow> (\<And>s. P s \<Longrightarrow> P' s) \<Longrightarrow> (\<And>x s. Q' x s \<Longrightarrow> Q x s) \<Longrightarrow> triple st P m Q"
  unfolding triple_def by blast

lemma triple_return [triple_intros]: "(\<And>s. P s \<Longrightarrow> Q x s) \<Longrightarrow> triple st P (go_return x) Q"
  by (simp add: triple_def go_return_def)

lemma triple_bind:
  assumes "triple st P m R" and "\<And>x. triple st (R x) (f x) Q"
  shows "triple st P (go_bind m f) Q"
  unfolding triple_def
proof (intro allI impI)
  fix h assume "P (st h)"
  then obtain x d where m: "m h = (Inr x, d)" "R x (st (h @ d))" by (rule tripleD [OF assms(1)])
  then obtain y d' where "f x (h @ d) = (Inr y, d')" "Q y (st ((h @ d) @ d'))" by (blast intro: tripleD [OF assms(2)])
  with m(1) show "\<exists>x d. go_bind m f h = (Inr x, d) \<and> Q x (st (h @ d))"
    by (intro exI [of _ y] exI [of _ "d @ d'"]) (simp add: go_bind_def)
qed

lemma triple_bind_lift: "triple st P (f x) Q \<Longrightarrow> triple st P (go_bind (go_lift (Inr x)) f) Q"
  by simp

lemma triple_when: "(b \<Longrightarrow> triple st P m Q) \<Longrightarrow> (\<not> b \<Longrightarrow> (\<And>s. P s \<Longrightarrow> Q () s)) \<Longrightarrow> triple st P (go_when b m) Q"
  by (cases b) (simp_all add: triple_return)

lemma triple_try: "triple st P m (\<lambda>_. Q) \<Longrightarrow> triple st P (go_try m) (\<lambda>_. Q)"
  unfolding triple_def go_try_def by fastforce

lemma triple_call:
  assumes "act r = Some p" and "\<And>s. P s \<Longrightarrow> op_answer s p = None \<and> Q () (op_effect p s)"
  shows "triple (store_after act s0) P (go_call (store_env act s0 rng) r) Q"
  using assms by (simp add: triple_def go_call_def store_env_def after_request_def)

lemma triple_call_other:
  assumes "act r = None" and "\<And>s. P s \<Longrightarrow> Q () s"
  shows "triple (store_after act s0) P (go_call (store_env act s0 rng) r) Q"
  using assms by (simp add: triple_def go_call_def store_env_def after_request_def)

lemma triple_try_call:
  assumes "act r = Some p"
    and "\<And>s. P s \<Longrightarrow> (case op_answer s p of None \<Rightarrow> Q (Inr ()) (op_effect p s) | Some e \<Rightarrow> Q (Inl (Api e)) s)"
  shows "triple (store_after act s0) P (go_try (go_call (store_env act s0 rng) r)) Q"
  unfolding triple_def go_try_call
proof (intro allI impI)
  fix h assume "P (store_after act s0 h)"
  from assms(2) [OF this] assms(1)
  show "\<exists>x d. (Inr (case env_api (store_env act s0 rng) h r of None \<Rightarrow> Inr () | Some e \<Rightarrow> Inl (Api e)),
      [(r, env_api (store_env act s0 rng) h r)]) = (Inr x, d) \<and> Q x (store_after act s0 (h @ d))"
    by (auto simp: store_env_def after_request_def split: option.splits)
qed

lemma triple_call_nf:
  assumes "act r = Some (OpDelete k)" and "\<And>s. P s \<Longrightarrow> Q () (s(k := None))"
  shows "triple (store_after act s0) P (go_call_nf (store_env act s0 rng) r) Q"
  unfolding go_call_nf_def
proof (rule triple_bind [where R = "\<lambda>x s. (x = Inr () \<or> x = Inl (Api NotFound)) \<and> Q () s"])
  have absent: "P s \<Longrightarrow> s k = None \<Longrightarrow> Q () s" for s
    using assms(2) [of s] by (simp add: fun_upd_idem)
  show "triple (store_after act s0) P (go_try (go_call (store_env act s0 rng) r)) (\<lambda>x s. (x = Inr () \<or> x = Inl (Api NotFound)) \<and> Q () s)"
    using assms by (intro triple_try_call [where p = "OpDelete k"]) (auto intro: absent)
  show "triple (store_after act s0) (\<lambda>s. (x = Inr () \<or> x = Inl (Api NotFound)) \<and> Q () s)
      (case x of Inl e \<Rightarrow> if is_not_found e then go_return () else go_fail e | Inr u \<Rightarrow> go_return ()) Q" for x
    by (auto simp: triple_def go_return_def split: sum.splits)
qed

lemma triple_emit:
  assumes "act r = None" and "\<And>s. P s \<Longrightarrow> Q () s"
  shows "triple (store_after act s0) P (go_emit r) Q"
  using assms by (simp add: triple_def go_emit_def after_request_def)

text \<open>A loop keeps an invariant that speaks of the elements already visited.\<close>

lemma triple_for:
  assumes "\<And>ys x zs. xs = ys @ x # zs \<Longrightarrow> triple st (I ys) (f x) (\<lambda>_. I (ys @ [x]))"
  shows "triple st (I []) (go_for xs f) (\<lambda>_. I xs)"
proof -
  have "triple st (I ys) (go_for zs f) (\<lambda>_. I (ys @ zs))" if "xs = ys @ zs" for ys zs
    using that
  proof (induction zs arbitrary: ys)
    case (Cons z zs)
    then show ?case using Cons.IH [of "ys @ [z]"] by (auto intro: triple_bind assms)
  qed (simp add: triple_return)
  from this [of "[]"] show ?thesis by simp
qed

end
