(* ===== verification/Project_Secrets.thy ===== *)
theory Project_Secrets
  imports Object_Store User_Bindings
begin

text \<open>
  Secrets of projects: \<open>src/pkg/controllers/user/secret\<close> copies the secrets of a project, kept in
  the management namespace of its name, into the namespaces of the project in a cluster; and
  \<open>src/pkg/controllers/user/nslabels\<close> takes them out again when a namespace changes its project.
  Listers and the server's list of secrets are arguments.
\<close>

section \<open>State\<close>

record secret =
  se_meta :: object_meta
  se_data :: "(string, string) gomap"
  se_stringData :: "(string, string) gomap"
  se_type :: string

abbreviation se_name :: "secret \<Rightarrow> string" where
  "se_name s \<equiv> om_name (se_meta s)"

abbreviation se_namespace :: "secret \<Rightarrow> string" where
  "se_namespace s \<equiv> om_namespace (se_meta s)"

datatype secreq = SecCreate secret | SecUpdate secret | SecDelete string string | SecNsUpdate namespace

record secret_controller =
  sc_clusterNamespaces :: "namespace list result"
  sc_managementNamespace :: "string \<Rightarrow> namespace result"
  sc_project :: "string \<Rightarrow> string \<Rightarrow> project result"
  sc_clusterName :: string

definition projectIDLabel :: string where "projectIDLabel = ''field.cattle.io/projectId''"
definition projectNamespaceAnnotation :: string where "projectNamespaceAnnotation = ''management.cattle.io/system-namespace''"
definition userSecretAnnotation :: string where "userSecretAnnotation = ''secret.user.cattle.io/secret''"
definition ProjectIDFieldLabel :: string where "ProjectIDFieldLabel = ''field.cattle.io/projectId''"
definition ProjectScopedSecretAnnotation :: string where "ProjectScopedSecretAnnotation = ''secret.user.cattle.io/secret''"

section \<open>Copies\<close>

definition copyMap :: "(string, string) gomap \<Rightarrow> (string, string) gomap \<Rightarrow> (string, string) gomap" where
  "copyMap src dst = fold (\<lambda>(k, v). AList.update k v) src dst"

definition getNamespacedSecret :: "secret \<Rightarrow> string \<Rightarrow> secret" where
  "getNamespacedSecret obj namespace =
     \<lparr>se_meta = meta0\<lparr>om_name := se_name obj, om_kind := om_kind (se_meta obj), om_namespace := namespace,
        om_annotations := AList.update userSecretAnnotation ''true'' (copyMap (om_annotations (se_meta obj)) [])\<rparr>,
      se_data = se_data obj, se_stringData = se_stringData obj, se_type = se_type obj\<rparr>"

section \<open>Secrets of a namespace\<close>

text \<open>Creating what may be there already.\<close>

definition create_secret :: "secreq env \<Rightarrow> secret \<Rightarrow> (secreq, unit) go" where
  "create_secret env s = go_bind (go_try (go_call env (SecCreate s))) (\<lambda>x. case x of
     Inl err \<Rightarrow> if is_already_exists err then go_return () else go_fail err
   | Inr _ \<Rightarrow> go_return ())"

definition NamespaceController_sync :: "secreq env \<Rightarrow> (string \<Rightarrow> secret list result) \<Rightarrow> namespace option \<Rightarrow> (secreq, unit) go" where
  "NamespaceController_sync env managementSecrets obj = (case obj of
     None \<Rightarrow> go_return ()
   | Some ns \<Rightarrow>
       if om_deleting (ns_meta ns) then go_return ()
       else if map_str (ns_annotations ns) projectIDLabel \<noteq> [] then
         (let parts = split_all CHR '':'' (map_str (ns_annotations ns) projectIDLabel) in
          if length parts = 2 then
            go_bind (go_lift (managementSecrets (parts ! 1))) (\<lambda>secrets.
              go_for secrets (\<lambda>secret. create_secret env (getNamespacedSecret secret (ns_name ns))))
          else go_return ())
       else go_return ())"

section \<open>Secrets of a project\<close>

definition project_namespaces :: "string \<Rightarrow> namespace list \<Rightarrow> namespace list" where
  "project_namespaces projectID namespaces = filter (\<lambda>ns.
     let parts = split_all CHR '':'' (map_str (ns_annotations ns) projectIDLabel) in length parts = 2 \<and> parts ! 1 = projectID) namespaces"

definition getClusterNamespaces :: "secret_controller \<Rightarrow> secret \<Rightarrow> namespace list result" where
  "getClusterNamespaces s obj = (case sc_managementNamespace s (se_namespace obj) of
     Inl err \<Rightarrow> if is_not_found err then Inr [] else Inl err
   | Inr projectNamespace \<Rightarrow>
       if ns_annotations projectNamespace = [] then Inr []
       else if map_of (ns_annotations projectNamespace) projectNamespaceAnnotation \<noteq> Some ''true'' then Inr []
       else (case sc_project s (sc_clusterName s) (ns_name projectNamespace) of
           Inl err \<Rightarrow> if is_not_found err then Inr [] else Inl err
         | Inr _ \<Rightarrow> (case sc_clusterNamespaces s of
             Inl err \<Rightarrow> Inl err
           | Inr namespaces \<Rightarrow> Inr (project_namespaces (se_namespace obj) namespaces))))"

datatype secret_action = ActionCreate | ActionUpdate

definition put_secret :: "secreq env \<Rightarrow> secret_action \<Rightarrow> secret \<Rightarrow> (secreq, unit) go" where
  "put_secret env action s = (case action of
     ActionCreate \<Rightarrow> create_secret env s
   | ActionUpdate \<Rightarrow> go_bind (go_try (go_call env (SecUpdate s))) (\<lambda>x. case x of
         Inl err \<Rightarrow> if is_not_found err then go_call env (SecCreate s) else go_fail err
       | Inr _ \<Rightarrow> go_return ()))"

definition other_cluster :: "secret_controller \<Rightarrow> secret \<Rightarrow> bool" where
  "other_cluster s obj \<longleftrightarrow> (let v = map_str (om_annotations (se_meta obj)) projectIDLabel; parts = split_all CHR '':'' v in
     v \<noteq> [] \<and> length parts = 2 \<and> parts ! 0 \<noteq> sc_clusterName s)"

definition createOrUpdate :: "secreq env \<Rightarrow> secret_controller \<Rightarrow> secret \<Rightarrow> secret_action \<Rightarrow> (secreq, unit) go" where
  "createOrUpdate env s obj action =
     (if other_cluster s obj then go_return ()
      else go_bind (go_lift (getClusterNamespaces s obj)) (\<lambda>clusterNamespaces.
        go_for clusterNamespaces (\<lambda>ns. put_secret env action (getNamespacedSecret obj (ns_name ns)))))"

definition secret_Create :: "secreq env \<Rightarrow> secret_controller \<Rightarrow> secret \<Rightarrow> (secreq, unit) go" where
  "secret_Create env s obj = createOrUpdate env s obj ActionCreate"

definition secret_Updated :: "secreq env \<Rightarrow> secret_controller \<Rightarrow> secret \<Rightarrow> (secreq, unit) go" where
  "secret_Updated env s obj = createOrUpdate env s obj ActionUpdate"

definition secret_Remove :: "secreq env \<Rightarrow> secret_controller \<Rightarrow> secret \<Rightarrow> (secreq, unit) go" where
  "secret_Remove env s obj = go_bind (go_lift (getClusterNamespaces s obj)) (\<lambda>clusterNamespaces.
     go_for clusterNamespaces (\<lambda>ns. go_call_nf env (SecDelete (ns_name ns) (se_name obj))))"

section \<open>Namespaces that change their project\<close>

definition relabelled_secret :: "string \<Rightarrow> string \<Rightarrow> secret \<Rightarrow> secret" where
  "relabelled_secret projectID clusterID s = s\<lparr>se_meta := (se_meta s)\<lparr>om_annotations :=
     AList.update ProjectIDFieldLabel (if projectID = [] then projectID else clusterID @ '':'' @ projectID) (om_annotations (se_meta s))\<rparr>\<rparr>"

definition updateProjectIDLabelForSecrets ::
  "secreq env \<Rightarrow> (string \<Rightarrow> secret list result) \<Rightarrow> string \<Rightarrow> string \<Rightarrow> string \<Rightarrow> (secreq, unit) go" where
  "updateProjectIDLabelForSecrets env secretList projectID namespace clusterID =
     go_bind (go_lift (secretList namespace)) (\<lambda>items. go_for items (\<lambda>s.
       if map_str (om_annotations (se_meta s)) ProjectScopedSecretAnnotation = ''true'' then go_call env (SecDelete namespace (se_name s))
       else go_call env (SecUpdate (relabelled_secret projectID clusterID s))))"

text \<open>The error of the secrets is dropped.\<close>

definition addProjectIDLabelToNamespace ::
  "secreq env \<Rightarrow> (string \<Rightarrow> secret list result) \<Rightarrow> namespace \<Rightarrow> string \<Rightarrow> string \<Rightarrow> (secreq, unit) go" where
  "addProjectIDLabelToNamespace env secretList ns projectID clusterID =
     (if map_str (om_labels (ns_meta ns)) ProjectIDFieldLabel \<noteq> projectID then
        go_bind (go_try (updateProjectIDLabelForSecrets env secretList projectID (ns_name ns) clusterID)) (\<lambda>_.
        go_call env (SecNsUpdate (ns\<lparr>ns_meta := (ns_meta ns)\<lparr>om_labels :=
          AList.update ProjectIDFieldLabel projectID (om_labels (ns_meta ns))\<rparr>\<rparr>)))
      else go_return ())"

definition namespaceHandler_Sync :: "secreq env \<Rightarrow> (string \<Rightarrow> secret list result) \<Rightarrow> namespace option \<Rightarrow> (secreq, unit) go" where
  "namespaceHandler_Sync env secretList obj = (case obj of
     None \<Rightarrow> go_return ()
   | Some ns \<Rightarrow> (case map_of (ns_annotations ns) ProjectIDFieldLabel of
       None \<Rightarrow> go_return ()
     | Some field \<Rightarrow>
         (let splits = split_all CHR '':'' field in
          if field \<noteq> [] \<and> length splits \<noteq> 2 then go_return ()
          else go_bind (go_try (addProjectIDLabelToNamespace env secretList ns
              (if field \<noteq> [] then splits ! 1 else []) (if field \<noteq> [] then splits ! 0 else []))) (\<lambda>_. go_return ()))))"

end
