(* ===== verification/Project_Secret_Props.thy ===== *)
theory Project_Secret_Props
  imports Project_Secrets
begin

text \<open>
  What the copies of secrets amount to on a server that keeps them: they follow the secret and the
  project, also when a namespace moves; and where they do not.
\<close>

section \<open>Secrets on the server\<close>

fun secret_op :: "secreq \<Rightarrow> (string \<times> string, secret) op option" where
  "secret_op (SecCreate x) = Some (OpCreate (se_namespace x, se_name x) x)"
| "secret_op (SecUpdate x) = Some (OpUpdate (se_namespace x, se_name x) x)"
| "secret_op (SecDelete ns n) = Some (OpDelete (ns, n))"
| "secret_op (SecNsUpdate ns) = None"

lemma copy_key [simp]: "se_namespace (getNamespacedSecret x ns) = ns" "se_name (getNamespacedSecret x ns) = se_name x"
  by (simp_all add: getNamespacedSecret_def)

lemma copyMap_map_of: "distinct (map fst src) \<Longrightarrow> map_of (copyMap src dst) = map_of dst ++ map_of src"
  unfolding copyMap_def
proof (induction src arbitrary: dst)
  case (Cons kv src)
  obtain k v where kv: "kv = (k, v)" by fastforce
  have "k \<notin> dom (map_of src)" using Cons.prems kv by (simp add: dom_map_of_conv_image_fst)
  then show ?case using Cons kv
    by (auto simp: AList.update_conv' fun_eq_iff map_add_def split: option.splits)
qed simp

lemma triple_create_secret:
  assumes "\<And>s. P s \<Longrightarrow> Q () (if s (se_namespace x, se_name x) = None then s((se_namespace x, se_name x) := Some x) else s)"
  shows "triple (store_after secret_op s0) P (create_secret (store_env secret_op s0 rng) x) Q"
  unfolding create_secret_def
proof (rule triple_bind [where R = "\<lambda>y s. (y = Inr () \<or> y = Inl (Api AlreadyExists)) \<and> Q () s"])
  show "triple (store_after secret_op s0) P (go_try (go_call (store_env secret_op s0 rng) (SecCreate x)))
      (\<lambda>y s. (y = Inr () \<or> y = Inl (Api AlreadyExists)) \<and> Q () s)"
    using assms by (intro triple_try_call [where p = "OpCreate (se_namespace x, se_name x) x"]) (fastforce split: if_splits)+
qed (auto simp: triple_def go_return_def is_already_exists_def split: sum.splits)

lemma triple_update_secret:
  assumes "\<And>s. P s \<Longrightarrow> Q () (s((se_namespace x, se_name x) := Some x))"
  shows "triple (store_after secret_op s0) P (put_secret (store_env secret_op s0 rng) ActionUpdate x) Q"
  unfolding put_secret_def secret_action.case
proof (rule triple_bind [where R = "\<lambda>y s. y = Inr () \<and> Q () s \<or> y = Inl (Api NotFound) \<and> P s \<and> s (se_namespace x, se_name x) = None"])
  show "triple (store_after secret_op s0) P (go_try (go_call (store_env secret_op s0 rng) (SecUpdate x)))
      (\<lambda>y s. y = Inr () \<and> Q () s \<or> y = Inl (Api NotFound) \<and> P s \<and> s (se_namespace x, se_name x) = None)"
    using assms by (intro triple_try_call [where p = "OpUpdate (se_namespace x, se_name x) x"]) auto
  let ?K = "(se_namespace x, se_name x)"
  have create: "triple (store_after secret_op s0) (\<lambda>s. P s \<and> s ?K = None) (go_call (store_env secret_op s0 rng) (SecCreate x)) Q"
    using assms by (intro triple_call [where p = "OpCreate ?K x"]) auto
  show "triple (store_after secret_op s0) (\<lambda>s. y = Inr () \<and> Q () s \<or> y = Inl (Api NotFound) \<and> P s \<and> s ?K = None)
      (case y of Inl err \<Rightarrow> if is_not_found err then go_call (store_env secret_op s0 rng) (SecCreate x) else go_fail err
        | Inr _ \<Rightarrow> go_return ()) Q" for y
    using create by (auto simp: triple_def go_return_def split: sum.splits)
qed

section \<open>Loops over namespaces\<close>

definition over :: "(string \<times> string \<Rightarrow> secret option) \<Rightarrow> string list \<Rightarrow> string \<Rightarrow> (string \<Rightarrow> secret option \<Rightarrow> secret option) \<Rightarrow>
    (string \<times> string \<Rightarrow> secret option)" where
  "over s nss n f = (\<lambda>(ns, m). if m = n \<and> ns \<in> set nss then f ns (s (ns, m)) else s (ns, m))"

lemma over_Nil [simp]: "over s [] n f = s"
  by (simp add: over_def fun_eq_iff)

lemma over_snoc:
  "over s (nss @ [ns]) n f = (if ns \<in> set nss then over s nss n f else (over s nss n f)((ns, n) := f ns (s (ns, n))))"
  by (auto simp: over_def fun_eq_iff)

lemma over_at: "over s nss n f (ns, n) = (if ns \<in> set nss then f ns (s (ns, n)) else s (ns, n))"
  by (simp add: over_def)

lemma triple_over:
  assumes "\<And>ns s. triple st (\<lambda>t. t = s) (g ns) (\<lambda>_ t. t = s((ns_name ns, n) := f (ns_name ns) (s (ns_name ns, n))))"
    and "\<And>ns v. f ns (f ns v) = f ns v"
  shows "triple st (\<lambda>t. t = s) (go_for nss g) (\<lambda>_ t. t = over s (map ns_name nss) n f)"
proof -
  have "triple st (\<lambda>t. t = over s (map ns_name ys) n f) (g x) (\<lambda>_ t. t = over s (map ns_name (ys @ [x])) n f)" for ys x
    by (rule triple_weaken [OF assms(1) [where s = "over s (map ns_name ys) n f"]])
      (auto simp: over_snoc over_at assms(2) fun_upd_idem)
  then show ?thesis using triple_for [of nss st "\<lambda>ys t. t = over s (map ns_name ys) n f" g] by simp
qed


section \<open>Namespaces\<close>

lemma split_all_pair: "CHR '':'' \<notin> set a \<Longrightarrow> CHR '':'' \<notin> set b \<Longrightarrow> split_all CHR '':'' (a @ '':'' @ b) = [a, b]"
  using split_all_append_sep [of "CHR '':''" a b] by (simp add: split_all_no_sep)

text \<open>What the secrets of a list leave behind that are created one after the other where they are missing.\<close>

definition filled :: "(string \<times> string \<Rightarrow> secret option) \<Rightarrow> string \<Rightarrow> secret list \<Rightarrow> (string \<times> string \<Rightarrow> secret option)" where
  "filled s ns xs = (\<lambda>(m, n). if m = ns \<and> s (m, n) = None then map_option (\<lambda>x. getNamespacedSecret x ns) (find (\<lambda>x. se_name x = n) xs) else s (m, n))"

lemma filled_Nil [simp]: "filled s ns [] = s"
  by (auto simp: filled_def fun_eq_iff)

lemma find_append: "find P (xs @ ys) = (case find P xs of None \<Rightarrow> find P ys | Some x \<Rightarrow> Some x)"
  by (induction xs) auto

lemma filled_snoc:
  "filled s ns (xs @ [x]) = (if filled s ns xs (ns, se_name x) = None then (filled s ns xs)((ns, se_name x) := Some (getNamespacedSecret x ns))
     else filled s ns xs)"
  by (auto simp: filled_def fun_eq_iff find_append split: option.splits)

lemma triple_fill:
  "triple (store_after secret_op s0) (\<lambda>t. t = s)
     (go_for xs (\<lambda>x. create_secret (store_env secret_op s0 rng) (getNamespacedSecret x ns))) (\<lambda>_ t. t = filled s ns xs)"
  using triple_for [of xs "store_after secret_op s0" "\<lambda>ys t. t = filled s ns ys"
      "\<lambda>x. create_secret (store_env secret_op s0 rng) (getNamespacedSecret x ns)"]
  by (simp add: filled_snoc triple_create_secret)

lemma NamespaceController_sync_fills:
  assumes "map_of (ns_annotations ns) projectIDLabel = Some (c @ '':'' @ p)" and "CHR '':'' \<notin> set c" "CHR '':'' \<notin> set p"
    and "\<not> om_deleting (ns_meta ns)" and "managementSecrets p = Inr xs"
  shows "triple (store_after secret_op s0) (\<lambda>t. t = s) (NamespaceController_sync (store_env secret_op s0 rng) managementSecrets (Some ns))
    (\<lambda>_ t. t = filled s (ns_name ns) xs)"
  using assms triple_fill [of s0 s xs rng "ns_name ns"] split_all_pair [OF assms(2,3)]
  by (simp add: NamespaceController_sync_def map_str_def Let_def)

text \<open>
  A namespace gets the secrets of whatever management namespace its annotation names.  The
  cluster in the annotation is not looked at, nor whether the management namespace belongs to a
  project: every secret in it is copied into the namespace, if there is none of the name yet.
\<close>

theorem NamespaceController_copies_any_namespace:
  assumes "map_of (ns_annotations ns) projectIDLabel = Some (anyCluster @ '':'' @ anyNamespace)"
    and "CHR '':'' \<notin> set anyCluster" and "CHR '':'' \<notin> set anyNamespace"
    and "\<not> om_deleting (ns_meta ns)" and "managementSecrets anyNamespace = Inr xs"
    and "x \<in> set xs" and "distinct (map se_name xs)" and "s (ns_name ns, se_name x) = None"
  shows "\<exists>d. NamespaceController_sync (store_env secret_op s rng) managementSecrets (Some ns) [] = (Inr (), d) \<and>
    store_after secret_op s d (ns_name ns, se_name x) = Some (getNamespacedSecret x (ns_name ns)) \<and>
    se_data (getNamespacedSecret x (ns_name ns)) = se_data x"
proof -
  have "find (\<lambda>y. se_name y = se_name x) xs = Some x"
    using assms(6,7) by (induction xs) (auto simp: image_iff)
  moreover obtain d where "NamespaceController_sync (store_env secret_op s rng) managementSecrets (Some ns) [] = (Inr (), d)"
      "store_after secret_op s d = filled s (ns_name ns) xs"
    using triple_from_start [OF NamespaceController_sync_fills [where managementSecrets = managementSecrets, OF assms(1-5)]] by fastforce
  ultimately show ?thesis using assms(8) by (auto simp: filled_def getNamespacedSecret_def)
qed

section \<open>Moving a namespace\<close>

definition is_copy :: "secret \<Rightarrow> bool" where
  "is_copy x \<longleftrightarrow> map_str (om_annotations (se_meta x)) ProjectScopedSecretAnnotation = ''true''"

definition moved :: "(string \<times> string \<Rightarrow> secret option) \<Rightarrow> string \<Rightarrow> string list \<Rightarrow> string \<Rightarrow> string \<Rightarrow> (string \<times> string \<Rightarrow> secret option)" where
  "moved s ns names c p = (\<lambda>(m, n). if m = ns \<and> n \<in> set names then
     (case s (m, n) of None \<Rightarrow> None | Some x \<Rightarrow> if is_copy x then None else Some (relabelled_secret p c x)) else s (m, n))"

lemma moved_Nil [simp]: "moved s ns [] c p = s"
  by (simp add: moved_def fun_eq_iff)

lemma moved_snoc:
  "n \<notin> set names \<Longrightarrow> s (ns, n) = Some x \<Longrightarrow>
     moved s ns (names @ [n]) c p = (moved s ns names c p)((ns, n) := (if is_copy x then None else Some (relabelled_secret p c x)))"
  by (auto simp: moved_def fun_eq_iff)

lemma triple_move:
  assumes "secretList ns = Inr xs" and "distinct (map se_name xs)" and "list_all (\<lambda>x. se_namespace x = ns \<and> s (ns, se_name x) = Some x) xs"
  shows "triple (store_after secret_op s0) (\<lambda>t. t = s) (updateProjectIDLabelForSecrets (store_env secret_op s0 rng) secretList p ns c)
    (\<lambda>_ t. t = moved s ns (map se_name xs) c p)"
proof -
  let ?st = "store_after secret_op s0" and ?e = "store_env secret_op s0 rng"
  have "triple ?st (\<lambda>t. t = moved s ns (map se_name ys) c p)
      (if map_str (om_annotations (se_meta x)) ProjectScopedSecretAnnotation = ''true'' then go_call ?e (SecDelete ns (se_name x))
       else go_call ?e (SecUpdate (relabelled_secret p c x)))
      (\<lambda>_ t. t = moved s ns (map se_name (ys @ [x])) c p)" if "xs = ys @ x # zs" for ys x zs
  proof -
    have x: "se_name x \<notin> set (map se_name ys)" "s (ns, se_name x) = Some x" "se_namespace x = ns" using assms(2,3) that by auto
    then have at: "moved s ns (map se_name ys) c p (ns, se_name x) = Some x" by (simp add: moved_def)
    have next': "moved s ns (map se_name (ys @ [x])) c p =
        (moved s ns (map se_name ys) c p)((ns, se_name x) := (if is_copy x then None else Some (relabelled_secret p c x)))"
      using moved_snoc [where s = s, OF x(1,2)] by simp
    have del: "triple ?st (\<lambda>t. t = moved s ns (map se_name ys) c p) (go_call ?e (SecDelete ns (se_name x)))
        (\<lambda>_ t. t = (moved s ns (map se_name ys) c p)((ns, se_name x) := None))"
      using at by (intro triple_call [where p = "OpDelete (ns, se_name x)"]) auto
    have upd: "triple ?st (\<lambda>t. t = moved s ns (map se_name ys) c p) (go_call ?e (SecUpdate (relabelled_secret p c x)))
        (\<lambda>_ t. t = (moved s ns (map se_name ys) c p)((ns, se_name x) := Some (relabelled_secret p c x)))"
      using at x(3) by (intro triple_call [where p = "OpUpdate (ns, se_name x) (relabelled_secret p c x)"]) (auto simp: relabelled_secret_def)
    show ?thesis using del upd by (simp add: next' is_copy_def del: map_append)
  qed
  then show ?thesis
    using assms(1) triple_for [of xs ?st "\<lambda>ys t. t = moved s ns (map se_name ys) c p"]
    by (simp add: updateProjectIDLabelForSecrets_def)
qed

lemma namespaceHandler_Sync_moves:
  assumes "map_of (ns_annotations ns) ProjectIDFieldLabel = Some (c @ '':'' @ p)" and "CHR '':'' \<notin> set c" "CHR '':'' \<notin> set p"
    and "map_str (om_labels (ns_meta ns)) ProjectIDFieldLabel \<noteq> p"
    and "secretList (ns_name ns) = Inr xs" "distinct (map se_name xs)"
    and "list_all (\<lambda>x. se_namespace x = ns_name ns \<and> s (ns_name ns, se_name x) = Some x) xs"
  shows "triple (store_after secret_op s0) (\<lambda>t. t = s) (namespaceHandler_Sync (store_env secret_op s0 rng) secretList (Some ns))
    (\<lambda>_ t. t = moved s (ns_name ns) (map se_name xs) c p)"
proof -
  let ?st = "store_after secret_op s0" and ?e = "store_env secret_op s0 rng"
  let ?Q = "\<lambda>_ t. t = moved s (ns_name ns) (map se_name xs) c p"
  have "triple ?st (\<lambda>t. t = s) (go_try (updateProjectIDLabelForSecrets ?e secretList p (ns_name ns) c)) ?Q"
    by (intro triple_try triple_move assms)
  moreover have "triple ?st (\<lambda>t. t = moved s (ns_name ns) (map se_name xs) c p) (go_call ?e (SecNsUpdate ns')) ?Q" for ns'
    by (rule triple_call_other) simp_all
  ultimately have "triple ?st (\<lambda>t. t = s) (addProjectIDLabelToNamespace ?e secretList ns p c) ?Q"
    using assms(4) by (auto simp: addProjectIDLabelToNamespace_def intro: triple_bind)
  then show ?thesis
    using assms(1-3) split_all_pair [OF assms(2,3)]
    by (auto simp: namespaceHandler_Sync_def Let_def intro!: triple_bind [OF triple_try] triple_return)
qed

text \<open>
  A namespace that moves to another project exchanges the secrets.  When its label is brought
  up to date, the copies of the old project are deleted and its other secrets are marked with the
  new project; the secrets of the new project are then created, unless the namespace has one of the
  name.
\<close>

theorem moved_namespace_exchanges_secrets:
  assumes "map_of (ns_annotations ns) ProjectIDFieldLabel = Some (c @ '':'' @ p)" and "CHR '':'' \<notin> set c" and "CHR '':'' \<notin> set p"
    and "map_str (om_labels (ns_meta ns)) ProjectIDFieldLabel \<noteq> p" and "\<not> om_deleting (ns_meta ns)"
    and "secretList (ns_name ns) = Inr xs" and "distinct (map se_name xs)"
    and "list_all (\<lambda>x. se_namespace x = ns_name ns \<and> s (ns_name ns, se_name x) = Some x) xs"
    and "managementSecrets p = Inr ys"
  shows "\<exists>d1 d2. namespaceHandler_Sync (store_env secret_op s rng) secretList (Some ns) [] = (Inr (), d1) \<and>
    NamespaceController_sync (store_env secret_op s rng) managementSecrets (Some ns) d1 = (Inr (), d2) \<and>
    store_after secret_op s (d1 @ d2) = filled (moved s (ns_name ns) (map se_name xs) c p) (ns_name ns) ys"
proof -
  have "ProjectIDFieldLabel = projectIDLabel" by (simp add: ProjectIDFieldLabel_def projectIDLabel_def)
  then have ann: "map_of (ns_annotations ns) projectIDLabel = Some (c @ '':'' @ p)" using assms(1) by simp
  obtain d1 where d1: "namespaceHandler_Sync (store_env secret_op s rng) secretList (Some ns) [] = (Inr (), d1)"
      "store_after secret_op s d1 = moved s (ns_name ns) (map se_name xs) c p"
    using triple_from_start [OF namespaceHandler_Sync_moves [where secretList = secretList and s = s, OF assms(1-4) assms(6-8)]] by fastforce
  then show ?thesis
    using NamespaceController_sync_fills [where managementSecrets = managementSecrets and s = "store_after secret_op s d1", OF ann assms(2,3,5,9)]
    unfolding triple_def by fastforce
qed

text \<open>
  When a copy cannot be deleted, it stays.  The error is dropped, the label is brought up to
  date all the same, and with the label the next run sees nothing to do.
\<close>

theorem namespaceHandler_drops_error:
  assumes "map_of (ns_annotations ns) ProjectIDFieldLabel = Some (c @ '':'' @ p)" and "CHR '':'' \<notin> set c" and "CHR '':'' \<notin> set p"
    and "map_str (om_labels (ns_meta ns)) ProjectIDFieldLabel \<noteq> p"
    and "secretList (ns_name ns) = Inr (x # xs)" and "is_copy x"
    and "env_api env h (SecDelete (ns_name ns) (se_name x)) = Some err"
  shows "\<exists>ns' a. namespaceHandler_Sync env secretList (Some ns) h = (Inr (), [(SecDelete (ns_name ns) (se_name x), Some err), (SecNsUpdate ns', a)]) \<and>
    ns_name ns' = ns_name ns \<and> namespaceHandler_Sync env secretList (Some ns') h' = (Inr (), [])"
proof -
  let ?ns = "ns\<lparr>ns_meta := (ns_meta ns)\<lparr>om_labels := AList.update ProjectIDFieldLabel p (om_labels (ns_meta ns))\<rparr>\<rparr>"
  have "go_try (updateProjectIDLabelForSecrets env secretList p (ns_name ns) c) h =
      (Inr (Inl (Api err)), [(SecDelete (ns_name ns) (se_name x), Some err)])"
    using assms(5-7) by (simp add: updateProjectIDLabelForSecrets_def is_copy_def go_try_def go_bind_def go_call_def go_lift_def)
  then obtain a where add: "go_try (addProjectIDLabelToNamespace env secretList ns p c) h =
      (Inr (case a of None \<Rightarrow> Inr () | Some e \<Rightarrow> Inl (Api e)), [(SecDelete (ns_name ns) (se_name x), Some err), (SecNsUpdate ?ns, a)])"
    using assms(4)
    by (atomize_elim, intro exI [of _ "env_api env (h @ [(SecDelete (ns_name ns) (se_name x), Some err)]) (SecNsUpdate ?ns)"])
      (simp add: addProjectIDLabelToNamespace_def go_bind_run go_try_def [of "go_bind _ _"] go_call_def Let_def split: option.splits)
  have "namespaceHandler_Sync env secretList (Some ns) h = (Inr (), [(SecDelete (ns_name ns) (se_name x), Some err), (SecNsUpdate ?ns, a)])"
    using assms(1-3) split_all_pair [OF assms(2,3)] add by (simp add: namespaceHandler_Sync_def go_bind_run go_return_def)
  moreover have "map_str (om_labels (ns_meta ?ns)) ProjectIDFieldLabel = p" by (simp add: map_str_def AList.update_conv')
  then have "namespaceHandler_Sync env secretList (Some ?ns) h' = (Inr (), [])"
    using assms(1-3) split_all_pair [OF assms(2,3)]
    by (simp add: namespaceHandler_Sync_def addProjectIDLabelToNamespace_def go_try_def go_bind_def go_return_def)
  ultimately show ?thesis by (intro exI [of _ ?ns] exI [of _ a]) simp
qed

section \<open>Examples\<close>

definition db_secret :: secret where
  "db_secret = \<lparr>se_meta = meta0\<lparr>om_name := ''db'', om_namespace := ''p-1''\<rparr>, se_data = [(''password'', ''c2VjcmV0'')], se_stringData = [], se_type = ''Opaque''\<rparr>"

definition web_namespace :: "string \<Rightarrow> namespace" where
  "web_namespace project = \<lparr>ns_meta = meta0\<lparr>om_name := ''web'', om_annotations := [(''field.cattle.io/projectId'', ''c-1:'' @ project)]\<rparr>, ns_phase = ''Active''\<rparr>"

definition p1_namespace :: namespace where
  "p1_namespace = \<lparr>ns_meta = meta0\<lparr>om_name := ''p-1'', om_annotations := [(''management.cattle.io/system-namespace'', ''true'')]\<rparr>, ns_phase = []\<rparr>"

definition p1_project :: project where
  "p1_project = \<lparr>pj_meta = meta0, pj_displayName = [], pj_description = [], pj_clusterName = ''c-1'', pj_conditions = []\<rparr>"

definition secrets_ex :: secret_controller where
  "secrets_ex = \<lparr>sc_clusterNamespaces = Inr [web_namespace ''p-1''], sc_managementNamespace = (\<lambda>_. Inr p1_namespace),
     sc_project = (\<lambda>_ _. Inr p1_project), sc_clusterName = ''c-1''\<rparr>"

lemmas secret_ex_simps = db_secret_def web_namespace_def projectIDLabel_def ProjectIDFieldLabel_def projectNamespaceAnnotation_def
  meta0_def map_str_def


theorem NamespaceController_copies_any_namespace_witness:
  "\<exists>d. NamespaceController_sync (store_env secret_op (\<lambda>_. None) id) (\<lambda>_. Inr [db_secret]) (Some (web_namespace ''cattle-system'')) [] = (Inr (), d) \<and>
     store_after secret_op (\<lambda>_. None) d (''web'', ''db'') = Some (getNamespacedSecret db_secret ''web'')"
  using NamespaceController_copies_any_namespace [of "web_namespace ''cattle-system''" "''c-1''" "''cattle-system''" "\<lambda>_. Inr [db_secret]" "[db_secret]"
      db_secret "\<lambda>_. None" id]
  by (auto simp: secret_ex_simps)

definition old_copy :: secret where
  "old_copy = getNamespacedSecret (db_secret\<lparr>se_meta := (se_meta db_secret)\<lparr>om_name := ''old''\<rparr>\<rparr>) ''web''"

lemma old_copy_simps: "se_name old_copy = ''old''" "se_namespace old_copy = ''web''" "is_copy old_copy"
  by (simp_all add: old_copy_def getNamespacedSecret_def is_copy_def secret_ex_simps copyMap_def userSecretAnnotation_def ProjectScopedSecretAnnotation_def)

lemma web_namespace_simps:
  "map_of (ns_annotations (web_namespace p)) ProjectIDFieldLabel = Some (''c-1'' @ '':'' @ p)" "ns_name (web_namespace p) = ''web''"
  "map_str (om_labels (ns_meta (web_namespace p))) ProjectIDFieldLabel = []" "\<not> om_deleting (ns_meta (web_namespace p))"
  by (simp_all add: secret_ex_simps)

theorem moved_namespace_exchanges_secrets_witness:
  "\<exists>d1 d2. namespaceHandler_Sync (store_env secret_op [(''web'', ''old'') \<mapsto> old_copy] id) (\<lambda>_. Inr [old_copy]) (Some (web_namespace ''p-1'')) [] = (Inr (), d1) \<and>
     NamespaceController_sync (store_env secret_op [(''web'', ''old'') \<mapsto> old_copy] id) (\<lambda>_. Inr [db_secret]) (Some (web_namespace ''p-1'')) d1 = (Inr (), d2) \<and>
     store_after secret_op [(''web'', ''old'') \<mapsto> old_copy] (d1 @ d2) (''web'', ''old'') = None \<and>
     store_after secret_op [(''web'', ''old'') \<mapsto> old_copy] (d1 @ d2) (''web'', ''db'') = Some (getNamespacedSecret db_secret ''web'')"
proof -
  have "se_name db_secret = ''db''" by (simp add: secret_ex_simps)
  then show ?thesis
    using moved_namespace_exchanges_secrets [of "web_namespace ''p-1''" "''c-1''" "''p-1''" "\<lambda>_. Inr [old_copy]" "[old_copy]"
        "[(''web'', ''old'') \<mapsto> old_copy]" "\<lambda>_. Inr [db_secret]" "[db_secret]" id] old_copy_simps
    by (auto simp: web_namespace_simps filled_def moved_def)
qed

theorem namespaceHandler_drops_error_witness:
  "\<exists>ns' a. namespaceHandler_Sync \<lparr>env_api = (\<lambda>_ r. if r = SecDelete ''web'' ''db'' then Some Conflict else None), env_rng = id\<rparr>
       (\<lambda>_. Inr [getNamespacedSecret db_secret ''web'']) (Some (web_namespace ''p-1'')) [] =
     (Inr (), [(SecDelete ''web'' ''db'', Some Conflict), (SecNsUpdate ns', a)])"
proof -
  let ?x = "getNamespacedSecret db_secret ''web''"
  have x: "is_copy ?x" "se_name ?x = ''db''"
    by (simp_all add: getNamespacedSecret_def is_copy_def secret_ex_simps copyMap_def userSecretAnnotation_def ProjectScopedSecretAnnotation_def)
  show ?thesis
    using namespaceHandler_drops_error [OF web_namespace_simps(1), of "''p-1''" "\<lambda>_. Inr [?x]" ?x "[]"
        "\<lparr>env_api = (\<lambda>_ r. if r = SecDelete ''web'' ''db'' then Some Conflict else None), env_rng = id\<rparr>" "[]" Conflict "[]"] x
    by (auto simp: web_namespace_simps)
qed

end
