(* ===== verification/Machines.thy ===== *)
theory Machines
  imports Node_Pools
begin

text \<open>
  Machines and nodes: the fields of \<open>v3.Node\<close> beyond those that node pools use, the
  nodes and pods of Kubernetes, and the helpers of \<open>src/pkg/node/node.go\<close>.

  A quantity is a number of billionths, the smallest unit of \<open>resource.Quantity\<close>.  Where the code
  tells an absent map from an empty one, the map is an option.
\<close>

section \<open>Kubernetes\<close>

type_synonym resources = "(string, int) gomap"

record kube_condition =
  kc_type :: string
  kc_status :: string
  kc_heartbeat :: string
  kc_transition :: string
  kc_reason :: string
  kc_message :: string

record kube_spec =
  kp_podCIDR :: string
  kp_providerID :: string
  kp_unschedulable :: bool
  kp_taints :: "(string \<times> string \<times> string) list"

text \<open>\<open>ks_info\<close> stands for the fields that are copied and compared only.\<close>

record kube_status =
  ks_capacity :: resources
  ks_allocatable :: resources
  ks_conditions :: "kube_condition list"
  ks_addresses :: "(string \<times> string) list"
  ks_info :: string

record kube_node =
  kn_meta :: object_meta
  kn_spec :: kube_spec
  kn_status :: kube_status

abbreviation kn_name :: "kube_node \<Rightarrow> string" where
  "kn_name n \<equiv> om_name (kn_meta n)"

record container_resources =
  co_requests :: resources
  co_limits :: resources

record pod =
  po_meta :: object_meta
  po_nodeName :: string
  po_phase :: string
  po_containers :: "container_resources list"
  po_initContainers :: "container_resources list"

section \<open>Machines\<close>

record custom_config =
  cc_address :: string
  cc_dockerSocket :: string
  cc_internalAddress :: string
  cc_sshKey :: string
  cc_user :: string

record rke_node =
  rn_address :: string
  rn_internalAddress :: string
  rn_role :: "string list"
  rn_hostnameOverride :: string

record docker_info =
  di_operatingSystem :: string
  di_fields :: string

record machine = node +
  mc_customConfig :: "custom_config option"
  mc_imported :: bool
  mc_desiredNodeLabels :: "(string, string) gomap option"
  mc_desiredNodeAnnotations :: "(string, string) gomap option"
  mc_desiredNodeUnschedulable :: string
  mc_spec :: kube_spec
  mc_status :: kube_status
  mc_nodeName :: string
  mc_requested :: "resources option"
  mc_limits :: "resources option"
  mc_nodeConfig :: "rke_node option"
  mc_nodeAnnotations :: "(string, string) gomap"
  mc_nodeLabels :: "(string, string) gomap"
  mc_dockerInfo :: "docker_info option"

abbreviation mc_name :: "machine \<Rightarrow> string" where
  "mc_name m \<equiv> om_name (nd_meta m)"

abbreviation mc_namespace :: "machine \<Rightarrow> string" where
  "mc_namespace m \<equiv> om_namespace (nd_meta m)"

definition kube_spec0 :: kube_spec where
  "kube_spec0 = \<lparr>kp_podCIDR = [], kp_providerID = [], kp_unschedulable = False, kp_taints = []\<rparr>"

definition kube_status0 :: kube_status where
  "kube_status0 = \<lparr>ks_capacity = [], ks_allocatable = [], ks_conditions = [], ks_addresses = [], ks_info = []\<rparr>"

definition machine0 :: machine where
  "machine0 = \<lparr>nd_meta = meta0, nd_etcd = False, nd_controlPlane = False, nd_worker = False, nd_nodeTemplateName = [], nd_nodePoolName = [],
     nd_requestedHostname = [], nd_conditions = [], mc_customConfig = None, mc_imported = False, mc_desiredNodeLabels = None,
     mc_desiredNodeAnnotations = None, mc_desiredNodeUnschedulable = [], mc_spec = kube_spec0, mc_status = kube_status0, mc_nodeName = [],
     mc_requested = None, mc_limits = None, mc_nodeConfig = None, mc_nodeAnnotations = [], mc_nodeLabels = [], mc_dockerInfo = None\<rparr>"

text \<open>\<open>reflect.DeepEqual\<close> on maps does not depend on an order.\<close>

definition same_map :: "('k, 'v) gomap \<Rightarrow> ('k, 'v) gomap \<Rightarrow> bool" where
  "same_map a b \<longleftrightarrow> set a = set b"

section \<open>Helpers\<close>

definition GetNodeName :: "machine \<Rightarrow> string" where
  "GetNodeName m = (if mc_nodeName m \<noteq> [] then mc_nodeName m
     else (case mc_nodeConfig m of Some c \<Rightarrow> if rn_hostnameOverride c \<noteq> [] then rn_hostnameOverride c else [] | None \<Rightarrow> []))"

definition getNodeInternalAddress :: "kube_node \<Rightarrow> string" where
  "getNodeInternalAddress node = (case find (\<lambda>(t, _). t = ''InternalIP'') (ks_addresses (kn_status node)) of Some (_, a) \<Rightarrow> a | None \<Rightarrow> [])"

definition machine_address :: "machine \<Rightarrow> string" where
  "machine_address m = (case mc_nodeConfig m of
     Some c \<Rightarrow> if rn_internalAddress c = [] then rn_address c else rn_internalAddress c
   | None \<Rightarrow> [])"

definition IsNodeForNode :: "kube_node \<Rightarrow> machine \<Rightarrow> bool" where
  "IsNodeForNode node m \<longleftrightarrow> GetNodeName m = kn_name node \<or> machine_address m \<noteq> [] \<and> machine_address m = getNodeInternalAddress node"

text \<open>The loop stops at the first external address and keeps the last internal one before it.\<close>

fun endpoint_ips :: "(string \<times> string) list \<Rightarrow> string \<Rightarrow> string \<times> string" where
  "endpoint_ips [] internal = ([], internal)"
| "endpoint_ips ((t, a) # rest) internal =
     (if t = ''ExternalIP'' \<and> a \<noteq> [] then (a, internal)
      else if t = ''InternalIP'' \<and> a \<noteq> [] then endpoint_ips rest a else endpoint_ips rest internal)"

definition externalAddressAnnotation :: string where
  "externalAddressAnnotation = ''rke.cattle.io/external-ip''"

definition GetEndpointNodeIP :: "machine \<Rightarrow> string" where
  "GetEndpointNodeIP m = (case endpoint_ips (ks_addresses (mc_status m)) [] of (external, internal) \<Rightarrow>
     if external \<noteq> [] then external
     else if om_annotations (nd_meta m) \<noteq> [] \<and> map_str (mc_nodeAnnotations m) externalAddressAnnotation \<noteq> []
       then map_str (mc_nodeAnnotations m) externalAddressAnnotation
     else internal)"

definition GetNodeByNodeName :: "machine list \<Rightarrow> string \<Rightarrow> machine option" where
  "GetNodeByNodeName nodes nodeName = find (\<lambda>m. GetNodeName m = nodeName) nodes"

end
