(* ===== verification/Node_Syncer.thy ===== *)
theory Node_Syncer
  imports Machines
begin

text \<open>
  The syncer of nodes, \<open>src/pkg/controllers/user/nodesyncer\<close>: machines follow the nodes of the
  cluster and the resources that their pods ask for; wanted labels, annotations and the wanted
  scheduling of a machine are written to its node.  \<open>now\<close> is the formatted time of the call.
\<close>

section \<open>State\<close>

datatype nodereq = MachineCreate machine | MachineUpdate machine | MachineDelete string | KubeUpdate kube_node | MachineEnqueue string string
  | KubeDelete string

record nodes_syncer =
  ny_nodes :: "kube_node list result"
  ny_machineLister :: "machine list result"
  ny_machines :: "machine list result"
  ny_pods :: "pod list result"
  ny_clusterIsRKE :: "bool result"
  ny_clusterNamespace :: string

definition AllNodeKey :: string where "AllNodeKey = ''_machine_all_''"
definition nodesyncer_annotation :: string where "nodesyncer_annotation = ''management.cattle.io/nodesyncer''"

definition NodeSyncer_sync :: "string \<Rightarrow> (nodereq, unit) go" where
  "NodeSyncer_sync clusterNamespace = go_emit (MachineEnqueue clusterNamespace AllNodeKey)"

definition PodsStatsSyncer_sync :: "string \<Rightarrow> (nodereq, unit) go" where
  "PodsStatsSyncer_sync clusterNamespace = go_emit (MachineEnqueue clusterNamespace AllNodeKey)"

definition getNode :: "machine \<Rightarrow> kube_node list \<Rightarrow> kube_node option" where
  "getNode machine nodes = find (\<lambda>n. IsNodeForNode n machine) nodes"

section \<open>Resources\<close>

definition addMap :: "resources \<Rightarrow> resources \<Rightarrow> resources" where
  "addMap data1 data2 = fold (\<lambda>(name, quantity) m. case map_of m name of
     None \<Rightarrow> AList.update name quantity m | Some value \<Rightarrow> AList.update name (value + quantity) m) data1 data2"

definition addMapForInit :: "resources \<Rightarrow> resources \<Rightarrow> resources" where
  "addMapForInit data1 data2 = fold (\<lambda>(name, quantity) m. case map_of m name of
     None \<Rightarrow> AList.update name quantity m | Some value \<Rightarrow> if quantity > value then AList.update name quantity m else m) data1 data2"

definition getPodData :: "pod \<Rightarrow> resources \<times> resources" where
  "getPodData p =
     (fold (\<lambda>c. addMapForInit (co_requests c)) (po_initContainers p) (fold (\<lambda>c. addMap (co_requests c)) (po_containers p) []),
      fold (\<lambda>c. addMapForInit (co_limits c)) (po_initContainers p) (fold (\<lambda>c. addMap (co_limits c)) (po_containers p) []))"

text \<open>The data of the pods are kept by name.  Sums do not depend on the order of the range over them.\<close>

definition pods_data :: "pod list \<Rightarrow> (string, resources \<times> resources) gomap" where
  "pods_data pods = fold (\<lambda>p. AList.update (om_name (po_meta p)) (getPodData p)) pods []"

definition aggregateRequestAndLimitsForNode :: "pod list option \<Rightarrow> resources \<times> resources" where
  "aggregateRequestAndLimitsForNode pods = (case pods of
     None \<Rightarrow> ([], [])
   | Some ps \<Rightarrow>
       (fold (\<lambda>(_, r, _). addMap r) (pods_data ps) [(''pods'', int (length ps) * 10 ^ 9)],
        fold (\<lambda>(_, _, l). addMap l) (pods_data ps) []))"

text \<open>\<open>Quantity.Value\<close> rounds up to a whole number.\<close>

definition quantity_Value :: "int \<Rightarrow> int" where
  "quantity_Value q = - ((- q) div 10 ^ 9)"

definition resources_isEqual :: "resources option \<Rightarrow> resources option \<Rightarrow> bool" where
  "resources_isEqual data1 data2 = (case (data1, data2) of
     (None, None) \<Rightarrow> True
   | (Some d1, Some d2) \<Rightarrow> list_all (\<lambda>(key, value). case map_of d2 key of None \<Rightarrow> False | Some value2 \<Rightarrow> quantity_Value value = quantity_Value value2) d1
   | _ \<Rightarrow> False)"

definition getNonTerminatedPods :: "pod list \<Rightarrow> (string, pod list) gomap" where
  "getNonTerminatedPods fromCache = fold (\<lambda>p pods.
     if po_nodeName p = [] \<or> om_deleting (po_meta p) then pods
     else if po_phase p = ''Succeeded'' \<or> po_phase p = ''Failed'' then pods
     else AList.update (po_nodeName p) ((case map_of pods (po_nodeName p) of None \<Rightarrow> [] | Some ps \<Rightarrow> ps) @ [p]) pods) fromCache []"

section \<open>Machines of nodes\<close>

definition resetConditions :: "kube_status \<Rightarrow> kube_status" where
  "resetConditions st = st\<lparr>ks_conditions := map (\<lambda>c. c\<lparr>kc_heartbeat := [], kc_transition := []\<rparr>) (ks_conditions st)\<rparr>"

definition same_status :: "kube_status \<Rightarrow> kube_status \<Rightarrow> bool" where
  "same_status a b \<longleftrightarrow> same_map (ks_capacity a) (ks_capacity b) \<and> same_map (ks_allocatable a) (ks_allocatable b) \<and>
     ks_conditions a = ks_conditions b \<and> ks_addresses a = ks_addresses b \<and> ks_info a = ks_info b"

definition objectsAreEqual :: "machine \<Rightarrow> machine \<Rightarrow> bool" where
  "objectsAreEqual existing toUpdate \<longleftrightarrow>
     same_status (resetConditions (mc_status toUpdate)) (resetConditions (mc_status existing)) \<and>
     mc_spec toUpdate = mc_spec existing \<and> mc_nodeName toUpdate = mc_nodeName existing \<and>
     same_map (mc_nodeLabels toUpdate) (mc_nodeLabels existing) \<and> same_map (mc_nodeAnnotations toUpdate) (mc_nodeAnnotations existing) \<and>
     resources_isEqual (mc_requested toUpdate) (mc_requested existing) \<and> resources_isEqual (mc_limits toUpdate) (mc_limits existing)"

definition set_all :: "resources \<Rightarrow> resources option \<Rightarrow> resources" where
  "set_all new old = fold (\<lambda>(name, quantity). AList.update name quantity) new (case old of None \<Rightarrow> [] | Some m \<Rightarrow> m)"

definition convertNodeToNode :: "string \<Rightarrow> string \<Rightarrow> kube_node \<Rightarrow> machine option \<Rightarrow> (string, pod list) gomap \<Rightarrow> machine" where
  "convertNodeToNode now clusterNamespace node existing pods =
     (let machine = (case existing of
            None \<Rightarrow> machine0\<lparr>nd_meta := meta0\<lparr>om_generateName := ''machine-'', om_namespace := clusterNamespace\<rparr>,
              mc_requested := Some [], mc_limits := Some [], mc_spec := kn_spec node, mc_status := kn_status node, nd_requestedHostname := kn_name node\<rparr>
          | Some m \<Rightarrow> m\<lparr>mc_spec := kn_spec node, mc_status := kn_status node\<rparr>);
          labels = om_labels (kn_meta node) in
      case aggregateRequestAndLimitsForNode (map_of pods (kn_name node)) of (requests, limits) \<Rightarrow>
        machine\<lparr>mc_requested := Some (set_all requests (mc_requested machine)), mc_limits := Some (set_all limits (mc_limits machine)),
          nd_etcd := nd_etcd machine \<or> has_key labels ''node-role.kubernetes.io/etcd'',
          nd_controlPlane := nd_controlPlane machine \<or> has_key labels ''node-role.kubernetes.io/controlplane'' \<or> has_key labels ''node-role.kubernetes.io/master'',
          nd_worker := nd_worker machine \<or> has_key labels ''node-role.kubernetes.io/worker'',
          mc_nodeAnnotations := om_annotations (kn_meta node), mc_nodeLabels := labels, mc_nodeName := kn_name node,
          nd_meta := (nd_meta machine)\<lparr>om_apiVersion := ''management.cattle.io/v3'', om_kind := ''Node''\<rparr>,
          nd_conditions := setCondMessage now ''Registered'' ''registered with kubernetes'' (setCondStatus now ''Registered'' ''True'' (nd_conditions machine))\<rparr>)"

definition getNodeForNode :: "nodes_syncer \<Rightarrow> kube_node \<Rightarrow> bool \<Rightarrow> machine option result" where
  "getNodeForNode m node cache =
     (if cache then (case ny_machineLister m of Inl err \<Rightarrow> Inl err | Inr machines \<Rightarrow> Inr (find (IsNodeForNode node) machines))
      else (case ny_machines m of Inl err \<Rightarrow> Inl err
        | Inr machines \<Rightarrow> Inr (find (\<lambda>x. mc_namespace x = ny_clusterNamespace m \<and> IsNodeForNode node x) machines)))"

definition syncer_createNode :: "string \<Rightarrow> nodereq env \<Rightarrow> nodes_syncer \<Rightarrow> kube_node \<Rightarrow> (string, pod list) gomap \<Rightarrow> (nodereq, unit) go" where
  "syncer_createNode now env m node pods =
     go_bind (go_lift (ny_clusterIsRKE m)) (\<lambda>rke. if rke then go_return () else
     go_bind (go_lift (getNodeForNode m node False)) (\<lambda>existing. case existing of
       Some _ \<Rightarrow> go_return ()
     | None \<Rightarrow>
         (let machine = convertNodeToNode now (ny_clusterNamespace m) node None pods;
              machine = (if om_annotations (nd_meta machine) = []
                then machine\<lparr>nd_meta := (nd_meta machine)\<lparr>om_annotations := [(nodesyncer_annotation, ''true'')]\<rparr>\<rparr> else machine) in
          go_wrap (''Failed to create machine for node ['' @ kn_name node @ '']'') (go_call env (MachineCreate machine)))))"

definition syncer_updateNode :: "string \<Rightarrow> nodereq env \<Rightarrow> nodes_syncer \<Rightarrow> machine \<Rightarrow> kube_node \<Rightarrow> (string, pod list) gomap \<Rightarrow> (nodereq, unit) go" where
  "syncer_updateNode now env m existing node pods =
     (let toUpdate = convertNodeToNode now (ny_clusterNamespace m) node (Some existing) pods in
      if objectsAreEqual existing toUpdate then go_return ()
      else go_wrap (''Failed to update machine for node ['' @ kn_name node @ '']'') (go_call env (MachineUpdate toUpdate)))"

definition syncer_removeNode :: "nodereq env \<Rightarrow> machine \<Rightarrow> (nodereq, unit) go" where
  "syncer_removeNode env machine =
     (if om_annotations (nd_meta machine) = [] then go_return ()
      else if \<not> has_key (om_annotations (nd_meta machine)) nodesyncer_annotation then go_return ()
      else go_wrap (''Failed to delete machine ['' @ mc_name machine @ '']'') (go_call env (MachineDelete (mc_name machine))))"

definition reconcileNodeForNode :: "string \<Rightarrow> nodereq env \<Rightarrow> nodes_syncer \<Rightarrow> machine option \<Rightarrow> kube_node \<Rightarrow> (string, pod list) gomap \<Rightarrow> (nodereq, unit) go" where
  "reconcileNodeForNode now env m machine node pods = (case machine of
     None \<Rightarrow> syncer_createNode now env m node pods
   | Some x \<Rightarrow> syncer_updateNode now env m x node pods)"

text \<open>Machines by the name of their node, and by their own name those that have none.\<close>

definition machine_maps :: "machine list \<Rightarrow> kube_node list \<Rightarrow> (string, machine) gomap \<times> (string, machine) gomap" where
  "machine_maps machines nodes = fold (\<lambda>machine (machineMap, toDelete). case getNode machine nodes of
     None \<Rightarrow> (machineMap, AList.update (mc_name machine) machine toDelete)
   | Some node \<Rightarrow> (AList.update (kn_name node) machine machineMap, toDelete)) machines ([], [])"

text \<open>The error of the list of machines is overwritten before it is looked at.\<close>

definition reconcileAll :: "string \<Rightarrow> nodereq env \<Rightarrow> nodes_syncer \<Rightarrow> (nodereq, unit) go" where
  "reconcileAll now env m =
     go_bind (go_lift (ny_nodes m)) (\<lambda>nodes.
       let nodeMap = fold (\<lambda>node. AList.update (kn_name node) node) nodes [];
           machines = (case ny_machineLister m of Inl _ \<Rightarrow> [] | Inr ms \<Rightarrow> ms) in
       case machine_maps machines nodes of (machineMap, toDelete) \<Rightarrow>
         go_bind (go_lift (ny_pods m)) (\<lambda>fromCache.
           let nodeToPodMap = getNonTerminatedPods fromCache in
           go_bind (go_for (range_map (env_rng env) nodeMap) (\<lambda>(name, node). reconcileNodeForNode now env m (map_of machineMap name) node nodeToPodMap)) (\<lambda>_.
           go_bind (go_for (range_map (env_rng env) machineMap) (\<lambda>(name, machine). go_when (\<not> has_key nodeMap name) (syncer_removeNode env machine))) (\<lambda>_.
           go_for (range_map (env_rng env) toDelete) (\<lambda>(_, machine). syncer_removeNode env machine)))))"

definition NodesSyncer_sync :: "string \<Rightarrow> nodereq env \<Rightarrow> nodes_syncer \<Rightarrow> string \<Rightarrow> (nodereq, unit) go" where
  "NodesSyncer_sync now env m key =
     (if key = ny_clusterNamespace m @ ''/'' @ AllNodeKey then reconcileAll now env m else go_return ())"

section \<open>Wanted labels and scheduling\<close>

text \<open>A machine without a node ends in a nil pointer.\<close>

definition nil_node :: go_error where
  "nil_node = Panic ''invalid memory address or nil pointer dereference''"

text \<open>
  The labels and annotations are written into the node of the cache, and then sent:
  \<open>labelled_node\<close> is that node, and \<open>syncLabels_cache\<close> the cache after a run, whatever
  the server has answered.
\<close>

definition labelled_node :: "machine \<Rightarrow> kube_node \<Rightarrow> kube_node" where
  "labelled_node machine node = node\<lparr>kn_meta := (kn_meta node)\<lparr>
     om_annotations := (case mc_desiredNodeAnnotations machine of
       Some a \<Rightarrow> if same_map (om_annotations (kn_meta node)) a then om_annotations (kn_meta node) else a | None \<Rightarrow> om_annotations (kn_meta node)),
     om_labels := (case mc_desiredNodeLabels machine of
       Some l \<Rightarrow> if same_map (om_labels (kn_meta node)) l then om_labels (kn_meta node) else l | None \<Rightarrow> om_labels (kn_meta node))\<rparr>\<rparr>"

definition labels_differ :: "machine \<Rightarrow> kube_node \<Rightarrow> bool" where
  "labels_differ machine node \<longleftrightarrow>
     (case mc_desiredNodeAnnotations machine of Some a \<Rightarrow> \<not> same_map (om_annotations (kn_meta node)) a | None \<Rightarrow> False) \<or>
     (case mc_desiredNodeLabels machine of Some l \<Rightarrow> \<not> same_map (om_labels (kn_meta node)) l | None \<Rightarrow> False)"

definition syncLabels :: "nodereq env \<Rightarrow> nodes_syncer \<Rightarrow> machine option \<Rightarrow> (nodereq, unit) go" where
  "syncLabels env m obj = (case obj of
     None \<Rightarrow> go_return ()
   | Some machine \<Rightarrow>
       if mc_desiredNodeAnnotations machine = None \<and> mc_desiredNodeLabels machine = None then go_return ()
       else go_bind (go_lift (ny_nodes m)) (\<lambda>nodes. case getNode machine nodes of
           None \<Rightarrow> go_fail nil_node
         | Some node \<Rightarrow>
             go_bind (go_when (labels_differ machine node) (go_call env (KubeUpdate (labelled_node machine node)))) (\<lambda>_.
             go_call env (MachineUpdate (machine\<lparr>mc_desiredNodeAnnotations := None, mc_desiredNodeLabels := None\<rparr>)))))"

fun replace_first :: "('a \<Rightarrow> bool) \<Rightarrow> ('a \<Rightarrow> 'a) \<Rightarrow> 'a list \<Rightarrow> 'a list" where
  "replace_first P f [] = []"
| "replace_first P f (x # xs) = (if P x then f x # xs else x # replace_first P f xs)"

definition syncLabels_cache :: "kube_node list \<Rightarrow> machine \<Rightarrow> kube_node list" where
  "syncLabels_cache nodes machine = replace_first (\<lambda>n. IsNodeForNode n machine) (labelled_node machine) nodes"

text \<open>\<open>convert.ToBool\<close> of a text.\<close>

definition convert_ToBool :: "string \<Rightarrow> bool" where
  "convert_ToBool s \<longleftrightarrow> to_lower s \<in> set [''true'', ''t'', ''yes'', ''y'']"

definition syncCordonFields :: "nodereq env \<Rightarrow> nodes_syncer \<Rightarrow> machine option \<Rightarrow> (nodereq, unit) go" where
  "syncCordonFields env m obj = (case obj of
     None \<Rightarrow> go_return ()
   | Some machine \<Rightarrow>
       if om_deleting (nd_meta machine) \<or> mc_desiredNodeUnschedulable machine = [] then go_return ()
       else go_bind (go_lift (ny_nodes m)) (\<lambda>nodes. case getNode machine nodes of
           None \<Rightarrow> go_fail nil_node
         | Some node \<Rightarrow>
             (let desiredValue = convert_ToBool (mc_desiredNodeUnschedulable machine) in
              go_bind (go_when (kp_unschedulable (kn_spec node) \<noteq> desiredValue)
                (go_call env (KubeUpdate (node\<lparr>kn_spec := (kn_spec node)\<lparr>kp_unschedulable := desiredValue\<rparr>\<rparr>)))) (\<lambda>_.
              go_call env (MachineUpdate (machine\<lparr>mc_desiredNodeUnschedulable := []\<rparr>))))))"

section \<open>Removed machines\<close>

text \<open>\<open>src/pkg/controllers/user/noderemove\<close>: the answer to the deletion is not looked at.\<close>

definition nodeRemove_Remove :: "nodereq env \<Rightarrow> machine \<Rightarrow> (nodereq, machine) go" where
  "nodeRemove_Remove env obj =
     go_bind (go_when (mc_nodeName obj \<noteq> []) (go_bind (go_try (go_call env (KubeDelete (mc_nodeName obj)))) (\<lambda>_. go_return ()))) (\<lambda>_.
     go_return obj)"

end
