(* ===== verification/Node_Syncer_Props.thy ===== *)
theory Node_Syncer_Props
  imports Node_Syncer
begin

text \<open>
  What machines say of their nodes: the resources that pods ask for are added up as Kubernetes
  does, a run brings every machine up to date, and where it does not.
\<close>

section \<open>Resources\<close>

definition qty :: "resources \<Rightarrow> string \<Rightarrow> int" where
  "qty m n = (case map_of m n of None \<Rightarrow> 0 | Some q \<Rightarrow> q)"

definition wf_resources :: "resources \<Rightarrow> bool" where
  "wf_resources m \<longleftrightarrow> wf_map m \<and> list_all (\<lambda>(_, q). 0 \<le> q) m"

lemma qty_Nil [simp]: "qty [] n = 0"
  by (simp add: qty_def)

lemma qty_update [simp]: "qty (AList.update k v m) n = (if n = k then v else qty m n)"
  by (simp add: qty_def AList.update_conv')

lemma qty_Cons: "qty ((k, v) # m) n = (if n = k then v else qty m n)"
  by (simp add: qty_def)

lemma qty_absent: "n \<notin> fst ` set m \<Longrightarrow> qty m n = 0"
  unfolding qty_def by (simp add: map_of_eq_None_iff [THEN iffD2])

lemma qty_nonneg: "wf_resources m \<Longrightarrow> 0 \<le> qty m n"
  unfolding qty_def wf_resources_def by (auto split: option.splits dest!: map_of_SomeD simp: list_all_iff)

lemma qty_addMap: "wf_map d1 \<Longrightarrow> qty (addMap d1 d2) n = qty d2 n + qty d1 n"
  unfolding addMap_def
proof (induction d1 arbitrary: d2)
  case (Cons kv d1)
  obtain k v where kv: "kv = (k, v)" by fastforce
  have "wf_map d1" "k \<notin> fst ` set d1" using Cons.prems kv by (auto simp: wf_map_def)
  then show ?case using Cons.IH kv qty_absent [of k d1]
    by (auto simp: qty_Cons split: option.splits) (auto simp: qty_def)
qed simp

lemma qty_addMapForInit: "wf_resources d1 \<Longrightarrow> (\<And>n. 0 \<le> qty d2 n) \<Longrightarrow> qty (addMapForInit d1 d2) n = max (qty d2 n) (qty d1 n)"
  unfolding addMapForInit_def
proof (induction d1 arbitrary: d2)
  case (Cons kv d1)
  obtain k v where kv: "kv = (k, v)" by fastforce
  have wf: "wf_resources d1" "k \<notin> fst ` set d1" "0 \<le> v" using Cons.prems(1) kv by (auto simp: wf_resources_def wf_map_def)
  let ?d2 = "case map_of d2 k of None \<Rightarrow> AList.update k v d2 | Some value \<Rightarrow> if v > value then AList.update k v d2 else d2"
  have d2: "qty ?d2 m = max (qty d2 m) (qty [(k, v)] m)" for m
    using Cons.prems(2) [of m] wf(3) by (auto simp: qty_Cons split: option.splits) (auto simp: qty_def)
  moreover have "0 \<le> qty ?d2 m" for m using d2 Cons.prems(2) [of m] by (simp add: max_def)
  ultimately have "qty (addMapForInit d1 ?d2) n = max (max (qty d2 n) (qty [(k, v)] n)) (qty d1 n)"
    using Cons.IH [OF wf(1), of ?d2] by (simp add: addMapForInit_def)
  then show ?case using kv qty_absent [OF wf(2)] Cons.prems(2) [of n] wf(3) qty_nonneg [OF wf(1), of n]
    by (auto simp: addMapForInit_def qty_Cons max_def)
qed simp

text \<open>
  What Kubernetes reserves for a pod: the sum over its containers, or the most that one of the
  containers asks for that run before them, whichever is larger.
\<close>

definition pod_amount :: "(container_resources \<Rightarrow> resources) \<Rightarrow> pod \<Rightarrow> string \<Rightarrow> int" where
  "pod_amount f p n = fold max (map (\<lambda>c. qty (f c) n) (po_initContainers p)) (sum_list (map (\<lambda>c. qty (f c) n) (po_containers p)))"

definition wf_pod :: "pod \<Rightarrow> bool" where
  "wf_pod p \<longleftrightarrow> list_all (\<lambda>c. wf_resources (co_requests c) \<and> wf_resources (co_limits c)) (po_containers p @ po_initContainers p)"

lemma qty_containers: "list_all (\<lambda>c. wf_resources (f c)) cs \<Longrightarrow> qty (fold (\<lambda>c. addMap (f c)) cs m) n = qty m n + sum_list (map (\<lambda>c. qty (f c) n) cs)"
  by (induction cs arbitrary: m) (simp_all add: qty_addMap wf_resources_def)

lemma qty_initContainers:
  "list_all (\<lambda>c. wf_resources (f c)) cs \<Longrightarrow> (\<And>n. 0 \<le> qty m n) \<Longrightarrow>
     qty (fold (\<lambda>c. addMapForInit (f c)) cs m) n = fold max (map (\<lambda>c. qty (f c) n) cs) (qty m n)"
proof (induction cs arbitrary: m)
  case (Cons c cs)
  have "0 \<le> qty (addMapForInit (f c) m) n" for n using Cons.prems by (simp add: qty_addMapForInit le_max_iff_disj)
  then show ?case using Cons by (simp add: qty_addMapForInit max.commute)
qed simp

lemma pod_data_qty:
  assumes "list_all (\<lambda>c. wf_resources (f c)) (po_containers p @ po_initContainers p)"
  shows "qty (fold (\<lambda>c. addMapForInit (f c)) (po_initContainers p) (fold (\<lambda>c. addMap (f c)) (po_containers p) [])) n = pod_amount f p n"
proof -
  have nonneg: "0 \<le> qty (fold (\<lambda>c. addMap (f c)) (po_containers p) []) n" for n
    using assms by (auto simp: qty_containers list_all_iff intro!: sum_list_nonneg qty_nonneg)
  show ?thesis using assms qty_initContainers [where f = f and cs = "po_initContainers p", OF _ nonneg] by (simp add: pod_amount_def qty_containers)
qed

lemma getPodData_qty:
  assumes "wf_pod p"
  shows "qty (fst (getPodData p)) n = pod_amount co_requests p n" "qty (snd (getPodData p)) n = pod_amount co_limits p n"
  using assms unfolding getPodData_def wf_pod_def
  by (simp_all only: fst_conv snd_conv) (intro pod_data_qty, simp add: list_all_iff)+

lemma wf_addMap [simp]: "wf_map d2 \<Longrightarrow> wf_map (addMap d1 d2)"
  unfolding addMap_def by (induction d1 arbitrary: d2) (auto split: option.splits)

lemma wf_addMapForInit [simp]: "wf_map d2 \<Longrightarrow> wf_map (addMapForInit d1 d2)"
  unfolding addMapForInit_def by (induction d1 arbitrary: d2) (auto split: option.splits)

lemma wf_fold: "(\<And>x m. wf_map m \<Longrightarrow> wf_map (g x m)) \<Longrightarrow> wf_map m \<Longrightarrow> wf_map (fold g xs m)"
  by (induction xs arbitrary: m) auto

lemma wf_getPodData [simp]: "wf_map (fst (getPodData p))" "wf_map (snd (getPodData p))"
  by (simp_all add: getPodData_def wf_fold)

lemma update_absent: "k \<notin> fst ` set m \<Longrightarrow> AList.update k v m = m @ [(k, v)]"
  by (induction m) auto

lemma fold_update_distinct:
  "distinct (map f xs) \<Longrightarrow> set (map f xs) \<inter> fst ` set m = {} \<Longrightarrow> fold (\<lambda>x. AList.update (f x) (g x)) xs m = m @ map (\<lambda>x. (f x, g x)) xs"
proof (induction xs arbitrary: m)
  case (Cons x xs)
  then have "AList.update (f x) (g x) m = m @ [(f x, g x)]" by (intro update_absent) auto
  then show ?case using Cons by auto
qed simp

lemma pods_data_distinct: "distinct (map (\<lambda>p. om_name (po_meta p)) ps) \<Longrightarrow> pods_data ps = map (\<lambda>p. (om_name (po_meta p), getPodData p)) ps"
  using fold_update_distinct [of "\<lambda>p. om_name (po_meta p)" ps "[]" getPodData] by (simp add: pods_data_def)

lemma qty_fold_data: "list_all (\<lambda>p. wf_map (f p)) ps \<Longrightarrow> qty (fold (\<lambda>p. addMap (f p)) ps m) n = qty m n + sum_list (map (\<lambda>p. qty (f p) n) ps)"
  by (induction ps arbitrary: m) (simp_all add: qty_addMap)

text \<open>
  C36. The resources of a node are those of its pods, added up as Kubernetes does.  For pods with
  different names, the requests and limits of every resource are the sums of what is reserved for
  each of the pods; the number of pods is counted besides.
\<close>

theorem aggregateRequestAndLimitsForNode_correct:
  assumes "distinct (map (\<lambda>p. om_name (po_meta p)) ps)" and "list_all wf_pod ps"
  shows "qty (fst (aggregateRequestAndLimitsForNode (Some ps))) n =
      (if n = ''pods'' then int (length ps) * 10 ^ 9 else 0) + sum_list (map (\<lambda>p. pod_amount co_requests p n) ps) \<and>
    qty (snd (aggregateRequestAndLimitsForNode (Some ps))) n = sum_list (map (\<lambda>p. pod_amount co_limits p n) ps)"
proof -
  have data: "fold (\<lambda>(_, r, _). addMap r) (pods_data ps) m = fold (\<lambda>p. addMap (fst (getPodData p))) ps m"
      "fold (\<lambda>(_, _, l). addMap l) (pods_data ps) m = fold (\<lambda>p. addMap (snd (getPodData p))) ps m" for m
    unfolding pods_data_distinct [OF assms(1)] by (simp_all add: fold_map comp_def case_prod_beta)
  have amounts: "sum_list (map (\<lambda>p. qty (fst (getPodData p)) n) ps) = sum_list (map (\<lambda>p. pod_amount co_requests p n) ps)"
      "sum_list (map (\<lambda>p. qty (snd (getPodData p)) n) ps) = sum_list (map (\<lambda>p. pod_amount co_limits p n) ps)" for n
    using assms(2) by (simp_all add: list_all_iff getPodData_qty cong: map_cong)
  show ?thesis
    using qty_fold_data [of "\<lambda>p. fst (getPodData p)" ps] qty_fold_data [of "\<lambda>p. snd (getPodData p)" ps]
    by (simp add: aggregateRequestAndLimitsForNode_def data list_all_iff qty_Cons amounts)
qed


section \<open>A run\<close>

definition node_plan :: "string \<Rightarrow> nodes_syncer \<Rightarrow> bool \<Rightarrow> machine list \<Rightarrow> (string, pod list) gomap \<Rightarrow> machine option \<Rightarrow> kube_node \<Rightarrow> nodereq list" where
  "node_plan now m rke server pods x node = (case x of
     Some e \<Rightarrow> (let u = convertNodeToNode now (ny_clusterNamespace m) node (Some e) pods in if objectsAreEqual e u then [] else [MachineUpdate u])
   | None \<Rightarrow> if rke \<or> list_ex (\<lambda>e. mc_namespace e = ny_clusterNamespace m \<and> IsNodeForNode node e) server then []
       else [MachineCreate (let c = convertNodeToNode now (ny_clusterNamespace m) node None pods in
         c\<lparr>nd_meta := (nd_meta c)\<lparr>om_annotations := [(nodesyncer_annotation, ''true'')]\<rparr>\<rparr>)])"

definition removal :: "machine \<Rightarrow> nodereq list" where
  "removal x = (if has_key (om_annotations (nd_meta x)) nodesyncer_annotation then [MachineDelete (mc_name x)] else [])"

lemma new_machine_annotations: "om_annotations (nd_meta (convertNodeToNode now ns node None pods)) = []"
  by (simp add: convertNodeToNode_def machine0_def meta0_def Let_def split: prod.splits)

lemma reconcileNodeForNode_plan:
  assumes "ny_clusterIsRKE m = Inr rke" "ny_machines m = Inr server"
  shows "follows_plan T (reconcileNodeForNode now env m x node pods) (node_plan now m rke server pods x node)"
proof (cases x)
  case None
  have "list_ex P server \<longleftrightarrow> find P server \<noteq> None" for P by (induction server) auto
  then show ?thesis using None assms
    by (auto simp: reconcileNodeForNode_def node_plan_def syncer_createNode_def getNodeForNode_def new_machine_annotations Let_def
        split: option.splits intro!: plan_intros)
next
  case (Some e)
  then show ?thesis
    by (auto simp: reconcileNodeForNode_def node_plan_def syncer_updateNode_def Let_def intro!: plan_intros)
qed

lemma syncer_removeNode_plan: "follows_plan T (syncer_removeNode env x) (removal x)"
  by (auto simp: syncer_removeNode_def removal_def has_key_def intro!: plan_intros)

lemma machine_maps_split:
  "machine_maps ms nodes =
     (fold (\<lambda>x. AList.update (kn_name (the (getNode x nodes))) x) (filter (\<lambda>x. getNode x nodes \<noteq> None) ms) [],
      fold (\<lambda>x. AList.update (mc_name x) x) (filter (\<lambda>x. getNode x nodes = None) ms) [])"
proof -
  have "fold (\<lambda>machine (machineMap, toDelete). case getNode machine nodes of
       None \<Rightarrow> (machineMap, AList.update (mc_name machine) machine toDelete)
     | Some node \<Rightarrow> (AList.update (kn_name node) machine machineMap, toDelete)) ms (a, b) =
     (fold (\<lambda>x. AList.update (kn_name (the (getNode x nodes))) x) (filter (\<lambda>x. getNode x nodes \<noteq> None) ms) a,
      fold (\<lambda>x. AList.update (mc_name x) x) (filter (\<lambda>x. getNode x nodes = None) ms) b)" for a b
    by (induction ms arbitrary: a b) (auto split: option.splits)
  then show ?thesis by (simp add: machine_maps_def)
qed

lemma distinct_map_filterI: "distinct (map f xs) \<Longrightarrow> distinct (map f (filter P xs))"
  by (induction xs) auto

lemma machine_maps_distinct:
  assumes "distinct (map mc_name ms)" and "distinct (map (\<lambda>x. kn_name (the (getNode x nodes))) (filter (\<lambda>x. getNode x nodes \<noteq> None) ms))"
  shows "machine_maps ms nodes = (map (\<lambda>x. (kn_name (the (getNode x nodes)), x)) (filter (\<lambda>x. getNode x nodes \<noteq> None) ms),
    map (\<lambda>x. (mc_name x, x)) (filter (\<lambda>x. getNode x nodes = None) ms))"
  using fold_update_distinct [OF assms(2), of "[]" "\<lambda>x. x"]
    fold_update_distinct [OF distinct_map_filterI [OF assms(1), of "\<lambda>x. getNode x nodes = None"], of "[]" "\<lambda>x. x"]
  by (simp add: machine_maps_split)

lemma getNode_in: "getNode x nodes = Some n \<Longrightarrow> n \<in> set nodes"
  by (auto simp: getNode_def find_Some_iff)

lemma map_of_map_distinct: "distinct (map f xs) \<Longrightarrow> map_of (map (\<lambda>x. (f x, x)) xs) k = Some y \<longleftrightarrow> y \<in> set xs \<and> f y = k"
  by (induction xs) (auto simp: image_iff)

lemma reconcileAll_plan:
  assumes "ny_nodes m = Inr nodes" "ny_machineLister m = Inr ms" "ny_machines m = Inr server" "ny_pods m = Inr ps" "ny_clusterIsRKE m = Inr rke"
    and "distinct (map kn_name nodes)" "distinct (map mc_name ms)"
    and "distinct (map (\<lambda>x. kn_name (the (getNode x nodes))) (filter (\<lambda>x. getNode x nodes \<noteq> None) ms))" and "valid_rng (env_rng env)"
  defines "machineMap \<equiv> map (\<lambda>x. (kn_name (the (getNode x nodes)), x)) (filter (\<lambda>x. getNode x nodes \<noteq> None) ms)"
  shows "follows_plan T (reconcileAll now env m)
    (concat (map (\<lambda>(name, node). node_plan now m rke server (getNonTerminatedPods ps) (map_of machineMap name) node)
       (range_map (env_rng env) (map (\<lambda>n. (kn_name n, n)) nodes))) @
     concat (map (\<lambda>(_, x). removal x) (range_map (env_rng env) (map (\<lambda>x. (mc_name x, x)) (filter (\<lambda>x. getNode x nodes = None) ms)))))"
proof -
  let ?nodeMap = "map (\<lambda>n. (kn_name n, n)) nodes" and ?pods = "getNonTerminatedPods ps"
  let ?toDelete = "map (\<lambda>x. (mc_name x, x)) (filter (\<lambda>x. getNode x nodes = None) ms)"
  have maps: "machine_maps ms nodes = (machineMap, ?toDelete)"
    unfolding machineMap_def by (rule machine_maps_distinct [OF assms(7,8)])
  have nodeMap: "fold (\<lambda>node. AList.update (kn_name node) node) nodes [] = ?nodeMap"
    using fold_update_distinct [OF assms(6), of "[]" "\<lambda>x. x"] by simp
  have "wf_map machineMap" using assms(8) by (simp add: machineMap_def wf_map_def comp_def)
  then have "has_key ?nodeMap name" if "(name, x) \<in> set (range_map (env_rng env) machineMap)" for name x
    using that assms(9) by (auto simp: set_range_map machineMap_def has_key_iff image_iff dest: getNode_in)
  then have second: "go_for (range_map (env_rng env) machineMap) (\<lambda>(name, x). go_when (\<not> has_key ?nodeMap name) (syncer_removeNode env x)) = go_return ()"
    by (intro go_for_return) auto
  have "follows_plan T (go_for (range_map (env_rng env) ?nodeMap) (\<lambda>(name, node). reconcileNodeForNode now env m (map_of machineMap name) node ?pods))
      (concat (map (\<lambda>(name, node). node_plan now m rke server ?pods (map_of machineMap name) node) (range_map (env_rng env) ?nodeMap)))"
    by (rule follows_plan_for) (auto intro: reconcileNodeForNode_plan assms(3,5))
  moreover have "follows_plan T (go_for (range_map (env_rng env) ?toDelete) (\<lambda>(_, x). syncer_removeNode env x))
      (concat (map (\<lambda>(_, x). removal x) (range_map (env_rng env) ?toDelete)))"
    by (rule follows_plan_for) (auto intro: syncer_removeNode_plan)
  ultimately show ?thesis
    using assms(1,2,4) maps by (simp add: reconcileAll_def Let_def nodeMap second follows_plan_bind)
qed


section \<open>Labels and scheduling\<close>

lemma go_call_accepting: "accepting env \<Longrightarrow> go_call env r h = (Inr (), [(r, None)])"
  by (simp add: accepting_def go_call_def)

lemma go_when_call_accepting: "accepting env \<Longrightarrow> go_when b (go_call env r) h = (Inr (), if b then [(r, None)] else [])"
  by (simp add: go_when_def go_call_accepting go_return_def)

lemma syncLabels_eq:
  assumes "ny_nodes m = Inr nodes" and "mc_desiredNodeAnnotations x \<noteq> None \<or> mc_desiredNodeLabels x \<noteq> None"
  shows "syncLabels env m (Some x) = (case getNode x nodes of
     None \<Rightarrow> go_fail nil_node
   | Some n \<Rightarrow> go_bind (go_when (labels_differ x n) (go_call env (KubeUpdate (labelled_node x n)))) (\<lambda>_.
       go_call env (MachineUpdate (x\<lparr>mc_desiredNodeAnnotations := None, mc_desiredNodeLabels := None\<rparr>))))"
  using assms by (auto simp: syncLabels_def)

lemma syncCordonFields_eq:
  assumes "ny_nodes m = Inr nodes" and "mc_desiredNodeUnschedulable x \<noteq> []" "\<not> om_deleting (nd_meta x)"
  shows "syncCordonFields env m (Some x) = (case getNode x nodes of
     None \<Rightarrow> go_fail nil_node
   | Some n \<Rightarrow> go_bind (go_when (kp_unschedulable (kn_spec n) \<noteq> convert_ToBool (mc_desiredNodeUnschedulable x)) (go_call env (KubeUpdate (n\<lparr>kn_spec := (kn_spec n)\<lparr>kp_unschedulable := convert_ToBool (mc_desiredNodeUnschedulable x)\<rparr>\<rparr>)))) (\<lambda>_.
       go_call env (MachineUpdate (x\<lparr>mc_desiredNodeUnschedulable := []\<rparr>))))"
  using assms by (simp add: syncCordonFields_def Let_def split: option.splits)

text \<open>
  A machine without a node stops the server.  The handlers that write wanted labels and the
  wanted scheduling follow a nil pointer when no node belongs to the machine; otherwise, on a server
  that accepts, the node gets the wanted labels and is as wanted afterwards, and the wish is cleared.
\<close>

theorem desired_fields_handlers:
  assumes "ny_nodes m = Inr nodes" and "mc_desiredNodeLabels x = Some l" and "mc_desiredNodeUnschedulable x \<noteq> []"
    and "\<not> om_deleting (nd_meta x)" and "accepting env"
  shows "(getNode x nodes = None \<longrightarrow> syncLabels env m (Some x) h = (Inl nil_node, []) \<and> syncCordonFields env m (Some x) h = (Inl nil_node, [])) \<and>
    (getNode x nodes = Some n \<longrightarrow>
       (\<exists>d. syncLabels env m (Some x) h = (Inr (), d) \<and> set (om_labels (kn_meta (labelled_node x n))) = set l \<and>
          map fst d = (if labels_differ x n then [KubeUpdate (labelled_node x n)] else []) @
            [MachineUpdate (x\<lparr>mc_desiredNodeAnnotations := None, mc_desiredNodeLabels := None\<rparr>)]) \<and>
       (\<exists>d. syncCordonFields env m (Some x) h = (Inr (), d) \<and>
          map fst d = (if kp_unschedulable (kn_spec n) = convert_ToBool (mc_desiredNodeUnschedulable x) then []
              else [KubeUpdate (n\<lparr>kn_spec := (kn_spec n)\<lparr>kp_unschedulable := convert_ToBool (mc_desiredNodeUnschedulable x)\<rparr>\<rparr>)]) @
            [MachineUpdate (x\<lparr>mc_desiredNodeUnschedulable := []\<rparr>)]))"
proof -
  have "set (om_labels (kn_meta (labelled_node x n))) = set l"
    using assms(2) by (simp add: labelled_node_def same_map_def)
  then show ?thesis
    using assms(2)
    by (simp add: syncLabels_eq [OF assms(1)] syncCordonFields_eq [OF assms(1,3,4)] go_bind_run [OF go_when_call_accepting [OF assms(5)]]
        go_call_accepting [OF assms(5)] go_fail_def)
qed

text \<open>
  A refused update of labels is lost.  The labels are written into the cached node before they
  are sent; when the server refuses, the run fails, and the next run finds the cached node as
  wanted, sends nothing to the node and clears the wish.
\<close>

theorem syncLabels_lost_update:
  assumes "ny_nodes m = Inr nodes" and "getNode x nodes = Some n" and "labels_differ x n"
    and "env_api env h (KubeUpdate (labelled_node x n)) = Some err"
    and "ny_nodes m' = Inr (syncLabels_cache nodes x)"
  shows "syncLabels env m (Some x) h = (Inl (Api err), [(KubeUpdate (labelled_node x n), Some err)]) \<and>
    map fst (snd (syncLabels env m' (Some x) h')) = [MachineUpdate (x\<lparr>mc_desiredNodeAnnotations := None, mc_desiredNodeLabels := None\<rparr>)]"
proof
  have wish: "\<not> (mc_desiredNodeAnnotations x = None \<and> mc_desiredNodeLabels x = None)"
    using assms(3) by (auto simp: labels_differ_def)
  then show "syncLabels env m (Some x) h = (Inl (Api err), [(KubeUpdate (labelled_node x n), Some err)])"
    using assms(2-4) by (simp add: syncLabels_eq [OF assms(1)] go_bind_def go_call_def)
  have "IsNodeForNode (labelled_node x k) x = IsNodeForNode k x" for k
    by (simp add: IsNodeForNode_def labelled_node_def getNodeInternalAddress_def)
  then have "find (\<lambda>k. IsNodeForNode k x) (replace_first (\<lambda>k. IsNodeForNode k x) (labelled_node x) nodes) =
      map_option (labelled_node x) (find (\<lambda>k. IsNodeForNode k x) nodes)"
    by (induction nodes) auto
  then have "getNode x (syncLabels_cache nodes x) = Some (labelled_node x n)"
    using assms(2) by (simp add: getNode_def syncLabels_cache_def)
  moreover have "\<not> labels_differ x (labelled_node x n)"
    by (auto simp: labels_differ_def labelled_node_def same_map_def split: option.splits)
  ultimately show "map fst (snd (syncLabels env m' (Some x) h')) = [MachineUpdate (x\<lparr>mc_desiredNodeAnnotations := None, mc_desiredNodeLabels := None\<rparr>)]"
    using wish by (simp add: syncLabels_eq [OF assms(5)] go_call_def Let_def)
qed

section \<open>Examples\<close>

definition worker_node :: kube_node where
  "worker_node = \<lparr>kn_meta = meta0\<lparr>om_name := ''worker-1''\<rparr>, kn_spec = kube_spec0, kn_status = kube_status0\<rparr>"

definition worker_machine :: machine where
  "worker_machine = machine0\<lparr>nd_meta := meta0\<lparr>om_name := ''m-1'', om_namespace := ''c-1''\<rparr>, mc_nodeName := ''worker-1'',
     mc_desiredNodeLabels := Some [(''tier'', ''web'')], mc_desiredNodeUnschedulable := ''true''\<rparr>"

definition syncer_ex :: "machine list \<Rightarrow> nodes_syncer" where
  "syncer_ex ms = \<lparr>ny_nodes = Inr [worker_node], ny_machineLister = Inr ms, ny_machines = Inr ms, ny_pods = Inr [], ny_clusterIsRKE = Inr False,
     ny_clusterNamespace = ''c-1''\<rparr>"

definition pod_ex :: "string \<Rightarrow> int \<Rightarrow> pod" where
  "pod_ex ns q = \<lparr>po_meta = meta0\<lparr>om_name := ''web'', om_namespace := ns\<rparr>, po_nodeName = ''worker-1'', po_phase = ''Running'',
     po_containers = [\<lparr>co_requests = [(''cpu'', q)], co_limits = []\<rparr>], po_initContainers = []\<rparr>"

lemma worker_getNode: "getNode worker_machine [worker_node] = Some worker_node"
  by (simp add: getNode_def IsNodeForNode_def GetNodeName_def worker_machine_def worker_node_def machine0_def meta0_def)

theorem aggregateRequestAndLimitsForNode_correct_witness:
  "qty (fst (aggregateRequestAndLimitsForNode (Some [pod_ex ''a'' 5]))) ''cpu'' = 5"
  using aggregateRequestAndLimitsForNode_correct [of "[pod_ex ''a'' 5]" "''cpu''"]
  by (simp add: pod_ex_def wf_pod_def wf_resources_def wf_map_def pod_amount_def qty_def)



theorem desired_fields_handlers_witness:
  "syncLabels accept_all (syncer_ex []) (Some (worker_machine\<lparr>mc_nodeName := ''gone''\<rparr>)) [] = (Inl nil_node, []) \<and>
   (\<exists>d. syncCordonFields accept_all (syncer_ex []) (Some worker_machine) [] = (Inr (), d) \<and> length d = 2)"
proof -
  have "getNode (worker_machine\<lparr>mc_nodeName := ''gone''\<rparr>) [worker_node] = None"
    by (simp add: getNode_def IsNodeForNode_def GetNodeName_def worker_machine_def worker_node_def machine0_def meta0_def machine_address_def)
  moreover have "kp_unschedulable (kn_spec worker_node) \<noteq> convert_ToBool (mc_desiredNodeUnschedulable worker_machine)"
    by code_simp
  moreover have acc: "accepting accept_all" by (simp add: accepting_def)
  moreover have "ny_nodes (syncer_ex []) = Inr [worker_node]" "mc_desiredNodeLabels worker_machine = Some [(''tier'', ''web'')]"
    "mc_desiredNodeUnschedulable worker_machine \<noteq> []" "\<not> om_deleting (nd_meta worker_machine)"
    by (simp_all add: syncer_ex_def worker_machine_def meta0_def)
  ultimately have "syncLabels accept_all (syncer_ex []) (Some (worker_machine\<lparr>mc_nodeName := ''gone''\<rparr>)) [] = (Inl nil_node, [])"
      "\<exists>d. syncCordonFields accept_all (syncer_ex []) (Some worker_machine) [] = (Inr (), d) \<and> length (map fst d) = 2"
    using desired_fields_handlers [of "syncer_ex []" "[worker_node]" "worker_machine\<lparr>mc_nodeName := ''gone''\<rparr>" "[(''tier'', ''web'')]" accept_all "[]" worker_node]
      desired_fields_handlers [of "syncer_ex []" "[worker_node]" worker_machine "[(''tier'', ''web'')]" accept_all "[]" worker_node] worker_getNode
    by (simp, force)
  then show ?thesis by simp
qed

theorem syncLabels_lost_update_witness:
  "fst (syncLabels \<lparr>env_api = (\<lambda>_ r. case r of KubeUpdate _ \<Rightarrow> Some Conflict | _ \<Rightarrow> None), env_rng = id\<rparr> (syncer_ex []) (Some worker_machine) []) = Inl (Api Conflict)"
proof -
  let ?e = "\<lparr>env_api = (\<lambda>_ r. case r of KubeUpdate _ \<Rightarrow> Some Conflict | _ \<Rightarrow> None), env_rng = id\<rparr>"
  have "labels_differ worker_machine worker_node"
    by (simp add: labels_differ_def worker_machine_def worker_node_def same_map_def machine0_def meta0_def)
  then show ?thesis
    using syncLabels_lost_update [of "syncer_ex []" "[worker_node]" worker_machine worker_node ?e "[]" Conflict
        "(syncer_ex [])\<lparr>ny_nodes := Inr (syncLabels_cache [worker_node] worker_machine)\<rparr>" "[]"] worker_getNode
    by (simp add: syncer_ex_def)
qed

end
