(* ===== verification/Go_Net.thy ===== *)
theory Go_Net
  imports Go_Http Go_Strconv
begin

text \<open>
  What the components use of \<open>encoding/base64\<close> (the standard code), \<open>encoding/hex\<close>,
  \<open>crypto/md5\<close>, \<open>net\<close> and \<open>net/url\<close>: digests, addresses with ports and
  the host of a URL.
\<close>

unbundle bit_operations_syntax

section \<open>Base64, hexadecimal\<close>

text \<open>\<open>base64.StdEncoding\<close> differs from the URL-safe code in two characters.\<close>

definition std_of_url :: "char \<Rightarrow> char" where
  "std_of_url c = (if c = CHR ''-'' then CHR ''+'' else if c = CHR ''_'' then CHR ''/'' else c)"

definition url_of_std :: "char \<Rightarrow> char" where
  "url_of_std c = (if c = CHR ''+'' then CHR ''-'' else if c = CHR ''/'' then CHR ''_'' else c)"

definition std_EncodeToString :: "string \<Rightarrow> string" where
  "std_EncodeToString s = map std_of_url (b64_encode s)"

definition std_DecodeString :: "string \<Rightarrow> string option" where
  "std_DecodeString s = (if list_ex (\<lambda>c. c = CHR ''-'' \<or> c = CHR ''_'') s then None else b64_decode (map url_of_std s))"

lemma b64_encode_no_std: "list_all (\<lambda>c. c \<noteq> CHR ''+'' \<and> c \<noteq> CHR ''/'') (b64_encode s)"
proof -
  have "list_all (\<lambda>n. b64_chr n \<noteq> CHR ''+'' \<and> b64_chr n \<noteq> CHR ''/'') [0..<64]" by code_simp
  then have "b64_chr n \<noteq> CHR ''+'' \<and> b64_chr n \<noteq> CHR ''/''" if "n < 64" for n using that by (simp add: list_all_iff)
  then show ?thesis by (induction s rule: b64_encode.induct) (simp_all add: Let_def b64_char_bounds)
qed

lemma url_of_std_of_url: "c \<noteq> CHR ''+'' \<Longrightarrow> c \<noteq> CHR ''/'' \<Longrightarrow> url_of_std (std_of_url c) = c"
  by (simp add: url_of_std_def std_of_url_def)

lemma std_decode_encode [simp]: "std_DecodeString (std_EncodeToString s) = Some s"
proof -
  have "\<not> list_ex (\<lambda>c. c = CHR ''-'' \<or> c = CHR ''_'') (std_EncodeToString s)"
    by (auto simp: std_EncodeToString_def std_of_url_def list_ex_iff)
  moreover have "map url_of_std (std_EncodeToString s) = b64_encode s"
    using b64_encode_no_std [of s] unfolding std_EncodeToString_def map_map list_all_iff by (intro map_idI) (simp add: url_of_std_of_url)
  ultimately show ?thesis by (simp add: std_DecodeString_def)
qed

definition hex_digit :: "nat \<Rightarrow> char" where
  "hex_digit n = ''0123456789abcdef'' ! n"

definition hex_EncodeToString :: "nat list \<Rightarrow> string" where
  "hex_EncodeToString bs = concat (map (\<lambda>b. [hex_digit (b div 16), hex_digit (b mod 16)]) bs)"

section \<open>MD5\<close>

definition md5_k :: "32 word list" where
  "md5_k = [0xd76aa478, 0xe8c7b756, 0x242070db, 0xc1bdceee, 0xf57c0faf, 0x4787c62a, 0xa8304613, 0xfd469501,
     0x698098d8, 0x8b44f7af, 0xffff5bb1, 0x895cd7be, 0x6b901122, 0xfd987193, 0xa679438e, 0x49b40821,
     0xf61e2562, 0xc040b340, 0x265e5a51, 0xe9b6c7aa, 0xd62f105d, 0x02441453, 0xd8a1e681, 0xe7d3fbc8,
     0x21e1cde6, 0xc33707d6, 0xf4d50d87, 0x455a14ed, 0xa9e3e905, 0xfcefa3f8, 0x676f02d9, 0x8d2a4c8a,
     0xfffa3942, 0x8771f681, 0x6d9d6122, 0xfde5380c, 0xa4beea44, 0x4bdecfa9, 0xf6bb4b60, 0xbebfbc70,
     0x289b7ec6, 0xeaa127fa, 0xd4ef3085, 0x04881d05, 0xd9d4d039, 0xe6db99e5, 0x1fa27cf8, 0xc4ac5665,
     0xf4292244, 0x432aff97, 0xab9423a7, 0xfc93a039, 0x655b59c3, 0x8f0ccc92, 0xffeff47d, 0x85845dd1,
     0x6fa87e4f, 0xfe2ce6e0, 0xa3014314, 0x4e0811a1, 0xf7537e82, 0xbd3af235, 0x2ad7d2bb, 0xeb86d391]"

definition md5_s :: "nat list" where
  "md5_s = [7, 12, 17, 22, 5, 9, 14, 20, 4, 11, 16, 23, 6, 10, 15, 21]"

fun le_bytes :: "nat \<Rightarrow> nat \<Rightarrow> nat list" where
  "le_bytes 0 n = []"
| "le_bytes (Suc k) n = n mod 256 # le_bytes k (n div 256)"

definition md5_pad :: "nat list \<Rightarrow> nat list" where
  "md5_pad bs = bs @ 0x80 # replicate ((119 - length bs mod 64) mod 64) 0 @ le_bytes 8 (8 * length bs)"

fun le_words :: "nat list \<Rightarrow> 32 word list" where
  "le_words (a # b # c # d # bs) = word_of_nat (a + 256 * (b + 256 * (c + 256 * d))) # le_words bs"
| "le_words _ = []"

type_synonym md5_state = "32 word \<times> 32 word \<times> 32 word \<times> 32 word"

definition md5_mix :: "nat \<Rightarrow> 32 word \<Rightarrow> 32 word \<Rightarrow> 32 word \<Rightarrow> 32 word \<times> nat" where
  "md5_mix i b c d = (if i < 16 then ((b AND c) OR (NOT b AND d), i)
     else if i < 32 then ((d AND b) OR (NOT d AND c), (5 * i + 1) mod 16)
     else if i < 48 then (b XOR c XOR d, (3 * i + 5) mod 16)
     else (c XOR (b OR NOT d), (7 * i) mod 16))"

definition md5_step :: "32 word list \<Rightarrow> nat \<Rightarrow> md5_state \<Rightarrow> md5_state" where
  "md5_step m i = (\<lambda>(a, b, c, d). case md5_mix i b c d of (f, g) \<Rightarrow>
     (d, b + word_rotl (md5_s ! (i div 16 * 4 + i mod 4)) (a + f + md5_k ! i + m ! g), b, c))"

definition md5_block :: "32 word list \<Rightarrow> md5_state \<Rightarrow> md5_state" where
  "md5_block m = (\<lambda>(a, b, c, d). case fold (md5_step m) [0..<64] (a, b, c, d) of (a', b', c', d') \<Rightarrow>
     (a + a', b + b', c + c', d + d'))"

fun md5_blocks :: "32 word list \<Rightarrow> md5_state \<Rightarrow> md5_state" where
  "md5_blocks ws st = (if length ws < 16 then st else md5_blocks (drop 16 ws) (md5_block (take 16 ws) st))"

declare md5_blocks.simps [simp del]

definition md5_Sum :: "string \<Rightarrow> nat list" where
  "md5_Sum s = (case md5_blocks (le_words (md5_pad (map of_char s))) (0x67452301, 0xefcdab89, 0x98badcfe, 0x10325476) of
     (a, b, c, d) \<Rightarrow> concat (map (\<lambda>w. le_bytes 4 (unat w)) [a, b, c, d]))"

lemma length_le_bytes [simp]: "length (le_bytes k n) = k"
  by (induction k n rule: le_bytes.induct) simp_all

lemma length_md5_Sum [simp]: "length (md5_Sum s) = 16"
  by (simp add: md5_Sum_def split: prod.split)

lemma length_hex [simp]: "length (hex_EncodeToString bs) = 2 * length bs"
  by (induction bs) (simp_all add: hex_EncodeToString_def)

section \<open>Addresses\<close>

text \<open>\<open>net.SplitHostPort\<close>; every error is the same here.\<close>

fun last_index :: "'a \<Rightarrow> 'a list \<Rightarrow> nat option" where
  "last_index x [] = None"
| "last_index x (y # ys) = (case last_index x ys of Some i \<Rightarrow> Some (Suc i) | None \<Rightarrow> if x = y then Some 0 else None)"

definition SplitHostPort :: "string \<Rightarrow> (string \<times> string) option" where
  "SplitHostPort hostport = (case last_index CHR '':'' hostport of
     None \<Rightarrow> None
   | Some i \<Rightarrow>
       if hd hostport = CHR ''['' then (case index_of CHR '']'' hostport of
           None \<Rightarrow> None
         | Some e \<Rightarrow>
             if e + 1 \<noteq> i \<or> CHR ''['' \<in> set (drop 1 hostport) \<or> CHR '']'' \<in> set (drop (e + 1) hostport) then None
             else Some (drop 1 (take e hostport), drop (i + 1) hostport))
       else if CHR '':'' \<in> set (take i hostport) \<or> CHR ''['' \<in> set hostport \<or> CHR '']'' \<in> set hostport then None
       else Some (take i hostport, drop (i + 1) hostport))"

lemma last_index_None: "last_index x ys = None \<longleftrightarrow> x \<notin> set ys"
  by (induction ys) (auto split: option.splits)

lemma last_index_append: "x \<notin> set b \<Longrightarrow> last_index x (a @ x # b) = Some (length a)"
  by (induction a) (simp_all add: last_index_None [THEN iffD2])

lemma SplitHostPort_plain:
  assumes "list_all (\<lambda>c. c \<noteq> CHR '':'' \<and> c \<noteq> CHR ''['' \<and> c \<noteq> CHR '']'') (host @ port)"
  shows "SplitHostPort (host @ '':'' @ port) = Some (host, port)"
proof -
  have "CHR '':'' \<notin> set host" "CHR '':'' \<notin> set port" "CHR ''['' \<notin> set (host @ '':'' @ port)" "CHR '']'' \<notin> set (host @ '':'' @ port)"
    using assms by (auto simp: list_all_iff)
  moreover have "hd (host @ '':'' @ port) \<noteq> CHR ''[''"
    using assms by (cases host) auto
  ultimately show ?thesis by (simp add: SplitHostPort_def last_index_append)
qed

section \<open>URLs\<close>

text \<open>
  The host that \<open>url.Parse\<close> finds, \<open>None\<close> where it returns an error: the scheme, the
  authority between the slashes, and the checks on its characters and escapes.
\<close>

definition is_letter :: "char \<Rightarrow> bool" where
  "is_letter c \<longleftrightarrow> (let n = of_char c :: nat in 65 \<le> n \<and> n \<le> 90 \<or> 97 \<le> n \<and> n \<le> 122)"

definition unhex :: "char \<Rightarrow> nat option" where
  "unhex c = (let n = of_char c :: nat in
     if 48 \<le> n \<and> n \<le> 57 then Some (n - 48) else if 97 \<le> n \<and> n \<le> 102 then Some (n - 87)
     else if 65 \<le> n \<and> n \<le> 70 then Some (n - 55) else None)"

definition getscheme :: "string \<Rightarrow> (string \<times> string) option" where
  "getscheme rawurl =
     (let scheme = takeWhile (\<lambda>c. is_letter c \<or> is_digit c \<or> c \<in> set ''+-.'') rawurl; rest = drop (length scheme) rawurl in
      if scheme = [] then (if prefix '':'' rawurl then None else Some ([], rawurl))
      else if is_letter (hd scheme) \<and> prefix '':'' rest then Some (scheme, tl rest) else Some ([], rawurl))"

fun unescape :: "(char \<Rightarrow> bool) \<Rightarrow> (nat \<Rightarrow> nat \<Rightarrow> bool) \<Rightarrow> string \<Rightarrow> string option" where
  "unescape ok esc [] = Some []"
| "unescape ok esc (c # s) =
     (if c = CHR ''%'' then (case s of
          a # b # s' \<Rightarrow> (case (unhex a, unhex b) of
              (Some x, Some y) \<Rightarrow> if esc x y then map_option (Cons (char_of (16 * x + y))) (unescape ok esc s') else None
            | _ \<Rightarrow> None)
        | _ \<Rightarrow> None)
      else if ok c then map_option (Cons c) (unescape ok esc s) else None)"

definition host_char :: "char \<Rightarrow> bool" where
  "host_char c \<longleftrightarrow> 128 \<le> (of_char c :: nat) \<or> is_letter c \<or> is_digit c \<or> c \<in> set ''-_.~!$&()*+,;=:[]<>'' \<or> c = CHR 0x27 \<or> c = CHR 0x22"

abbreviation unescape_host :: "string \<Rightarrow> string option" where
  "unescape_host \<equiv> unescape host_char (\<lambda>x y. 8 \<le> x \<or> x = 2 \<and> y = 5)"

abbreviation unescape_any :: "string \<Rightarrow> string option" where
  "unescape_any \<equiv> unescape (\<lambda>_. True) (\<lambda>_ _. True)"

text \<open>In the zone of an address also \<open>%20\<close> and escapes of characters that need none are allowed.\<close>

abbreviation unescape_zone :: "string \<Rightarrow> string option" where
  "unescape_zone \<equiv> unescape host_char (\<lambda>x y. x = 2 \<and> (y = 5 \<or> y = 0) \<or> host_char (char_of (16 * x + y)))"

definition validOptionalPort :: "string \<Rightarrow> bool" where
  "validOptionalPort port \<longleftrightarrow> port = [] \<or> hd port = CHR '':'' \<and> list_all is_digit (tl port)"

fun find_zone :: "string \<Rightarrow> nat option" where
  "find_zone [] = None"
| "find_zone (c # s) = (if prefix ''%25'' (c # s) then Some 0 else map_option Suc (find_zone s))"

definition parseHost :: "string \<Rightarrow> string option" where
  "parseHost host =
     (if prefix ''['' host then (case last_index CHR '']'' host of
          None \<Rightarrow> None
        | Some i \<Rightarrow>
            if \<not> validOptionalPort (drop (i + 1) host) then None
            else (case find_zone (take i host) of
                None \<Rightarrow> unescape_host host
              | Some zone \<Rightarrow> (case (unescape_host (take zone host), unescape_zone (drop zone (take i host)), unescape_host (drop i host)) of
                    (Some a, Some b, Some c) \<Rightarrow> Some (a @ b @ c) | _ \<Rightarrow> None)))
      else unescape_host host)"

definition validUserinfo :: "string \<Rightarrow> bool" where
  "validUserinfo s \<longleftrightarrow> list_all (\<lambda>c. is_letter c \<or> is_digit c \<or> c \<in> set ''-._:~!$&()*+,;=%@'' \<or> c = CHR 0x27) s"

definition parseAuthority :: "string \<Rightarrow> string option" where
  "parseAuthority authority = (case last_index CHR ''@'' authority of
     None \<Rightarrow> parseHost authority
   | Some i \<Rightarrow>
       if validUserinfo (take i authority) \<and> unescape_any (take i authority) \<noteq> None then parseHost (drop (i + 1) authority) else None)"

definition url_Host :: "string \<Rightarrow> string option" where
  "url_Host rawurl =
     (let u = takeWhile (\<lambda>c. c \<noteq> CHR ''#'') rawurl; frag = drop (length u + 1) rawurl in
      if unescape_any frag = None then None
      else if u = ''*'' then Some []
      else (case getscheme u of
          None \<Rightarrow> None
        | Some (scheme, rest) \<Rightarrow>
            (let rest = takeWhile (\<lambda>c. c \<noteq> CHR ''?'') rest in
             if \<not> prefix ''/'' rest then
               (if scheme \<noteq> [] then Some []
                else if CHR '':'' \<in> set (takeWhile (\<lambda>c. c \<noteq> CHR ''/'') rest) \<or> unescape_any rest = None then None else Some [])
             else if (scheme \<noteq> [] \<or> \<not> prefix ''///'' rest) \<and> prefix ''//'' rest then
               (let authority = takeWhile (\<lambda>c. c \<noteq> CHR ''/'') (drop 2 rest) in
                if unescape_any (drop (2 + length authority) rest) = None then None else parseAuthority authority)
             else if unescape_any rest = None then None else Some [])))"

text \<open>A plain host after \<open>https://\<close> is found as it stands.\<close>

definition plain_host :: "string \<Rightarrow> bool" where
  "plain_host h \<longleftrightarrow> list_all (\<lambda>c. is_letter c \<or> is_digit c \<or> c \<in> set ''-.:'') h"

lemma unescape_plain: "CHR ''%'' \<notin> set s \<Longrightarrow> list_all ok s \<Longrightarrow> unescape ok esc s = Some s"
  by (induction s) auto

lemma list_set_ConsE: "x \<in> set (y # ys) \<Longrightarrow> (x = y \<Longrightarrow> P) \<Longrightarrow> (x \<in> set ys \<Longrightarrow> P) \<Longrightarrow> P"
  by auto

lemma plain_host_chars:
  assumes "plain_host h" "c \<in> set h"
  shows "c \<notin> set ''%#?/@[]'' \<and> host_char c"
proof -
  have plain: "is_letter c \<or> is_digit c \<or> c \<in> set ''-.:''" using assms by (simp add: plain_host_def list_all_iff)
  have "\<not> (is_letter d \<or> is_digit d \<or> d \<in> set ''-.:'')" if "d \<in> set ''%#?/@[]''" for d
    using that by (elim list_set_ConsE) (simp_all add: is_letter_def is_digit_def)
  with plain have "c \<notin> set ''%#?/@[]''" by blast
  moreover have "set ''-.:'' \<subseteq> set ''-_.~!$&()*+,;=:[]<>''" by simp
  ultimately show ?thesis using plain unfolding host_char_def by blast
qed

lemma takeWhile_neq_notin: "c \<notin> set s \<Longrightarrow> takeWhile (\<lambda>x. x \<noteq> c) s = s"
  by (induction s) auto

lemma url_Host_https:
  assumes "plain_host h"
  shows "url_Host (''https://'' @ h) = Some h"
proof -
  have no: "c \<notin> set h" if "c \<in> set ''%#?/@[]''" for c using plain_host_chars [OF assms] that by blast
  have ok: "list_all host_char h" using plain_host_chars [OF assms] by (simp add: list_all_iff)
  have "getscheme (''https://'' @ h) = Some (''https'', ''//'' @ h)"
    by (simp add: getscheme_def is_letter_def is_digit_def)
  moreover have "\<not> prefix ''['' h" using no by (cases h) auto
  ultimately show ?thesis
    using no ok by (simp add: url_Host_def parseAuthority_def parseHost_def unescape_plain takeWhile_neq_notin last_index_None [THEN iffD2])
qed

end
