(* ===== verification/Tunnel_Authorizer.thy ===== *)
theory Tunnel_Authorizer
  imports Machines Go_Net
begin

text \<open>
  Who may open a tunnel: \<open>src/pkg/tunnelserver/tunnel.go\<close>.  An agent shows the token of its
  cluster and says what node or cluster it is; the answer is the name under which its session is
  found.  Registering creates the machine of a node and takes over what the agent says of it.

  The decoders that turn JSON into Go values, \<open>json.Unmarshal\<close> and \<open>convert.ToObj\<close>, are
  arguments.  The cluster comes from the cache and is changed there; \<open>Authorize\<close> returns the
  clusters of the cache as it leaves them.
\<close>

section \<open>State\<close>

record mgmt_cluster = cluster +
  cl_internal :: bool
  cl_driver :: string
  cl_apiEndpoint :: string
  cl_serviceAccountToken :: string
  cl_caCert :: string
  cl_hasRKEConfig :: bool

abbreviation mcl_name :: "mgmt_cluster \<Rightarrow> string" where
  "mcl_name c \<equiv> om_name (cl_meta c)"

record registration_token =
  crt_clusterName :: string
  crt_token :: string

record client_node =
  ci_etcd :: bool
  ci_controlPlane :: bool
  ci_worker :: bool
  ci_requestedHostname :: string
  ci_labels :: "(string, string) gomap option"
  ci_customConfig :: "custom_config option"
  ci_dockerInfo :: "docker_info option"

record cluster_input =
  in_address :: string
  in_token :: string
  in_caCert :: string

record tunnel_input =
  in_node :: "client_node option"
  in_cluster :: "cluster_input option"

record authorizer =
  au_crts :: "registration_token list"
  au_clusters :: "mgmt_cluster list"
  au_machines :: "machine list"
  au_unmarshal :: "string \<Rightarrow> tunnel_input result"
  au_toCustomConfig :: "custom_config \<Rightarrow> custom_config result"
  au_toDockerInfo :: "docker_info \<Rightarrow> docker_info result"

record tunnel_client =
  tc_cluster :: mgmt_cluster
  tc_node :: "machine option"
  tc_token :: string
  tc_server :: string

record tunnel_request =
  tr_header :: http_header
  tr_path :: string
  tr_host :: string

datatype authreq = AuMachineCreate machine | AuMachineUpdate machine | AuClusterUpdate mgmt_cluster

definition crtKeyIndex :: string where "crtKeyIndex = ''crtKeyIndex''"
definition nodeKeyIndex :: string where "nodeKeyIndex = ''nodeKeyIndex''"
definition importedDriver :: string where "importedDriver = ''imported''"
definition ClusterDriverLocal :: string where "ClusterDriverLocal = ''local''"
definition ClusterDriverRKE :: string where "ClusterDriverRKE = ''rancherKubernetesEngine''"
definition Tunnel_Token :: string where "Tunnel_Token = ''X-Api-Tunnel-Token''"
definition Tunnel_Params :: string where "Tunnel_Params = ''X-Api-Tunnel-Params''"

section \<open>Lookups\<close>

definition crtIndex :: "registration_token \<Rightarrow> string list" where
  "crtIndex crt = [crt_token crt]"

definition nodeIndex :: "machine \<Rightarrow> string list" where
  "nodeIndex m = [mc_namespace m @ ''/'' @ mc_nodeName m]"

definition machineName :: "client_node \<Rightarrow> string" where
  "machineName machine = ''m-'' @ take 12 (hex_EncodeToString (md5_Sum (ci_requestedHostname machine)))"

definition getClusterByToken :: "authorizer \<Rightarrow> string \<Rightarrow> mgmt_cluster result" where
  "getClusterByToken t token = (case by_index [(crtKeyIndex, crtIndex)] (au_crts t) crtKeyIndex token of
     Inl err \<Rightarrow> Inl err
   | Inr [] \<Rightarrow> Inl (Err ''cluster not found'')
   | Inr (crt # _) \<Rightarrow> lister_get mcl_name (au_clusters t) (crt_clusterName crt))"

definition machine_get :: "authorizer \<Rightarrow> string \<Rightarrow> string \<Rightarrow> machine result" where
  "machine_get t namespace name = (case find (\<lambda>m. mc_namespace m = namespace \<and> mc_name m = name) (au_machines t) of
     None \<Rightarrow> Inl (Api NotFound) | Some m \<Rightarrow> Inr m)"

definition getMachine :: "authorizer \<Rightarrow> mgmt_cluster \<Rightarrow> client_node \<Rightarrow> machine result" where
  "getMachine t cluster inNode = (case machine_get t (mcl_name cluster) (machineName inNode) of
     Inr m \<Rightarrow> Inr m
   | Inl err \<Rightarrow>
       if is_not_found err then
         (case by_index [(nodeKeyIndex, nodeIndex)] (au_machines t) nodeKeyIndex (mcl_name cluster @ ''/'' @ ci_requestedHostname inNode) of
            Inr (m # _) \<Rightarrow> Inr m
          | _ \<Rightarrow> (case machine_get t (mcl_name cluster) (ci_requestedHostname inNode) of Inr m \<Rightarrow> Inr m | Inl _ \<Rightarrow> Inl err))
       else Inl err)"

definition toCustomConfig :: "authorizer \<Rightarrow> client_node \<Rightarrow> custom_config option" where
  "toCustomConfig t machine = (case ci_customConfig machine of
     None \<Rightarrow> None
   | Some c \<Rightarrow> (case au_toCustomConfig t c of Inl _ \<Rightarrow> None | Inr result \<Rightarrow> Some result))"

definition readInput :: "authorizer \<Rightarrow> tunnel_request \<Rightarrow> tunnel_input result" where
  "readInput t req = (case std_DecodeString (hdr_get (tr_header req) Tunnel_Params) of
     None \<Rightarrow> Inl (Err ''illegal base64 data'')
   | Some bytes \<Rightarrow> (case au_unmarshal t bytes of
       Inl err \<Rightarrow> Inl err
     | Inr input \<Rightarrow>
         if in_node input = None \<and> in_cluster input = None then Inl (Err ''missing node or cluster registration info'')
         else if (case in_node input of Some n \<Rightarrow> ci_requestedHostname n = [] | None \<Rightarrow> False) then Inl (Err ''invalid input, hostname empty'')
         else if (case in_cluster input of Some c \<Rightarrow> in_address c = [] | None \<Rightarrow> False) then Inl (Err ''invalid input, address empty'')
         else if (case in_cluster input of Some c \<Rightarrow> in_token c = [] | None \<Rightarrow> False) then Inl (Err ''invalid input, token empty'')
         else if (case in_cluster input of Some c \<Rightarrow> in_caCert c = [] | None \<Rightarrow> False) then Inl (Err ''invalid input, caCert empty'')
         else Inr input))"

section \<open>Nodes\<close>

definition registered_machine :: "custom_config \<Rightarrow> mgmt_cluster \<Rightarrow> client_node \<Rightarrow> machine" where
  "registered_machine customConfig cluster inNode = machine0\<lparr>nd_meta := meta0\<lparr>om_name := machineName inNode, om_namespace := mcl_name cluster\<rparr>,
     nd_etcd := ci_etcd inNode, nd_controlPlane := ci_controlPlane inNode, nd_worker := ci_worker inNode,
     nd_requestedHostname := ci_requestedHostname inNode, mc_customConfig := Some customConfig, mc_imported := True, mc_desiredNodeLabels := ci_labels inNode\<rparr>"

definition tunnel_createNode :: "authreq env \<Rightarrow> authorizer \<Rightarrow> client_node \<Rightarrow> mgmt_cluster \<Rightarrow> (authreq, machine) go" where
  "tunnel_createNode env t inNode cluster = (case toCustomConfig t inNode of
     None \<Rightarrow> go_fail (Err ''invalid input, missing custom config'')
   | Some customConfig \<Rightarrow>
       if cc_address customConfig = [] then go_fail (Err ''invalid input, address empty'')
       else (let machine = registered_machine customConfig cluster inNode in
         go_bind (go_call env (AuMachineCreate machine)) (\<lambda>_. go_return machine)))"

definition update_machine :: "authreq env \<Rightarrow> machine \<Rightarrow> machine \<Rightarrow> (authreq, machine) go" where
  "update_machine env machine newMachine =
     (if machine \<noteq> newMachine then go_bind (go_call env (AuMachineUpdate newMachine)) (\<lambda>_. go_return newMachine) else go_return machine)"

definition updateDockerInfo :: "authreq env \<Rightarrow> authorizer \<Rightarrow> machine \<Rightarrow> client_node \<Rightarrow> (authreq, machine) go" where
  "updateDockerInfo env t machine inNode = (case ci_dockerInfo inNode of
     None \<Rightarrow> go_return machine
   | Some info \<Rightarrow> go_bind (go_lift (au_toDockerInfo t info)) (\<lambda>dockerInfo. update_machine env machine (machine\<lparr>mc_dockerInfo := Some dockerInfo\<rparr>)))"

definition tunnel_updateNode :: "authreq env \<Rightarrow> machine \<Rightarrow> client_node \<Rightarrow> (authreq, machine) go" where
  "tunnel_updateNode env machine inNode =
     update_machine env machine (machine\<lparr>nd_etcd := ci_etcd inNode, nd_controlPlane := ci_controlPlane inNode, nd_worker := ci_worker inNode\<rparr>)"

definition authorizeNode :: "authreq env \<Rightarrow> authorizer \<Rightarrow> bool \<Rightarrow> mgmt_cluster \<Rightarrow> client_node \<Rightarrow> (authreq, machine) go" where
  "authorizeNode env t register cluster inNode =
     go_bind (case getMachine t cluster inNode of
         Inl err \<Rightarrow> if is_not_found err \<and> register then tunnel_createNode env t inNode cluster else go_fail err
       | Inr machine \<Rightarrow> go_return machine) (\<lambda>machine.
     go_bind (if register then tunnel_updateNode env machine inNode else go_return machine) (\<lambda>machine.
     updateDockerInfo env t machine inNode))"

section \<open>Clusters\<close>

text \<open>What the cluster in the cache becomes, whether it is sent or not.\<close>

definition connected_cluster :: "mgmt_cluster \<Rightarrow> cluster_input \<Rightarrow> mgmt_cluster" where
  "connected_cluster cluster inCluster =
     (if cl_driver cluster \<noteq> importedDriver \<and> cl_driver cluster \<noteq> [] then cluster
      else cluster\<lparr>cl_driver := importedDriver, cl_apiEndpoint := ''https://'' @ in_address inCluster,
        cl_serviceAccountToken := in_token inCluster, cl_caCert := in_caCert inCluster\<rparr>)"

text \<open>The answer of the server comes back together with the cluster.\<close>

definition authorizeCluster :: "authreq env \<Rightarrow> mgmt_cluster \<Rightarrow> cluster_input \<Rightarrow> (authreq, mgmt_cluster \<times> go_error option) go" where
  "authorizeCluster env cluster inCluster =
     (let new = connected_cluster cluster inCluster in
      if new = cluster then go_return (cluster, None)
      else go_bind (go_try (go_call env (AuClusterUpdate new))) (\<lambda>r. go_return (new, case r of Inl err \<Rightarrow> Some err | Inr _ \<Rightarrow> None)))"

definition replace_cluster :: "mgmt_cluster \<Rightarrow> mgmt_cluster list \<Rightarrow> mgmt_cluster list" where
  "replace_cluster c cs = map (\<lambda>x. if mcl_name x = mcl_name c then c else x) cs"

section \<open>Authorization\<close>

type_synonym authorization = "tunnel_client option \<times> bool \<times> go_error option"

definition has_suffix :: "string \<Rightarrow> string \<Rightarrow> bool" where
  "has_suffix s suf \<longleftrightarrow> suffix suf s"

definition reported_address :: "bool \<Rightarrow> client_node \<Rightarrow> machine \<Rightarrow> machine" where
  "reported_address register inNode node = (case (mc_nodeConfig node, ci_customConfig inNode) of
     (Some nc, Some cc) \<Rightarrow> if register
       then node\<lparr>mc_nodeConfig := Some (nc\<lparr>rn_address := cc_address cc, rn_internalAddress := cc_internalAddress cc\<rparr>)\<rparr> else node
   | _ \<Rightarrow> node)"

definition Authorize :: "authreq env \<Rightarrow> authorizer \<Rightarrow> tunnel_request \<Rightarrow> (authreq, authorization \<times> mgmt_cluster list) go" where
  "Authorize env t req =
     (let token = hdr_get (tr_header req) Tunnel_Token in
      if token = [] then go_return ((None, False, None), au_clusters t)
      else (case getClusterByToken t token of
          Inl err \<Rightarrow> go_return ((None, False, Some err), au_clusters t)
        | Inr cluster \<Rightarrow> (case readInput t req of
            Inl err \<Rightarrow> go_return ((None, False, Some err), au_clusters t)
          | Inr input \<Rightarrow> (case in_node input of
              Some inNode \<Rightarrow>
                (let register = has_suffix (tr_path req) ''/register'' in
                 go_bind (go_try (authorizeNode env t register cluster inNode)) (\<lambda>r. case r of
                   Inl err \<Rightarrow> go_return ((None, False, Some err), au_clusters t)
                 | Inr node \<Rightarrow> go_return ((Some \<lparr>tc_cluster = cluster, tc_node = Some (reported_address register inNode node),
                       tc_token = token, tc_server = tr_host req\<rparr>, True, None), au_clusters t)))
            | None \<Rightarrow> (case in_cluster input of
                Some inCluster \<Rightarrow> go_bind (authorizeCluster env cluster inCluster) (\<lambda>(new, err).
                  go_return ((Some \<lparr>tc_cluster = new, tc_node = None, tc_token = token, tc_server = tr_host req\<rparr>, True, err),
                    replace_cluster new (au_clusters t)))
              | None \<Rightarrow> go_return ((None, False, None), au_clusters t))))))"

definition authorizeTunnel :: "authreq env \<Rightarrow> authorizer \<Rightarrow> tunnel_request \<Rightarrow> (authreq, string \<times> bool \<times> go_error option) go" where
  "authorizeTunnel env t req = go_bind (Authorize env t req) (\<lambda>((client, ok, err), _).
     go_return (case client of
       Some c \<Rightarrow> (case tc_node c of Some n \<Rightarrow> (mc_name n, ok, err) | None \<Rightarrow> (mcl_name (tc_cluster c), ok, err))
     | None \<Rightarrow> ([], False, err)))"

definition AuthorizeLocalNode :: "authorizer \<Rightarrow> string \<Rightarrow> string \<Rightarrow> (string \<times> string list \<times> mgmt_cluster) option" where
  "AuthorizeLocalNode t username password = (case getClusterByToken t password of
     Inl _ \<Rightarrow> None
   | Inr cluster \<Rightarrow>
       if cl_driver cluster \<noteq> ClusterDriverLocal then None
       else if username = ''kube-proxy'' then Some (''system:kube-proxy'', [], cluster)
       else Some (''system:node:'' @ username, [''system:nodes''], cluster))"

end
