(* ===== verification/Agents.thy ===== *)
theory Agents
  imports Tunnel_Authorizer
begin

text \<open>
  The agent: \<open>src/pkg/agent\<close> and its parts for nodes and for clusters.  The environment of the
  process, the files it reads, what the docker daemon says of itself, the configuration that
  \<open>rest.InClusterConfig\<close> finds and \<open>json.Marshal\<close> are arguments.  The parameters of an agent
  are the value that its JSON document stands for.
\<close>

section \<open>Nodes\<close>

definition node_split :: "string \<Rightarrow> string list" where
  "node_split s = filter (\<lambda>p. p \<noteq> []) (map trim_space (split_all CHR '','' s))"

definition parseLabel :: "string \<Rightarrow> (string, string) gomap" where
  "parseLabel v = fold (\<lambda>part labels. case splitn2 CHR ''='' part of
     [k, x] \<Rightarrow> AList.update k x labels
   | [k] \<Rightarrow> AList.update k [] labels
   | _ \<Rightarrow> labels) (split_all CHR '','' v) []"

definition node_TokenAndURL :: "(string \<Rightarrow> string) \<Rightarrow> string \<times> string" where
  "node_TokenAndURL getenv = (getenv ''CATTLE_TOKEN'', getenv ''CATTLE_SERVER'')"

definition node_Params :: "(string \<Rightarrow> string) \<Rightarrow> docker_info option \<Rightarrow> tunnel_input" where
  "node_Params getenv info = (let roles = node_split (getenv ''CATTLE_ROLE'') in
     \<lparr>in_node = Some \<lparr>ci_etcd = (''etcd'' \<in> set roles), ci_controlPlane = (''controlplane'' \<in> set roles), ci_worker = (''worker'' \<in> set roles),
        ci_requestedHostname = getenv ''CATTLE_NODE_NAME'', ci_labels = Some (parseLabel (getenv ''CATTLE_NODE_LABEL'')),
        ci_customConfig = Some \<lparr>cc_address = getenv ''CATTLE_ADDRESS'', cc_dockerSocket = [], cc_internalAddress = getenv ''CATTLE_INTERNAL_ADDRESS'',
          cc_sshKey = [], cc_user = []\<rparr>, ci_dockerInfo = info\<rparr>, in_cluster = None\<rparr>)"

section \<open>Clusters\<close>

record in_cluster_config =
  ic_bearerToken :: string
  ic_caFile :: string

definition agent_getenv :: "(string \<Rightarrow> string) \<Rightarrow> string \<Rightarrow> string result" where
  "agent_getenv getenv env = (let value = getenv env in if value = [] then Inl (Err (env @ '' is empty'')) else Inr value)"

definition readKey :: "(string \<Rightarrow> string result) \<Rightarrow> string \<Rightarrow> string result" where
  "readKey readFile key = readFile (''/cattle-credentials/'' @ key)"

definition cluster_TokenAndURL :: "(string \<Rightarrow> string result) \<Rightarrow> (string \<times> string) result" where
  "cluster_TokenAndURL readFile = (case readKey readFile ''url'' of
     Inl err \<Rightarrow> Inl err
   | Inr url \<Rightarrow> (case readKey readFile ''token'' of Inl err \<Rightarrow> Inl err | Inr token \<Rightarrow> Inr (token, url)))"

definition cluster_Params :: "(string \<Rightarrow> string) \<Rightarrow> (string \<Rightarrow> string result) \<Rightarrow> in_cluster_config result \<Rightarrow> tunnel_input result" where
  "cluster_Params getenv readFile config = (case config of
     Inl err \<Rightarrow> Inl err
   | Inr cfg \<Rightarrow> (case readFile (ic_caFile cfg) of
       Inl err \<Rightarrow> Inl err
     | Inr caData \<Rightarrow> (case agent_getenv getenv ''KUBERNETES_SERVICE_HOST'' of
         Inl err \<Rightarrow> Inl err
       | Inr host \<Rightarrow> (case agent_getenv getenv ''KUBERNETES_SERVICE_PORT'' of
           Inl err \<Rightarrow> Inl err
         | Inr port \<Rightarrow> Inr \<lparr>in_node = None, in_cluster = Some \<lparr>in_address = host @ '':'' @ port, in_token = ic_bearerToken cfg,
             in_caCert = std_EncodeToString caData\<rparr>\<rparr>))))"

section \<open>The agent\<close>

record agent_env =
  ae_getenv :: "string \<Rightarrow> string"
  ae_readFile :: "string \<Rightarrow> string result"
  ae_config :: "in_cluster_config result"
  ae_docker :: "docker_info option"
  ae_marshal :: "tunnel_input \<Rightarrow> string result"
  ae_connectedFile :: bool

definition isCluster :: "agent_env \<Rightarrow> bool" where
  "isCluster a \<longleftrightarrow> ae_getenv a ''CATTLE_CLUSTER'' = ''true''"

definition getParams :: "agent_env \<Rightarrow> tunnel_input result" where
  "getParams a = (if isCluster a then cluster_Params (ae_getenv a) (ae_readFile a) (ae_config a) else Inr (node_Params (ae_getenv a) (ae_docker a)))"

definition getTokenAndURL :: "agent_env \<Rightarrow> (string \<times> string) result" where
  "getTokenAndURL a = (case node_TokenAndURL (ae_getenv a) of (token, url) \<Rightarrow>
     if token = [] then cluster_TokenAndURL (ae_readFile a) else Inr (token, url))"

definition isConnect :: "agent_env \<Rightarrow> bool" where
  "isConnect a \<longleftrightarrow> ae_getenv a ''CATTLE_AGENT_CONNECT'' = ''true'' \<or> ae_connectedFile a"

text \<open>The headers of an agent and the request that opens its tunnel.\<close>

definition agent_headers :: "agent_env \<Rightarrow> (http_header \<times> string) result" where
  "agent_headers a = (case getParams a of
     Inl err \<Rightarrow> Inl err
   | Inr params \<Rightarrow> (case ae_marshal a params of
       Inl err \<Rightarrow> Inl err
     | Inr bytes \<Rightarrow> (case getTokenAndURL a of
         Inl err \<Rightarrow> Inl err
       | Inr (token, server) \<Rightarrow> Inr ([(Tunnel_Token, [token]), (Tunnel_Params, [std_EncodeToString bytes])], server))))"

definition agent_request :: "agent_env \<Rightarrow> tunnel_request result" where
  "agent_request a = (case agent_headers a of
     Inl err \<Rightarrow> Inl err
   | Inr (headers, server) \<Rightarrow> (case url_Host server of
       None \<Rightarrow> Inl (Err ''parse'')
     | Some host \<Rightarrow> Inr \<lparr>tr_header = headers, tr_path = ''/v3/connect'' @ (if isConnect a then [] else ''/register''), tr_host = host\<rparr>))"

text \<open>What the agent lets the server dial.\<close>

definition agent_auth :: "string \<Rightarrow> string \<Rightarrow> bool" where
  "agent_auth proto address = (if proto = ''tcp'' then True else if proto = ''unix'' then address = ''/var/run/docker.sock'' else False)"

text \<open>Old agents that are not pods are removed; the containers are name, labels and whether they go.\<close>

definition cleanup_removes :: "agent_env \<Rightarrow> (string \<times> string list) list \<Rightarrow> string list" where
  "cleanup_removes a containers =
     (if ae_getenv a ''CATTLE_K8S_MANAGED'' \<noteq> ''true'' then []
      else map fst (filter (\<lambda>(name, labels). ''io.kubernetes.pod.namespace'' \<notin> set labels \<and> \<not> sublist ''share-mnt'' name) containers))"

end
