(* ===== verification/Dialers.thy ===== *)
theory Dialers
  imports Tunnel_Authorizer Tunnel_Server
begin

text \<open>
  How the server reaches clusters and nodes: \<open>src/pkg/dialer\<close>.  A dialer is a function from a
  network and an address to the way the connection is made: directly, through the session of a
  client, or by TLS to a docker daemon.  The preferred address of a node (from
  \<open>k8s.io/kubernetes/pkg/util/node\<close>) and the TLS address in the stored configuration of a machine
  (\<open>pkg/nodeconfig\<close>) are arguments.
\<close>

section \<open>State\<close>

datatype dial = DialNative string string | DialTunnel string string string | DialTLS string | DialError go_error

type_synonym dialer = "string \<Rightarrow> string \<Rightarrow> dial"

record dialer_factory =
  df_clusters :: "mgmt_cluster list"
  df_machines :: "machine list"
  df_server :: tunnel_server
  df_preferredAddress :: "machine \<Rightarrow> string"
  df_tlsAddress :: "machine \<Rightarrow> string result"

definition list_machines :: "dialer_factory \<Rightarrow> string \<Rightarrow> machine list" where
  "list_machines f namespace = filter (\<lambda>m. mc_namespace m = namespace) (df_machines f)"

definition get_machine :: "dialer_factory \<Rightarrow> string \<Rightarrow> string \<Rightarrow> machine result" where
  "get_machine f namespace name = lister_get mc_name (list_machines f namespace) name"

definition has_session :: "dialer_factory \<Rightarrow> string \<Rightarrow> bool" where
  "has_session f key = HasSession (str_bytes key) (df_server f)"

section \<open>Addresses\<close>

definition isCloudDriver :: "mgmt_cluster \<Rightarrow> bool" where
  "isCloudDriver cluster \<longleftrightarrow> \<not> cl_internal cluster \<and> cl_driver cluster \<noteq> importedDriver \<and> cl_driver cluster \<noteq> ClusterDriverRKE"

definition hostPort :: "mgmt_cluster \<Rightarrow> string" where
  "hostPort cluster = (case url_Host (cl_apiEndpoint cluster) of
     None \<Rightarrow> []
   | Some host \<Rightarrow> if CHR '':'' \<in> set host then host else host @ '':443'')"

definition InternalAddressAnnotation :: string where "InternalAddressAnnotation = ''rke.cattle.io/internal-ip''"
definition ControlRole :: string where "ControlRole = ''controlplane''"

definition publicIP :: "machine \<Rightarrow> string" where
  "publicIP m = map_str (mc_nodeAnnotations m) externalAddressAnnotation"

definition privateIP :: "machine \<Rightarrow> string" where
  "privateIP m = map_str (mc_nodeAnnotations m) InternalAddressAnnotation"

definition nodeGood :: "machine \<Rightarrow> bool" where
  "nodeGood m \<longleftrightarrow> condIsTrue ''Registered'' (nd_conditions m) \<and> condIsTrue ''Provisioned'' (nd_conditions m) \<and>
     (case find (\<lambda>c. kc_type c = ''Ready'') (ks_conditions (mc_status m)) of Some c \<Rightarrow> kc_status c \<noteq> ''Unknown'' | None \<Rightarrow> True) \<and>
     \<not> om_deleting (nd_meta m)"

definition is_control :: "machine \<Rightarrow> bool" where
  "is_control m \<longleftrightarrow> (case mc_nodeConfig m of Some nc \<Rightarrow> ControlRole \<in> set (rn_role nc) | None \<Rightarrow> False)"

fun good_host :: "bool \<Rightarrow> string \<Rightarrow> machine list \<Rightarrow> string \<Rightarrow> string" where
  "good_host clusterGood host [] lastGoodHost = lastGoodHost"
| "good_host clusterGood host (m # ms) lastGoodHost =
     (if privateIP m = [] \<or> \<not> nodeGood m then good_host clusterGood host ms lastGoodHost
      else if publicIP m = host then (if clusterGood then privateIP m else good_host clusterGood host ms lastGoodHost)
      else if is_control m then good_host clusterGood host ms (privateIP m)
      else good_host clusterGood host ms lastGoodHost)"

definition translateClusterAddress :: "dialer_factory \<Rightarrow> mgmt_cluster \<Rightarrow> string \<Rightarrow> string \<Rightarrow> string" where
  "translateClusterAddress f cluster clusterHostPort address =
     (if clusterHostPort \<noteq> address then address
      else (case SplitHostPort address of
          None \<Rightarrow> address
        | Some (host, port) \<Rightarrow>
            (let good = good_host (condIsTrue ''Ready'' (cl_conditions cluster)) host (list_machines f (mcl_name cluster)) [] in
             if good \<noteq> [] then good @ '':'' @ port else address)))"

section \<open>Dialers\<close>

definition native :: dialer where
  "native network address = DialNative network address"

definition server_Dialer :: "string \<Rightarrow> dialer" where
  "server_Dialer key network address = DialTunnel key network address"

definition nodeDialer :: "dialer_factory \<Rightarrow> string \<Rightarrow> string \<Rightarrow> dialer result" where
  "nodeDialer f clusterName name = (case get_machine f clusterName name of
     Inl err \<Rightarrow> Inl err
   | Inr machine \<Rightarrow>
       if has_session f (mc_name machine) then Inr (server_Dialer (mc_name machine))
       else Inl (Err (''can not build dialer to '' @ clusterName @ '':'' @ name)))"

definition NodeDialer :: "dialer_factory \<Rightarrow> string \<Rightarrow> string \<Rightarrow> dialer" where
  "NodeDialer f clusterName name network address =
     (case nodeDialer f clusterName name of Inl err \<Rightarrow> DialError err | Inr d \<Rightarrow> d network address)"

fun first_node_dialer :: "dialer_factory \<Rightarrow> string \<Rightarrow> machine list \<Rightarrow> dialer option" where
  "first_node_dialer f clusterName [] = None"
| "first_node_dialer f clusterName (m # ms) =
     (if \<not> om_deleting (nd_meta m) \<and> condIsTrue ''Provisioned'' (nd_conditions m)
      then (case nodeDialer f clusterName (mc_name m) of Inr d \<Rightarrow> Some d | Inl _ \<Rightarrow> first_node_dialer f clusterName ms)
      else first_node_dialer f clusterName ms)"

definition clusterDialer :: "dialer_factory \<Rightarrow> string \<Rightarrow> string \<Rightarrow> dialer result" where
  "clusterDialer f clusterName address = (case lister_get mcl_name (df_clusters f) clusterName of
     Inl err \<Rightarrow> Inl err
   | Inr cluster \<Rightarrow>
       if cl_internal cluster then Inr native
       else (let hp = hostPort cluster in
         if address = hp \<and> isCloudDriver cluster then Inr native
         else if has_session f (mcl_name cluster) then
           Inr (\<lambda>network address. server_Dialer (mcl_name cluster) network
             (if cl_driver cluster = ClusterDriverRKE then translateClusterAddress f cluster hp address else address))
         else if cl_driver cluster \<noteq> ClusterDriverRKE then Inl (Err ''waiting for cluster agent to connect'')
         else (case first_node_dialer f clusterName (list_machines f (mcl_name cluster)) of
             Some d \<Rightarrow> Inr (\<lambda>network address. d network (if address = hp then ''127.0.0.1:6443'' else address))
           | None \<Rightarrow> Inl (Err ''waiting for cluster agent to connect''))))"

definition ClusterDialer :: "dialer_factory \<Rightarrow> string \<Rightarrow> dialer" where
  "ClusterDialer f clusterName network address =
     (case clusterDialer f clusterName address of Inl err \<Rightarrow> DialError err | Inr d \<Rightarrow> d network address)"

definition tlsDialer_Dial :: "string \<Rightarrow> dialer" where
  "tlsDialer_Dial tlsAddress network address =
     (if sublist ''docker.sock'' address then DialTLS tlsAddress
      else DialError (Err ''only docker.sock connections are supported for this node''))"

definition tlsDialer :: "dialer_factory \<Rightarrow> machine \<Rightarrow> dialer result" where
  "tlsDialer f machine = (case df_tlsAddress f machine of Inl err \<Rightarrow> Inl err | Inr a \<Rightarrow> Inr (tlsDialer_Dial a))"

definition DockerDialer :: "dialer_factory \<Rightarrow> string \<Rightarrow> string \<Rightarrow> dialer result" where
  "DockerDialer f clusterName name = (case get_machine f clusterName name of
     Inl err \<Rightarrow> Inl err
   | Inr machine \<Rightarrow>
       if has_session f (mc_name machine) then Inr (\<lambda>_ _. server_Dialer (mc_name machine) ''unix'' ''/var/run/docker.sock'')
       else if nd_nodeTemplateName machine \<noteq> [] then tlsDialer f machine
       else Inl (Err (''can not build dialer to '' @ clusterName @ '':'' @ name)))"

section \<open>The local cluster\<close>

definition nodeAccessIndexer :: string where "nodeAccessIndexer = ''nodeAccess''"

definition dialer_nodeIndexer :: "dialer_factory \<Rightarrow> machine \<Rightarrow> string list" where
  "dialer_nodeIndexer f m = [df_preferredAddress f m]"

definition dialLocal :: "dialer_factory \<Rightarrow> dialer" where
  "dialLocal f network address = (case SplitHostPort address of
     None \<Rightarrow> DialError (Err ''address'')
   | Some (host, _) \<Rightarrow> (case by_index [(nodeAccessIndexer, dialer_nodeIndexer f)] (list_machines f ''local'') nodeAccessIndexer host of
       Inl err \<Rightarrow> DialError err
     | Inr (m # _) \<Rightarrow> DialTunnel (mc_name m) network address
     | Inr [] \<Rightarrow> DialError (Err (''failed to find tunnel for: '' @ address))))"

end
