(* ===== verification/Node_Config.thy ===== *)
theory Node_Config
  imports Agents
begin

text \<open>
  What an agent of a node is told to run: \<open>src/pkg/rkenodeconfigserver\<close>, and the client of it,
  \<open>src/pkg/rkenodeconfigclient\<close>.  The plan for the nodes of a cluster (\<open>librke\<close>), the certificates of a
  node (\<open>rkecerts\<close>) and the image of the agent are arguments.
\<close>

section \<open>State\<close>

record process =
  ps_name :: string
  ps_args :: "string list"
  ps_image :: string
  ps_binds :: "string list"
  ps_networkMode :: string
  ps_restartPolicy :: string
  ps_pidMode :: string
  ps_privileged :: bool

type_synonym processes = "(string, process) gomap"

record node_config =
  nc_clusterName :: string
  nc_certs :: string
  nc_processes :: processes
  nc_files :: "(string \<times> string) list"

definition node_config0 :: node_config where
  "node_config0 = \<lparr>nc_clusterName = [], nc_certs = [], nc_processes = [], nc_files = []\<rparr>"

record plan_node =
  pn_address :: string
  pn_processes :: processes
  pn_files :: "(string \<times> string) list"

record node_config_server =
  cs_plan :: "mgmt_cluster \<Rightarrow> rke_node list option \<Rightarrow> (string \<times> docker_info) option \<Rightarrow> plan_node list result"
  cs_certs :: "mgmt_cluster \<Rightarrow> string \<Rightarrow> string result"
  cs_dockerInfo :: "docker_info \<Rightarrow> docker_info result"
  cs_agentImage :: string
  cs_rng :: "string list \<Rightarrow> string list"

section \<open>Processes\<close>

definition b2Mount :: string where "b2Mount = ''/mnt/sda1''"

definition isNonWorkerOnly :: "string list \<Rightarrow> bool" where
  "isNonWorkerOnly role \<longleftrightarrow> ''etcd'' \<in> set role \<or> ''controlplane'' \<in> set role"

definition shared_binds :: "process \<Rightarrow> string list" where
  "shared_binds p = concat (map (\<lambda>bind. let parts = split_all CHR '':'' bind in
     if length parts > 2 \<and> sublist ''shared'' (parts ! 2) then [parts ! 0] else []) (ps_binds p))"

fun join_with :: "string \<Rightarrow> string list \<Rightarrow> string" where
  "join_with sep [] = []"
| "join_with sep [x] = x"
| "join_with sep (x # y # xs) = x @ sep @ join_with sep (y # xs)"

definition kubernetes_bind :: "string \<Rightarrow> string" where
  "kubernetes_bind bind = (let parts = split_all CHR '':'' bind in
     if length parts > 1 \<and> parts ! 1 = ''/etc/kubernetes'' then join_with '':'' (parts[0 := parts ! 1]) else bind)"

definition share_mnt :: "string \<Rightarrow> string list \<Rightarrow> process" where
  "share_mnt agentImage shared = \<lparr>ps_name = ''share-mnt'', ps_args = [''--'', ''share-root.sh''] @ shared, ps_image = agentImage,
     ps_binds = [''/var/run:/var/run''], ps_networkMode = ''host'', ps_restartPolicy = ''always'', ps_pidMode = ''host'', ps_privileged = True\<rparr>"

definition augmentProcesses :: "(string list \<Rightarrow> string list) \<Rightarrow> string \<Rightarrow> processes \<Rightarrow> bool \<Rightarrow> bool \<Rightarrow> processes" where
  "augmentProcesses rng agentImage processes worker b2d =
     (let shared = (if b2d then [b2Mount] else []) @ concat (map (\<lambda>(_, p). shared_binds p) (range_map rng processes));
          processes = (if shared \<noteq> [] then AList.update ''share-mnt'' (share_mnt agentImage shared) processes else processes);
          processes = (if worker then AList.delete ''etcd'' processes
            else (case map_of processes ''share-mnt'' of Some p \<Rightarrow> [(''share-mnt'', p)] | None \<Rightarrow> [])) in
      map (\<lambda>(name, p). (name, p\<lparr>ps_binds := map kubernetes_bind (ps_binds p)\<rparr>)) processes)"

section \<open>Configurations\<close>

text \<open>The information of the docker daemon is kept by the address of the node.\<close>

definition GetDockerInfo :: "node_config_server \<Rightarrow> machine \<Rightarrow> rke_node \<Rightarrow> (string \<times> docker_info) option result" where
  "GetDockerInfo s node nc = (case mc_dockerInfo node of
     None \<Rightarrow> Inr None
   | Some info \<Rightarrow> (case cs_dockerInfo s info of Inl err \<Rightarrow> Inl err | Inr i \<Rightarrow> Inr (Some (rn_address nc, i))))"

definition is_b2d :: "(string \<times> docker_info) option \<Rightarrow> bool" where
  "is_b2d info = (case info of None \<Rightarrow> False | Some (_, i) \<Rightarrow> sublist ''Boot2Docker'' (di_operatingSystem i))"

definition nonWorkerConfig :: "node_config_server \<Rightarrow> mgmt_cluster \<Rightarrow> machine \<Rightarrow> rke_node \<Rightarrow> node_config result" where
  "nonWorkerConfig s cluster node nc = (case GetDockerInfo s node nc of
     Inl err \<Rightarrow> Inl err
   | Inr info \<Rightarrow> (case cs_plan s cluster (Some [nc\<lparr>rn_role := [''worker'', ''etcd'', ''controlplane'']\<rparr>]) info of
       Inl err \<Rightarrow> Inl err
     | Inr nodes \<Rightarrow> (case find (\<lambda>p. pn_address p = rn_address nc) nodes of
         None \<Rightarrow> Inl (Err (''failed to find plan for non-worker '' @ rn_address nc))
       | Some p \<Rightarrow> Inr (node_config0\<lparr>nc_clusterName := mcl_name cluster,
           nc_processes := augmentProcesses (cs_rng s) (cs_agentImage s) (pn_processes p) False (is_b2d info)\<rparr>))))"

definition nodeConfig :: "node_config_server \<Rightarrow> mgmt_cluster \<Rightarrow> machine \<Rightarrow> rke_node \<Rightarrow> node_config result" where
  "nodeConfig s cluster node nc = (case cs_certs s cluster (rn_address nc) of
     Inl err \<Rightarrow> Inl err
   | Inr certString \<Rightarrow> (case GetDockerInfo s node nc of
       Inl err \<Rightarrow> Inl err
     | Inr info \<Rightarrow> (case cs_plan s cluster None info of
         Inl err \<Rightarrow> Inl err
       | Inr nodes \<Rightarrow> (case find (\<lambda>p. pn_address p = rn_address nc) nodes of
           None \<Rightarrow> Inl (Err (''failed to find plan for '' @ rn_address nc))
         | Some p \<Rightarrow> Inr \<lparr>nc_clusterName = mcl_name cluster, nc_certs = certString,
             nc_processes = augmentProcesses (cs_rng s) (cs_agentImage s) (pn_processes p) True (is_b2d info), nc_files = pn_files p\<rparr>))))"

datatype nc_answer = NcStatus nat | NcOK node_config

definition config_answer :: "node_config_server \<Rightarrow> authorization \<Rightarrow> nc_answer" where
  "config_answer s = (\<lambda>(client, ok, err).
     if err \<noteq> None then NcStatus 500
     else if \<not> ok then NcStatus 401
     else (case client of None \<Rightarrow> NcStatus 401 | Some c \<Rightarrow> (case tc_node c of
         None \<Rightarrow> NcStatus 404
       | Some node \<Rightarrow>
           if cl_driver (tc_cluster c) = [] then NcStatus 503
           else if cl_driver (tc_cluster c) \<noteq> ClusterDriverRKE then NcStatus 404
           else (case mc_nodeConfig node of
               None \<Rightarrow> NcStatus 503
             | Some nc \<Rightarrow>
                 if \<not> isNonWorkerOnly (rn_role nc) \<and> \<not> cl_hasRKEConfig (tc_cluster c) then NcStatus 503
                 else (case (if isNonWorkerOnly (rn_role nc) then nonWorkerConfig s (tc_cluster c) node nc else nodeConfig s (tc_cluster c) node nc) of
                     Inl _ \<Rightarrow> NcStatus 500
                   | Inr config \<Rightarrow> NcOK config)))))"

definition RKENodeConfigServer_ServeHTTP :: "authreq env \<Rightarrow> node_config_server \<Rightarrow> authorizer \<Rightarrow> tunnel_request \<Rightarrow> (authreq, nc_answer) go" where
  "RKENodeConfigServer_ServeHTTP env s t req = go_bind (Authorize env t req) (\<lambda>(auth, _). go_return (config_answer s auth))"

section \<open>The client\<close>

text \<open>\<open>None\<close> is a node that is not registered yet, \<open>Inl\<close> an error; both are tried again.\<close>

definition getConfig :: "nc_answer result \<Rightarrow> node_config option result" where
  "getConfig resp = (case resp of
     Inl err \<Rightarrow> Inl err
   | Inr (NcStatus code) \<Rightarrow>
       if code = 503 then Inr None
       else if code = 404 then Inr (Some node_config0)
       else Inl (Err ''invalid response'')
   | Inr (NcOK config) \<Rightarrow> Inr (Some config))"

fun ConfigClient :: "nc_answer result list \<Rightarrow> node_config option" where
  "ConfigClient [] = None"
| "ConfigClient (r # rs) = (case getConfig r of Inr (Some nc) \<Rightarrow> Some nc | _ \<Rightarrow> ConfigClient rs)"

end
