(* ===== verification/Tunnel_Access.thy ===== *)
theory Tunnel_Access
  imports Agents Dialers Node_Config
begin

text \<open>
  From an agent to its tunnel and back: what a token is good for, how an agent becomes a machine,
  and through whose session the server dials.
\<close>

section \<open>What a token is good for\<close>

fun about_cluster :: "string \<Rightarrow> authreq \<Rightarrow> bool" where
  "about_cluster ns (AuMachineCreate m) = (mc_namespace m = ns)"
| "about_cluster ns (AuMachineUpdate m) = (mc_namespace m = ns)"
| "about_cluster ns (AuClusterUpdate c) = (mcl_name c = ns)"

definition no_slash :: "string \<Rightarrow> bool" where
  "no_slash s \<longleftrightarrow> CHR ''/'' \<notin> set s"

lemma no_slash_prefix:
  assumes "no_slash a" "no_slash b" "a @ ''/'' @ x = b @ ''/'' @ y"
  shows "a = b"
proof -
  have "takeWhile (\<lambda>c. c \<noteq> CHR ''/'') (a @ ''/'' @ x) = takeWhile (\<lambda>c. c \<noteq> CHR ''/'') (b @ ''/'' @ y)" using assms(3) by simp
  then show ?thesis using assms(1,2) by (simp add: no_slash_def takeWhile_neq_append)
qed

lemma machine_get_Inr: "machine_get t ns n = Inr m \<Longrightarrow> mc_namespace m = ns \<and> mc_name m = n \<and> m \<in> set (au_machines t)"
  by (auto simp: machine_get_def find_Some_iff split: option.splits)

lemma getMachine_namespace:
  assumes "list_all (\<lambda>m. no_slash (mc_namespace m)) (au_machines t)" "no_slash (mcl_name cluster)" "getMachine t cluster inNode = Inr m"
  shows "mc_namespace m = mcl_name cluster"
proof -
  let ?key = "mcl_name cluster @ ''/'' @ ci_requestedHostname inNode"
  have "mc_namespace x = mcl_name cluster" if "x # xs = filter (\<lambda>m. ?key \<in> set (nodeIndex m)) (au_machines t)" for x xs
  proof -
    have "x \<in> set (filter (\<lambda>m. ?key \<in> set (nodeIndex m)) (au_machines t))" using that by (metis list.set_intros(1))
    then have "mc_namespace x @ ''/'' @ mc_nodeName x = ?key" "no_slash (mc_namespace x)"
      using assms(1) by (auto simp: nodeIndex_def list_all_iff)
    then show ?thesis using no_slash_prefix assms(2) by metis
  qed
  then show ?thesis
    using assms(3) by (auto simp: getMachine_def by_index_def dest!: machine_get_Inr split: sum.splits if_splits list.splits)
qed

lemma update_machine_result: "update_machine env m new h = (Inr m', d) \<Longrightarrow> m' = new"
  by (auto simp: update_machine_def go_bind_def go_return_def split: if_splits prod.splits sum.splits)

lemma update_machine_issues: "mc_namespace new = ns \<Longrightarrow> issues_only (about_cluster ns) (update_machine env m new)"
  unfolding update_machine_def by (auto intro!: issues_intros issues_only_bind)

lemma updateDockerInfo_namespace:
  assumes "updateDockerInfo env t x inNode h = (Inr m, d)"
  shows "mc_namespace m = mc_namespace x"
proof (cases "ci_dockerInfo inNode")
  case None
  then show ?thesis using assms by (simp add: updateDockerInfo_def go_return_def)
next
  case (Some info)
  then obtain di where "update_machine env x (x\<lparr>mc_dockerInfo := Some di\<rparr>) h = (Inr m, d)"
    using assms by (cases "au_toDockerInfo t info") (auto simp: updateDockerInfo_def go_fail_def)
  then show ?thesis by (auto dest: update_machine_result)
qed

lemma authorizeNode_namespace:
  assumes "list_all (\<lambda>m. no_slash (mc_namespace m)) (au_machines t)" "no_slash (mcl_name cluster)"
  shows "issues_only (about_cluster (mcl_name cluster)) (authorizeNode env t register cluster inNode)"
    and "authorizeNode env t register cluster inNode h = (Inr m, d) \<Longrightarrow> mc_namespace m = mcl_name cluster"
proof -
  let ?ns = "mcl_name cluster"
  let ?find = "case getMachine t cluster inNode of Inl err \<Rightarrow> if is_not_found err \<and> register then tunnel_createNode env t inNode cluster else go_fail err
       | Inr machine \<Rightarrow> go_return machine"
  have find: "issues_only (about_cluster ?ns) ?find"
    by (auto simp: tunnel_createNode_def registered_machine_def machine0_def Let_def split: sum.splits option.splits intro!: issues_intros issues_only_bind)
  have found: "mc_namespace m = ?ns" if "?find h = (Inr m, d)" for h m d
    using that getMachine_namespace [OF assms]
    by (auto simp: tunnel_createNode_def registered_machine_def machine0_def Let_def go_fail_def go_return_def go_bind_def
        split: sum.splits option.splits if_splits prod.splits)
  let ?upd = "\<lambda>machine. if register then tunnel_updateNode env machine inNode else go_return machine"
  have upd: "issues_only (about_cluster ?ns) (?upd x)" if "mc_namespace x = ?ns" for x
    using that by (auto simp: tunnel_updateNode_def intro!: issues_intros update_machine_issues)
  have updated: "mc_namespace m = ?ns" if "?upd x h = (Inr m, d)" "mc_namespace x = ?ns" for x h m d
    using that by (auto simp: tunnel_updateNode_def go_return_def dest!: update_machine_result split: if_splits)
  have docker: "issues_only (about_cluster ?ns) (updateDockerInfo env t x inNode)" if "mc_namespace x = ?ns" for x
    using that by (auto simp: updateDockerInfo_def split: option.splits intro!: issues_intros update_machine_issues)
  show "issues_only (about_cluster ?ns) (authorizeNode env t register cluster inNode)"
    unfolding authorizeNode_def by (intro issues_only_bind find upd docker) (auto dest: found updated)
  show "mc_namespace m = ?ns" if run: "authorizeNode env t register cluster inNode h = (Inr m, d)"
  proof -
    from run obtain x d1 y d2 h' d3 where steps: "?find h = (Inr x, d1)" "?upd x h' = (Inr y, d2)" "updateDockerInfo env t y inNode (h' @ d2) = (Inr m, d3)"
      unfolding authorizeNode_def by (elim go_bind_InrE) blast
    show ?thesis using updateDockerInfo_namespace [OF steps(3)] updated [OF steps(2) found [OF steps(1)]] by simp
  qed
qed

text \<open>
  C17. A token opens tunnels for its own cluster only.  Whatever an agent sends, a client that is let
  in belongs to the cluster of the registration token that it showed, its machine is one of that
  cluster, and everything that is written on the way is about that cluster and its machines.
\<close>

theorem Authorize_confined:
  assumes "list_all (\<lambda>m. no_slash (mc_namespace m)) (au_machines t)" and "list_all (\<lambda>c. no_slash (mcl_name c)) (au_clusters t)"
    and "Authorize env t req h = (Inr ((client, ok, err), cs), d)" and "client = Some c \<or> d \<noteq> []"
  shows "\<exists>crt \<in> set (au_crts t). crt_token crt = hdr_get (tr_header req) Tunnel_Token \<and> crt_token crt \<noteq> [] \<and>
    list_all (\<lambda>(q, _). about_cluster (crt_clusterName crt) q) d \<and>
    (client = Some c \<longrightarrow> mcl_name (tc_cluster c) = crt_clusterName crt \<and> (tc_node c = Some n \<longrightarrow> mc_namespace n = crt_clusterName crt))"
proof -
  let ?token = "hdr_get (tr_header req) Tunnel_Token"
  obtain cluster input where tk: "?token \<noteq> []" "getClusterByToken t ?token = Inr cluster" "readInput t req = Inr input"
    using assms(3,4) by (auto simp: Authorize_def Let_def go_return_def split: if_splits sum.splits)
  obtain crt where crt: "crt \<in> set (au_crts t)" "crt_token crt = ?token" "lister_get mcl_name (au_clusters t) (crt_clusterName crt) = Inr cluster"
    using tk(2) by (auto simp: getClusterByToken_def by_index_def crtIndex_def split: list.splits)
      (metis (mono_tags, lifting) filter_eq_ConsD in_set_conv_decomp)
  then have cluster: "mcl_name cluster = crt_clusterName crt" "no_slash (mcl_name cluster)"
    using assms(2) by (auto simp: lister_get_def find_Some_iff list_all_iff split: option.splits)
  show ?thesis
  proof (cases "in_node input")
    case (Some inNode)
    let ?reg = "has_suffix (tr_path req) ''/register''"
    obtain r where r: "authorizeNode env t ?reg cluster inNode h = (r, d)"
      "client = Some c \<longrightarrow> (\<exists>m. r = Inr m \<and> tc_cluster c = cluster \<and> tc_node c = Some (reported_address ?reg inNode m))"
      using assms(3) tk Some
      by (atomize_elim, cases "authorizeNode env t ?reg cluster inNode h")
        (auto simp: Authorize_def Let_def go_bind_def go_try_def go_return_def split: sum.splits if_splits)
    have "mc_namespace (reported_address b x m) = mc_namespace m" for b x m
      by (auto simp: reported_address_def split: option.splits)
    then show ?thesis
      using r crt tk(1) cluster authorizeNode_namespace(1) [OF assms(1) cluster(2), of env ?reg inNode]
        authorizeNode_namespace(2) [OF assms(1) cluster(2), of env ?reg inNode h _ d]
      by (intro bexI [OF _ crt(1)]) (auto simp: list_all_iff dest: issues_onlyD)
  next
    case None
    then obtain inCluster where inCluster: "in_cluster input = Some inCluster"
      using assms(3,4) tk by (auto simp: Authorize_def Let_def go_return_def split: option.splits)
    have "mcl_name (connected_cluster cluster inCluster) = mcl_name cluster" by (simp add: connected_cluster_def)
    then show ?thesis
      using assms(3) tk None inCluster crt cluster
      by (intro bexI [OF _ crt(1)])
        (auto simp: Authorize_def authorizeCluster_def Let_def go_bind_def go_return_def go_try_call split: if_splits)
  qed
qed

section \<open>Joining\<close>

lemma agent_request_node:
  assumes "agent_request a = Inr req" and "\<not> isCluster a" and "ae_getenv a ''CATTLE_TOKEN'' \<noteq> []"
    and "ae_marshal a (node_Params (ae_getenv a) (ae_docker a)) = Inr bytes"
  shows "hdr_get (tr_header req) Tunnel_Token = ae_getenv a ''CATTLE_TOKEN''" "hdr_get (tr_header req) Tunnel_Params = std_EncodeToString bytes"
    "tr_path req = ''/v3/connect'' @ (if isConnect a then [] else ''/register'')"
    "agent_request (a\<lparr>ae_connectedFile := True\<rparr>) = Inr (req\<lparr>tr_path := ''/v3/connect''\<rparr>)"
  using assms
  by (auto simp: agent_request_def agent_headers_def getParams_def getTokenAndURL_def node_TokenAndURL_def isCluster_def isConnect_def hdr_get_def
      hdr_values_def Tunnel_Token_def Tunnel_Params_def split: option.splits if_splits)

lemma readInput_node:
  assumes "hdr_get (tr_header req) Tunnel_Params = std_EncodeToString bytes" "au_unmarshal t bytes = Inr (node_Params g info)"
    and "g ''CATTLE_NODE_NAME'' \<noteq> []"
  shows "readInput t req = Inr (node_Params g info)"
  using assms by (simp add: readInput_def node_Params_def Let_def)

definition agent_node :: "agent_env \<Rightarrow> client_node" where
  "agent_node a = the (in_node (node_Params (ae_getenv a) (ae_docker a)))"

lemma reported_address_meta [simp]: "nd_meta (reported_address b x m) = nd_meta m"
  by (auto simp: reported_address_def split: option.splits)

lemma Authorize_node:
  assumes "hdr_get (tr_header req) Tunnel_Token = token" "token \<noteq> []" "getClusterByToken t token = Inr cluster" "readInput t req = Inr input"
    and "in_node input = Some inNode" "authorizeNode env t (has_suffix (tr_path req) ''/register'') cluster inNode h = (Inr m, d)"
  shows "Authorize env t req h = (Inr ((Some \<lparr>tc_cluster = cluster, tc_node = Some (reported_address (has_suffix (tr_path req) ''/register'') inNode m),
      tc_token = token, tc_server = tr_host req\<rparr>, True, None), au_clusters t), d)"
    and "authorizeTunnel env t req h = (Inr (mc_name m, True, None), d)"
  using assms by (simp_all add: authorizeTunnel_def Authorize_def Let_def go_bind_def go_try_def go_return_def)

definition agent_machine :: "agent_env \<Rightarrow> mgmt_cluster \<Rightarrow> machine" where
  "agent_machine a cluster = registered_machine (the (ci_customConfig (agent_node a))) cluster (agent_node a)"

lemma agent_node_simps:
  "in_node (node_Params (ae_getenv a) (ae_docker a)) = Some (agent_node a)" "in_cluster (node_Params (ae_getenv a) (ae_docker a)) = None"
  "ci_dockerInfo (agent_node a) = ae_docker a" "ci_customConfig (agent_node a) \<noteq> None"
  "cc_address (the (ci_customConfig (agent_node a))) = ae_getenv a ''CATTLE_ADDRESS''"
  by (simp_all add: agent_node_def node_Params_def Let_def)

lemma agent_machine_simps:
  "nd_etcd (agent_machine a cluster) = ci_etcd (agent_node a)" "nd_controlPlane (agent_machine a cluster) = ci_controlPlane (agent_node a)"
  "nd_worker (agent_machine a cluster) = ci_worker (agent_node a)" "mc_dockerInfo (agent_machine a cluster) = None"
  "mc_name (agent_machine a cluster) = machineName (agent_node a)" "mc_namespace (agent_machine a cluster) = mcl_name cluster"
  "mc_nodeConfig (agent_machine a cluster) = None"
  by (simp_all add: agent_machine_def registered_machine_def machine0_def meta0_def)

lemma machine_unchanged: "m\<lparr>nd_etcd := nd_etcd m, nd_controlPlane := nd_controlPlane m, nd_worker := nd_worker m\<rparr> = (m :: machine)"
  and machine_docker_unchanged: "m\<lparr>mc_dockerInfo := mc_dockerInfo m\<rparr> = (m :: machine)"
  by simp_all

lemma update_machine_run: "accepting env \<Longrightarrow> update_machine env m new h = (Inr new, if m = new then [] else [(AuMachineUpdate new, None)])"
  by (simp add: update_machine_def accepting_def go_call_def go_bind_def go_return_def)

lemma updateDockerInfo_Some:
  "ci_dockerInfo inNode = Some i \<Longrightarrow> au_toDockerInfo t i = Inr i \<Longrightarrow> updateDockerInfo env t m inNode = update_machine env m (m\<lparr>mc_dockerInfo := Some i\<rparr>)"
  by (simp add: updateDockerInfo_def)

lemma authorizeNode_creates:
  assumes "getMachine t cluster (agent_node a) = Inl (Api NotFound)" and "au_toCustomConfig t (the (ci_customConfig (agent_node a))) = Inr (the (ci_customConfig (agent_node a)))"
    and "ae_getenv a ''CATTLE_ADDRESS'' \<noteq> []" and "\<And>i. au_toDockerInfo t i = Inr i" and "accepting env"
  shows "authorizeNode env t True cluster (agent_node a) h =
    (Inr ((agent_machine a cluster)\<lparr>mc_dockerInfo := ae_docker a\<rparr>), (AuMachineCreate (agent_machine a cluster), None) #
      (if ae_docker a = None then [] else [(AuMachineUpdate ((agent_machine a cluster)\<lparr>mc_dockerInfo := ae_docker a\<rparr>), None)]))"
proof -
  let ?m = "agent_machine a cluster"
  have call: "go_call env r h = (Inr (), [(r, None)])" for r h using assms(5) by (simp add: accepting_def go_call_def)
  obtain cc where "ci_customConfig (agent_node a) = Some cc" using agent_node_simps(4) by blast
  then have "toCustomConfig t (agent_node a) = Some (the (ci_customConfig (agent_node a)))"
    using assms(2) by (simp add: toCustomConfig_def)
  then have "tunnel_createNode env t (agent_node a) cluster = go_bind (go_call env (AuMachineCreate ?m)) (\<lambda>_. go_return ?m)"
    using assms(3) agent_node_simps(5) by (simp add: tunnel_createNode_def agent_machine_def Let_def)
  moreover have "tunnel_updateNode env ?m (agent_node a) = go_return ?m"
    using machine_unchanged [of ?m] by (simp add: tunnel_updateNode_def update_machine_def agent_machine_simps(1-3))
  moreover have "updateDockerInfo env t ?m (agent_node a) h = (Inr (?m\<lparr>mc_dockerInfo := ae_docker a\<rparr>),
      if ae_docker a = None then [] else [(AuMachineUpdate (?m\<lparr>mc_dockerInfo := ae_docker a\<rparr>), None)])" for h
  proof (cases "ae_docker a")
    case None
    then show ?thesis using machine_docker_unchanged [of ?m] agent_machine_simps(4) [of a cluster] agent_node_simps(3) [of a]
      by (simp add: updateDockerInfo_def go_return_def)
  next
    case (Some i)
    have "mc_dockerInfo (?m\<lparr>mc_dockerInfo := Some i\<rparr>) \<noteq> mc_dockerInfo ?m" by (simp add: agent_machine_simps)
    then have "?m \<noteq> ?m\<lparr>mc_dockerInfo := Some i\<rparr>" by metis
    then show ?thesis
      using Some updateDockerInfo_Some [of "agent_node a" i t env ?m] agent_node_simps(3) [of a] assms(4) update_machine_run [OF assms(5), of ?m]
      by simp
  qed
  ultimately show ?thesis using assms(1) by (simp add: authorizeNode_def go_bind_def call go_return_def)
qed

lemma agent_admitted:
  assumes "agent_request a = Inr req" and "\<not> isCluster a" and "\<not> isConnect a" and "ae_getenv a ''CATTLE_TOKEN'' \<noteq> []"
    and "ae_getenv a ''CATTLE_NODE_NAME'' \<noteq> []" and "ae_getenv a ''CATTLE_ADDRESS'' \<noteq> []"
    and "ae_marshal a (node_Params (ae_getenv a) (ae_docker a)) = Inr bytes" and "au_unmarshal t bytes = Inr (node_Params (ae_getenv a) (ae_docker a))"
    and "au_toCustomConfig t (the (ci_customConfig (agent_node a))) = Inr (the (ci_customConfig (agent_node a)))" and "\<forall>i. au_toDockerInfo t i = Inr i"
    and "getClusterByToken t (ae_getenv a ''CATTLE_TOKEN'') = Inr cluster" and "getMachine t cluster (agent_node a) = Inl (Api NotFound)"
    and "accepting env"
  shows "authorizeTunnel env t req h = (Inr (machineName (agent_node a), True, None), (AuMachineCreate (agent_machine a cluster), None) #
      (if ae_docker a = None then [] else [(AuMachineUpdate ((agent_machine a cluster)\<lparr>mc_dockerInfo := ae_docker a\<rparr>), None)]))"
    and "readInput t req = Inr (node_Params (ae_getenv a) (ae_docker a))"
proof -
  note req = agent_request_node [OF assms(1,2,4,7)]
  let ?m = "(agent_machine a cluster)\<lparr>mc_dockerInfo := ae_docker a\<rparr>" and ?n = "agent_node a"
  show input: "readInput t req = Inr (node_Params (ae_getenv a) (ae_docker a))" by (rule readInput_node [OF req(2) assms(8,5)])
  have run: "authorizeNode env t True cluster ?n h = (Inr ?m, (AuMachineCreate (agent_machine a cluster), None) #
      (if ae_docker a = None then [] else [(AuMachineUpdate ?m, None)]))"
    using authorizeNode_creates [OF assms(12,9,6) _ assms(13)] assms(10) by blast
  have "has_suffix (tr_path req) ''/register''" using req(3) assms(3) by (simp add: has_suffix_def suffix_def)
  then show "authorizeTunnel env t req h = (Inr (machineName ?n, True, None), (AuMachineCreate (agent_machine a cluster), None) #
      (if ae_docker a = None then [] else [(AuMachineUpdate ?m, None)]))"
    using Authorize_node(2) [OF req(1) assms(4,11) input agent_node_simps(1), of env h ?m] run agent_machine_simps(5) [of a cluster] by simp
qed

text \<open>
  C19. A node joins with its token, and comes back under the same name.  The agent of a node that the
  cluster does not know yet makes a machine with the roles, host name and labels of its environment,
  and is let in under the name of the machine; when the machine is in the cache and the agent connects
  again, it is let in under the same name and nothing is written.
\<close>

theorem agent_joins:
  assumes "agent_request a = Inr req" and "\<not> isCluster a" and "\<not> isConnect a" and "ae_getenv a ''CATTLE_TOKEN'' \<noteq> []"
    and "ae_getenv a ''CATTLE_NODE_NAME'' \<noteq> []" and "ae_getenv a ''CATTLE_ADDRESS'' \<noteq> []"
    and "ae_marshal a (node_Params (ae_getenv a) (ae_docker a)) = Inr bytes" and "au_unmarshal t bytes = Inr (node_Params (ae_getenv a) (ae_docker a))"
    and "au_toCustomConfig t (the (ci_customConfig (agent_node a))) = Inr (the (ci_customConfig (agent_node a)))" and "\<forall>i. au_toDockerInfo t i = Inr i"
    and "getClusterByToken t (ae_getenv a ''CATTLE_TOKEN'') = Inr cluster" and "getMachine t cluster (agent_node a) = Inl (Api NotFound)"
    and "accepting env"
  shows "(\<exists>d. authorizeTunnel env t req h = (Inr (machineName (agent_node a), True, None), d) \<and>
      map fst d = AuMachineCreate (agent_machine a cluster) #
        (if ae_docker a = None then [] else [AuMachineUpdate ((agent_machine a cluster)\<lparr>mc_dockerInfo := ae_docker a\<rparr>)])) \<and>
    agent_request (a\<lparr>ae_connectedFile := True\<rparr>) = Inr (req\<lparr>tr_path := ''/v3/connect''\<rparr>) \<and>
    authorizeTunnel env (t\<lparr>au_machines := (agent_machine a cluster)\<lparr>mc_dockerInfo := ae_docker a\<rparr> # au_machines t\<rparr>) (req\<lparr>tr_path := ''/v3/connect''\<rparr>) h'
      = (Inr (machineName (agent_node a), True, None), [])"
proof -
  note req = agent_request_node [OF assms(1,2,4,7)]
  let ?m = "(agent_machine a cluster)\<lparr>mc_dockerInfo := ae_docker a\<rparr>" and ?n = "agent_node a"
  let ?t = "t\<lparr>au_machines := ?m # au_machines t\<rparr>" and ?req = "req\<lparr>tr_path := ''/v3/connect''\<rparr>"
  have m: "mc_name ?m = machineName ?n" "mc_namespace ?m = mcl_name cluster" "mc_nodeConfig ?m = None" by (simp_all add: agent_machine_simps)
  have first: "authorizeTunnel env t req h = (Inr (machineName ?n, True, None), (AuMachineCreate (agent_machine a cluster), None) #
      (if ae_docker a = None then [] else [(AuMachineUpdate ?m, None)]))"
    using assms by (rule agent_admitted(1))
  have input': "readInput ?t ?req = Inr (node_Params (ae_getenv a) (ae_docker a))"
    using req(2) assms(8,5) by (intro readInput_node [of _ bytes]) simp_all
  have "updateDockerInfo env ?t ?m ?n h' = (Inr ?m, [])" for h'
    using assms(10) agent_node_simps(3) [of a] updateDockerInfo_Some [of ?n _ ?t env ?m] update_machine_run [OF assms(13), of ?m]
    by (cases "ae_docker a") (simp_all add: updateDockerInfo_def [of _ _ _ ?n] go_return_def)
  moreover have "getMachine ?t cluster ?n = Inr ?m" using m by (simp add: getMachine_def machine_get_def)
  ultimately have again: "authorizeNode env ?t False cluster ?n h' = (Inr ?m, [])"
    by (simp add: authorizeNode_def go_return_def go_bind_def)
  have "getClusterByToken ?t (ae_getenv a ''CATTLE_TOKEN'') = Inr cluster" using assms(11) by (simp add: getClusterByToken_def split: sum.splits list.splits)
  moreover have "\<not> has_suffix ''/v3/connect'' ''/register''" by code_simp
  ultimately have "authorizeTunnel env ?t ?req h' = (Inr (machineName ?n, True, None), [])"
    using Authorize_node(2) [of ?req "ae_getenv a ''CATTLE_TOKEN''" ?t cluster _ ?n env h' ?m "[]"] assms(4) again input' m(1) req(1) agent_node_simps(1)
    by simp
  with first req(4) show ?thesis by simp
qed

definition getenv_of :: "(string, string) gomap \<Rightarrow> string \<Rightarrow> string" where
  "getenv_of m k = (case map_of m k of Some v \<Rightarrow> v | None \<Rightarrow> [])"

definition wit_agent :: "string \<Rightarrow> agent_env" where
  "wit_agent token = \<lparr>ae_getenv = getenv_of [(''CATTLE_TOKEN'', token), (''CATTLE_SERVER'', ''https://rancher''), (''CATTLE_NODE_NAME'', ''node1''),
     (''CATTLE_ADDRESS'', ''10.0.0.1''), (''CATTLE_ROLE'', ''etcd,worker'')], ae_readFile = (\<lambda>_. Inl (Err ''no file'')), ae_config = Inl (Err ''not in a cluster''),
     ae_docker = Some \<lparr>di_operatingSystem = ''Linux'', di_fields = []\<rparr>, ae_marshal = (\<lambda>_. Inr ''{}''), ae_connectedFile = False\<rparr>"

definition wit_cluster :: "string \<Rightarrow> mgmt_cluster" where
  "wit_cluster name = \<lparr>cl_meta = meta0\<lparr>om_name := name\<rparr>, cl_conditions = [], cl_internal = False, cl_driver = [], cl_apiEndpoint = [],
     cl_serviceAccountToken = [], cl_caCert = [], cl_hasRKEConfig = False\<rparr>"

definition wit_authorizer :: authorizer where
  "wit_authorizer = \<lparr>au_crts = [\<lparr>crt_clusterName = ''c-a'', crt_token = ''tokenA''\<rparr>, \<lparr>crt_clusterName = ''c-b'', crt_token = ''tokenB''\<rparr>],
     au_clusters = [wit_cluster ''c-a'', wit_cluster ''c-b''], au_machines = [],
     au_unmarshal = (\<lambda>_. Inr (node_Params (ae_getenv (wit_agent ''tokenA'')) (ae_docker (wit_agent ''tokenA'')))), au_toCustomConfig = Inr, au_toDockerInfo = Inr\<rparr>"

lemma wit_node_Params: "node_Params (ae_getenv (wit_agent token)) (ae_docker (wit_agent token)) = node_Params (ae_getenv (wit_agent ''tokenA'')) (ae_docker (wit_agent ''tokenA''))"
  by (simp add: node_Params_def wit_agent_def getenv_of_def)

definition wit_request :: "string \<Rightarrow> tunnel_request" where
  "wit_request token = \<lparr>tr_header = [(Tunnel_Token, [token]), (Tunnel_Params, [std_EncodeToString ''{}''])], tr_path = ''/v3/connect/register'', tr_host = ''rancher''\<rparr>"

lemma wit_agent_request: "token \<noteq> [] \<Longrightarrow> agent_request (wit_agent token) = Inr (wit_request token)"
proof -
  have "url_Host ''https://rancher'' = Some ''rancher''" by code_simp
  then show "token \<noteq> [] \<Longrightarrow> agent_request (wit_agent token) = Inr (wit_request token)"
    by (simp add: agent_request_def agent_headers_def getParams_def isCluster_def getTokenAndURL_def node_TokenAndURL_def isConnect_def wit_agent_def getenv_of_def wit_request_def)
qed

lemma wit_agent_facts:
  assumes "token = ''tokenA'' \<and> name = ''c-a'' \<or> token = ''tokenB'' \<and> name = ''c-b''"
  shows "\<not> isCluster (wit_agent token)" "\<not> isConnect (wit_agent token)" "ae_getenv (wit_agent token) ''CATTLE_TOKEN'' = token" "token \<noteq> []"
    "ae_getenv (wit_agent token) ''CATTLE_NODE_NAME'' \<noteq> []" "ae_getenv (wit_agent token) ''CATTLE_ADDRESS'' \<noteq> []"
    "ae_marshal (wit_agent token) p = Inr ''{}''" "getClusterByToken wit_authorizer token = Inr (wit_cluster name)"
    "getMachine wit_authorizer (wit_cluster name) n = Inl (Api NotFound)"
    "au_unmarshal wit_authorizer ''{}'' = Inr (node_Params (ae_getenv (wit_agent token)) (ae_docker (wit_agent token)))"
    "au_toCustomConfig wit_authorizer cc = Inr cc" "\<forall>i. au_toDockerInfo wit_authorizer i = Inr i"
  using assms wit_node_Params [of token]
  by (auto simp: isCluster_def isConnect_def wit_agent_def getenv_of_def wit_authorizer_def wit_cluster_def getClusterByToken_def getMachine_def
      machine_get_def by_index_def crtIndex_def lister_get_def)

theorem agent_joins_witness:
  "\<exists>d. authorizeTunnel accept_all wit_authorizer (wit_request ''tokenA'') [] = (Inr (machineName (agent_node (wit_agent ''tokenA'')), True, None), d) \<and> length d = 2"
proof -
  note f = wit_agent_facts [of "''tokenA''" "''c-a''", simplified]
  show ?thesis
    using agent_joins [of "wit_agent ''tokenA''" "wit_request ''tokenA''" "''{}''" wit_authorizer "wit_cluster ''c-a''" accept_all "[]" "[]",
        OF wit_agent_request f(1,2) _ f(5,6) f(7) f(10) f(11) _ _ f(9)] f(3,4,8,12)
    by (auto simp: wit_agent_def dest: arg_cong [of _ _ length])
qed

theorem Authorize_confined_witness:
  "\<exists>c cs d. Authorize accept_all wit_authorizer (wit_request ''tokenA'') [] = (Inr ((Some c, True, None), cs), d) \<and> mcl_name (tc_cluster c) = ''c-a'' \<and>
    list_all (\<lambda>(q, _). about_cluster ''c-a'' q) d"
proof -
  note f = wit_agent_facts [of "''tokenA''" "''c-a''", simplified]
  let ?a = "wit_agent ''tokenA''" and ?req = "wit_request ''tokenA''"
  have req: "agent_request ?a = Inr ?req" by (rule wit_agent_request) simp
  note r = agent_request_node [OF req f(1) _ f(7)]
  have "readInput wit_authorizer ?req = Inr (node_Params (ae_getenv ?a) (ae_docker ?a))" using readInput_node [OF r(2) f(10) f(5)] f(3,4) by simp
  moreover obtain m d where "authorizeNode accept_all wit_authorizer True (wit_cluster ''c-a'') (agent_node ?a) [] = (Inr m, d)"
    using authorizeNode_creates [OF f(9) f(11) f(6), of accept_all "[]"] f(12) by auto
  moreover have "has_suffix (tr_path ?req) ''/register''" using r(3) f(2,3,4) by (simp add: has_suffix_def suffix_def)
  ultimately obtain c where run: "Authorize accept_all wit_authorizer ?req [] = (Inr ((Some c, True, None), au_clusters wit_authorizer), d)"
    using Authorize_node(1) [of ?req "''tokenA''" wit_authorizer "wit_cluster ''c-a''" _ "agent_node ?a" accept_all "[]" m d] r(1) f(3,4,8) agent_node_simps(1) [of ?a] by simp
  have "list_all (\<lambda>m. no_slash (mc_namespace m)) (au_machines wit_authorizer)" "list_all (\<lambda>c. no_slash (mcl_name c)) (au_clusters wit_authorizer)"
    by (simp_all add: wit_authorizer_def wit_cluster_def no_slash_def)
  then show ?thesis using Authorize_confined [OF _ _ run, of c] r(1) f(3,4) run by (fastforce simp: wit_authorizer_def)
qed

end
