(* ===== verification/Tunnel_Dialing.thy ===== *)
theory Tunnel_Dialing
  imports Tunnel_Access
begin

text \<open>
  Through whose session the server dials, what happens when the server refuses what an agent of a
  cluster reports, and what the agents of nodes are told to run.
\<close>

section \<open>Dialing clusters\<close>

lemma get_machine_Inr: "get_machine f ns n = Inr m \<Longrightarrow> m \<in> set (list_machines f ns) \<and> mc_name m = n"
  by (auto simp: get_machine_def lister_get_def find_Some_iff split: option.splits)

lemma nodeDialer_Inr: "nodeDialer f ns n = Inr d \<Longrightarrow> d = server_Dialer n \<and> has_session f n \<and> (\<exists>m \<in> set (list_machines f ns). mc_name m = n)"
  by (auto simp: nodeDialer_def dest!: get_machine_Inr split: sum.splits if_splits)

lemma first_node_dialer_Some:
  "first_node_dialer f ns ms = Some d \<Longrightarrow> set ms \<subseteq> set (list_machines f ns) \<Longrightarrow>
     \<exists>m \<in> set (list_machines f ns). \<not> om_deleting (nd_meta m) \<and> condIsTrue ''Provisioned'' (nd_conditions m) \<and> has_session f (mc_name m) \<and> d = server_Dialer (mc_name m)"
  by (induction ms) (auto dest!: nodeDialer_Inr split: if_splits sum.splits)

definition host_choice :: "bool \<Rightarrow> string \<Rightarrow> machine \<Rightarrow> bool" where
  "host_choice clusterGood host m \<longleftrightarrow> nodeGood m \<and> privateIP m \<noteq> [] \<and> (if publicIP m = host then clusterGood else is_control m)"

lemma good_host_from:
  "good_host cg host ms l = l \<or> (\<exists>m \<in> set ms. good_host cg host ms l = privateIP m \<and> host_choice cg host m)"
proof (induction ms arbitrary: l)
  case (Cons m ms)
  consider (keep) "good_host cg host (m # ms) l = good_host cg host ms l"
    | (stop) "good_host cg host (m # ms) l = privateIP m" "host_choice cg host m"
    | (new) "good_host cg host (m # ms) l = good_host cg host ms (privateIP m)" "host_choice cg host m"
    by (cases "privateIP m = []"; cases "nodeGood m"; cases "publicIP m = host"; cases cg; cases "is_control m") (auto simp: host_choice_def)
  then show ?case
  proof cases
    case keep
    then show ?thesis using Cons.IH [of l] by auto
  next
    case stop
    then show ?thesis by auto
  next
    case new
    then show ?thesis using Cons.IH [of "privateIP m"] by auto
  qed
qed simp

lemma translateClusterAddress_cases:
  "translateClusterAddress f cluster hp address = address \<or>
   address = hp \<and> (\<exists>m \<in> set (list_machines f (mcl_name cluster)). \<exists>host port. SplitHostPort address = Some (host, port) \<and>
     translateClusterAddress f cluster hp address = privateIP m @ '':'' @ port \<and> host_choice (condIsTrue ''Ready'' (cl_conditions cluster)) host m)"
proof (cases "translateClusterAddress f cluster hp address = address")
  case False
  then obtain host port where hp: "hp = address" "SplitHostPort address = Some (host, port)"
      "good_host (condIsTrue ''Ready'' (cl_conditions cluster)) host (list_machines f (mcl_name cluster)) [] \<noteq> []"
    by (auto simp: translateClusterAddress_def Let_def split: if_splits option.splits)
  then obtain m where "m \<in> set (list_machines f (mcl_name cluster))" "host_choice (condIsTrue ''Ready'' (cl_conditions cluster)) host m"
      "good_host (condIsTrue ''Ready'' (cl_conditions cluster)) host (list_machines f (mcl_name cluster)) [] = privateIP m"
    using good_host_from by blast
  with hp show ?thesis by (auto simp: translateClusterAddress_def Let_def)
qed simp


definition wit_server :: tunnel_server where
  "wit_server = newSessionManager 0"

definition wit_factory :: "tunnel_server \<Rightarrow> dialer_factory" where
  "wit_factory sv = \<lparr>df_clusters = [wit_cluster ''c-a'', wit_cluster ''c-b''], df_machines = [agent_machine (wit_agent ''tokenA'') (wit_cluster ''c-a'')],
     df_server = sv, df_preferredAddress = (\<lambda>_. []), df_tlsAddress = (\<lambda>_. Inl (Err ''no configuration''))\<rparr>"


section \<open>Names of sessions\<close>

lemma machineName_cong: "ci_requestedHostname a = ci_requestedHostname b \<Longrightarrow> machineName a = machineName b"
  by (simp add: machineName_def)

lemma getByClient_new: "\<not> HasSession key sv \<Longrightarrow> getByClient key (snd (sm_add key k sv)) = Inr (fst (sm_add key k sv))"
  by (auto simp: HasSession_def getByClient_def sm_add_def client_sessions_def Let_def split: option.splits list.splits)

lemma authorizeTunnel_new_key:
  assumes "authorizeTunnel env t req h = (Inr (key, True, None), d)" and "hdr_get (tr_header req) Tunnel_Token \<noteq> []"
    and "getClusterByToken t (hdr_get (tr_header req) Tunnel_Token) = Inr cluster" and "readInput t req = Inr input" and "in_node input = Some inNode"
    and "getMachine t cluster inNode = Inl (Api NotFound)"
  shows "key = machineName inNode"
proof -
  let ?reg = "has_suffix (tr_path req) ''/register''"
  obtain m where m: "authorizeNode env t ?reg cluster inNode h = (Inr m, d)" "key = mc_name m"
    using assms by (cases "authorizeNode env t ?reg cluster inNode h")
      (auto simp: authorizeTunnel_def Authorize_def Let_def go_bind_def go_try_def go_return_def split: sum.splits if_splits)
  then obtain x h1 y d2 h2 d3 d1 where steps: "(if ?reg then tunnel_createNode env t inNode cluster else go_fail (Api NotFound)) h = (Inr x, d1)"
      "(if ?reg then tunnel_updateNode env x inNode else go_return x) h1 = (Inr y, d2)" "updateDockerInfo env t y inNode h2 = (Inr m, d3)"
    using assms(6) unfolding authorizeNode_def by (auto elim!: go_bind_InrE)
  have "mc_name x = machineName inNode"
    using steps(1) by (auto simp: tunnel_createNode_def registered_machine_def go_bind_def go_return_def go_fail_def Let_def
        split: if_splits option.splits prod.splits sum.splits)
  moreover have "mc_name y = mc_name x"
    using steps(2) by (auto simp: tunnel_updateNode_def go_return_def dest!: update_machine_result split: if_splits)
  moreover have "mc_name m = mc_name y"
    using steps(3) by (cases "ci_dockerInfo inNode"; cases "au_toDockerInfo t (the (ci_dockerInfo inNode))")
      (auto simp: updateDockerInfo_def go_return_def go_fail_def dest!: update_machine_result)
  ultimately show ?thesis using m(2) by simp
qed

text \<open>
  C38. The name of a node's session says nothing of its cluster.  When a node joins a cluster under a
  host name that a machine of another cluster was registered with, and no agent with that name is
  connected, then the dialers of that other machine use the session of the node that joined.
\<close>

theorem session_shared_across_clusters:
  assumes "authorizeTunnel env t req h = (Inr (key, True, None), d)" and "hdr_get (tr_header req) Tunnel_Token \<noteq> []"
    and "getClusterByToken t (hdr_get (tr_header req) Tunnel_Token) = Inr cluster" and "readInput t req = Inr input" and "in_node input = Some inNode"
    and "getMachine t cluster inNode = Inl (Api NotFound)"
    and "ci_requestedHostname other = ci_requestedHostname inNode" and "get_machine f otherCluster (machineName other) = Inr machine"
    and "\<not> HasSession (str_bytes key) sv" and "df_server f = snd (sm_add (str_bytes key) k sv)"
  shows "mc_namespace machine = otherCluster \<and> mc_name machine = key \<and>
    NodeDialer f otherCluster (mc_name machine) network address = DialTunnel key network address \<and>
    DockerDialer f otherCluster (mc_name machine) = Inr (\<lambda>_ _. DialTunnel key ''unix'' ''/var/run/docker.sock'') \<and>
    getByClient (str_bytes key) (df_server f) = Inr (fst (sm_add (str_bytes key) k sv))"
proof -
  have key: "key = machineName other" using authorizeTunnel_new_key [OF assms(1-6)] machineName_cong [OF assms(7)] by simp
  have m: "mc_namespace machine = otherCluster" "mc_name machine = key"
    using get_machine_Inr [OF assms(8)] key by (auto simp: list_machines_def)
  have "has_session f key" using assms(10) by (simp add: has_session_def HasSession_add)
  then show ?thesis using m assms(8,10) key getByClient_new [OF assms(9)]
    by (auto simp: NodeDialer_def nodeDialer_def DockerDialer_def server_Dialer_def)
qed

theorem session_shared_across_clusters_witness:
  "\<exists>key d. authorizeTunnel accept_all wit_authorizer (wit_request ''tokenB'') [] = (Inr (key, True, None), d) \<and>
    NodeDialer (wit_factory (snd (sm_add (str_bytes key) 1 wit_server))) ''c-a'' key ''tcp'' ''127.0.0.1:10250'' = DialTunnel key ''tcp'' ''127.0.0.1:10250''"
proof -
  note f = wit_agent_facts [OF disjI2 [OF conjI [OF refl refl]]]
  let ?a = "wit_agent ''tokenB''" and ?req = "wit_request ''tokenB''" and ?n = "agent_node (wit_agent ''tokenB'')"
  have req: "agent_request ?a = Inr ?req" by (rule wit_agent_request) simp
  note run1 = agent_admitted(1) [OF req f(1,2) _ f(5,6) f(7) f(10) f(11) f(12) _ f(9) accept_all_simps(4), of "[]", unfolded f(3), OF f(4) f(8)]
  note run2 = agent_admitted(2) [OF req f(1,2) _ f(5,6) f(7) f(10) f(11) f(12) _ f(9) accept_all_simps(4), unfolded f(3), OF f(4) f(8)]
  have token: "hdr_get (tr_header ?req) Tunnel_Token = ''tokenB''" using agent_request_node(1) [OF req f(1) _ f(7)] f(3,4) by simp
  let ?key = "machineName ?n"
  let ?f = "wit_factory (snd (sm_add (str_bytes ?key) 1 wit_server))"
  have same: "agent_node (wit_agent ''tokenA'') = ?n" using wit_node_Params [of "''tokenB''"] by (simp add: agent_node_def)
  have "get_machine ?f ''c-a'' ?key = Inr (agent_machine (wit_agent ''tokenA'') (wit_cluster ''c-a''))"
    using agent_machine_simps [of "wit_agent ''tokenA''" "wit_cluster ''c-a''"] same
    by (simp add: get_machine_def list_machines_def wit_factory_def lister_get_def) (simp add: wit_cluster_def)
  moreover have "\<not> HasSession (str_bytes ?key) wit_server" by (simp add: HasSession_def getByClient_def client_sessions_def wit_server_def newSessionManager_def)
  ultimately show ?thesis
    using session_shared_across_clusters [of accept_all wit_authorizer ?req "[]" ?key _ "wit_cluster ''c-b''" _ ?n ?n ?f "''c-a''" _ wit_server 1 "''tcp''" "''127.0.0.1:10250''",
        OF run1 _ _ run2 agent_node_simps(1) f(9)] token f(4,8) run1
    by (auto simp: wit_factory_def)
qed

section \<open>What an agent of a cluster reports\<close>

lemma connected_cluster_twice: "connected_cluster (connected_cluster c i) i = connected_cluster c i"
  by (simp add: connected_cluster_def)

lemma lister_get_replace:
  assumes "lister_get mcl_name cs n = Inr c" and "mcl_name new = n"
  shows "lister_get mcl_name (replace_cluster new cs) n = Inr new"
  using assms by (induction cs) (auto simp: lister_get_def replace_cluster_def split: if_splits)

lemma getClusterByToken_replace:
  assumes "getClusterByToken t token = Inr c" and "mcl_name new = mcl_name c"
  shows "getClusterByToken (t\<lparr>au_clusters := replace_cluster new (au_clusters t)\<rparr>) token = Inr new"
proof -
  obtain crt crts where crt: "by_index [(crtKeyIndex, crtIndex)] (au_crts t) crtKeyIndex token = Inr (crt # crts)"
      "lister_get mcl_name (au_clusters t) (crt_clusterName crt) = Inr c"
    using assms(1) by (auto simp: getClusterByToken_def split: sum.splits list.splits)
  moreover have "mcl_name c = crt_clusterName crt" using crt(2) by (auto simp: lister_get_def find_Some_iff split: option.splits)
  ultimately show ?thesis using lister_get_replace [OF crt(2)] assms(2) by (simp add: getClusterByToken_def)
qed

lemma Authorize_cluster:
  assumes "hdr_get (tr_header req) Tunnel_Token \<noteq> []" and "getClusterByToken t (hdr_get (tr_header req) Tunnel_Token) = Inr cluster"
    and "readInput t req = Inr input" and "in_node input = None" and "in_cluster input = Some inCluster"
  shows "Authorize env t req = go_bind (authorizeCluster env cluster inCluster) (\<lambda>(new, err).
    go_return ((Some \<lparr>tc_cluster = new, tc_node = None, tc_token = hdr_get (tr_header req) Tunnel_Token, tc_server = tr_host req\<rparr>, True, err),
      replace_cluster new (au_clusters t)))"
  using assms by (simp add: Authorize_def Let_def)

text \<open>
  C39. What an imported cluster reports is lost when the server refuses it once.  The agent is turned
  away with the error, but the cluster in the cache has the address, the token and the certificate
  already; when the agent comes back it is let in, and nothing is sent to the server any more.
\<close>

theorem refused_cluster_update_lost:
  assumes "hdr_get (tr_header req) Tunnel_Token \<noteq> []" and "getClusterByToken t (hdr_get (tr_header req) Tunnel_Token) = Inr cluster"
    and "readInput t req = Inr input" and "in_node input = None" and "in_cluster input = Some inCluster"
    and "connected_cluster cluster inCluster \<noteq> cluster"
    and "env_api env h (AuClusterUpdate (connected_cluster cluster inCluster)) = Some e"
  shows "\<exists>client cs. Authorize env t req h = (Inr ((Some client, True, Some (Api e)), cs), [(AuClusterUpdate (connected_cluster cluster inCluster), Some e)]) \<and>
    (\<exists>client'. Authorize env (t\<lparr>au_clusters := cs\<rparr>) req h' = (Inr ((Some client', True, None), cs), []) \<and>
      cl_serviceAccountToken (tc_cluster client') = in_token inCluster)"
proof -
  let ?new = "connected_cluster cluster inCluster" and ?token = "hdr_get (tr_header req) Tunnel_Token"
  let ?cs = "replace_cluster ?new (au_clusters t)"
  let ?t = "t\<lparr>au_clusters := ?cs\<rparr>"
  have name: "mcl_name ?new = mcl_name cluster" by (simp add: connected_cluster_def)
  have again: "getClusterByToken ?t ?token = Inr ?new" by (rule getClusterByToken_replace [OF assms(2) name])
  have input: "readInput ?t req = Inr input" using assms(3) by (simp add: readInput_def split: option.splits)
  have "replace_cluster ?new ?cs = ?cs" by (simp add: replace_cluster_def)
  moreover have "authorizeCluster env ?new inCluster = go_return (?new, None)" by (simp add: authorizeCluster_def connected_cluster_twice)
  moreover have "cl_serviceAccountToken ?new = in_token inCluster" using assms(6) by (auto simp: connected_cluster_def split: if_splits)
  ultimately have second: "\<exists>client'. Authorize env ?t req h' = (Inr ((Some client', True, None), ?cs), []) \<and>
      cl_serviceAccountToken (tc_cluster client') = in_token inCluster"
    using Authorize_cluster [OF assms(1) again input assms(4,5), of env] by (simp add: go_bind_def go_return_def)
  have "authorizeCluster env cluster inCluster h = (Inr (?new, Some (Api e)), [(AuClusterUpdate ?new, Some e)])"
    using assms(6,7) by (simp add: authorizeCluster_def Let_def go_try_call go_bind_def go_return_def)
  then show ?thesis using second Authorize_cluster [OF assms(1-5), of env] by (simp add: go_bind_def go_return_def)
qed

definition wit_cluster_input :: tunnel_input where
  "wit_cluster_input = \<lparr>in_node = None, in_cluster = Some \<lparr>in_address = ''10.43.0.1:443'', in_token = ''secret'', in_caCert = ''ca''\<rparr>\<rparr>"

theorem refused_cluster_update_lost_witness:
  "\<exists>client cs. Authorize \<lparr>env_api = (\<lambda>_ _. Some Conflict), env_rng = id\<rparr> (wit_authorizer\<lparr>au_unmarshal := \<lambda>_. Inr wit_cluster_input\<rparr>) (wit_request ''tokenA'') []
      = (Inr ((Some client, True, Some (Api Conflict)), cs), [(AuClusterUpdate (connected_cluster (wit_cluster ''c-a'') (the (in_cluster wit_cluster_input))), Some Conflict)])"
proof -
  let ?t = "wit_authorizer\<lparr>au_unmarshal := \<lambda>_. Inr wit_cluster_input\<rparr>" and ?req = "wit_request ''tokenA''" and ?i = "the (in_cluster wit_cluster_input)"
  let ?env = "\<lparr>env_api = (\<lambda>_ _. Some Conflict), env_rng = id\<rparr> :: authreq env"
  have token: "hdr_get (tr_header ?req) Tunnel_Token = ''tokenA''" "hdr_get (tr_header ?req) Tunnel_Params = std_EncodeToString ''{}''"
    by (simp_all add: wit_request_def hdr_get_def hdr_values_def Tunnel_Token_def Tunnel_Params_def)
  have "getClusterByToken wit_authorizer ''tokenA'' = Inr (wit_cluster ''c-a'')" by (rule wit_agent_facts(8)) simp
  then have cl: "getClusterByToken ?t (hdr_get (tr_header ?req) Tunnel_Token) = Inr (wit_cluster ''c-a'')"
    using token(1) by (simp add: getClusterByToken_def split: sum.splits list.splits)
  have input: "readInput ?t ?req = Inr wit_cluster_input" using token(2) by (simp add: readInput_def wit_cluster_input_def)
  have "connected_cluster (wit_cluster ''c-a'') ?i \<noteq> wit_cluster ''c-a''" by (simp add: connected_cluster_def wit_cluster_def importedDriver_def)
  then show ?thesis
    using refused_cluster_update_lost [OF _ cl input, of ?i ?env "[]" Conflict "[]"] token(1) by (auto simp: wit_cluster_input_def)
qed

section \<open>What an agent of a node is told to run\<close>

lemma augmentProcesses_keys:
  "fst ` set (augmentProcesses rng img ps worker b2d) \<subseteq> (if worker then insert ''share-mnt'' (fst ` set ps) - {''etcd''} else {''share-mnt''})"
proof -
  have keys: "fst ` set (map (\<lambda>(name, p). (name, p\<lparr>ps_binds := map kubernetes_bind (ps_binds p)\<rparr>)) xs) = fst ` set xs" for xs :: processes
    by force
  show ?thesis
    unfolding augmentProcesses_def Let_def keys
    by (auto simp: delete_keys update_keys split: option.splits)
qed

lemma augmentProcesses_roles:
  "x \<in> set (augmentProcesses rng img ps False b2d) \<Longrightarrow> fst x = ''share-mnt''" "x \<in> set (augmentProcesses rng img ps True b2d) \<Longrightarrow> fst x \<noteq> ''etcd''"
  using augmentProcesses_keys [of rng img ps False b2d] augmentProcesses_keys [of rng img ps True b2d] by auto

lemma Authorize_cluster_of_token:
  assumes "Authorize env t req h = (Inr ((Some c, ok, err), cs), d)"
  shows "\<exists>crt \<in> set (au_crts t). crt_token crt = hdr_get (tr_header req) Tunnel_Token \<and> mcl_name (tc_cluster c) = crt_clusterName crt"
proof -
  let ?token = "hdr_get (tr_header req) Tunnel_Token"
  obtain cluster where cluster: "getClusterByToken t ?token = Inr cluster" "mcl_name (tc_cluster c) = mcl_name cluster"
  proof (atomize_elim, cases "getClusterByToken t ?token")
    case (Inr cluster)
    have "mcl_name (tc_cluster c) = mcl_name cluster"
      using assms Inr
      by (auto simp: Authorize_def authorizeCluster_def connected_cluster_def Let_def go_bind_def go_return_def go_try_call
          split: if_splits sum.splits option.splits prod.splits)
    with Inr show "\<exists>cluster. getClusterByToken t ?token = Inr cluster \<and> mcl_name (tc_cluster c) = mcl_name cluster" by blast
  qed (use assms in \<open>auto simp: Authorize_def Let_def go_return_def split: if_splits\<close>)
  then obtain crt crts where "by_index [(crtKeyIndex, crtIndex)] (au_crts t) crtKeyIndex ?token = Inr (crt # crts)"
      "lister_get mcl_name (au_clusters t) (crt_clusterName crt) = Inr cluster"
    by (auto simp: getClusterByToken_def split: sum.splits list.splits)
  moreover from this(1) have "crt \<in> set (filter (\<lambda>x. ?token \<in> set (crtIndex x)) (au_crts t))" by (simp add: by_index_def)
  ultimately show ?thesis using cluster(2) by (auto simp: crtIndex_def lister_get_def find_Some_iff split: option.splits)
qed

definition config_for :: "mgmt_cluster \<Rightarrow> rke_node \<Rightarrow> node_config \<Rightarrow> bool" where
  "config_for cluster nc config \<longleftrightarrow> nc_clusterName config = mcl_name cluster \<and>
     (if isNonWorkerOnly (rn_role nc) then nc_certs config = [] \<and> nc_files config = [] \<and> fst ` set (nc_processes config) \<subseteq> {''share-mnt''}
      else cl_hasRKEConfig cluster \<and> ''etcd'' \<notin> fst ` set (nc_processes config))"

lemma config_answer_OK:
  assumes "config_answer s auth = NcOK config"
  shows "\<exists>c node nc. auth = (Some c, True, None) \<and> tc_node c = Some node \<and> mc_nodeConfig node = Some nc \<and> cl_driver (tc_cluster c) = ClusterDriverRKE \<and>
    config_for (tc_cluster c) nc config"
proof -
  obtain client ok err where auth: "auth = (client, ok, err)" by (cases auth)
  with assms obtain c node nc where c: "client = Some c" "ok" "err = None" "tc_node c = Some node" "mc_nodeConfig node = Some nc" "cl_driver (tc_cluster c) = ClusterDriverRKE"
      "isNonWorkerOnly (rn_role nc) \<or> cl_hasRKEConfig (tc_cluster c)"
      "(if isNonWorkerOnly (rn_role nc) then nonWorkerConfig s (tc_cluster c) node nc else nodeConfig s (tc_cluster c) node nc) = Inr config"
    by (auto simp: config_answer_def split: if_splits option.splits sum.splits)
  have "config_for (tc_cluster c) nc config"
  proof (cases "isNonWorkerOnly (rn_role nc)")
    case True
    then show ?thesis using c(8)
      by (auto simp: config_for_def nonWorkerConfig_def node_config0_def dest!: augmentProcesses_roles split: sum.splits option.splits)
  next
    case False
    then show ?thesis using c(7,8)
      by (auto simp: config_for_def nodeConfig_def dest!: augmentProcesses_roles split: sum.splits option.splits)
  qed
  then show ?thesis using c auth by auto
qed


definition wit_node :: client_node where
  "wit_node = \<lparr>ci_etcd = True, ci_controlPlane = False, ci_worker = True, ci_requestedHostname = ''node1'', ci_labels = None, ci_customConfig = None, ci_dockerInfo = None\<rparr>"

definition wit_machine :: machine where
  "wit_machine = machine0\<lparr>nd_meta := meta0\<lparr>om_name := machineName wit_node, om_namespace := ''c-a''\<rparr>,
     mc_nodeConfig := Some \<lparr>rn_address = ''10.0.0.1'', rn_internalAddress = [], rn_role = [''etcd'', ''worker''], rn_hostnameOverride = []\<rparr>\<rparr>"

definition wit_rke :: mgmt_cluster where
  "wit_rke = (wit_cluster ''c-a'')\<lparr>cl_driver := ClusterDriverRKE\<rparr>"

definition wit_rke_authorizer :: authorizer where
  "wit_rke_authorizer = wit_authorizer\<lparr>au_clusters := [wit_rke], au_machines := [wit_machine], au_unmarshal := \<lambda>_. Inr \<lparr>in_node = Some wit_node, in_cluster = None\<rparr>\<rparr>"

definition wit_config_server :: node_config_server where
  "wit_config_server = \<lparr>cs_plan = (\<lambda>_ _ _. Inr [\<lparr>pn_address = ''10.0.0.1'', pn_processes = [], pn_files = []\<rparr>]), cs_certs = (\<lambda>_ _. Inr ''certs''),
     cs_dockerInfo = Inr, cs_agentImage = ''agent'', cs_rng = (\<lambda>ks. ks)\<rparr>"


end
