(* ===== verification/Spec2Isabelle.thy ===== *)
theory Spec2Isabelle
  imports Rbac_Permissions User_Namespaces Mgmt_Membership Mgmt_Setup Tunnel_Server Auth_Props Default_Roles Role_Reconcile
    Node_Pool_Props User_Manager_Props Project_Secret_Props Node_Syncer_Props Tunnel_Dialing
begin

text \<open>
  Rancher: verification of its access control and tunnelling core.
\<close>

section \<open>From the filter to access control\<close>

text \<open>Whom access control takes a request to come from: the headers that the authentication filter has set.\<close>

definition request_context :: "http_request \<Rightarrow> api_context" where
  "request_context req = \<lparr>impersonate_user = hdr_get (rq_header req) ''Impersonate-User'',
     impersonate_group = hdr_values (rq_header req) ''Impersonate-Group''\<rparr>"

lemma request_context_filter:
  assumes "authHeaderHandler_ServeHTTP s req = Inr req'" and "TokenFromRequest s req = Inr t"
  shows "request_context req' = \<lparr>impersonate_user = tk_userID t, impersonate_group = token_groups t\<rparr>"
proof -
  obtain t' where "TokenFromRequest s req = Inr t'" "hdr_values (rq_header req') ''Impersonate-User'' = [tk_userID t']"
      "hdr_values (rq_header req') ''Impersonate-Group'' = token_groups t'"
    using assms(1) by (rule authHeaderHandler_Inr)
  with assms(2) show ?thesis by (simp add: request_context_def hdr_get_def)
qed

lemma CanDo_allowed:
  assumes "covers lp obj" and "grants c ''User'' (impersonate_user ctx) apiGroup resource verb lp"
  shows "CanDo (NewListPermissionStore c) apiGroup resource verb ctx obj schemaID = Inr ()"
  using assms unfolding CanDo_def Let_def canAccess_iff rs.set_getPermissions by auto

lemma CanDo_granted:
  assumes "CanDo (NewListPermissionStore c) apiGroup resource verb ctx obj schemaID = Inr ()"
  obtains lp where "grants c ''User'' (impersonate_user ctx) apiGroup resource verb lp \<or>
    (\<exists>g \<in> set (impersonate_group ctx). grants c ''Group'' g apiGroup resource verb lp)"
  using assms unfolding CanDo_def Let_def canAccess_iff rs.set_getPermissions by (auto split: if_splits)

lemma granted_by_some_binding:
  assumes "grants c ''User'' (impersonate_user ctx) ag res verb lp \<or>
      (\<exists>g \<in> set (impersonate_group ctx). grants c ''Group'' g ag res verb lp)"
  shows "(\<exists>b \<in> set (cache_rbs c). principal_bound ctx b \<and>
      (\<exists>r \<in> set (role_rules_of c (om_namespace (rb_meta b)) (rb_roleRef b)). rule_grants (om_namespace (rb_meta b)) ag res verb r lp)) \<or>
    (\<exists>b \<in> set (cache_crbs c). principal_bound ctx b \<and> (\<exists>r \<in> set (role_rules_of c ''*'' (rb_roleRef b)). rule_grants ''*'' ag res verb r lp))"
  using assms unfolding grants_def principal_bound_def list_ex_iff by blast


section \<open>Bootstrapping\<close>

lemma reconcile_creates:
  assumes "role_kind nm build cmp labelled agrees" and "accepting env" and "valid_rng (env_rng env)" and "distinct (map rbd_name rbs)"
  obtains rs d where "reconcile env req build (gather_existing nm msg (Inr [])) cmp rbs h = (Inr (), d)" and "map fst d = map req rs"
    and "set rs = (\<lambda>rb. RoleCreate (snd (build rb))) ` set rbs" and "length rs = length rbs"
proof -
  let ?rs = "reconcile_plan (env_rng env) cmp [] (built_roles build rbs)"
  have "gather_existing nm msg (Inr []) = Inr []" by (simp add: gather_existing_def)
  moreover obtain d where "reconcile env req build (Inr []) cmp rbs h = (Inr (), d)" "map fst d = map req ?rs"
    using succeeds_plan [OF reconcile_succeeds [OF assms(2)] reconcile_follows_plan [OF assms(3)], of req build "[]" cmp rbs h] by auto
  ultimately show thesis using that [of d ?rs] role_kind.creates_all [OF assms(1,4,3)] by simp
qed

text \<open>
  C26. A first start on an empty server that accepts requests sets the installation up: it creates
  exactly the default global roles and the default role templates, each once, then the first
  administrator, who must change the password, and binds that user to the global role
  \<open>admin\<close>; it answers with the name of the user.
\<close>

theorem addRoles_bootstraps:
  assumes "accepting env" and "valid_rng (env_rng env)" and "boot_globalRoles b = Inr []" and "boot_roleTemplates b = Inr []"
    and "boot_admins b = Inr []" and "boot_bindings b = Inr []"
  shows "\<exists>d grs rts. addRoles env b h = (Inr (boot_newName b), d) \<and>
    map fst d = map BootGR grs @ map BootRT rts @ [BootUser (default_admin (boot_hash b)), BootGRB (admin_binding (boot_newName b))] \<and>
    set grs = (\<lambda>rb. RoleCreate (snd (build_globalRole rb))) ` set default_global_roles \<and> length grs = 12 \<and>
    set rts = (\<lambda>rb. RoleCreate (snd (build_roleTemplate rb))) ` set default_role_templates \<and> length rts = 33"
proof -
  obtain grs d1 where gr: "reconcileGlobalRoles env BootGR (Inr []) default_global_roles h = (Inr (), d1)" "map fst d1 = map BootGR grs"
      "set grs = (\<lambda>rb. RoleCreate (snd (build_globalRole rb))) ` set default_global_roles" "length grs = length default_global_roles"
    unfolding reconcileGlobalRoles_def
    by (rule reconcile_creates [OF grk.role_kind_axioms assms(1,2) distinct_global_role_names])
  obtain rts d2 where rt: "reconcileRoleTemplates env BootRT (Inr []) default_role_templates (h @ d1) = (Inr (), d2)" "map fst d2 = map BootRT rts"
      "set rts = (\<lambda>rb. RoleCreate (snd (build_roleTemplate rb))) ` set default_role_templates" "length rts = length default_role_templates"
    unfolding reconcileRoleTemplates_def
    by (rule reconcile_creates [OF rtk.role_kind_axioms assms(1,2) distinct_template_names])
  have lens: "length default_global_roles = 12" "length default_role_templates = 33"
    using arg_cong [OF global_role_names, of length] arg_cong [OF cluster_template_names, of length] arg_cong [OF project_template_names, of length]
    by (simp_all add: default_global_roles_built default_role_templates_built)
  have ok: "env_api env h r = None" for h r using assms(1) by (simp add: accepting_def)
  have "go_wrap m (reconcileGlobalRoles env BootGR (Inr []) default_global_roles) h = (Inr (), d1)"
      "go_wrap m (reconcileRoleTemplates env BootRT (Inr []) default_role_templates) (h @ d1) = (Inr (), d2)" for m
    using gr(1) rt(1) by (simp_all add: go_wrap_def)
  then have "addRoles env b h = (Inr (boot_newName b), d1 @ d2 @ [(BootUser (default_admin (boot_hash b)), None), (BootGRB (admin_binding (boot_newName b)), None)])"
    unfolding addRoles_def assms(3-6)
    by (simp add: go_bind_def [of "go_wrap _ _"] ensure_admin_def)
      (simp add: go_bind_def go_try_call ok go_return_def)
  with gr rt lens show ?thesis
    by (intro exI [of _ "d1 @ d2 @ [(BootUser (default_admin (boot_hash b)), None), (BootGRB (admin_binding (boot_newName b)), None)]"]
        exI [of _ grs] exI [of _ rts]) simp
qed

text \<open>
  C13. The first administrator can do everything.  Once the controllers have turned the global role
  \<open>admin\<close> and the binding of a user into a cluster role and a cluster role binding, and the
  caches have these (with the API group that the server fills in), every request that passes the
  filter with a token of that user is allowed, whatever it asks for.
\<close>

theorem admin_can_do_everything:
  assumes rb: "rb \<in> set default_global_roles" "rbd_name rb = ''admin''"
    and role: "reconcileGlobalRole env [] (snd (build_globalRole rb)) h = (Inr ((crs, gr), None), d)"
    and binding: "reconcileGlobalRoleBinding env' (newGlobalRoleBindingLifecycle [] [gr]) ((admin_binding u)\<lparr>grb_meta := meta\<rparr>) h' = (Inr grb, d')"
    and crs: "\<forall>cr. (MCreateClusterRole cr, None) \<in> set d \<longrightarrow> cache_clusterRoles c [] (role_name cr) = Inr cr"
    and crbs: "\<forall>crb. (MCreateCRB crb, None) \<in> set d' \<longrightarrow>
      crb\<lparr>rb_roleRef := (rb_roleRef crb)\<lparr>ref_apiGroup := rbacGroup\<rparr>\<rparr> \<in> set (cache_crbs c)"
    and req: "authHeaderHandler_ServeHTTP s req = Inr req'" "TokenFromRequest s req = Inr t" "tk_userID t = u"
  shows "CanDo (NewListPermissionStore c) apiGroup resource verb (request_context req') obj schemaID = Inr ()"
proof -
  let ?name = "generateCRName ''admin''"
  have gr0: "getCRName (snd (build_globalRole rb)) = ?name" "gr_rules (snd (build_globalRole rb)) = policyRules rb"
    by (simp_all add: getCRName_def build_globalRole_def rb(2) meta0_def)
  have "\<exists>cr. (MCreateClusterRole cr, None) \<in> set d \<and> role_name cr = ?name \<and> role_rules cr = policyRules rb \<and> getCRName gr = ?name \<and> gr_name gr = ''admin''"
    using role gr0 by (auto simp: reconcileGlobalRole_def Let_def lister_get_def go_bind_def go_try_call go_return_def getCRName_def
        build_globalRole_def rb(2) meta0_def update_conv' split: option.splits)
  then obtain cr where cr: "cache_clusterRoles c [] ?name = Inr cr" "role_rules cr = policyRules rb" and gr: "getCRName gr = ?name" "gr_name gr = ''admin''"
    using crs by metis
  have "\<exists>crb. (MCreateCRB crb, None) \<in> set d' \<and> rb_subjects crb = [\<lparr>sub_kind = ''User'', sub_name = u\<rparr>] \<and>
      ref_kind (rb_roleRef crb) = ''ClusterRole'' \<and> ref_name (rb_roleRef crb) = ?name"
    using binding gr by (auto simp: reconcileGlobalRoleBinding_def newGlobalRoleBindingLifecycle_def Let_def lister_get_def go_bind_def
        go_call_def go_return_def admin_binding_def split: option.splits)
  then obtain crb where crb: "crb \<in> set (cache_crbs c)" "bound_in ''User'' u crb"
      "rb_roleRef crb = \<lparr>ref_apiGroup = rbacGroup, ref_kind = ''ClusterRole'', ref_name = ?name\<rparr>"
    using crbs by (fastforce simp: bound_in_def)
  then have rules: "role_rules_of c ''*'' (rb_roleRef crb) = policyRules rb" by (simp add: role_rules_of_def cr)
  obtain r where r: "r \<in> set (policyRules rb)" "pr_apiGroups r = [''*'']" "pr_resources r = [''*'']" "pr_resourceNames r = []" "pr_verbs r = [''*'']"
  proof -
    obtain rb' where "rb' \<in> set default_global_roles" "rbd_name rb' = ''admin''"
        "\<exists>r \<in> set (policyRules rb'). pr_apiGroups r = [''*''] \<and> pr_resources r = [''*''] \<and> pr_resourceNames r = [] \<and> pr_verbs r = [''*'']"
      by (rule admin_role)
    moreover from this rb have "rb' = rb" using distinct_global_role_names by (metis distinct_map inj_on_eq_iff)
    ultimately show thesis using that by blast
  qed
  let ?lp = "\<lparr>lp_namespace = ''*'', lp_name = ''*''\<rparr>"
  have "rule_grants ''*'' apiGroup resource verb r ?lp" by (simp add: rule_grants_def r(2-5))
  then have "grants c ''User'' u apiGroup resource verb ?lp" unfolding grants_def using crb(1,2) rules r(1) by auto
  moreover have "impersonate_user (request_context req') = u" using request_context_filter [OF req(1,2)] req(3) by simp
  ultimately show ?thesis by (intro CanDo_allowed [of ?lp]) (simp_all add: covers_def Let_def)
qed

text \<open>
  C14. Looking does not change anything: whoever is bound only to roles made from the default
  templates that show things, such as \<open>read-only\<close>, is never allowed a verb other than
  \<open>get\<close>, \<open>list\<close> and \<open>watch\<close>.
\<close>

theorem view_templates_only_show:
  assumes verb: "verb \<notin> set [''get'', ''list'', ''watch'']"
    and rbs: "\<forall>b \<in> set (cache_rbs c). principal_bound ctx b \<longrightarrow> (\<exists>rt \<in> set default_templates. rt_name rt \<in> set view_templates \<and>
      role_rules_of c (om_namespace (rb_meta b)) (rb_roleRef b) = rt_rules (cleanTemplate rt))"
    and crbs: "\<forall>b \<in> set (cache_crbs c). principal_bound ctx b \<longrightarrow> (\<exists>rt \<in> set default_templates. rt_name rt \<in> set view_templates \<and>
      role_rules_of c ''*'' (rb_roleRef b) = rt_rules (cleanTemplate rt))"
  shows "\<exists>err. CanDo (NewListPermissionStore c) apiGroup resource verb ctx obj schemaID = Inl err"
proof (rule ccontr)
  assume "\<not> ?thesis"
  then have "CanDo (NewListPermissionStore c) apiGroup resource verb ctx obj schemaID = Inr ()"
    by (cases "CanDo (NewListPermissionStore c) apiGroup resource verb ctx obj schemaID") auto
  then obtain lp where lp: "grants c ''User'' (impersonate_user ctx) apiGroup resource verb lp \<or>
      (\<exists>g \<in> set (impersonate_group ctx). grants c ''Group'' g apiGroup resource verb lp)"
    by (rule CanDo_granted)
  have lower: "map to_lower [''get'', ''list'', ''watch''] = [''get'', ''list'', ''watch'']" by code_simp
  have "pr_verbs r = [''get'', ''list'', ''watch'']"
    if "rt \<in> set default_templates" "rt_name rt \<in> set view_templates" "r \<in> set (rt_rules (cleanTemplate rt))" for rt r
    using view_templates_view_only [OF that(1,2)] that(3) lower
    by (auto simp: cleanTemplate_def lowerRule_def list_all_iff view_only_def split: if_splits)
  then have "\<exists>ns r. rule_grants ns apiGroup resource verb r lp \<and> pr_verbs r = [''get'', ''list'', ''watch'']"
    using granted_by_some_binding [OF lp] rbs crbs by metis
  then show False using verb by (auto simp: rule_grants_def split: if_splits)
qed

section \<open>Examples\<close>

definition open_cache_ex :: rbac_cache where
  "open_cache_ex = \<lparr>cache_clusterRoles = (\<lambda>_ _. Inr \<lparr>role_meta = meta0, role_rules = [rule0\<lparr>pr_verbs := [''*''], pr_apiGroups := [''*''], pr_resources := [''*'']\<rparr>]\<rparr>),
     cache_roles = (\<lambda>_ _. Inl (Api NotFound)),
     cache_crbs = [\<lparr>rb_meta = meta0, rb_subjects = [\<lparr>sub_kind = ''User'', sub_name = ''u-1''\<rparr>],
       rb_roleRef = \<lparr>ref_apiGroup = rbacGroup, ref_kind = ''ClusterRole'', ref_name = ''r''\<rparr>\<rparr>],
     cache_rbs = []\<rparr>"

lemma forged_ex_passes:
  obtains req' t where "authHeaderHandler_ServeHTTP token_srv_ex forged_ex = Inr req'" and "TokenFromRequest token_srv_ex forged_ex = Inr t"
    and "tk_userID t = ''u-1''"
proof -
  have "\<not> isl (authHeaderHandler_ServeHTTP token_srv_ex forged_ex) \<and> \<not> isl (TokenFromRequest token_srv_ex forged_ex) \<and>
      tk_userID (projr (TokenFromRequest token_srv_ex forged_ex)) = ''u-1''"
    by code_simp
  then show thesis using that by (cases "authHeaderHandler_ServeHTTP token_srv_ex forged_ex"; cases "TokenFromRequest token_srv_ex forged_ex") auto
qed


definition boot_ex :: boot where
  "boot_ex = \<lparr>boot_globalRoles = Inr [], boot_roleTemplates = Inr [], boot_admins = Inr [], boot_bindings = Inr [], boot_hash = ''h'',
     boot_newName = ''user-x''\<rparr>"

theorem addRoles_bootstraps_witness:
  "\<exists>d. addRoles accept_all boot_ex [] = (Inr ''user-x'', d) \<and> BootGRB (admin_binding ''user-x'') \<in> fst ` set d \<and> length d = 47"
proof -
  have b: "boot_globalRoles boot_ex = Inr []" "boot_roleTemplates boot_ex = Inr []" "boot_admins boot_ex = Inr []" "boot_bindings boot_ex = Inr []"
      "boot_newName boot_ex = ''user-x''"
    by (simp_all add: boot_ex_def)
  obtain d grs rts where d: "addRoles accept_all boot_ex [] = (Inr ''user-x'', d)" "length grs = 12" "length rts = 33"
      "map fst d = map BootGR grs @ map BootRT rts @ [BootUser (default_admin (boot_hash boot_ex)), BootGRB (admin_binding ''user-x'')]"
    using addRoles_bootstraps [of accept_all boot_ex "[]"] b by auto
  have "length (map fst d) = 47" unfolding d(4) using d(2,3) by simp
  moreover have "BootGRB (admin_binding ''user-x'') \<in> set (map fst d)" unfolding d(4) by simp
  ultimately show ?thesis using d(1) by auto
qed

theorem admin_can_do_everything_witness:
  "\<exists>c req'. authHeaderHandler_ServeHTTP token_srv_ex forged_ex = Inr req' \<and> cache_rbs c = [] \<and>
     CanDo (NewListPermissionStore c) ''management.cattle.io'' ''users'' ''delete'' (request_context req') None ''user'' = Inr ()"
proof -
  obtain req' t where r: "authHeaderHandler_ServeHTTP token_srv_ex forged_ex = Inr req'" "TokenFromRequest token_srv_ex forged_ex = Inr t"
      "tk_userID t = ''u-1''"
    by (rule forged_ex_passes)
  obtain rb where rb: "rb \<in> set default_global_roles" "rbd_name rb = ''admin''" by (rule admin_role)
  obtain gr cr where role: "reconcileGlobalRole accept_all [] (snd (build_globalRole rb)) [] = (Inr (([], gr), None), [(MCreateClusterRole cr, None)])"
    by (simp add: reconcileGlobalRole_def lister_get_def go_bind_def go_try_call go_return_def Let_def)
  obtain grb crb where binding: "reconcileGlobalRoleBinding accept_all (newGlobalRoleBindingLifecycle [] [gr])
      ((admin_binding ''u-1'')\<lparr>grb_meta := meta0\<lparr>om_name := ''grb''\<rparr>\<rparr>) [] = (Inr grb, [(MCreateCRB crb, None)])"
    by (simp add: reconcileGlobalRoleBinding_def newGlobalRoleBindingLifecycle_def lister_get_def go_bind_def go_return_def Let_def)
  define c where "c = \<lparr>cache_clusterRoles = (\<lambda>_ _. Inr cr), cache_roles = (\<lambda>_ _. Inl (Api NotFound)),
    cache_crbs = [crb\<lparr>rb_roleRef := (rb_roleRef crb)\<lparr>ref_apiGroup := rbacGroup\<rparr>\<rparr>], cache_rbs = []\<rparr>"
  have "CanDo (NewListPermissionStore c) ''management.cattle.io'' ''users'' ''delete'' (request_context req') None ''user'' = Inr ()"
    by (rule admin_can_do_everything [OF rb role binding _ _ r]) (simp_all add: c_def)
  then show ?thesis using r(1) by (intro exI [of _ c] exI [of _ req']) (simp add: c_def)
qed

lemma read_only_template: obtains rt where "rt \<in> set default_templates" and "rt_name rt = ''read-only''"
proof -
  have "''read-only'' \<in> set (map rt_name default_templates)"
    unfolding default_templates_names default_role_templates_built map_append map_map comp_def project_template_names by simp
  then show thesis using that by auto
qed

theorem view_templates_only_show_witness:
  "\<exists>c ctx err. cache_rbs c \<noteq> [] \<and> list_all (principal_bound ctx) (cache_rbs c) \<and>
     CanDo (NewListPermissionStore c) ''apps'' ''deployments'' ''delete'' ctx None ''deployment'' = Inl err"
proof -
  obtain rt where rt: "rt \<in> set default_templates" "rt_name rt = ''read-only''" by (rule read_only_template)
  define c where "c = \<lparr>cache_clusterRoles = (\<lambda>_ _. Inl (Api NotFound)), cache_roles = (\<lambda>_ _. Inr \<lparr>role_meta = meta0, role_rules = rt_rules (cleanTemplate rt)\<rparr>),
    cache_crbs = [], cache_rbs = [\<lparr>rb_meta = meta0\<lparr>om_namespace := ''ns''\<rparr>, rb_subjects = [\<lparr>sub_kind = ''User'', sub_name = ''u-1''\<rparr>],
      rb_roleRef = \<lparr>ref_apiGroup = rbacGroup, ref_kind = ''Role'', ref_name = ''r''\<rparr>\<rparr>]\<rparr>"
  let ?ctx = "\<lparr>impersonate_user = ''u-1'', impersonate_group = []\<rparr>"
  have view: "rt_name rt \<in> set view_templates" by (simp add: rt(2) view_templates_def)
  have rules: "role_rules_of c ns (rb_roleRef b) = rt_rules (cleanTemplate rt)" if "b \<in> set (cache_rbs c)" for b ns
    using that by (simp add: c_def role_rules_of_def)
  have "\<exists>err. CanDo (NewListPermissionStore c) ''apps'' ''deployments'' ''delete'' ?ctx None ''deployment'' = Inl err"
  proof (rule view_templates_only_show)
    show "''delete'' \<notin> set [''get'', ''list'', ''watch'']" by simp
    show "\<forall>b \<in> set (cache_rbs c). principal_bound ?ctx b \<longrightarrow> (\<exists>rt \<in> set default_templates. rt_name rt \<in> set view_templates \<and>
        role_rules_of c (om_namespace (rb_meta b)) (rb_roleRef b) = rt_rules (cleanTemplate rt))"
      using rt(1) view rules by blast
  qed (simp add: c_def)
  then show ?thesis by (auto simp: c_def principal_bound_def bound_in_def intro!: exI [of _ c] exI [of _ ?ctx])
qed

end
